(* ===== verification/Prelude.thy ===== *)
theory Prelude
  imports Main "HOL-Library.Sublist"
begin

text \<open>
  Shared vocabulary of the development: Python exceptions and the application
  error as values, the sequencing of computations that may raise, the loop that
  stops at the first exception, and the rows of a database table as a keyed
  list. The rule collections \<open>result_simps\<close> and \<open>row_simps\<close> are what the
  component theories add to \<open>simp\<close> and \<open>auto\<close>.
\<close>

named_theorems result_simps \<open>inversion and evaluation of computations that may raise\<close>
named_theorems row_simps \<open>reading a keyed table after an update\<close>

section \<open>Exceptions as values\<close>

text \<open>
  Identifiers are drawn by \<open>uuid4()\<close>. The model numbers them; the fresh one is the
  state component \<open>next_uuid\<close> of the database.
\<close>

type_synonym uuid = nat

text \<open>Instants, in microseconds since the epoch (the resolution of Python's \<open>datetime\<close>).\<close>

type_synonym datetime = int

text \<open>
  The values that appear in the \<open>details\<close> of an application error: \<open>str(uuid)\<close>,
  and strings (statuses are strings).
\<close>

datatype detail = DUuid uuid | DStr string

record app_error =
  code :: string
  message :: string
  status_code :: int
  details :: "(string \<times> detail) list"

text \<open>
  The exceptions of the language that the modelled code can meet, the ones the
  scheduler package declares, the application error, and those of the libraries:
  \<open>OSError\<close> stands for the family of \<open>HTTPError\<close>, \<open>URLError\<close> and \<open>TimeoutError\<close>,
  \<open>PoolTimeoutError\<close> for SQLAlchemy's \<open>TimeoutError\<close>, and \<open>DBAPIError\<close> has the name of
  its class, its \<open>connection_invalidated\<close> flag and its text. An \<open>IntegrityError\<close> or
  \<open>DatabaseError\<close> is a \<open>DBAPIError\<close> that leaves the connection valid.
\<close>

datatype exc =
    AppError app_error
  | ValueError string
  | KeyError
  | IndexError
  | IntegrityError
  | DatabaseError
  | AttributeError
  | ZeroDivisionError
  | OverflowError
  | NoSchedulableSubtaskError string
  | NoAvailableNodeError string
  | StopIteration
  | OSError string
  | HTTPException string
  | OperationalError string
  | PoolTimeoutError string
  | DBAPIError string bool string

type_synonym 'a result = "exc + 'a"

section \<open>Sequencing computations that may raise\<close>

definition and_then :: "'a result \<Rightarrow> ('a \<Rightarrow> 'b result) \<Rightarrow> 'b result" where
  "and_then r f = (case r of Inl e \<Rightarrow> Inl e | Inr x \<Rightarrow> f x)"

text \<open>\<open>try: r except ValueError as exc: raise h(exc)\<close>\<close>

definition except_value_error :: "'a result \<Rightarrow> (string \<Rightarrow> exc) \<Rightarrow> 'a result" where
  "except_value_error r h =
     (case r of Inl (ValueError m) \<Rightarrow> Inl (h m) | _ \<Rightarrow> r)"

text \<open>A \<open>for\<close> loop over a list whose body updates a state and may raise.\<close>

fun for_each :: "('a \<Rightarrow> 's \<Rightarrow> 's result) \<Rightarrow> 'a list \<Rightarrow> 's \<Rightarrow> 's result" where
  "for_each body [] s = Inr s"
| "for_each body (x # xs) s = and_then (body x s) (for_each body xs)"

text \<open>Reading a key of a dictionary.\<close>

definition lookup_key :: "('k \<Rightarrow> 'v option) \<Rightarrow> 'k \<Rightarrow> 'v result" where
  "lookup_key m k = (case m k of None \<Rightarrow> Inl KeyError | Some v \<Rightarrow> Inr v)"

text \<open>\<open>a or b\<close> on an optional value that is never falsy when present.\<close>

definition or_else :: "'a option \<Rightarrow> 'a \<Rightarrow> 'a option" where
  "or_else x y = (case x of None \<Rightarrow> Some y | Some v \<Rightarrow> Some v)"

text \<open>A list comprehension whose element expression may raise.\<close>

fun map_result :: "('a \<Rightarrow> 'b result) \<Rightarrow> 'a list \<Rightarrow> 'b list result" where
  "map_result f [] = Inr []"
| "map_result f (x # xs) =
     and_then (f x) (\<lambda>y. and_then (map_result f xs) (\<lambda>ys. Inr (y # ys)))"

text \<open>\<open>None if x is None else f(x)\<close>\<close>

definition option_result :: "('a \<Rightarrow> 'b result) \<Rightarrow> 'a option \<Rightarrow> 'b option result" where
  "option_result f x =
     (case x of None \<Rightarrow> Inr None | Some v \<Rightarrow> and_then (f v) (\<lambda>w. Inr (Some w)))"

text \<open>Computations that also change the world outside, which a raised exception keeps.\<close>

definition io_bind ::
  "('s \<Rightarrow> 'a result \<times> 's) \<Rightarrow> ('a \<Rightarrow> 's \<Rightarrow> 'b result \<times> 's) \<Rightarrow> 's \<Rightarrow> 'b result \<times> 's" where
  "io_bind m f w = (case m w of (Inl e, w') \<Rightarrow> (Inl e, w') | (Inr x, w') \<Rightarrow> f x w')"

definition io_return :: "'a \<Rightarrow> 's \<Rightarrow> 'a result \<times> 's" where
  "io_return x w = (Inr x, w)"

definition io_result :: "'a result \<Rightarrow> 's \<Rightarrow> 'a result \<times> 's" where
  "io_result r w = (r, w)"

lemma io_bind_Inr_iff [result_simps]:
  "io_bind m f w = (Inr y, w2) \<longleftrightarrow> (\<exists>x w1. m w = (Inr x, w1) \<and> f x w1 = (Inr y, w2))"
  by (auto simp: io_bind_def split: prod.splits sum.splits)

lemma io_return_iff [result_simps]: "io_return x w = (Inr y, w') \<longleftrightarrow> y = x \<and> w' = w"
  by (auto simp: io_return_def)

lemma and_then_simps [simp, result_simps]:
  "and_then (Inl e) f = Inl e"
  "and_then (Inr x) f = f x"
  by (simp_all add: and_then_def)

lemma and_then_Inr_iff [result_simps]:
  "and_then r f = Inr y \<longleftrightarrow> (\<exists>x. r = Inr x \<and> f x = Inr y)"
  by (cases r) auto

lemma and_then_Inl_iff [result_simps]:
  "and_then r f = Inl e \<longleftrightarrow> r = Inl e \<or> (\<exists>x. r = Inr x \<and> f x = Inl e)"
  by (cases r) auto

lemma and_then_assoc: "and_then (and_then r f) g = and_then r (\<lambda>x. and_then (f x) g)"
  by (cases r) auto

lemma except_value_error_Inr_iff [result_simps]:
  "except_value_error r h = Inr x \<longleftrightarrow> r = Inr x"
  by (auto simp: except_value_error_def split: sum.splits exc.splits)

lemma except_value_error_simps [simp, result_simps]:
  "except_value_error (Inr x) h = Inr x"
  "except_value_error (Inl (ValueError m)) h = Inl (h m)"
  by (simp_all add: except_value_error_def)

lemma lookup_key_Inr_iff [result_simps]: "lookup_key m k = Inr v \<longleftrightarrow> m k = Some v"
  by (simp add: lookup_key_def split: option.split)

lemma for_each_append:
  "for_each body (xs @ ys) s = and_then (for_each body xs s) (for_each body ys)"
  by (induction xs arbitrary: s) (auto simp: and_then_def split: sum.splits)

text \<open>The loop rule: what the body keeps holds at the end.\<close>

lemma for_each_invariant:
  assumes "for_each body xs s = Inr s'" and "P s"
    and "\<And>x s s'. x \<in> set xs \<Longrightarrow> P s \<Longrightarrow> body x s = Inr s' \<Longrightarrow> P s'"
  shows "P s'"
  using assms
proof (induction xs arbitrary: s)
  case Nil
  then show ?case by simp
next
  case (Cons x xs)
  from Cons.prems(1) obtain t where t: "body x s = Inr t" "for_each body xs t = Inr s'"
    by (auto simp: result_simps)
  with Cons.prems have "P t" by (metis list.set_intros(1))
  with t Cons.prems(3) show ?case by (metis Cons.IH list.set_intros(2))
qed

lemma map_result_length: "map_result f xs = Inr ys \<Longrightarrow> length ys = length xs"
  by (induction xs arbitrary: ys) (auto simp: result_simps)

lemma map_result_Inr_iff:
  "map_result f xs = Inr ys \<longleftrightarrow> list_all2 (\<lambda>x y. f x = Inr y) xs ys"
  by (induction xs arbitrary: ys) (auto simp: result_simps list_all2_Cons1)

section \<open>Formatting integers\<close>

text \<open>
  Strings are their UTF-8 bytes. \<open>len\<close> counts the code points: the bytes that do not
  continue one.
\<close>

definition py_len :: "string \<Rightarrow> nat" where
  "py_len s = length (filter (\<lambda>c. \<not> (0x80 \<le> (of_char c :: nat) \<and> (of_char c :: nat) < 0xC0)) s)"

fun nat_text :: "nat \<Rightarrow> string" where
  "nat_text n =
     (if n < 10 then [char_of (48 + n)] else nat_text (n div 10) @ [char_of (48 + n mod 10)])"

declare nat_text.simps [simp del]

definition int_text :: "int \<Rightarrow> string" where
  "int_text n = (if n < 0 then ''-'' @ nat_text (nat (- n)) else nat_text (nat n))"

section \<open>Tables: rows with a primary key\<close>

text \<open>
  A table is the list of its rows in insertion order; \<open>row_get\<close> is the lookup by
  primary key and \<open>row_upd\<close> an in-place change of the row with that key.
\<close>

definition row_get :: "('r \<Rightarrow> 'k) \<Rightarrow> 'k \<Rightarrow> 'r list \<Rightarrow> 'r option" where
  "row_get key i rows = find (\<lambda>r. key r = i) rows"

definition row_upd :: "('r \<Rightarrow> 'k) \<Rightarrow> 'k \<Rightarrow> ('r \<Rightarrow> 'r) \<Rightarrow> 'r list \<Rightarrow> 'r list" where
  "row_upd key i f rows = map (\<lambda>r. if key r = i then f r else r) rows"

lemma row_get_Nil [simp, row_simps]: "row_get key i [] = None"
  by (simp add: row_get_def)

lemma row_get_Cons [row_simps]:
  "row_get key i (r # rs) = (if key r = i then Some r else row_get key i rs)"
  by (simp add: row_get_def)

lemma row_get_append [row_simps]:
  "row_get key i (xs @ ys) =
     (case row_get key i xs of None \<Rightarrow> row_get key i ys | Some r \<Rightarrow> Some r)"
  by (induction xs) (auto simp: row_get_Cons)

lemma row_get_SomeD:
  "row_get key i rows = Some r \<Longrightarrow> r \<in> set rows \<and> key r = i"
  by (auto simp: row_get_def find_Some_iff)

lemma row_get_None_iff: "row_get key i rows = None \<longleftrightarrow> i \<notin> key ` set rows"
  by (auto simp: row_get_def find_None_iff)

lemma row_get_mem:
  "distinct (map key rows) \<Longrightarrow> r \<in> set rows \<Longrightarrow> row_get key (key r) rows = Some r"
  by (induction rows) (auto simp: row_get_Cons)

lemma row_get_iff:
  "distinct (map key rows) \<Longrightarrow>
     row_get key i rows = Some r \<longleftrightarrow> r \<in> set rows \<and> key r = i"
  by (auto dest: row_get_SomeD row_get_mem)

lemma row_upd_keys [row_simps]:
  "(\<And>r. key (f r) = key r) \<Longrightarrow> map key (row_upd key i f rows) = map key rows"
  by (simp add: row_upd_def)

lemma row_get_upd [row_simps]:
  "(\<And>r. key (f r) = key r) \<Longrightarrow>
     row_get key j (row_upd key i f rows) =
       (if j = i then map_option f (row_get key j rows) else row_get key j rows)"
  by (induction rows) (auto simp: row_get_Cons row_upd_def)

lemma set_row_upd:
  "r \<in> set (row_upd key i f rows) \<longleftrightarrow>
     (\<exists>r0 \<in> set rows. r = (if key r0 = i then f r0 else r0))"
  unfolding row_upd_def set_map image_iff by simp

lemma length_row_upd [simp]: "length (row_upd key i f rows) = length rows"
  by (simp add: row_upd_def)

lemma keys_map: "(\<And>r. key (f r) = key r) \<Longrightarrow> key ` set (map f rows) = key ` set rows"
  by (induction rows) auto

end
