(* ===== verification/Enums.thy ===== *)
theory Enums
  imports Prelude
begin

text \<open>
  \<open>app/domain/enums.py\<close>: the string enumerations. Every class is a datatype with the
  members' names; \<open>value\<close> functions give the string a member is, and the
  constructors \<open>Class(value)\<close> of the code are the \<open>of_value\<close> functions, which raise
  \<open>ValueError\<close> for a string that is no member.
\<close>

section \<open>The enumerations\<close>

datatype NodeType = UAV | EDGE

datatype NodeStatus = ONLINE | BUSY | OFFLINE

datatype WorkerStatus = ONLINE | BUSY

datatype WorkerAlertType = CELERY_RETRY_EXHAUSTED

datatype AlertSeverity = WARNING | ERROR

datatype TaskStatus = PENDING | SCHEDULED | RUNNING | SUCCESS | FAILED | CANCELED

datatype SubtaskStatus =
  WAITING | READY | DISPATCHED | RUNNING | SUCCESS | FAILED | RETRYING | CANCELED

datatype SubtaskExecutionConstraint = OFFLOADABLE | LOCAL_ONLY | EDGE_ONLY

datatype SchedulePlanStatus = GENERATED | APPLIED | CANCELED

datatype ExecutionStatus = RUNNING | SUCCESS | FAILED | TIMEOUT | CANCELED

datatype SchedulerStrategyName = LOCAL_ONLY | RANDOM_OFFLOAD | GREEDY

section \<open>Member values\<close>

primrec node_type_value :: "NodeType \<Rightarrow> string" where
  "node_type_value NodeType.UAV = ''UAV''"
| "node_type_value NodeType.EDGE = ''EDGE''"

primrec node_status_value :: "NodeStatus \<Rightarrow> string" where
  "node_status_value NodeStatus.ONLINE = ''ONLINE''"
| "node_status_value NodeStatus.BUSY = ''BUSY''"
| "node_status_value NodeStatus.OFFLINE = ''OFFLINE''"

primrec worker_status_value :: "WorkerStatus \<Rightarrow> string" where
  "worker_status_value WorkerStatus.ONLINE = ''ONLINE''"
| "worker_status_value WorkerStatus.BUSY = ''BUSY''"

primrec worker_alert_type_value :: "WorkerAlertType \<Rightarrow> string" where
  "worker_alert_type_value WorkerAlertType.CELERY_RETRY_EXHAUSTED = ''CELERY_RETRY_EXHAUSTED''"

primrec alert_severity_value :: "AlertSeverity \<Rightarrow> string" where
  "alert_severity_value AlertSeverity.WARNING = ''WARNING''"
| "alert_severity_value AlertSeverity.ERROR = ''ERROR''"

primrec task_status_value :: "TaskStatus \<Rightarrow> string" where
  "task_status_value TaskStatus.PENDING = ''PENDING''"
| "task_status_value TaskStatus.SCHEDULED = ''SCHEDULED''"
| "task_status_value TaskStatus.RUNNING = ''RUNNING''"
| "task_status_value TaskStatus.SUCCESS = ''SUCCESS''"
| "task_status_value TaskStatus.FAILED = ''FAILED''"
| "task_status_value TaskStatus.CANCELED = ''CANCELED''"

primrec subtask_status_value :: "SubtaskStatus \<Rightarrow> string" where
  "subtask_status_value SubtaskStatus.WAITING = ''WAITING''"
| "subtask_status_value SubtaskStatus.READY = ''READY''"
| "subtask_status_value SubtaskStatus.DISPATCHED = ''DISPATCHED''"
| "subtask_status_value SubtaskStatus.RUNNING = ''RUNNING''"
| "subtask_status_value SubtaskStatus.SUCCESS = ''SUCCESS''"
| "subtask_status_value SubtaskStatus.FAILED = ''FAILED''"
| "subtask_status_value SubtaskStatus.RETRYING = ''RETRYING''"
| "subtask_status_value SubtaskStatus.CANCELED = ''CANCELED''"

primrec constraint_value :: "SubtaskExecutionConstraint \<Rightarrow> string" where
  "constraint_value SubtaskExecutionConstraint.OFFLOADABLE = ''OFFLOADABLE''"
| "constraint_value SubtaskExecutionConstraint.LOCAL_ONLY = ''LOCAL_ONLY''"
| "constraint_value SubtaskExecutionConstraint.EDGE_ONLY = ''EDGE_ONLY''"

primrec plan_status_value :: "SchedulePlanStatus \<Rightarrow> string" where
  "plan_status_value SchedulePlanStatus.GENERATED = ''GENERATED''"
| "plan_status_value SchedulePlanStatus.APPLIED = ''APPLIED''"
| "plan_status_value SchedulePlanStatus.CANCELED = ''CANCELED''"

primrec execution_status_value :: "ExecutionStatus \<Rightarrow> string" where
  "execution_status_value ExecutionStatus.RUNNING = ''RUNNING''"
| "execution_status_value ExecutionStatus.SUCCESS = ''SUCCESS''"
| "execution_status_value ExecutionStatus.FAILED = ''FAILED''"
| "execution_status_value ExecutionStatus.TIMEOUT = ''TIMEOUT''"
| "execution_status_value ExecutionStatus.CANCELED = ''CANCELED''"

primrec strategy_name_value :: "SchedulerStrategyName \<Rightarrow> string" where
  "strategy_name_value SchedulerStrategyName.LOCAL_ONLY = ''local_only''"
| "strategy_name_value SchedulerStrategyName.RANDOM_OFFLOAD = ''random_offload''"
| "strategy_name_value SchedulerStrategyName.GREEDY = ''greedy''"

section \<open>Looking a member up by its value\<close>

text \<open>\<open>Class(value)\<close>: the member with that value, in declaration order, or \<open>ValueError\<close>.\<close>

definition enum_of_value :: "('a \<Rightarrow> string) \<Rightarrow> 'a list \<Rightarrow> string \<Rightarrow> 'a result" where
  "enum_of_value val members v =
     (case find (\<lambda>m. val m = v) members of
        None \<Rightarrow> Inl (ValueError (v @ '' is not a valid member''))
      | Some m \<Rightarrow> Inr m)"

definition strategy_names :: "SchedulerStrategyName list" where
  "strategy_names =
     [SchedulerStrategyName.LOCAL_ONLY, SchedulerStrategyName.RANDOM_OFFLOAD,
      SchedulerStrategyName.GREEDY]"

definition strategy_name_of_value :: "string \<Rightarrow> SchedulerStrategyName result" where
  "strategy_name_of_value = enum_of_value strategy_name_value strategy_names"

definition execution_statuses :: "ExecutionStatus list" where
  "execution_statuses =
     [ExecutionStatus.RUNNING, ExecutionStatus.SUCCESS, ExecutionStatus.FAILED,
      ExecutionStatus.TIMEOUT, ExecutionStatus.CANCELED]"

definition execution_status_of_value :: "string \<Rightarrow> ExecutionStatus result" where
  "execution_status_of_value = enum_of_value execution_status_value execution_statuses"

lemma enum_of_value_roundtrip:
  assumes "inj_on val (set members)" and "m \<in> set members"
  shows "enum_of_value val members (val m) = Inr m"
proof -
  have "find (\<lambda>x. val x = val m) members = Some m"
    using assms
  proof (induction members)
    case Nil
    then show ?case by simp
  next
    case (Cons a members)
    show ?case
    proof (cases "val a = val m")
      case True
      with Cons.prems have "a = m" by (auto dest: inj_onD)
      then show ?thesis by simp
    next
      case False
      with Cons.prems have "m \<in> set members" and "inj_on val (set members)"
        by (auto intro: inj_on_subset)
      with False Cons.IH show ?thesis by simp
    qed
  qed
  then show ?thesis by (simp add: enum_of_value_def)
qed

lemma enum_of_value_sound: "enum_of_value val members v = Inr m \<Longrightarrow> val m = v"
  by (auto simp: enum_of_value_def find_Some_iff split: option.splits)

lemma strategy_name_members: "m \<in> set strategy_names"
  by (cases m) (simp_all add: strategy_names_def)

lemma strategy_name_value_inj: "inj strategy_name_value"
proof (rule injI)
  fix a b
  assume "strategy_name_value a = strategy_name_value b"
  then show "a = b" by (cases a; cases b) simp_all
qed

lemma strategy_name_roundtrip:
  "strategy_name_of_value (strategy_name_value m) = Inr m"
  unfolding strategy_name_of_value_def
  by (rule enum_of_value_roundtrip)
    (auto intro: inj_on_subset [OF strategy_name_value_inj] strategy_name_members)

lemma execution_status_roundtrip:
  "execution_status_of_value (execution_status_value m) = Inr m"
  by (cases m) (simp_all add: execution_status_of_value_def enum_of_value_def execution_statuses_def)

text \<open>
  From here on the statuses are kept as members: the collection \<open>value_simps\<close> gives their
  strings where one is needed.
\<close>

lemmas value_simps =
  task_status_value.simps subtask_status_value.simps node_status_value.simps
  plan_status_value.simps execution_status_value.simps

declare value_simps [simp del]

end
