(* ===== verification/Flow.thy ===== *)
theory Flow
  imports Enums
begin

text \<open>
  The abstract specification of a task's life: its status, the status of each of its
  subtasks and the dependency relation, with one step per thing that can happen to it
  (a plan is stored, a plan is applied, an execution succeeds, is retried or fails, the
  task is canceled). The services are shown to take only these steps; what must never
  happen to a task is proved here, on the steps.
\<close>

section \<open>Flows and their steps\<close>

record flow =
  f_task :: TaskStatus
  f_subtasks :: "uuid \<Rightarrow> SubtaskStatus option"
  f_deps :: "(uuid \<times> uuid) set"

definition succeeded :: "(uuid \<Rightarrow> SubtaskStatus option) \<Rightarrow> uuid \<Rightarrow> bool" where
  "succeeded sub i \<longleftrightarrow> sub i = Some SubtaskStatus.SUCCESS"

definition ready_after :: "(uuid \<times> uuid) set \<Rightarrow> uuid \<Rightarrow> (uuid \<Rightarrow> SubtaskStatus option) \<Rightarrow> uuid \<Rightarrow> bool"
  where
  "ready_after deps c sub i \<longleftrightarrow>
     (c, i) \<in> deps \<and> sub i = Some SubtaskStatus.WAITING \<and>
     (\<forall>p. (p, i) \<in> deps \<longrightarrow> succeeded sub p)"

definition unlock :: "(uuid \<times> uuid) set \<Rightarrow> uuid \<Rightarrow> (uuid \<Rightarrow> SubtaskStatus option) \<Rightarrow>
    uuid \<Rightarrow> SubtaskStatus option" where
  "unlock deps c sub i = (if ready_after deps c sub i then Some SubtaskStatus.READY else sub i)"

definition flow_success :: "uuid \<Rightarrow> flow \<Rightarrow> flow" where
  "flow_success c f =
     (let sub = unlock (f_deps f) c ((f_subtasks f)(c \<mapsto> SubtaskStatus.SUCCESS)) in
      f\<lparr>f_subtasks := sub,
        f_task := (if \<forall>i \<in> dom sub. succeeded sub i then TaskStatus.SUCCESS else f_task f)\<rparr>)"

definition cancel_status :: "SubtaskStatus \<Rightarrow> SubtaskStatus" where
  "cancel_status s =
     (if s \<in> {SubtaskStatus.SUCCESS, SubtaskStatus.FAILED, SubtaskStatus.CANCELED} then s
      else SubtaskStatus.CANCELED)"

inductive flow_step :: "flow \<Rightarrow> flow \<Rightarrow> bool" where
  schedule: "f_task f = TaskStatus.PENDING \<Longrightarrow>
     flow_step f (f\<lparr>f_task := TaskStatus.SCHEDULED\<rparr>)"
| start: "f_task f \<in> {TaskStatus.SCHEDULED, TaskStatus.RUNNING} \<Longrightarrow> S \<noteq> {} \<Longrightarrow>
     \<forall>i \<in> S. f_subtasks f i = Some SubtaskStatus.READY \<Longrightarrow>
     flow_step f (f\<lparr>f_task := TaskStatus.RUNNING,
       f_subtasks := (\<lambda>i. if i \<in> S then Some SubtaskStatus.RUNNING else f_subtasks f i)\<rparr>)"
| success: "f_subtasks f c = Some SubtaskStatus.RUNNING \<Longrightarrow> flow_step f (flow_success c f)"
| retry: "f_subtasks f c = Some SubtaskStatus.RUNNING \<Longrightarrow>
     flow_step f (f\<lparr>f_subtasks := (f_subtasks f)(c \<mapsto> SubtaskStatus.READY)\<rparr>)"
| fail: "f_subtasks f c = Some SubtaskStatus.RUNNING \<Longrightarrow> f_task f = TaskStatus.RUNNING \<Longrightarrow>
     flow_step f (f\<lparr>f_subtasks := (f_subtasks f)(c \<mapsto> SubtaskStatus.FAILED), f_task := TaskStatus.FAILED\<rparr>)"
| cancel: "f_task f \<in> {TaskStatus.PENDING, TaskStatus.SCHEDULED, TaskStatus.RUNNING} \<Longrightarrow>
     flow_step f (f\<lparr>f_task := TaskStatus.CANCELED,
       f_subtasks := (\<lambda>i. map_option cancel_status (f_subtasks f i))\<rparr>)"

inductive_cases flow_stepE: "flow_step f g"

section \<open>What holds of every flow\<close>

definition flow_wf :: "flow \<Rightarrow> bool" where
  "flow_wf f \<longleftrightarrow>
     finite (dom (f_subtasks f)) \<and> dom (f_subtasks f) \<noteq> {} \<and>
     f_deps f \<subseteq> dom (f_subtasks f) \<times> dom (f_subtasks f) \<and> acyclic (f_deps f)"

text \<open>A subtask that has been unlocked has only successful predecessors.\<close>

definition deps_safe :: "flow \<Rightarrow> bool" where
  "deps_safe f \<longleftrightarrow>
     (\<forall>p s. (p, s) \<in> f_deps f \<longrightarrow>
        f_subtasks f s \<in> {Some SubtaskStatus.WAITING, Some SubtaskStatus.CANCELED} \<or>
        succeeded (f_subtasks f) p)"

text \<open>A subtask waits only while a predecessor is not successful.\<close>

definition waiting_blocked :: "flow \<Rightarrow> bool" where
  "waiting_blocked f \<longleftrightarrow>
     (\<forall>s. f_subtasks f s = Some SubtaskStatus.WAITING \<longrightarrow>
        (\<exists>p. (p, s) \<in> f_deps f \<and> \<not> succeeded (f_subtasks f) p))"

text \<open>The status of the task agrees with the statuses of its subtasks.\<close>

definition task_coherent :: "flow \<Rightarrow> bool" where
  "task_coherent f \<longleftrightarrow>
     (case f_task f of
        TaskStatus.PENDING \<Rightarrow> ran (f_subtasks f) \<subseteq> {SubtaskStatus.WAITING, SubtaskStatus.READY}
      | TaskStatus.SCHEDULED \<Rightarrow> ran (f_subtasks f) \<subseteq> {SubtaskStatus.WAITING, SubtaskStatus.READY}
      | TaskStatus.RUNNING \<Rightarrow>
          ran (f_subtasks f) \<subseteq> {SubtaskStatus.WAITING, SubtaskStatus.READY, SubtaskStatus.RUNNING,
            SubtaskStatus.SUCCESS} \<and> \<not> ran (f_subtasks f) \<subseteq> {SubtaskStatus.SUCCESS}
      | TaskStatus.SUCCESS \<Rightarrow> ran (f_subtasks f) \<subseteq> {SubtaskStatus.SUCCESS}
      | TaskStatus.FAILED \<Rightarrow>
          ran (f_subtasks f) \<subseteq> {SubtaskStatus.WAITING, SubtaskStatus.READY, SubtaskStatus.RUNNING,
            SubtaskStatus.SUCCESS, SubtaskStatus.FAILED} \<and> SubtaskStatus.FAILED \<in> ran (f_subtasks f)
      | TaskStatus.CANCELED \<Rightarrow>
          ran (f_subtasks f) \<subseteq> {SubtaskStatus.SUCCESS, SubtaskStatus.CANCELED} \<and>
          SubtaskStatus.CANCELED \<in> ran (f_subtasks f))"

definition flow_inv :: "flow \<Rightarrow> bool" where
  "flow_inv f \<longleftrightarrow> flow_wf f \<and> deps_safe f \<and> waiting_blocked f \<and> task_coherent f"

text \<open>A new task: subtasks without predecessors are ready, the others wait.\<close>

definition flow_initial :: "flow \<Rightarrow> bool" where
  "flow_initial f \<longleftrightarrow>
     flow_wf f \<and> f_task f = TaskStatus.PENDING \<and>
     (\<forall>i \<in> dom (f_subtasks f). f_subtasks f i =
        Some (if i \<in> Range (f_deps f) then SubtaskStatus.WAITING else SubtaskStatus.READY))"

inductive flow_reachable :: "flow \<Rightarrow> bool" where
  initial: "flow_initial f \<Longrightarrow> flow_reachable f"
| step: "flow_reachable f \<Longrightarrow> flow_step f g \<Longrightarrow> flow_reachable g"

subsection \<open>The invariant\<close>

lemma initial_status:
  assumes "flow_initial f" and "f_subtasks f i = Some s"
  shows "s = (if i \<in> Range (f_deps f) then SubtaskStatus.WAITING else SubtaskStatus.READY)"
proof -
  from assms(2) have "i \<in> dom (f_subtasks f)" by blast
  with assms(1) have "f_subtasks f i =
      Some (if i \<in> Range (f_deps f) then SubtaskStatus.WAITING else SubtaskStatus.READY)"
    unfolding flow_initial_def by blast
  with assms(2) show ?thesis by simp
qed

lemma initial_inv:
  assumes "flow_initial f"
  shows "flow_inv f"
proof -
  have wf: "flow_wf f" using assms by (simp add: flow_initial_def)
  have deps: "deps_safe f"
    unfolding deps_safe_def
  proof (intro allI impI)
    fix p s
    assume ps: "(p, s) \<in> f_deps f"
    with wf have "s \<in> dom (f_subtasks f)" by (auto simp: flow_wf_def)
    then obtain v where v: "f_subtasks f s = Some v" by blast
    with initial_status [OF assms v] ps have "f_subtasks f s = Some SubtaskStatus.WAITING" by auto
    then show "f_subtasks f s \<in> {Some SubtaskStatus.WAITING, Some SubtaskStatus.CANCELED} \<or>
      succeeded (f_subtasks f) p" by simp
  qed
  have blocked: "waiting_blocked f"
    unfolding waiting_blocked_def
  proof (intro allI impI)
    fix s
    assume s: "f_subtasks f s = Some SubtaskStatus.WAITING"
    from initial_status [OF assms s] have "s \<in> Range (f_deps f)" by (simp split: if_splits)
    then obtain p where p: "(p, s) \<in> f_deps f" by auto
    have "f_subtasks f p \<noteq> Some SubtaskStatus.SUCCESS"
      using initial_status [OF assms, of p] by (auto split: if_splits)
    with p show "\<exists>p. (p, s) \<in> f_deps f \<and> \<not> succeeded (f_subtasks f) p"
      by (auto simp: succeeded_def)
  qed
  have "ran (f_subtasks f) \<subseteq> {SubtaskStatus.WAITING, SubtaskStatus.READY}"
  proof
    fix v
    assume "v \<in> ran (f_subtasks f)"
    then obtain i where "f_subtasks f i = Some v" by (auto simp: ran_def)
    from initial_status [OF assms this] show "v \<in> {SubtaskStatus.WAITING, SubtaskStatus.READY}"
      by (simp split: if_splits)
  qed
  moreover have "f_task f = TaskStatus.PENDING" using assms by (simp add: flow_initial_def)
  ultimately have "task_coherent f" by (simp add: task_coherent_def)
  with wf deps blocked show ?thesis by (simp add: flow_inv_def)
qed

lemma dom_unlock [simp]: "dom (unlock deps c sub) = dom sub"
  by (auto simp: unlock_def ready_after_def dom_def)

lemma succeeded_unlock [simp]: "succeeded (unlock deps c sub) p = succeeded sub p"
  by (auto simp: succeeded_def unlock_def ready_after_def)

lemma step_wf: "flow_step f g \<Longrightarrow> flow_wf f \<Longrightarrow> flow_wf g"
proof (induction rule: flow_step.induct)
  case (start f S)
  have "dom (\<lambda>i. if i \<in> S then Some SubtaskStatus.RUNNING else f_subtasks f i) = dom (f_subtasks f)"
    using start.hyps by (auto simp: dom_def)
  with start.prems show ?case by (simp add: flow_wf_def)
next
  case (success f c)
  then have "insert c (dom (f_subtasks f)) = dom (f_subtasks f)" by auto
  with success.prems show ?case by (simp add: flow_wf_def flow_success_def Let_def)
next
  case (retry f c)
  then have "insert c (dom (f_subtasks f)) = dom (f_subtasks f)" by auto
  with retry.prems show ?case by (simp add: flow_wf_def)
next
  case (fail f c)
  then have "insert c (dom (f_subtasks f)) = dom (f_subtasks f)" by auto
  with fail.prems show ?case by (simp add: flow_wf_def)
next
  case (cancel f)
  have "dom (\<lambda>i. map_option cancel_status (f_subtasks f i)) = dom (f_subtasks f)" by (auto simp: dom_def)
  with cancel.prems show ?case by (simp add: flow_wf_def)
qed (simp add: flow_wf_def)

lemma deps_safe_mono:
  assumes "deps_safe f" and "f_deps g = f_deps f"
    and "\<And>p. succeeded (f_subtasks f) p \<Longrightarrow> succeeded (f_subtasks g) p"
    and "\<And>s. f_subtasks f s \<in> {Some SubtaskStatus.WAITING, Some SubtaskStatus.CANCELED} \<Longrightarrow>
           f_subtasks g s \<in> {Some SubtaskStatus.WAITING, Some SubtaskStatus.CANCELED}"
  shows "deps_safe g"
  using assms unfolding deps_safe_def by metis

lemma waiting_blocked_mono:
  assumes "waiting_blocked f" and "f_deps g = f_deps f"
    and "\<And>p. succeeded (f_subtasks g) p \<Longrightarrow> succeeded (f_subtasks f) p"
    and "\<And>s. f_subtasks g s = Some SubtaskStatus.WAITING \<Longrightarrow> f_subtasks f s = Some SubtaskStatus.WAITING"
  shows "waiting_blocked g"
  using assms unfolding waiting_blocked_def by metis

lemma step_deps_safe: "flow_step f g \<Longrightarrow> deps_safe f \<Longrightarrow> deps_safe g"
proof (induction rule: flow_step.induct)
  case (start f S)
  from start.prems start.hyps(3) show ?case
    by (elim deps_safe_mono) (auto simp: succeeded_def)
next
  case (success f c)
  let ?h = "(f_subtasks f)(c \<mapsto> SubtaskStatus.SUCCESS)"
  let ?g = "unlock (f_deps f) c ?h"
  have "?g s \<in> {Some SubtaskStatus.WAITING, Some SubtaskStatus.CANCELED} \<or> succeeded ?h p"
    if ps: "(p, s) \<in> f_deps f" for p s
  proof (cases "ready_after (f_deps f) c ?h s")
    case True
    with ps show ?thesis by (simp add: ready_after_def)
  next
    case False
    then have g: "?g s = ?h s" by (simp add: unlock_def)
    have "f_subtasks f s \<in> {Some SubtaskStatus.WAITING, Some SubtaskStatus.CANCELED} \<or>
        succeeded (f_subtasks f) p"
      using success.prems ps by (simp add: deps_safe_def)
    then show ?thesis
      unfolding g using success.hyps by (auto simp: succeeded_def)
  qed
  then show ?case by (simp add: deps_safe_def flow_success_def Let_def)
next
  case (retry f c)
  from retry.prems retry.hyps show ?case
    by (elim deps_safe_mono) (auto simp: succeeded_def)
next
  case (fail f c)
  from fail.prems fail.hyps show ?case
    by (elim deps_safe_mono) (auto simp: succeeded_def)
next
  case (cancel f)
  from cancel.prems show ?case
    by (elim deps_safe_mono) (auto simp: succeeded_def cancel_status_def)
qed (simp add: deps_safe_def)

lemma step_waiting_blocked: "flow_step f g \<Longrightarrow> waiting_blocked f \<Longrightarrow> waiting_blocked g"
proof (induction rule: flow_step.induct)
  case (start f S)
  from start.prems start.hyps(3) show ?case
    by (elim waiting_blocked_mono) (auto simp: succeeded_def split: if_splits)
next
  case (success f c)
  show ?case
    unfolding waiting_blocked_def flow_success_def Let_def
  proof (intro allI impI, simp)
    fix s
    assume "unlock (f_deps f) c ((f_subtasks f)(c \<mapsto> SubtaskStatus.SUCCESS)) s = Some SubtaskStatus.WAITING"
    then have s: "s \<noteq> c" "f_subtasks f s = Some SubtaskStatus.WAITING"
      and nr: "\<not> ready_after (f_deps f) c ((f_subtasks f)(c \<mapsto> SubtaskStatus.SUCCESS)) s"
      by (auto simp: unlock_def split: if_splits)
    show "\<exists>p. (p, s) \<in> f_deps f \<and> \<not> succeeded ((f_subtasks f)(c \<mapsto> SubtaskStatus.SUCCESS)) p"
    proof (cases "(c, s) \<in> f_deps f")
      case True
      with nr s show ?thesis by (auto simp: ready_after_def)
    next
      case False
      from success.prems s(2) obtain p where "(p, s) \<in> f_deps f" "\<not> succeeded (f_subtasks f) p"
        by (auto simp: waiting_blocked_def)
      with False show ?thesis by (metis fun_upd_apply succeeded_def)
    qed
  qed
next
  case (retry f c)
  from retry.prems show ?case
    by (elim waiting_blocked_mono) (auto simp: succeeded_def split: if_splits)
next
  case (fail f c)
  from fail.prems show ?case
    by (elim waiting_blocked_mono) (auto simp: succeeded_def split: if_splits)
next
  case (cancel f)
  then show ?case
    by (auto simp: waiting_blocked_def cancel_status_def split: if_splits)
qed (simp add: waiting_blocked_def)

text \<open>The status of the task follows the statuses of its subtasks.\<close>

lemma ran_unlock:
  "ran (unlock deps c sub) \<subseteq> insert SubtaskStatus.READY (ran sub)"
  by (auto simp: ran_def unlock_def split: if_splits)

lemma ran_all_succeeded:
  "(\<forall>i \<in> dom sub. succeeded sub i) \<longleftrightarrow> ran sub \<subseteq> {SubtaskStatus.SUCCESS}"
  by (force simp: succeeded_def ran_def dom_def)

lemma unlock_failed_iff [simp]:
  "unlock deps c sub i = Some SubtaskStatus.FAILED \<longleftrightarrow> sub i = Some SubtaskStatus.FAILED"
  "unlock deps c sub i = Some SubtaskStatus.RUNNING \<longleftrightarrow> sub i = Some SubtaskStatus.RUNNING"
  "unlock deps c sub i = Some SubtaskStatus.SUCCESS \<longleftrightarrow> sub i = Some SubtaskStatus.SUCCESS"
  by (auto simp: unlock_def ready_after_def)

lemma coherent_running:
  "task_coherent f \<Longrightarrow> f_subtasks f c = Some SubtaskStatus.RUNNING \<Longrightarrow>
     f_task f = TaskStatus.RUNNING \<or> f_task f = TaskStatus.FAILED"
  by (force simp: task_coherent_def ran_def split: TaskStatus.splits)

lemma success_coherent:
  assumes "f_subtasks f c = Some SubtaskStatus.RUNNING" and coh: "task_coherent f"
  shows "task_coherent (flow_success c f)"
proof -
  let ?h = "(f_subtasks f)(c \<mapsto> SubtaskStatus.SUCCESS)"
  let ?g = "unlock (f_deps f) c ?h"
  have ran: "ran ?g \<subseteq> {SubtaskStatus.READY, SubtaskStatus.SUCCESS} \<union> ran (f_subtasks f)"
    by (rule subset_trans [OF ran_unlock]) (auto simp: ran_def)
  from coherent_running [OF coh assms(1)] show ?thesis
  proof
    assume run: "f_task f = TaskStatus.RUNNING"
    with coh have "ran (f_subtasks f) \<subseteq> {SubtaskStatus.WAITING, SubtaskStatus.READY,
        SubtaskStatus.RUNNING, SubtaskStatus.SUCCESS}"
      by (simp add: task_coherent_def)
    with run ran show ?thesis
      by (auto simp: flow_success_def Let_def task_coherent_def ran_all_succeeded)
  next
    assume fl: "f_task f = TaskStatus.FAILED"
    with coh obtain j where j: "f_subtasks f j = Some SubtaskStatus.FAILED"
      by (auto simp: task_coherent_def ran_def)
    with assms(1) have "?g j = Some SubtaskStatus.FAILED" by auto
    then have "SubtaskStatus.FAILED \<in> ran ?g" by (rule ranI)
    with fl coh ran show ?thesis
      by (auto simp: flow_success_def Let_def task_coherent_def ran_all_succeeded)
  qed
qed

lemma dom_nonempty_obtain:
  assumes "dom m \<noteq> {}"
  obtains i v where "m i = Some v"
  using assms by (meson domD ex_in_conv)

lemma live_unfinished:
  assumes wf: "flow_wf f" and coh: "task_coherent f"
    and live: "f_task f \<in> {TaskStatus.PENDING, TaskStatus.SCHEDULED, TaskStatus.RUNNING}"
  obtains j v where "f_subtasks f j = Some v" and "v \<noteq> SubtaskStatus.SUCCESS"
    and "v \<noteq> SubtaskStatus.FAILED"
proof (cases "f_task f = TaskStatus.RUNNING")
  case True
  with coh that show thesis by (auto simp: task_coherent_def ran_def)
next
  case False
  from wf have "dom (f_subtasks f) \<noteq> {}" by (simp add: flow_wf_def)
  then obtain j v where jv: "f_subtasks f j = Some v" by (rule dom_nonempty_obtain)
  then have "v \<in> ran (f_subtasks f)" by (rule ranI)
  with False live coh have "v \<noteq> SubtaskStatus.SUCCESS \<and> v \<noteq> SubtaskStatus.FAILED"
    by (auto simp: task_coherent_def)
  with jv that show thesis by blast
qed

lemma cancel_coherent:
  assumes wf: "flow_wf f" and coh: "task_coherent f"
    and live: "f_task f \<in> {TaskStatus.PENDING, TaskStatus.SCHEDULED, TaskStatus.RUNNING}"
  shows "task_coherent (f\<lparr>f_task := TaskStatus.CANCELED,
           f_subtasks := (\<lambda>i. map_option cancel_status (f_subtasks f i))\<rparr>)"
proof -
  let ?g = "\<lambda>i. map_option cancel_status (f_subtasks f i)"
  from live_unfinished [OF wf coh live] obtain j v where "f_subtasks f j = Some v"
    and "v \<noteq> SubtaskStatus.SUCCESS" "v \<noteq> SubtaskStatus.FAILED" .
  then have "?g j = Some SubtaskStatus.CANCELED" by (simp add: cancel_status_def)
  then have "SubtaskStatus.CANCELED \<in> ran ?g" by (rule ranI)
  moreover have "v \<noteq> SubtaskStatus.FAILED" if "f_subtasks f i = Some v" for i v
    using live coh ranI [of "f_subtasks f", OF that] by (auto simp: task_coherent_def)
  then have "ran ?g \<subseteq> {SubtaskStatus.SUCCESS, SubtaskStatus.CANCELED}"
    by (auto simp: ran_def cancel_status_def split: if_splits)
  ultimately show ?thesis by (simp add: task_coherent_def)
qed

lemma ran_upd_subset: "ran (m(c \<mapsto> v)) \<subseteq> insert v (ran m)"
  by (auto simp: ran_def)

lemma start_coherent:
  assumes coh: "task_coherent f" and "f_task f \<in> {TaskStatus.SCHEDULED, TaskStatus.RUNNING}"
    and "S \<noteq> {}"
  shows "task_coherent (f\<lparr>f_task := TaskStatus.RUNNING,
           f_subtasks := (\<lambda>i. if i \<in> S then Some SubtaskStatus.RUNNING else f_subtasks f i)\<rparr>)"
proof -
  let ?g = "\<lambda>i. if i \<in> S then Some SubtaskStatus.RUNNING else f_subtasks f i"
  from assms(3) obtain i where "i \<in> S" by blast
  then have "?g i = Some SubtaskStatus.RUNNING" by simp
  then have "SubtaskStatus.RUNNING \<in> ran ?g" by (rule ranI)
  then have "\<not> ran ?g \<subseteq> {SubtaskStatus.SUCCESS}" by blast
  moreover have "ran ?g \<subseteq> insert SubtaskStatus.RUNNING (ran (f_subtasks f))"
    by (auto simp: ran_def)
  moreover have "ran (f_subtasks f) \<subseteq> {SubtaskStatus.WAITING, SubtaskStatus.READY,
      SubtaskStatus.RUNNING, SubtaskStatus.SUCCESS}"
    using coh assms(2) by (auto simp: task_coherent_def)
  ultimately show ?thesis by (simp add: task_coherent_def) blast
qed

lemma step_task_coherent:
  "flow_step f g \<Longrightarrow> flow_wf f \<Longrightarrow> task_coherent f \<Longrightarrow> task_coherent g"
proof (induction rule: flow_step.induct)
  case (start f S)
  then show ?case by (intro start_coherent)
next
  case (success f c)
  then show ?case by (intro success_coherent)
next
  case (retry f c)
  have "SubtaskStatus.READY \<in> ran ((f_subtasks f)(c \<mapsto> SubtaskStatus.READY))"
    by (rule ranI [where a = c]) simp
  moreover note ran_upd_subset [of "f_subtasks f" c SubtaskStatus.READY]
  moreover have "SubtaskStatus.FAILED \<in> ran ((f_subtasks f)(c \<mapsto> SubtaskStatus.READY))"
    if fl: "SubtaskStatus.FAILED \<in> ran (f_subtasks f)"
  proof -
    from fl obtain j where "f_subtasks f j = Some SubtaskStatus.FAILED" by (auto simp: ran_def)
    with retry.hyps have "((f_subtasks f)(c \<mapsto> SubtaskStatus.READY)) j = Some SubtaskStatus.FAILED"
      by auto
    then show ?thesis by (rule ranI)
  qed
  ultimately show ?case
    using coherent_running [OF retry.prems(2) retry.hyps] retry.prems(2)
    by (elim disjE; simp add: task_coherent_def; blast)
next
  case (fail f c)
  have "SubtaskStatus.FAILED \<in> ran ((f_subtasks f)(c \<mapsto> SubtaskStatus.FAILED))"
    by (rule ranI [where a = c]) simp
  moreover note ran_upd_subset [of "f_subtasks f" c SubtaskStatus.FAILED]
  ultimately show ?case
    using fail.prems(2) fail.hyps(2) by (simp add: task_coherent_def) blast
next
  case (cancel f)
  then show ?case by (intro cancel_coherent)
qed (simp add: task_coherent_def)

lemma step_inv: "flow_step f g \<Longrightarrow> flow_inv f \<Longrightarrow> flow_inv g"
  unfolding flow_inv_def
  by (blast intro: step_wf step_deps_safe step_waiting_blocked step_task_coherent)

lemma reachable_inv: "flow_reachable f \<Longrightarrow> flow_inv f"
  by (induction rule: flow_reachable.induct) (auto intro: initial_inv step_inv)

section \<open>What follows from the invariant\<close>

text \<open>A task that is not over always has a subtask that can be started or is running.\<close>

lemma inv_progress:
  assumes inv: "flow_inv f"
    and live: "f_task f \<in> {TaskStatus.PENDING, TaskStatus.SCHEDULED, TaskStatus.RUNNING}"
  shows "\<exists>i. f_subtasks f i \<in> {Some SubtaskStatus.READY, Some SubtaskStatus.RUNNING}"
proof -
  have wf: "finite (f_deps f)" "acyclic (f_deps f)"
    and coh: "task_coherent f" and blk: "waiting_blocked f"
    using inv by (auto simp: flow_inv_def flow_wf_def intro: finite_subset)
  let ?todo = "{i \<in> dom (f_subtasks f). \<not> succeeded (f_subtasks f) i}"
  from inv have "flow_wf f" by (simp add: flow_inv_def)
  from live_unfinished [OF this coh live] obtain j v where "f_subtasks f j = Some v"
    and "v \<noteq> SubtaskStatus.SUCCESS" .
  then have "j \<in> ?todo" by (auto simp: succeeded_def)
  moreover have "wf (f_deps f)" using wf by (rule finite_acyclic_wf)
  ultimately obtain i where i: "i \<in> ?todo" and min: "\<And>p. (p, i) \<in> f_deps f \<Longrightarrow> p \<notin> ?todo"
    by (metis (no_types, lifting) wfE_min)
  from i obtain v where v: "f_subtasks f i = Some v" "v \<noteq> SubtaskStatus.SUCCESS"
    by (auto simp: succeeded_def)
  have "v \<noteq> SubtaskStatus.WAITING"
  proof
    assume "v = SubtaskStatus.WAITING"
    with v blk obtain p where p: "(p, i) \<in> f_deps f" "\<not> succeeded (f_subtasks f) p"
      by (auto simp: waiting_blocked_def)
    moreover have "p \<in> dom (f_subtasks f)"
      using p(1) inv by (auto simp: flow_inv_def flow_wf_def)
    ultimately show False using min by blast
  qed
  moreover have "v \<in> ran (f_subtasks f)" using v(1) by (rule ranI)
  ultimately have "v = SubtaskStatus.READY \<or> v = SubtaskStatus.RUNNING"
    using v(2) coh live by (auto simp: task_coherent_def)
  with v(1) show ?thesis by blast
qed

text \<open>A finished task stays as it is.\<close>

lemma step_terminal:
  assumes "flow_step f g" and inv: "flow_inv f"
    and fin: "f_task f \<in> {TaskStatus.SUCCESS, TaskStatus.FAILED, TaskStatus.CANCELED}"
  shows "f_task g = f_task f"
  using assms(1)
proof cases
  case (success c)
  from inv have coh: "task_coherent f" by (simp add: flow_inv_def)
  from coherent_running [OF coh success(2)] fin have fl: "f_task f = TaskStatus.FAILED" by auto
  with coh obtain j where j: "f_subtasks f j = Some SubtaskStatus.FAILED"
    by (auto simp: task_coherent_def ran_def)
  let ?g = "unlock (f_deps f) c ((f_subtasks f)(c \<mapsto> SubtaskStatus.SUCCESS))"
  from j success(2) have "?g j = Some SubtaskStatus.FAILED" by auto
  then have "SubtaskStatus.FAILED \<in> ran ?g" by (rule ranI)
  then have "\<not> ran ?g \<subseteq> {SubtaskStatus.SUCCESS}" by auto
  with success(1) show ?thesis
    by (simp add: flow_success_def Let_def ran_all_succeeded del: dom_unlock)
qed (use fin in auto)

text \<open>A successful subtask stays successful.\<close>

lemma step_succeeded: "flow_step f g \<Longrightarrow> succeeded (f_subtasks f) i \<Longrightarrow> succeeded (f_subtasks g) i"
  by (induction rule: flow_step.induct)
    (auto simp: succeeded_def flow_success_def Let_def cancel_status_def)

end
