(* ===== verification/State_Machine.thy ===== *)
theory State_Machine
  imports Enums
begin

text \<open>
  \<open>app/domain/state_machine.py\<close>. The statuses are members of \<open>StrEnum\<close> classes (and
  plain strings once a row has been read back, the columns being \<open>String\<close>), so they
  compare and hash as strings: the dictionary \<open>ALLOWED_TRANSITIONS\<close> is keyed by
  strings, and the keys \<open>TaskStatus.RUNNING\<close>, \<open>SubtaskStatus.RUNNING\<close> and
  \<open>ExecutionStatus.RUNNING\<close> are one key, whose last entry wins.
\<close>

section \<open>The transition table\<close>

text \<open>A dictionary display: a later entry with an equal key replaces the earlier value.\<close>

fun dict_display :: "('k \<times> 'v) list \<Rightarrow> ('k \<Rightarrow> 'v option)" where
  "dict_display [] k = None"
| "dict_display ((k', v) # kvs) k =
     (case dict_display kvs k of
        Some w \<Rightarrow> Some w
      | None \<Rightarrow> if k = k' then Some v else None)"

definition transition_entries :: "(string \<times> string list) list" where
  "transition_entries =
    [(task_status_value TaskStatus.PENDING,
       [task_status_value TaskStatus.SCHEDULED, task_status_value TaskStatus.CANCELED]),
     (task_status_value TaskStatus.SCHEDULED,
       [task_status_value TaskStatus.RUNNING, task_status_value TaskStatus.CANCELED]),
     (task_status_value TaskStatus.RUNNING,
       [task_status_value TaskStatus.SUCCESS, task_status_value TaskStatus.FAILED,
        task_status_value TaskStatus.CANCELED]),
     (subtask_status_value SubtaskStatus.WAITING,
       [subtask_status_value SubtaskStatus.READY, subtask_status_value SubtaskStatus.CANCELED]),
     (subtask_status_value SubtaskStatus.READY,
       [subtask_status_value SubtaskStatus.DISPATCHED,
        subtask_status_value SubtaskStatus.CANCELED]),
     (subtask_status_value SubtaskStatus.DISPATCHED,
       [subtask_status_value SubtaskStatus.RUNNING, subtask_status_value SubtaskStatus.CANCELED]),
     (subtask_status_value SubtaskStatus.RUNNING,
       [subtask_status_value SubtaskStatus.SUCCESS, subtask_status_value SubtaskStatus.FAILED,
        subtask_status_value SubtaskStatus.CANCELED]),
     (subtask_status_value SubtaskStatus.FAILED,
       [subtask_status_value SubtaskStatus.RETRYING]),
     (subtask_status_value SubtaskStatus.RETRYING,
       [subtask_status_value SubtaskStatus.READY, subtask_status_value SubtaskStatus.CANCELED]),
     (node_status_value NodeStatus.ONLINE,
       [node_status_value NodeStatus.BUSY, node_status_value NodeStatus.OFFLINE]),
     (node_status_value NodeStatus.BUSY,
       [node_status_value NodeStatus.ONLINE, node_status_value NodeStatus.OFFLINE]),
     (node_status_value NodeStatus.OFFLINE,
       [node_status_value NodeStatus.ONLINE]),
     (plan_status_value SchedulePlanStatus.GENERATED,
       [plan_status_value SchedulePlanStatus.APPLIED,
        plan_status_value SchedulePlanStatus.CANCELED]),
     (plan_status_value SchedulePlanStatus.APPLIED,
       [plan_status_value SchedulePlanStatus.CANCELED]),
     (execution_status_value ExecutionStatus.RUNNING,
       [execution_status_value ExecutionStatus.SUCCESS,
        execution_status_value ExecutionStatus.FAILED,
        execution_status_value ExecutionStatus.TIMEOUT,
        execution_status_value ExecutionStatus.CANCELED])]"

definition ALLOWED_TRANSITIONS :: "string \<Rightarrow> string list option" where
  "ALLOWED_TRANSITIONS = dict_display transition_entries"

definition can_transition :: "string \<Rightarrow> string \<Rightarrow> bool" where
  "can_transition current target =
     (target \<in> set (case ALLOWED_TRANSITIONS current of None \<Rightarrow> [] | Some ts \<Rightarrow> ts))"

definition illegal_transition_message :: "string \<Rightarrow> string \<Rightarrow> string" where
  "illegal_transition_message current target =
     ''Illegal state transition: '' @ current @ '' -> '' @ target"

definition ensure_transition_allowed :: "string \<Rightarrow> string \<Rightarrow> unit result" where
  "ensure_transition_allowed current target =
     (if \<not> can_transition current target
      then Inl (ValueError (illegal_transition_message current target))
      else Inr ())"

section \<open>The intended per-entity state machines\<close>

text \<open>
  \<open>docs/07_state_machine_design.md\<close> gives one transition table per entity (sections
  5.3, 6.3, 7.3, 8.3 and 9.3). They are the specification of the shared table.
\<close>

fun task_next :: "TaskStatus \<Rightarrow> TaskStatus \<Rightarrow> bool" where
  "task_next TaskStatus.PENDING t = (t \<in> {TaskStatus.SCHEDULED, TaskStatus.CANCELED})"
| "task_next TaskStatus.SCHEDULED t = (t \<in> {TaskStatus.RUNNING, TaskStatus.CANCELED})"
| "task_next TaskStatus.RUNNING t =
     (t \<in> {TaskStatus.SUCCESS, TaskStatus.FAILED, TaskStatus.CANCELED})"
| "task_next _ t = False"

fun subtask_next :: "SubtaskStatus \<Rightarrow> SubtaskStatus \<Rightarrow> bool" where
  "subtask_next SubtaskStatus.WAITING t = (t \<in> {SubtaskStatus.READY, SubtaskStatus.CANCELED})"
| "subtask_next SubtaskStatus.READY t =
     (t \<in> {SubtaskStatus.DISPATCHED, SubtaskStatus.CANCELED})"
| "subtask_next SubtaskStatus.DISPATCHED t =
     (t \<in> {SubtaskStatus.RUNNING, SubtaskStatus.CANCELED})"
| "subtask_next SubtaskStatus.RUNNING t =
     (t \<in> {SubtaskStatus.SUCCESS, SubtaskStatus.FAILED, SubtaskStatus.CANCELED})"
| "subtask_next SubtaskStatus.FAILED t = (t = SubtaskStatus.RETRYING)"
| "subtask_next SubtaskStatus.RETRYING t =
     (t \<in> {SubtaskStatus.READY, SubtaskStatus.CANCELED})"
| "subtask_next _ t = False"

fun node_next :: "NodeStatus \<Rightarrow> NodeStatus \<Rightarrow> bool" where
  "node_next NodeStatus.ONLINE t = (t \<in> {NodeStatus.BUSY, NodeStatus.OFFLINE})"
| "node_next NodeStatus.BUSY t = (t \<in> {NodeStatus.ONLINE, NodeStatus.OFFLINE})"
| "node_next NodeStatus.OFFLINE t = (t = NodeStatus.ONLINE)"

fun plan_next :: "SchedulePlanStatus \<Rightarrow> SchedulePlanStatus \<Rightarrow> bool" where
  "plan_next SchedulePlanStatus.GENERATED t =
     (t \<in> {SchedulePlanStatus.APPLIED, SchedulePlanStatus.CANCELED})"
| "plan_next SchedulePlanStatus.APPLIED t = (t = SchedulePlanStatus.CANCELED)"
| "plan_next SchedulePlanStatus.CANCELED t = False"

fun execution_next :: "ExecutionStatus \<Rightarrow> ExecutionStatus \<Rightarrow> bool" where
  "execution_next ExecutionStatus.RUNNING t = (t \<noteq> ExecutionStatus.RUNNING)"
| "execution_next _ t = False"

lemmas next_simps = task_next.simps subtask_next.simps node_next.simps plan_next.simps
  execution_next.simps

text \<open>What a lookup in the dictionary returns, key by key.\<close>

lemma allowed_simps:
  "ALLOWED_TRANSITIONS ''PENDING'' = Some [''SCHEDULED'', ''CANCELED'']"
  "ALLOWED_TRANSITIONS ''SCHEDULED'' = Some [''RUNNING'', ''CANCELED'']"
  "ALLOWED_TRANSITIONS ''RUNNING'' = Some [''SUCCESS'', ''FAILED'', ''TIMEOUT'', ''CANCELED'']"
  "ALLOWED_TRANSITIONS ''WAITING'' = Some [''READY'', ''CANCELED'']"
  "ALLOWED_TRANSITIONS ''READY'' = Some [''DISPATCHED'', ''CANCELED'']"
  "ALLOWED_TRANSITIONS ''DISPATCHED'' = Some [''RUNNING'', ''CANCELED'']"
  "ALLOWED_TRANSITIONS ''FAILED'' = Some [''RETRYING'']"
  "ALLOWED_TRANSITIONS ''RETRYING'' = Some [''READY'', ''CANCELED'']"
  "ALLOWED_TRANSITIONS ''ONLINE'' = Some [''BUSY'', ''OFFLINE'']"
  "ALLOWED_TRANSITIONS ''BUSY'' = Some [''ONLINE'', ''OFFLINE'']"
  "ALLOWED_TRANSITIONS ''OFFLINE'' = Some [''ONLINE'']"
  "ALLOWED_TRANSITIONS ''GENERATED'' = Some [''APPLIED'', ''CANCELED'']"
  "ALLOWED_TRANSITIONS ''APPLIED'' = Some [''CANCELED'']"
  "ALLOWED_TRANSITIONS ''SUCCESS'' = None"
  "ALLOWED_TRANSITIONS ''CANCELED'' = None"
  "ALLOWED_TRANSITIONS ''TIMEOUT'' = None"
  by code_simp+

text \<open>
  The shared table, restricted to one entity, is that entity's machine: the three
  \<open>RUNNING\<close> entries collapse into the execution one, which allows \<open>TIMEOUT\<close>
  besides, but no task or subtask has that status.
\<close>

lemma can_transition_task [simp]:
  "can_transition (task_status_value s) (task_status_value t) = task_next s t"
  by (cases s; cases t) (simp_all add: can_transition_def allowed_simps value_simps)

lemma can_transition_subtask [simp]:
  "can_transition (subtask_status_value s) (subtask_status_value t) = subtask_next s t"
  by (cases s; cases t) (simp_all add: can_transition_def allowed_simps value_simps)

lemma can_transition_node [simp]:
  "can_transition (node_status_value s) (node_status_value t) = node_next s t"
  by (cases s; cases t) (simp_all add: can_transition_def allowed_simps value_simps)

lemma can_transition_plan [simp]:
  "can_transition (plan_status_value s) (plan_status_value t) = plan_next s t"
  by (cases s; cases t) (simp_all add: can_transition_def allowed_simps value_simps)

lemma can_transition_execution [simp]:
  "can_transition (execution_status_value s) (execution_status_value t) = execution_next s t"
  by (cases s; cases t) (simp_all add: can_transition_def allowed_simps value_simps)

lemma ensure_transition_allowed_Inr_iff [result_simps]:
  "ensure_transition_allowed s t = Inr u \<longleftrightarrow> can_transition s t"
  by (simp add: ensure_transition_allowed_def)

lemma ensure_transition_allowed_cases:
  "ensure_transition_allowed s t =
     (if can_transition s t then Inr ()
      else Inl (ValueError (illegal_transition_message s t)))"
  by (simp add: ensure_transition_allowed_def)

text \<open>
  C20: although the statuses of the five entities share one string-keyed dictionary, in
  which equal keys override each other, the table restricted to any one entity is
  exactly the state machine designed for it.
\<close>

theorem shared_table_refines_entity_machines:
  "can_transition (task_status_value ts) (task_status_value ts') = task_next ts ts' \<and>
   can_transition (subtask_status_value ss) (subtask_status_value ss') = subtask_next ss ss' \<and>
   can_transition (node_status_value ns) (node_status_value ns') = node_next ns ns' \<and>
   can_transition (plan_status_value ps) (plan_status_value ps') = plan_next ps ps' \<and>
   can_transition (execution_status_value es) (execution_status_value es') = execution_next es es'"
  by simp

end
