(* ===== verification/Dag.thy ===== *)
theory Dag
  imports Prelude "HOL-Library.AList"
begin

text \<open>
  \<open>app/domain/dag.py\<close>: the validation of a task graph by Kahn's algorithm. The
  dictionaries \<open>incoming_count\<close> and \<open>graph\<close> are association lists in insertion
  order; a missing key is a \<open>KeyError\<close>. The main result says that
  \<open>validate_dag\<close> accepts exactly the acyclic graphs over their own nodes, and which
  error every other input gets.
\<close>

section \<open>The code\<close>

definition check_dependency :: "string list \<Rightarrow> string \<times> string \<Rightarrow> unit \<Rightarrow> unit result" where
  "check_dependency subtask_ids d u =
     (let predecessor = fst d; successor = snd d in
      if predecessor \<notin> set subtask_ids \<or> successor \<notin> set subtask_ids
      then Inl (ValueError ''Dependency references an unknown subtask'')
      else if predecessor = successor
      then Inl (ValueError ''Subtask cannot depend on itself'')
      else Inr ())"

type_synonym graph = "(string \<times> string list) list"
type_synonym counts = "(string \<times> int) list"

text \<open>Reading a \<open>defaultdict(list)\<close>.\<close>

definition graph_get :: "graph \<Rightarrow> string \<Rightarrow> string list" where
  "graph_get g p = (case map_of g p of None \<Rightarrow> [] | Some ss \<Rightarrow> ss)"

text \<open>\<open>graph[predecessor].append(successor); incoming_count[successor] += 1\<close>\<close>

definition add_edge :: "string \<times> string \<Rightarrow> graph \<times> counts \<Rightarrow> (graph \<times> counts) result" where
  "add_edge d s =
     (let g = fst s; m = snd s; predecessor = fst d; successor = snd d;
          g' = AList.update predecessor (graph_get g predecessor @ [successor]) g in
      case map_of m successor of
        None \<Rightarrow> Inl KeyError
      | Some n \<Rightarrow> Inr (g', AList.update successor (n + 1) m))"

text \<open>The inner loop of the traversal, for one successor of the current node.\<close>

definition relax :: "string \<Rightarrow> counts \<times> string list \<Rightarrow> (counts \<times> string list) result" where
  "relax successor s =
     (case map_of (fst s) successor of
        None \<Rightarrow> Inl KeyError
      | Some n \<Rightarrow>
          Inr (AList.update successor (n - 1) (fst s),
               if n - 1 = 0 then snd s @ [successor] else snd s))"

text \<open>
  What bounds the \<open>while queue\<close> loop: every node enters the queue when its count
  reaches zero from above, so the positive counts and the queue shrink together.
\<close>

definition positive_count :: "counts \<Rightarrow> nat" where
  "positive_count m = sum_list (map (\<lambda>kv. nat (snd kv)) m)"

lemma positive_count_update:
  "map_of m k = Some n \<Longrightarrow>
     positive_count (AList.update k v m) + nat n = positive_count m + nat v"
  by (induction m) (auto simp: positive_count_def split: if_splits)

lemma relax_bound:
  assumes "relax x s = Inr s'"
  shows "positive_count (fst s') + length (snd s') \<le> positive_count (fst s) + length (snd s)"
proof -
  from assms obtain n where n: "map_of (fst s) x = Some n"
    and s': "s' = (AList.update x (n - 1) (fst s), if n - 1 = 0 then snd s @ [x] else snd s)"
    by (auto simp: relax_def split: option.splits)
  from positive_count_update [OF n, of "n - 1"] s' show ?thesis
    by (auto split: if_splits)
qed

lemma relax_all_bound:
  "for_each relax xs s = Inr s' \<Longrightarrow>
     positive_count (fst s') + length (snd s') \<le> positive_count (fst s) + length (snd s)"
  by (induction xs arbitrary: s) (fastforce simp: result_simps dest: relax_bound)+

function kahn :: "graph \<Rightarrow> counts \<Rightarrow> string list \<Rightarrow> nat \<Rightarrow> nat result" where
  "kahn g m [] visited_count = Inr visited_count"
| "kahn g m (current # queue) visited_count =
     (case for_each relax (graph_get g current) (m, queue) of
        Inl e \<Rightarrow> Inl e
      | Inr s \<Rightarrow> kahn g (fst s) (snd s) (visited_count + 1))"
  by pat_completeness auto
termination
  by (relation "measure (\<lambda>(g, m, q, n). positive_count m + length q)")
    (auto dest!: relax_all_bound)

definition validate_dag :: "string list \<Rightarrow> (string \<times> string) list \<Rightarrow> unit result" where
  "validate_dag subtask_ids dependencies =
     (if subtask_ids = [] then Inl (ValueError ''DAG must contain at least one subtask'')
      else if length subtask_ids \<noteq> length (remdups subtask_ids)
      then Inl (ValueError ''Subtask IDs must be unique'')
      else
        and_then (for_each (check_dependency subtask_ids) dependencies ()) (\<lambda>_.
        and_then (for_each add_edge dependencies ([], map (\<lambda>i. (i, 0)) subtask_ids)) (\<lambda>s.
        let g = fst s; incoming_count = snd s;
            queue = map fst (filter (\<lambda>kv. snd kv = 0) incoming_count) in
        and_then (kahn g incoming_count queue 0) (\<lambda>visited_count.
        if visited_count \<noteq> length subtask_ids
        then Inl (ValueError ''DAG contains a cycle'')
        else Inr ()))))"

section \<open>Building the graph\<close>

lemma map_of_SomeI: "k \<in> fst ` set m \<Longrightarrow> \<exists>n. map_of m k = Some n"
  by (induction m) auto

lemma keys_update:
  "map_of m k = Some n \<Longrightarrow> map fst (AList.update k v m) = map fst m"
  by (induction m) auto

lemma key_set_update:
  "map_of m k = Some n \<Longrightarrow> fst ` set (AList.update k v m) = fst ` set m"
  by (simp only: list.set_map [symmetric] keys_update)

definition successors_in :: "(string \<times> string) list \<Rightarrow> string \<Rightarrow> string list" where
  "successors_in ds p = map snd (filter (\<lambda>d. fst d = p) ds)"

definition indegree :: "(string \<times> string) list \<Rightarrow> string set \<Rightarrow> string \<Rightarrow> nat" where
  "indegree ds V s = length (filter (\<lambda>d. snd d = s \<and> fst d \<notin> V) ds)"

lemma graph_get_update [simp]:
  "graph_get (AList.update p v g) q = (if q = p then v else graph_get g q)"
  by (auto simp: graph_get_def update_conv')

lemma add_edges:
  assumes "\<forall>d \<in> set ds. snd d \<in> fst ` set m"
  shows "\<exists>g' m'. for_each add_edge ds (g, m) = Inr (g', m') \<and>
           (\<forall>p. graph_get g' p = graph_get g p @ successors_in ds p) \<and>
           map fst m' = map fst m \<and>
           (\<forall>s. map_of m' s = map_option (\<lambda>n. n + int (indegree ds {} s)) (map_of m s))"
  using assms
proof (induction ds arbitrary: g m)
  case Nil
  then show ?case
    by (auto simp: successors_in_def indegree_def option.map_ident)
next
  case (Cons d ds)
  obtain p s where d: "d = (p, s)" by (cases d)
  from Cons.prems d have "s \<in> fst ` set m" by auto
  from map_of_SomeI [OF this] obtain n where n: "map_of m s = Some n" ..
  let ?g = "AList.update p (graph_get g p @ [s]) g" and ?m = "AList.update s (n + 1) m"
  have keys: "map fst ?m = map fst m"
    by (rule keys_update [OF n])
  from Cons.prems key_set_update [OF n] have "\<forall>d \<in> set ds. snd d \<in> fst ` set ?m"
    by simp
  from Cons.IH [OF this, of ?g] obtain g' m' where IH:
    "for_each add_edge ds (?g, ?m) = Inr (g', m')"
    "\<forall>q. graph_get g' q = graph_get ?g q @ successors_in ds q"
    "map fst m' = map fst ?m"
    "\<forall>t. map_of m' t = map_option (\<lambda>k. k + int (indegree ds {} t)) (map_of ?m t)"
    by blast
  have "for_each add_edge (d # ds) (g, m) = Inr (g', m')"
    using IH(1) n d by (simp add: add_edge_def)
  moreover have "\<forall>q. graph_get g' q = graph_get g q @ successors_in (d # ds) q"
    using IH(2) d by (simp add: successors_in_def)
  moreover have "\<forall>t. map_of m' t = map_option (\<lambda>k. k + int (indegree (d # ds) {} t)) (map_of m t)"
    using IH(4) d n by (auto simp: indegree_def update_conv' option.map_comp comp_def)
  ultimately show ?case
    using IH(3) keys by auto
qed

section \<open>The inner loop\<close>

lemma relax_all:
  assumes "set xs \<subseteq> fst ` set m"
    and "\<forall>s n. map_of m s = Some n \<longrightarrow> int (count_list xs s) \<le> n"
  shows "\<exists>m' new. for_each relax xs (m, q) = Inr (m', q @ new) \<and> map fst m' = map fst m \<and>
           (\<forall>s. map_of m' s = map_option (\<lambda>n. n - int (count_list xs s)) (map_of m s)) \<and>
           distinct new \<and>
           set new = {s \<in> set xs. map_of m s = Some (int (count_list xs s))}"
  using assms
proof (induction xs arbitrary: m q)
  case Nil
  then show ?case by (auto simp: option.map_ident)
next
  case (Cons x xs)
  from Cons.prems(1) obtain n where n: "map_of m x = Some n"
    using map_of_SomeI [of x m] by auto
  let ?m = "AList.update x (n - 1) m"
  let ?q = "if n - 1 = 0 then q @ [x] else q"
  have keys: "map fst ?m = map fst m"
    by (rule keys_update [OF n])
  have "set xs \<subseteq> fst ` set ?m"
    using Cons.prems(1) key_set_update [OF n] by auto
  moreover have low: "\<forall>s k. map_of ?m s = Some k \<longrightarrow> int (count_list xs s) \<le> k"
  proof (intro allI impI)
    fix s k
    assume k: "map_of ?m s = Some k"
    show "int (count_list xs s) \<le> k"
    proof (cases "s = x")
      case True
      with k n Cons.prems(2) [rule_format, OF n] show ?thesis by (simp add: update_conv')
    next
      case False
      with k have "map_of m s = Some k" by (simp add: update_conv')
      from Cons.prems(2) [rule_format, OF this] False show ?thesis by simp
    qed
  qed
  ultimately obtain m' new where IH:
    "for_each relax xs (?m, ?q) = Inr (m', ?q @ new)" "map fst m' = map fst ?m"
    "\<forall>s. map_of m' s = map_option (\<lambda>k. k - int (count_list xs s)) (map_of ?m s)"
    "distinct new" "set new = {s \<in> set xs. map_of ?m s = Some (int (count_list xs s))}"
    using Cons.IH [of ?m ?q] by blast
  let ?new = "(if n = 1 then [x] else []) @ new"
  have notin: "x \<notin> set xs" if "n = 1"
    using Cons.prems(2) [rule_format, OF n] that by (simp add: count_list_0_iff)
  have "for_each relax (x # xs) (m, q) = Inr (m', q @ ?new)"
    using IH(1) n by (cases "n = 1") (simp_all add: relax_def)
  moreover have "\<forall>s. map_of m' s = map_option (\<lambda>k. k - int (count_list (x # xs) s)) (map_of m s)"
    using IH(3) n by (auto simp: update_conv')
  moreover have "distinct ?new"
    using IH(4,5) notin by auto
  moreover have "set ?new = {s \<in> set (x # xs). map_of m s = Some (int (count_list (x # xs) s))}"
  proof (rule set_eqI)
    fix s
    have mem: "s \<in> set new \<longleftrightarrow> s \<in> set xs \<and> map_of ?m s = Some (int (count_list xs s))"
      by (simp add: IH(5))
    show "s \<in> set ?new \<longleftrightarrow>
        s \<in> {s \<in> set (x # xs). map_of m s = Some (int (count_list (x # xs) s))}"
    proof (cases "s = x")
      case True
      with mem n notin show ?thesis
        by (cases "x \<in> set xs") (auto simp: update_conv' count_list_0_iff)
    next
      case False
      with mem show ?thesis by (simp add: update_conv')
    qed
  qed
  ultimately show ?case
    using IH(2) keys by auto
qed

section \<open>The traversal\<close>

text \<open>Every predecessor of an element of \<open>vs\<close> stands before it.\<close>

definition topological :: "(string \<times> string) list \<Rightarrow> string list \<Rightarrow> bool" where
  "topological ds vs \<longleftrightarrow>
     (\<forall>xs s ys p. vs = xs @ s # ys \<longrightarrow> (p, s) \<in> set ds \<longrightarrow> p \<in> set xs)"

lemma topological_Nil [simp]: "topological ds []"
  by (simp add: topological_def)

lemma topological_snoc:
  assumes "topological ds vs" and "\<And>p. (p, c) \<in> set ds \<Longrightarrow> p \<in> set vs"
  shows "topological ds (vs @ [c])"
  unfolding topological_def
proof (intro allI impI)
  fix xs s ys p
  assume eq: "vs @ [c] = xs @ s # ys" and dep: "(p, s) \<in> set ds"
  show "p \<in> set xs"
  proof (cases ys rule: rev_cases)
    case Nil
    with eq dep assms(2) show ?thesis by simp
  next
    case (snoc zs z)
    with eq have "vs = xs @ s # zs" by simp
    with assms(1) dep show ?thesis by (auto simp: topological_def)
  qed
qed

lemma topological_trancl:
  assumes "topological ds vs" and "(p, s) \<in> (set ds)\<^sup>+" and "vs = xs @ s # ys"
  shows "p \<in> set xs"
  using assms(2,3)
proof (induction arbitrary: xs ys rule: trancl_induct)
  case (base s)
  with assms(1) show ?case by (auto simp: topological_def)
next
  case (step t s)
  with assms(1) have "t \<in> set xs" by (auto simp: topological_def)
  then obtain us ws where "xs = us @ t # ws" by (auto simp: in_set_conv_decomp)
  with step.IH [of us "ws @ s # ys"] step.prems show ?case by auto
qed

lemma topological_acyclic:
  assumes "topological ds vs" and "distinct vs" and "snd ` set ds \<subseteq> set vs"
  shows "acyclic (set ds)"
proof (rule acyclicI, rule allI, rule notI)
  fix x
  assume cyc: "(x, x) \<in> (set ds)\<^sup>+"
  then have "x \<in> Range ((set ds)\<^sup>+)" by (rule RangeI)
  then have "x \<in> Range (set ds)" by (simp only: trancl_range)
  then have "x \<in> snd ` set ds" by (simp only: Range_snd)
  with assms(3) obtain xs ys where vs: "vs = xs @ x # ys"
    by (metis in_set_conv_decomp subsetD)
  from topological_trancl [OF assms(1) cyc vs] vs assms(2) show False by simp
qed

lemma indegree_0_iff: "indegree ds V s = 0 \<longleftrightarrow> (\<forall>p. (p, s) \<in> set ds \<longrightarrow> p \<in> V)"
  by (auto simp: indegree_def filter_empty_conv)

lemma count_successors:
  "c \<notin> V \<Longrightarrow> indegree ds V s = indegree ds (insert c V) s + count_list (successors_in ds c) s"
  by (induction ds) (auto simp: indegree_def successors_in_def)

text \<open>
  The state of the traversal after the nodes \<open>vs\<close> have been taken from the queue:
  the counts are the in-degrees from nodes not yet visited, and the visited and queued
  nodes are the ones whose count is zero.
\<close>

definition kahn_inv ::
  "string list \<Rightarrow> (string \<times> string) list \<Rightarrow> string list \<Rightarrow> string list \<Rightarrow> counts \<Rightarrow> bool" where
  "kahn_inv ids ds vs q m \<longleftrightarrow>
     distinct (vs @ q) \<and> set (vs @ q) \<subseteq> set ids \<and> fst ` set m = set ids \<and>
     (\<forall>s \<in> set ids. map_of m s = Some (int (indegree ds (set vs) s))) \<and>
     (\<forall>s \<in> set ids. s \<in> set (vs @ q) \<longleftrightarrow> indegree ds (set vs) s = 0) \<and>
     topological ds vs"

lemma kahn_step:
  assumes inv: "kahn_inv ids ds vs (c # q) m"
    and ds: "\<forall>d \<in> set ds. snd d \<in> set ids"
    and g: "\<forall>p. graph_get g p = successors_in ds p"
  shows "\<exists>m' q'. for_each relax (graph_get g c) (m, q) = Inr (m', q') \<and>
           kahn_inv ids ds (vs @ [c]) q' m'"
proof -
  let ?ss = "successors_in ds c"
  from inv have c: "c \<notin> set vs" "c \<in> set ids" "c \<notin> set q" by (auto simp: kahn_inv_def)
  have cnt: "indegree ds (set vs) s = indegree ds (insert c (set vs)) s + count_list ?ss s" for s
    by (rule count_successors [OF c(1)])
  have ss: "set ?ss \<subseteq> set ids" using ds by (auto simp: successors_in_def)
  have keys: "fst ` set m = set ids" using inv by (simp add: kahn_inv_def)
  have m: "map_of m s = Some (int (indegree ds (set vs) s))" if "s \<in> set ids" for s
    using inv that by (simp add: kahn_inv_def)
  have low: "\<forall>s n. map_of m s = Some n \<longrightarrow> int (count_list ?ss s) \<le> n"
  proof (intro allI impI)
    fix s n
    assume "map_of m s = Some n"
    moreover from this keys have "s \<in> set ids" by (metis map_of_SomeD fst_conv image_eqI)
    ultimately show "int (count_list ?ss s) \<le> n" using m cnt [of s] by simp
  qed
  from ss keys have "set ?ss \<subseteq> fst ` set m" by simp
  from relax_all [OF this low, of q] obtain m' new where r:
    "for_each relax ?ss (m, q) = Inr (m', q @ new)" "map fst m' = map fst m"
    "\<forall>s. map_of m' s = map_option (\<lambda>n. n - int (count_list ?ss s)) (map_of m s)"
    "distinct new" "set new = {s \<in> set ?ss. map_of m s = Some (int (count_list ?ss s))}"
    by blast
  have zero: "s \<in> set (vs @ c # q) \<longleftrightarrow> indegree ds (set vs) s = 0" if "s \<in> set ids" for s
    using inv that by (simp add: kahn_inv_def)
  have new: "s \<in> set new \<longleftrightarrow>
      indegree ds (set vs) s \<noteq> 0 \<and> indegree ds (insert c (set vs)) s = 0" if "s \<in> set ids" for s
  proof -
    have "s \<in> set new \<longleftrightarrow>
        s \<in> set ?ss \<and> map_of m s = Some (int (count_list ?ss s))"
      by (simp add: r(5))
    also have "\<dots> \<longleftrightarrow> s \<in> set ?ss \<and> indegree ds (set vs) s = count_list ?ss s"
      using m [OF that] by simp
    also have "\<dots> \<longleftrightarrow>
        indegree ds (set vs) s \<noteq> 0 \<and> indegree ds (insert c (set vs)) s = 0"
      using cnt [of s] count_list_0_iff [of ?ss s] by linarith
    finally show ?thesis .
  qed
  have new_ids: "set new \<subseteq> set ids" using r(5) ss by auto
  have "kahn_inv ids ds (vs @ [c]) (q @ new) m'"
    unfolding kahn_inv_def
  proof (intro conjI ballI)
    have "s \<notin> set (vs @ c # q)" if "s \<in> set new" for s
      using new zero new_ids that by (meson subsetD)
    moreover have "distinct (vs @ c # q)" using inv by (simp add: kahn_inv_def)
    ultimately show "distinct ((vs @ [c]) @ q @ new)"
      using r(4) by auto
    show "set ((vs @ [c]) @ q @ new) \<subseteq> set ids"
      using inv new_ids by (auto simp: kahn_inv_def)
    show "fst ` set m' = set ids"
      using keys r(2) by (metis list.set_map)
    show "topological ds (vs @ [c])"
      using inv zero [OF c(2)] by (intro topological_snoc) (auto simp: kahn_inv_def indegree_0_iff)
  next
    fix s assume s: "s \<in> set ids"
    show "map_of m' s = Some (int (indegree ds (set (vs @ [c])) s))"
      using r(3) m [OF s] cnt [of s] by simp
    show "s \<in> set ((vs @ [c]) @ q @ new) \<longleftrightarrow> indegree ds (set (vs @ [c])) s = 0"
      using new [OF s] zero [OF s] cnt [of s] by auto
  qed
  with r(1) g show ?thesis by auto
qed

lemma kahn_result:
  assumes "kahn_inv ids ds vs q m" and "\<forall>d \<in> set ds. snd d \<in> set ids"
    and "\<forall>p. graph_get g p = successors_in ds p"
  shows "\<exists>ws m'. kahn g m q (length vs) = Inr (length ws) \<and> kahn_inv ids ds ws [] m'"
  using assms
proof (induction g m q "length vs" arbitrary: vs rule: kahn.induct)
  case (1 g m)
  then show ?case by auto
next
  case (2 g m c q)
  from kahn_step [OF "2.prems"] obtain m' q' where step:
    "for_each relax (graph_get g c) (m, q) = Inr (m', q')" "kahn_inv ids ds (vs @ [c]) q' m'"
    by blast
  from "2.hyps" [OF step(1), of "vs @ [c]"] step(2) "2.prems"(2,3) step(1) show ?case by simp
qed

text \<open>When the queue is empty, everything has been visited exactly if the graph is acyclic.\<close>

lemma kahn_complete:
  assumes inv: "kahn_inv ids ds vs [] m" and dist: "distinct ids"
    and ds: "\<forall>d \<in> set ds. fst d \<in> set ids \<and> snd d \<in> set ids"
  shows "length vs = length ids \<longleftrightarrow> acyclic (set ds)"
proof
  assume "length vs = length ids"
  with inv dist have "set vs = set ids"
    by (metis append_Nil2 card_subset_eq distinct_card kahn_inv_def List.finite_set)
  with ds inv show "acyclic (set ds)"
    by (intro topological_acyclic [of ds vs]) (auto simp: kahn_inv_def)
next
  assume "acyclic (set ds)"
  then have wf: "wf (set ds)" by (simp add: finite_acyclic_wf)
  have "set ids \<subseteq> set vs"
  proof (rule ccontr)
    assume "\<not> set ids \<subseteq> set vs"
    then obtain x where "x \<in> set ids - set vs" by auto
    from wfE_min [OF wf this] obtain z where z: "z \<in> set ids - set vs"
      and min: "\<And>y. (y, z) \<in> set ds \<Longrightarrow> y \<notin> set ids - set vs" by blast
    from min ds have "indegree ds (set vs) z = 0" by (fastforce simp: indegree_0_iff)
    with inv z show False by (auto simp: kahn_inv_def)
  qed
  with inv have "set vs = set ids" by (auto simp: kahn_inv_def)
  with inv dist show "length vs = length ids"
    by (metis append_Nil2 distinct_card kahn_inv_def)
qed

section \<open>What \<open>validate_dag\<close> decides\<close>

definition unknown_endpoint :: "string list \<Rightarrow> string \<times> string \<Rightarrow> bool" where
  "unknown_endpoint ids d \<longleftrightarrow> fst d \<notin> set ids \<or> snd d \<notin> set ids"

definition self_dependency :: "string \<times> string \<Rightarrow> bool" where
  "self_dependency d \<longleftrightarrow> fst d = snd d"

lemma check_dependencies:
  "for_each (check_dependency ids) ds () =
     (case find (\<lambda>d. unknown_endpoint ids d \<or> self_dependency d) ds of
        None \<Rightarrow> Inr ()
      | Some d \<Rightarrow> Inl (ValueError
          (if unknown_endpoint ids d then ''Dependency references an unknown subtask''
           else ''Subtask cannot depend on itself'')))"
  by (induction ds)
    (auto simp: check_dependency_def unknown_endpoint_def self_dependency_def Let_def)

lemma kahn_inv_init:
  assumes dist: "distinct ids" and ds: "set ds \<subseteq> set ids \<times> set ids"
    and m: "map fst m = ids" "\<forall>s. map_of m s =
      map_option (\<lambda>n. n + int (indegree ds {} s)) (map_of (map (\<lambda>i. (i, 0)) ids) s)"
  shows "kahn_inv ids ds [] (map fst (filter (\<lambda>kv. snd kv = 0) m)) m"
proof -
  have keys: "fst ` set m = set ids" using m(1) by (simp flip: list.set_map)
  have get: "map_of m s = Some (int (indegree ds {} s))" if "s \<in> set ids" for s
    using m(2) that by (simp add: map_of_map_restrict)
  have dm: "distinct (map fst m)" using dist m(1) by simp
  have zero: "s \<in> set (map fst (filter (\<lambda>kv. snd kv = 0) m)) \<longleftrightarrow> indegree ds {} s = 0"
    if s: "s \<in> set ids" for s
  proof -
    have "s \<in> set (map fst (filter (\<lambda>kv. snd kv = 0) m)) \<longleftrightarrow> map_of m s = Some 0"
      using dm by (force simp: map_of_eq_Some_iff)
    with get [OF s] show ?thesis by simp
  qed
  have "distinct (map fst (filter (\<lambda>kv. snd kv = 0) m))"
    using dm by (rule distinct_map_filter)
  moreover have "set (map fst (filter (\<lambda>kv. snd kv = 0) m)) \<subseteq> set ids"
    using keys by auto
  ultimately show ?thesis
    using keys get zero by (simp add: kahn_inv_def)
qed

lemma traversal_decides_acyclic:
  assumes dist: "distinct ids" and ds: "set ds \<subseteq> set ids \<times> set ids"
  shows "\<exists>g m n. for_each add_edge ds ([], map (\<lambda>i. (i, 0)) ids) = Inr (g, m) \<and>
           kahn g m (map fst (filter (\<lambda>kv. snd kv = 0) m)) 0 = Inr n \<and>
           (n = length ids \<longleftrightarrow> acyclic (set ds))"
proof -
  let ?m0 = "map (\<lambda>i. (i, 0 :: int)) ids"
  have "\<forall>d \<in> set ds. snd d \<in> fst ` set ?m0" using ds by (force simp: image_image)
  from add_edges [OF this, of "[]"] obtain g m where b:
    "for_each add_edge ds ([], ?m0) = Inr (g, m)"
    "\<forall>p. graph_get g p = graph_get [] p @ successors_in ds p" "map fst m = map fst ?m0"
    "\<forall>s. map_of m s = map_option (\<lambda>n. n + int (indegree ds {} s)) (map_of ?m0 s)"
    by blast
  have g: "\<forall>p. graph_get g p = successors_in ds p" using b(2) by (simp add: graph_get_def)
  have inv: "kahn_inv ids ds [] (map fst (filter (\<lambda>kv. snd kv = 0) m)) m"
    using kahn_inv_init [OF dist ds _ b(4)] b(3) by (simp add: comp_def)
  have snds: "\<forall>d \<in> set ds. snd d \<in> set ids" using ds by auto
  from kahn_result [OF inv snds g] obtain ws m' where k:
    "kahn g m (map fst (filter (\<lambda>kv. snd kv = 0) m)) 0 = Inr (length ws)"
    "kahn_inv ids ds ws [] m'" by auto
  have "\<forall>d \<in> set ds. fst d \<in> set ids \<and> snd d \<in> set ids" using ds by auto
  from kahn_complete [OF k(2) dist this] b(1) k(1) show ?thesis by blast
qed

lemma not_found_iff:
  "find (\<lambda>d. unknown_endpoint ids d \<or> self_dependency d) ds = None \<longleftrightarrow>
     set ds \<subseteq> set ids \<times> set ids \<and> (\<forall>d \<in> set ds. fst d \<noteq> snd d)"
  by (auto simp: find_None_iff unknown_endpoint_def self_dependency_def)

lemma distinct_remdups_iff: "length xs = length (remdups xs) \<longleftrightarrow> distinct xs"
  using length_remdups_eq [of xs] remdups_id_iff_distinct [of xs] by (simp add: eq_commute)

lemma validate_dag_eq:
  "validate_dag ids ds =
     (if ids = [] then Inl (ValueError ''DAG must contain at least one subtask'')
      else if \<not> distinct ids then Inl (ValueError ''Subtask IDs must be unique'')
      else case find (\<lambda>d. unknown_endpoint ids d \<or> self_dependency d) ds of
          Some d \<Rightarrow> Inl (ValueError
            (if unknown_endpoint ids d then ''Dependency references an unknown subtask''
             else ''Subtask cannot depend on itself''))
        | None \<Rightarrow>
            if acyclic (set ds) then Inr () else Inl (ValueError ''DAG contains a cycle''))"
proof (cases "ids \<noteq> [] \<and> distinct ids \<and>
    find (\<lambda>d. unknown_endpoint ids d \<or> self_dependency d) ds = None")
  case True
  then have dist: "distinct ids" and ds: "set ds \<subseteq> set ids \<times> set ids"
    by (simp_all add: not_found_iff)
  from traversal_decides_acyclic [OF dist ds] True show ?thesis
    by (auto simp: validate_dag_def distinct_remdups_iff check_dependencies)
next
  case False
  then show ?thesis
    by (auto simp: validate_dag_def distinct_remdups_iff check_dependencies split: option.splits)
qed

text \<open>The same as a decision: exactly the non-empty acyclic graphs over distinct nodes.\<close>

lemma validate_dag_accepts:
  "validate_dag ids ds = Inr () \<longleftrightarrow>
     ids \<noteq> [] \<and> distinct ids \<and> set ds \<subseteq> set ids \<times> set ids \<and> acyclic (set ds)"
proof -
  have "acyclic (set ds) \<Longrightarrow> \<forall>d \<in> set ds. fst d \<noteq> snd d"
    by (metis acyclic_def prod.collapse r_into_trancl')
  then show ?thesis
    using not_found_iff [of ids ds]
    by (cases "find (\<lambda>d. unknown_endpoint ids d \<or> self_dependency d) ds")
      (auto simp: validate_dag_eq)
qed

text \<open>
  C19: the complete behaviour of \<open>validate_dag\<close>: an empty list of subtasks, repeated
  identifiers, the first dependency with an unknown endpoint or equal endpoints, and a
  cyclic graph are each rejected with their own \<open>ValueError\<close>, checked in this order; every
  other input, repeated dependencies included, is accepted. No other exception is possible.
\<close>

theorem validate_dag_spec:
  "validate_dag ids ds =
     (if ids = [] then Inl (ValueError ''DAG must contain at least one subtask'')
      else if \<not> distinct ids then Inl (ValueError ''Subtask IDs must be unique'')
      else case find (\<lambda>d. unknown_endpoint ids d \<or> self_dependency d) ds of
          Some d \<Rightarrow> Inl (ValueError
            (if unknown_endpoint ids d then ''Dependency references an unknown subtask''
             else ''Subtask cannot depend on itself''))
        | None \<Rightarrow>
            if acyclic (set ds) then Inr () else Inl (ValueError ''DAG contains a cycle''))"
  by (rule validate_dag_eq)

end
