(* ===== verification/Py_Float.thy ===== *)
theory Py_Float
  imports Prelude Complex_Main "HOL-Library.Log_Nat"
begin

text \<open>
  Python's \<open>float\<close>: IEEE 754 binary64 with round-to-nearest-even, infinities and NaN
  (the sign of zero is not kept; nothing in the modelled code observes it). Finite
  values are rationals, so every operation is the exact rational one followed by
  \<open>fl\<close>, the rounding to a double, and everything evaluates. The operations that
  raise in Python (division by zero, conversion of a huge \<open>int\<close>, rounding of a
  non-finite value) return the exception.
\<close>

section \<open>Rounding to the nearest double\<close>

datatype pyfloat = Fin rat | PosInf | NegInf | NaN

definition round_half_even :: "rat \<Rightarrow> int" where
  "round_half_even x =
     (let f = \<lfloor>x\<rfloor>; r = x - of_int f in
      if r < 1 / 2 then f else if 1 / 2 < r then f + 1 else if even f then f else f + 1)"

text \<open>The exponent \<open>k\<close> with \<open>2 powi k \<le> x < 2 powi (k + 1)\<close>, for positive \<open>x\<close>.\<close>

definition binade :: "rat \<Rightarrow> int" where
  "binade x =
     (let nd = quotient_of x; k = bitlen (fst nd) - bitlen (snd nd) in
      if 2 powi k \<le> x then k else k - 1)"

text \<open>The exponent of the last place: 53 significant bits, but never below \<open>2 powi -1074\<close>.\<close>

definition last_place :: "rat \<Rightarrow> int" where
  "last_place x = max (binade \<bar>x\<bar> - 52) (- 1074)"

definition round_double :: "rat \<Rightarrow> rat" where
  "round_double x =
     (if x = 0 then 0
      else of_int (round_half_even (x / 2 powi last_place x)) * 2 powi last_place x)"

definition fl :: "rat \<Rightarrow> pyfloat" where
  "fl x =
     (let y = round_double x in
      if 2 powi 1024 \<le> \<bar>y\<bar> then (if 0 < y then PosInf else NegInf) else Fin y)"

section \<open>Arithmetic and comparison\<close>

fun f_neg :: "pyfloat \<Rightarrow> pyfloat" where
  "f_neg (Fin x) = Fin (- x)"
| "f_neg PosInf = NegInf"
| "f_neg NegInf = PosInf"
| "f_neg NaN = NaN"

fun f_add :: "pyfloat \<Rightarrow> pyfloat \<Rightarrow> pyfloat" where
  "f_add NaN _ = NaN"
| "f_add _ NaN = NaN"
| "f_add (Fin x) (Fin y) = fl (x + y)"
| "f_add (Fin _) b = b"
| "f_add a (Fin _) = a"
| "f_add PosInf PosInf = PosInf"
| "f_add NegInf NegInf = NegInf"
| "f_add _ _ = NaN"

definition f_sub :: "pyfloat \<Rightarrow> pyfloat \<Rightarrow> pyfloat" where
  "f_sub a b = f_add a (f_neg b)"

definition inf_times :: "rat \<Rightarrow> pyfloat \<Rightarrow> pyfloat" where
  "inf_times x i = (if x = 0 then NaN else if 0 < x then i else f_neg i)"

fun f_mul :: "pyfloat \<Rightarrow> pyfloat \<Rightarrow> pyfloat" where
  "f_mul NaN _ = NaN"
| "f_mul _ NaN = NaN"
| "f_mul (Fin x) (Fin y) = fl (x * y)"
| "f_mul (Fin x) b = inf_times x b"
| "f_mul a (Fin y) = inf_times y a"
| "f_mul a b = (if a = b then PosInf else NegInf)"

text \<open>\<open>a / b\<close> on floats; dividing by zero raises, whatever the dividend.\<close>

fun f_div :: "pyfloat \<Rightarrow> pyfloat \<Rightarrow> pyfloat result" where
  "f_div a (Fin y) =
     (if y = 0 then Inl ZeroDivisionError
      else case a of
          Fin x \<Rightarrow> Inr (fl (x / y))
        | NaN \<Rightarrow> Inr NaN
        | _ \<Rightarrow> Inr (inf_times y a))"
| "f_div NaN _ = Inr NaN"
| "f_div _ NaN = Inr NaN"
| "f_div (Fin _) _ = Inr (Fin 0)"
| "f_div _ _ = Inr NaN"

fun f_less :: "pyfloat \<Rightarrow> pyfloat \<Rightarrow> bool" where
  "f_less (Fin x) (Fin y) = (x < y)"
| "f_less NaN _ = False"
| "f_less _ NaN = False"
| "f_less NegInf b = (b \<noteq> NegInf)"
| "f_less a PosInf = (a \<noteq> PosInf)"
| "f_less _ _ = False"

definition f_eq :: "pyfloat \<Rightarrow> pyfloat \<Rightarrow> bool" where
  "f_eq a b \<longleftrightarrow> a = b \<and> a \<noteq> NaN"

definition f_le :: "pyfloat \<Rightarrow> pyfloat \<Rightarrow> bool" where
  "f_le a b \<longleftrightarrow> f_less a b \<or> f_eq a b"

text \<open>\<open>max(a, b)\<close> and \<open>min(a, b)\<close> keep the first argument unless the second beats it.\<close>

definition py_max :: "pyfloat \<Rightarrow> pyfloat \<Rightarrow> pyfloat" where
  "py_max a b = (if f_less a b then b else a)"

definition py_min :: "pyfloat \<Rightarrow> pyfloat \<Rightarrow> pyfloat" where
  "py_min a b = (if f_less b a then b else a)"

primrec isfinite :: "pyfloat \<Rightarrow> bool" where
  "isfinite (Fin _) = True"
| "isfinite PosInf = False"
| "isfinite NegInf = False"
| "isfinite NaN = False"

section \<open>Conversions\<close>

text \<open>A decimal literal of the source is the double nearest to it.\<close>

definition lit :: "rat \<Rightarrow> pyfloat" where
  "lit = fl"

text \<open>\<open>float(n)\<close> for an \<open>int\<close>, and the implicit conversion of mixed arithmetic.\<close>

definition float_of_int :: "int \<Rightarrow> pyfloat result" where
  "float_of_int n = (case fl (of_int n) of Fin x \<Rightarrow> Inr (Fin x) | _ \<Rightarrow> Inl OverflowError)"

text \<open>\<open>a / b\<close> on \<open>int\<close>s is correctly rounded from the exact quotient.\<close>

definition int_true_div :: "int \<Rightarrow> int \<Rightarrow> pyfloat result" where
  "int_true_div a b =
     (if b = 0 then Inl ZeroDivisionError
      else case fl (of_int a / of_int b) of Fin x \<Rightarrow> Inr (Fin x) | _ \<Rightarrow> Inl OverflowError)"

text \<open>\<open>round(x)\<close>: the nearest integer, halves to even.\<close>

fun py_round :: "pyfloat \<Rightarrow> int result" where
  "py_round (Fin x) = Inr (round_half_even x)"
| "py_round NaN = Inl (ValueError ''cannot convert float NaN to integer'')"
| "py_round _ = Inl OverflowError"

text \<open>
  \<open>round(x, 4)\<close>: the decimal with four places nearest to the exact value of \<open>x\<close>
  (halves to even), converted back to a double.
\<close>

fun py_round4 :: "pyfloat \<Rightarrow> pyfloat" where
  "py_round4 (Fin x) = fl (of_int (round_half_even (x * 10000)) / 10000)"
| "py_round4 x = x"

text \<open>\<open>int(x)\<close> truncates toward zero.\<close>

fun int_of_float :: "pyfloat \<Rightarrow> int result" where
  "int_of_float (Fin x) = Inr (if 0 \<le> x then \<lfloor>x\<rfloor> else \<lceil>x\<rceil>)"
| "int_of_float NaN = Inl (ValueError ''cannot convert float NaN to integer'')"
| "int_of_float _ = Inl OverflowError"

text \<open>A value of type \<open>int | float\<close>.\<close>

datatype pynum = PInt int | PFloat pyfloat

text \<open>Mixed operands are converted to \<open>float\<close> first.\<close>

primrec to_float :: "pynum \<Rightarrow> pyfloat result" where
  "to_float (PInt n) = float_of_int n"
| "to_float (PFloat x) = Inr x"

fun num_add :: "pynum \<Rightarrow> pynum \<Rightarrow> pynum result" where
  "num_add (PInt a) (PInt b) = Inr (PInt (a + b))"
| "num_add a b =
     and_then (to_float a) (\<lambda>x. and_then (to_float b) (\<lambda>y. Inr (PFloat (f_add x y))))"

fun num_div_int :: "pynum \<Rightarrow> int \<Rightarrow> pyfloat result" where
  "num_div_int (PInt a) b = int_true_div a b"
| "num_div_int (PFloat x) b = and_then (float_of_int b) (f_div x)"

primrec num_int :: "pynum \<Rightarrow> int result" where
  "num_int (PInt n) = Inr n"
| "num_int (PFloat x) = int_of_float x"

section \<open>Rounding is monotone and keeps signs\<close>

lemma round_half_even_bounds: "\<lfloor>x\<rfloor> \<le> round_half_even x \<and> round_half_even x \<le> \<lfloor>x\<rfloor> + 1"
  by (simp add: round_half_even_def Let_def)

lemma round_half_even_of_int [simp]: "round_half_even (of_int n) = n"
  by (simp add: round_half_even_def)

lemma round_half_even_0 [simp]: "round_half_even 0 = 0"
  using round_half_even_of_int [of 0] by simp

lemma round_half_even_mono: "x \<le> y \<Longrightarrow> round_half_even x \<le> round_half_even y"
proof -
  assume le: "x \<le> y"
  then have fl: "\<lfloor>x\<rfloor> \<le> \<lfloor>y\<rfloor>" by (rule floor_mono)
  show ?thesis
  proof (cases "\<lfloor>x\<rfloor> = \<lfloor>y\<rfloor>")
    case True
    with le show ?thesis by (simp add: round_half_even_def Let_def)
  next
    case False
    with fl round_half_even_bounds [of x] round_half_even_bounds [of y] show ?thesis by linarith
  qed
qed

lemma round_half_even_nonneg: "0 \<le> x \<Longrightarrow> 0 \<le> round_half_even x"
  using round_half_even_mono [of 0 x] by simp

lemma round_half_even_error: "\<bar>of_int (round_half_even x) - x\<bar> \<le> 1 / 2"
proof -
  have "of_int \<lfloor>x\<rfloor> \<le> x" "x < of_int \<lfloor>x\<rfloor> + 1"
    by linarith+
  then show ?thesis
    unfolding round_half_even_def Let_def abs_le_iff by (auto; linarith)
qed

lemma pow2_le_iff [simp]: "(2 :: rat) powi a \<le> 2 powi b \<longleftrightarrow> a \<le> b"
  using power_int_increasing [of a b "2 :: rat"] power_int_strict_increasing [of b a "2 :: rat"]
  by (meson linorder_not_le one_less_numeral_iff order_less_imp_le semiring_norm(76))

lemma pow2_less_iff [simp]: "(2 :: rat) powi a < 2 powi b \<longleftrightarrow> a < b"
  by (simp add: less_le_not_le)

lemma pow2_of_nat: "0 \<le> i \<Longrightarrow> (2 :: rat) powi i = of_int (2 ^ nat i)"
  by (simp add: power_int_def)

lemma binade_bounds:
  assumes "0 < x"
  shows "2 powi binade x \<le> x" and "x < 2 powi (binade x + 1)"
proof -
  obtain n d where nd: "quotient_of x = (n, d)" by fastforce
  have d: "0 < d" by (rule quotient_of_denom_pos [OF nd])
  have x: "x = of_int n / of_int d" by (rule quotient_of_div [OF nd])
  with assms d have n: "0 < n" by (simp add: zero_less_divide_iff)
  have len: "1 \<le> bitlen k" if "0 < k" for k
    using that by (metis bitlen_nonneg bitlen_eq_zero_iff int_one_le_iff_zero_less not_less order_le_less)
  have lo: "(2 :: rat) powi (bitlen k - 1) \<le> of_int k" if "0 < k" for k
    using bitlen_bounds [OF that] len [OF that] pow2_of_nat [of "bitlen k - 1"]
    by (metis diff_ge_0_iff_ge of_int_le_iff)
  have hi: "of_int k < (2 :: rat) powi bitlen k" if "0 < k" for k
    using bitlen_bounds [OF that] pow2_of_nat [OF bitlen_nonneg, of k]
    by (metis of_int_less_iff)
  let ?k = "bitlen n - bitlen d"
  have "x < 2 powi bitlen n / 2 powi (bitlen d - 1)"
    unfolding x using hi [OF n] lo [OF d] n d by (intro frac_less) auto
  also have "\<dots> = 2 powi (?k + 1)"
    by (simp add: power_int_diff [symmetric] algebra_simps)
  finally have up: "x < 2 powi (?k + 1)" .
  have "2 powi (?k - 1) = (2 :: rat) powi (bitlen n - 1) / 2 powi bitlen d"
    by (simp add: power_int_diff [symmetric] algebra_simps)
  also have "\<dots> \<le> x"
    unfolding x using lo [OF n] hi [OF d] n d by (intro frac_le) auto
  finally have low: "2 powi (?k - 1) \<le> x" .
  from nd have b: "binade x = (if 2 powi ?k \<le> x then ?k else ?k - 1)"
    by (simp add: binade_def Let_def)
  show "2 powi binade x \<le> x" using b low by simp
  show "x < 2 powi (binade x + 1)" using b up by auto
qed

lemma binade_eqI:
  assumes "2 powi k \<le> x" and "x < 2 powi (k + 1)"
  shows "binade x = k"
proof -
  have pos: "0 < x" using assms(1) by (rule less_le_trans [rotated]) simp
  have "(2 :: rat) powi k < 2 powi (binade x + 1)" and "(2 :: rat) powi binade x < 2 powi (k + 1)"
    using assms binade_bounds [OF pos] by linarith+
  then have "k < binade x + 1" and "binade x < k + 1"
    by simp_all
  then show ?thesis by simp
qed

lemma binade_mono: "0 < x \<Longrightarrow> x \<le> y \<Longrightarrow> binade x \<le> binade y"
proof -
  assume "0 < x" "x \<le> y"
  then have "(2 :: rat) powi binade x < 2 powi (binade y + 1)"
    using binade_bounds [of x] binade_bounds [of y] by linarith
  then show ?thesis by simp
qed

text \<open>
  Rounding is monotone: within a binade because rounding to an integer is, across
  binades because the powers of two between them are doubles.
\<close>

lemma round_at_pow2:
  assumes "e \<le> k"
  shows "round_half_even (2 powi k / 2 powi e) = 2 ^ nat (k - e)"
proof -
  have "(2 :: rat) powi k / 2 powi e = of_int (2 ^ nat (k - e))"
    using assms by (simp add: power_int_diff [symmetric] pow2_of_nat)
  then show ?thesis by (simp only: round_half_even_of_int)
qed

lemma round_below_pow2:
  assumes "0 < x" and "x \<le> 2 powi k" and "e \<le> k"
  shows "of_int (round_half_even (x / 2 powi e)) * 2 powi e \<le> (2 :: rat) powi k"
proof -
  have "round_half_even (x / 2 powi e) \<le> 2 ^ nat (k - e)"
    using round_half_even_mono [of "x / 2 powi e" "2 powi k / 2 powi e"] assms
    by (simp add: round_at_pow2 divide_right_mono)
  then have "of_int (round_half_even (x / 2 powi e)) \<le> (2 :: rat) powi (k - e)"
    using assms(3) by (simp only: pow2_of_nat diff_ge_0_iff_ge of_int_le_iff)
  then show ?thesis by (simp add: power_int_diff field_simps)
qed

lemma round_above_pow2:
  assumes "2 powi k \<le> x" and "e \<le> k"
  shows "(2 :: rat) powi k \<le> of_int (round_half_even (x / 2 powi e)) * 2 powi e"
proof -
  have "2 ^ nat (k - e) \<le> round_half_even (x / 2 powi e)"
    using round_half_even_mono [of "2 powi k / 2 powi e" "x / 2 powi e"] assms
    by (simp add: round_at_pow2 divide_right_mono)
  then have "(2 :: rat) powi (k - e) \<le> of_int (round_half_even (x / 2 powi e))"
    using assms(2) by (simp only: pow2_of_nat diff_ge_0_iff_ge of_int_le_iff)
  then show ?thesis by (simp add: power_int_diff field_simps)
qed

lemma round_double_mono_pos:
  assumes "0 < x" and "x \<le> y"
  shows "round_double x \<le> round_double y"
proof -
  let ?ex = "last_place x" and ?ey = "last_place y"
  have y: "0 < y" using assms by linarith
  have b: "binade x \<le> binade y" by (rule binade_mono [OF assms])
  then have e: "?ex \<le> ?ey" using assms y by (simp add: last_place_def)
  show ?thesis
  proof (cases "?ex = ?ey")
    case True
    have "round_half_even (x / 2 powi ?ex) \<le> round_half_even (y / 2 powi ?ex)"
      using assms(2) by (intro round_half_even_mono divide_right_mono) auto
    with True assms(1) y show ?thesis
      by (simp add: round_double_def)
  next
    case False
    with e assms y have ey: "?ey = binade y - 52" and lt: "?ex < binade y"
      "binade x + 1 \<le> binade y"
      by (auto simp: last_place_def)
    have "x \<le> 2 powi binade y"
      using binade_bounds(2) [OF assms(1)] lt(2) pow2_le_iff [of "binade x + 1" "binade y"]
      by linarith
    then have "round_double x \<le> 2 powi binade y"
      using round_below_pow2 [of x "binade y" ?ex] assms(1) lt(1)
      by (simp add: round_double_def)
    also have "2 powi binade y \<le> round_double y"
      using round_above_pow2 [OF binade_bounds(1) [OF y], of ?ey] y ey
      by (simp add: round_double_def)
    finally show ?thesis .
  qed
qed

lemma round_double_nonneg: "0 \<le> x \<Longrightarrow> 0 \<le> round_double x"
  by (simp add: round_double_def round_half_even_nonneg)

lemma round_double_mono: "0 \<le> x \<Longrightarrow> x \<le> y \<Longrightarrow> round_double x \<le> round_double y"
  using round_double_mono_pos [of x y] round_double_nonneg [of y]
  by (cases "x = 0") (auto simp: round_double_def [of 0])

text \<open>Doubles are fixed points.\<close>

lemma round_double_exact:
  assumes x: "x = of_int m * 2 powi e" and pos: "0 < x" and le: "last_place x \<le> e"
  shows "round_double x = x"
proof -
  let ?l = "last_place x"
  have "of_int (2 ^ nat (e - ?l)) = (2 :: rat) powi e / 2 powi ?l"
    using le by (simp add: power_int_diff [symmetric] pow2_of_nat)
  then have q: "x / 2 powi ?l = of_int (m * 2 ^ nat (e - ?l))"
    using x by simp
  then have "round_half_even (x / 2 powi ?l) = m * 2 ^ nat (e - ?l)"
    by (simp only: round_half_even_of_int)
  moreover have "of_int (m * 2 ^ nat (e - ?l)) * 2 powi ?l = x"
    using q by (simp add: field_simps)
  ultimately show ?thesis using pos by (simp add: round_double_def)
qed

lemma round_double_less_pow2:
  assumes "0 < x" and "x < 2 powi k" and "- 1074 \<le> k"
  shows "round_double x \<le> 2 powi k"
proof -
  have "2 powi binade x < (2 :: rat) powi k"
    using binade_bounds(1) [OF assms(1)] assms(2) by (rule le_less_trans)
  then have "last_place x \<le> k" using assms by (simp add: last_place_def)
  from round_below_pow2 [OF assms(1) less_imp_le [OF assms(2)] this] assms(1)
  show ?thesis by (simp add: round_double_def)
qed

lemma fl_0 [simp]: "fl 0 = Fin 0"
  by (simp add: fl_def round_double_def)

text \<open>An integer that fits in 53 bits is a double.\<close>

lemma fl_of_nat:
  assumes "n \<le> 2 ^ 53"
  shows "fl (of_nat n) = Fin (of_nat n)"
proof (cases "n = 0")
  case False
  let ?x = "of_nat n :: rat"
  have "?x \<le> of_nat (2 ^ 53)" using assms by (simp only: of_nat_le_iff)
  then have le: "?x \<le> 2 powi 53" by simp
  have "(2 :: rat) powi binade ?x \<le> 2 powi 53"
    using binade_bounds(1) [of ?x] False le by linarith
  then have b: "binade ?x \<le> 53" by (simp only: pow2_le_iff)
  have "round_double ?x = ?x"
  proof (cases "binade ?x = 53")
    case True
    with binade_bounds(1) [of ?x] False le have x: "?x = 2 powi 53" by simp
    then show ?thesis
      using round_double_exact [of ?x 1 53] True False by (simp add: last_place_def)
  next
    case neq: False
    with b False show ?thesis
      using round_double_exact [of ?x "int n" 0] by (simp add: last_place_def)
  qed
  moreover have "\<bar>?x\<bar> < 2 powi 1024"
  proof -
    have "(2 :: rat) powi 53 < 2 powi 1024" by (simp only: pow2_less_iff)
    with le show ?thesis by simp
  qed
  ultimately show ?thesis by (simp add: fl_def Let_def)
qed simp

lemma fl_numeral: "numeral w \<le> (2 ^ 53 :: nat) \<Longrightarrow> fl (numeral w) = Fin (numeral w)"
  using fl_of_nat [of "numeral w"] by simp

lemma fl_one [simp]: "fl 1 = Fin 1"
  using fl_of_nat [of 1] by simp

text \<open>A normal value in a known binade: what witnesses evaluate with.\<close>

lemma fl_eval:
  assumes "2 powi k \<le> x" and "x < 2 powi (k + 1)" and "- 1022 \<le> k" and "k \<le> 1022"
    and "round_half_even (x / 2 powi (k - 52)) = m"
  shows "fl x = Fin (of_int m * 2 powi (k - 52))"
proof -
  have pos: "0 < x" using assms(1) by (rule less_le_trans [rotated]) simp
  have l: "last_place x = k - 52"
    using binade_eqI [OF assms(1,2)] pos assms(3) by (simp add: last_place_def)
  have r: "round_double x = of_int m * 2 powi (k - 52)"
    using pos assms(5) by (simp add: round_double_def l)
  have "round_double x \<le> 2 powi (k + 1)"
    using round_double_less_pow2 [OF pos assms(2)] assms(3) by simp
  moreover have "(2 :: rat) powi (k + 1) < 2 powi 1024"
    using assms(4) by (simp only: pow2_less_iff)
  ultimately have "\<bar>round_double x\<bar> < 2 powi 1024"
    using round_double_nonneg [of x] pos by linarith
  then show ?thesis by (simp add: fl_def Let_def r)
qed

text \<open>Monotonicity and finiteness of the rounding of non-negative values.\<close>

lemma fl_mono:
  assumes "0 \<le> x" and "x \<le> y" and "fl y = Fin v"
  shows "\<exists>u. fl x = Fin u \<and> 0 \<le> u \<and> u \<le> v"
proof -
  have v: "v = round_double y" "\<bar>round_double y\<bar> < 2 powi 1024"
    using assms(3) by (auto simp: fl_def Let_def split: if_splits)
  have "round_double x \<le> round_double y" "0 \<le> round_double x"
    using assms by (auto intro: round_double_mono round_double_nonneg)
  with v show ?thesis by (simp add: fl_def Let_def)
qed

lemma round_double_pow2:
  assumes "- 1022 \<le> k"
  shows "round_double (2 powi k) = 2 powi k"
proof (rule round_double_exact)
  have "binade (2 powi k) = k" by (rule binade_eqI) simp_all
  then show "last_place (2 powi k) \<le> k" using assms by (simp add: last_place_def)
qed simp_all

lemma round_double_le_pow2:
  assumes "0 \<le> x" and "x \<le> 2 powi k" and "- 1022 \<le> k"
  shows "round_double x \<le> 2 powi k"
  using round_double_mono [OF assms(1,2)] round_double_pow2 [OF assms(3)] by simp

lemma round_double_ge_pow2:
  assumes "2 powi k \<le> x" and "- 1022 \<le> k"
  shows "2 powi k \<le> round_double x"
  using round_double_mono [of "2 powi k" x] round_double_pow2 [OF assms(2)] assms(1) by simp

lemma fl_finite:
  assumes "0 \<le> x" and "x \<le> 2 powi k" and "- 1022 \<le> k" and "k < 1024"
  shows "fl x = Fin (round_double x)"
proof -
  have "(2 :: rat) powi k < 2 powi 1024" using assms(4) by (simp only: pow2_less_iff)
  with round_double_le_pow2 [OF assms(1-3)] round_double_nonneg [OF assms(1)]
  have "\<bar>round_double x\<bar> < 2 powi 1024" by linarith
  then show ?thesis by (simp add: fl_def Let_def)
qed

end
