(* ===== verification/Models.thy ===== *)
theory Models
  imports Enums Py_Float
begin

text \<open>
  The database of the application: one record type per mapped class of
  \<open>app/db/models\<close>, the tables as lists of rows in insertion order, and the
  constraints that the migrations (\<open>alembic/versions\<close>) declare on them.
  \<open>db_flush\<close> is the point where the database checks them: a violated constraint is
  an \<open>IntegrityError\<close>. The \<open>updated_at\<close> columns, which the database maintains by
  itself, are left out. A \<open>Numeric(p, s)\<close> column keeps what the database makes of a
  float, which is a parameter (\<open>numeric\<close>); the ranges of \<open>Integer\<close> and \<open>String\<close> columns are
  checked when a row is stored from a request.
\<close>

section \<open>Values\<close>

text \<open>JSON documents, as the \<open>metadata\<close> and \<open>options\<close> columns and requests hold them.\<close>

datatype json =
    JNull
  | JBool bool
  | JInt int
  | JFloat pyfloat
  | JStr string
  | JList "json list"
  | JObj "(string \<times> json) list"

type_synonym json_object = "(string \<times> json) list"

section \<open>Rows\<close>

record dag_task =
  dt_id :: uuid
  dt_name :: string
  dt_status :: TaskStatus
  dt_priority :: int
  dt_deadline_at :: "datetime option"
  dt_submitted_by :: "string option"
  dt_failure_reason :: "string option"
  dt_metadata :: json_object
  dt_created_at :: datetime
  dt_scheduled_at :: "datetime option"
  dt_started_at :: "datetime option"
  dt_finished_at :: "datetime option"

record dag_subtask =
  ds_id :: uuid
  ds_task_id :: uuid
  ds_external_id :: string
  ds_name :: string
  ds_status :: SubtaskStatus
  ds_execution_constraint :: SubtaskExecutionConstraint
  ds_compute_load :: pyfloat
  ds_input_data_size_mb :: pyfloat
  ds_output_data_size_mb :: pyfloat
  ds_max_retries :: int
  ds_retry_count :: int
  ds_failure_reason :: "string option"
  ds_metadata :: json_object
  ds_created_at :: datetime
  ds_started_at :: "datetime option"
  ds_finished_at :: "datetime option"

record dag_dependency =
  dd_id :: uuid
  dd_task_id :: uuid
  dd_predecessor_subtask_id :: uuid
  dd_successor_subtask_id :: uuid
  dd_created_at :: datetime

record schedule_plan =
  sp_id :: uuid
  sp_task_id :: uuid
  sp_strategy_name :: SchedulerStrategyName
  sp_status :: SchedulePlanStatus
  sp_estimated_total_duration_ms :: "int option"
  sp_estimated_total_energy :: "pyfloat option"
  sp_options :: json_object
  sp_created_at :: datetime
  sp_applied_at :: "datetime option"

record schedule_plan_item =
  pi_id :: uuid
  pi_plan_id :: uuid
  pi_subtask_id :: uuid
  pi_assigned_node_id :: uuid
  pi_estimated_compute_duration_ms :: "int option"
  pi_estimated_transfer_duration_ms :: "int option"
  pi_estimated_energy :: "pyfloat option"
  pi_decision_reason :: "string option"
  pi_created_at :: datetime

record execution_record =
  er_id :: uuid
  er_task_id :: uuid
  er_subtask_id :: uuid
  er_node_id :: uuid
  er_plan_item_id :: "uuid option"
  er_attempt :: int
  er_status :: ExecutionStatus
  er_started_at :: "datetime option"
  er_finished_at :: "datetime option"
  er_duration_ms :: "int option"
  er_output_summary :: "string option"
  er_failure_reason :: "string option"
  er_celery_task_id :: "string option"
  er_created_at :: datetime

record execution_revoke_event =
  re_id :: uuid
  re_task_id :: uuid
  re_execution_id :: uuid
  re_celery_task_id :: string
  re_success :: bool
  re_error_message :: "string option"
  re_requested_at :: datetime
  re_created_at :: datetime

record node =
  nd_id :: uuid
  nd_name :: string
  nd_node_type :: NodeType
  nd_status :: NodeStatus
  nd_cpu_capacity :: pyfloat
  nd_memory_capacity_mb :: int
  nd_network_address :: "string option"
  nd_description :: "string option"
  nd_last_heartbeat_at :: "datetime option"
  nd_created_at :: datetime

record node_status_record =
  nr_id :: uuid
  nr_node_id :: uuid
  nr_battery_level :: "pyfloat option"
  nr_cpu_usage :: pyfloat
  nr_memory_usage :: pyfloat
  nr_network_quality :: "pyfloat option"
  nr_bandwidth_mbps :: "pyfloat option"
  nr_latitude :: "pyfloat option"
  nr_longitude :: "pyfloat option"
  nr_current_load :: "int option"
  nr_queue_length :: "int option"
  nr_reported_at :: datetime
  nr_created_at :: datetime

record worker_heartbeat =
  wh_id :: uuid
  wh_worker_name :: string
  wh_hostname :: string
  wh_process_id :: "int option"
  wh_status :: WorkerStatus
  wh_current_execution_id :: "uuid option"
  wh_last_seen_at :: datetime
  wh_created_at :: datetime

record worker_alert =
  wa_id :: uuid
  wa_alert_type :: WorkerAlertType
  wa_severity :: AlertSeverity
  wa_worker_name :: "string option"
  wa_execution_id :: "uuid option"
  wa_celery_task_id :: "string option"
  wa_message :: string
  wa_details :: json_object
  wa_created_at :: datetime

section \<open>The database\<close>

text \<open>\<open>next_uuid\<close> is the identifier the next \<open>uuid4()\<close> returns.\<close>

record db =
  next_uuid :: uuid
  dag_tasks :: "dag_task list"
  dag_subtasks :: "dag_subtask list"
  dag_dependencies :: "dag_dependency list"
  schedule_plans :: "schedule_plan list"
  schedule_plan_items :: "schedule_plan_item list"
  execution_records :: "execution_record list"
  execution_revoke_events :: "execution_revoke_event list"
  nodes :: "node list"
  node_status_records :: "node_status_record list"
  worker_heartbeats :: "worker_heartbeat list"
  worker_alerts :: "worker_alert list"

definition empty_db :: db where
  "empty_db =
     \<lparr>next_uuid = 0, dag_tasks = [], dag_subtasks = [], dag_dependencies = [],
      schedule_plans = [], schedule_plan_items = [], execution_records = [],
      execution_revoke_events = [], nodes = [], node_status_records = [],
      worker_heartbeats = [], worker_alerts = []\<rparr>"

section \<open>Numeric columns\<close>

text \<open>
  What a \<open>Numeric(precision, scale)\<close> column keeps of a float: the database rounds it
  to the scale and refuses what does not fit the precision.
\<close>

type_synonym numeric = "nat \<Rightarrow> nat \<Rightarrow> pyfloat \<Rightarrow> pyfloat result"

definition opt_all :: "('a \<Rightarrow> bool) \<Rightarrow> 'a option \<Rightarrow> bool" where
  "opt_all p x = (case x of None \<Rightarrow> True | Some v \<Rightarrow> p v)"

lemma opt_all_simps [simp]: "opt_all p None" "opt_all p (Some v) \<longleftrightarrow> p v"
  by (simp_all add: opt_all_def)

section \<open>What the other columns hold\<close>

text \<open>
  An \<open>Integer\<close> column is 32 bits wide, a \<open>String(n)\<close> column holds up to \<open>n\<close> characters, no text
  holds a \<open>NUL\<close>, and a \<open>JSON\<close> column refuses the \<open>NaN\<close> and \<open>Infinity\<close> that Python writes for the
  special floats. These are checked for the values that a request supplies to a new row; counters
  and durations stay unbounded.
\<close>

definition fits_integer :: "int \<Rightarrow> bool" where
  "fits_integer n \<longleftrightarrow> - (2 ^ 31) \<le> n \<and> n < 2 ^ 31"

definition fits_text :: "string \<Rightarrow> bool" where
  "fits_text s \<longleftrightarrow> CHR 0x00 \<notin> set s"

definition fits_string :: "nat \<Rightarrow> string \<Rightarrow> bool" where
  "fits_string n s \<longleftrightarrow> py_len s \<le> n \<and> fits_text s"

fun fits_json :: "json \<Rightarrow> bool" where
  "fits_json (JFloat x) \<longleftrightarrow> (case x of Fin _ \<Rightarrow> True | _ \<Rightarrow> False)"
| "fits_json (JList xs) \<longleftrightarrow> list_all fits_json xs"
| "fits_json (JObj kvs) \<longleftrightarrow> list_all (\<lambda>kv. fits_json (snd kv)) kvs"
| "fits_json _ \<longleftrightarrow> True"

definition task_fits :: "dag_task \<Rightarrow> bool" where
  "task_fits r \<longleftrightarrow> fits_string 128 (dt_name r) \<and> fits_integer (dt_priority r) \<and>
     opt_all (fits_string 128) (dt_submitted_by r) \<and> fits_json (JObj (dt_metadata r))"

definition subtask_fits :: "dag_subtask \<Rightarrow> bool" where
  "subtask_fits r \<longleftrightarrow> fits_string 64 (ds_external_id r) \<and> fits_string 128 (ds_name r) \<and>
     fits_integer (ds_max_retries r) \<and> fits_integer (ds_retry_count r) \<and>
     fits_json (JObj (ds_metadata r))"

definition node_fits :: "node \<Rightarrow> bool" where
  "node_fits r \<longleftrightarrow> fits_string 128 (nd_name r) \<and> fits_integer (nd_memory_capacity_mb r) \<and>
     opt_all (fits_string 255) (nd_network_address r) \<and> opt_all fits_text (nd_description r)"

definition status_record_fits :: "node_status_record \<Rightarrow> bool" where
  "status_record_fits r \<longleftrightarrow> opt_all fits_integer (nr_current_load r) \<and>
     opt_all fits_integer (nr_queue_length r)"

lemmas fits_defs = fits_integer_def fits_text_def fits_string_def task_fits_def subtask_fits_def
  node_fits_def status_record_fits_def py_len_def

section \<open>Storing a row\<close>

definition store_task :: "dag_task \<Rightarrow> dag_task result" where
  "store_task r = (if task_fits r then Inr r else Inl DatabaseError)"

lemma store_task_Inr_iff [result_simps]: "store_task r = Inr r' \<longleftrightarrow> task_fits r \<and> r' = r"
  by (auto simp: store_task_def)

definition store_subtask :: "numeric \<Rightarrow> dag_subtask \<Rightarrow> dag_subtask result" where
  "store_subtask numeric r =
     (if \<not> subtask_fits r then Inl DatabaseError
      else
     and_then (numeric 12 2 (ds_compute_load r)) (\<lambda>c.
     and_then (numeric 12 2 (ds_input_data_size_mb r)) (\<lambda>i.
     and_then (numeric 12 2 (ds_output_data_size_mb r)) (\<lambda>j.
     Inr (r\<lparr>ds_compute_load := c, ds_input_data_size_mb := i,
       ds_output_data_size_mb := j\<rparr>)))))"

definition store_plan :: "numeric \<Rightarrow> schedule_plan \<Rightarrow> schedule_plan result" where
  "store_plan numeric r =
     and_then (option_result (numeric 14 4) (sp_estimated_total_energy r)) (\<lambda>e.
     Inr (r\<lparr>sp_estimated_total_energy := e\<rparr>))"

definition store_plan_item :: "numeric \<Rightarrow> schedule_plan_item \<Rightarrow> schedule_plan_item result" where
  "store_plan_item numeric r =
     and_then (option_result (numeric 14 4) (pi_estimated_energy r)) (\<lambda>e.
     Inr (r\<lparr>pi_estimated_energy := e\<rparr>))"

definition store_node :: "numeric \<Rightarrow> node \<Rightarrow> node result" where
  "store_node numeric r =
     (if \<not> node_fits r then Inl DatabaseError
      else and_then (numeric 10 2 (nd_cpu_capacity r)) (\<lambda>c. Inr (r\<lparr>nd_cpu_capacity := c\<rparr>)))"

definition store_status_record ::
  "numeric \<Rightarrow> node_status_record \<Rightarrow> node_status_record result" where
  "store_status_record numeric r =
     (if \<not> status_record_fits r then Inl DatabaseError
      else
     and_then (option_result (numeric 5 2) (nr_battery_level r)) (\<lambda>b.
     and_then (numeric 5 2 (nr_cpu_usage r)) (\<lambda>c.
     and_then (numeric 5 2 (nr_memory_usage r)) (\<lambda>m.
     and_then (option_result (numeric 5 2) (nr_network_quality r)) (\<lambda>q.
     and_then (option_result (numeric 10 2) (nr_bandwidth_mbps r)) (\<lambda>w.
     and_then (option_result (numeric 10 7) (nr_latitude r)) (\<lambda>la.
     and_then (option_result (numeric 10 7) (nr_longitude r)) (\<lambda>lo.
     Inr (r\<lparr>nr_battery_level := b, nr_cpu_usage := c, nr_memory_usage := m,
       nr_network_quality := q, nr_bandwidth_mbps := w, nr_latitude := la,
       nr_longitude := lo\<rparr>)))))))))"

section \<open>Constraints of the schema\<close>

definition f_between :: "rat \<Rightarrow> rat \<Rightarrow> pyfloat \<Rightarrow> bool" where
  "f_between lo hi x = (f_le (Fin lo) x \<and> f_le x (Fin hi))"

definition nodes_ok :: "node list \<Rightarrow> bool" where
  "nodes_ok rows \<longleftrightarrow>
     distinct (map nd_id rows) \<and> distinct (map nd_name rows) \<and>
     list_all (\<lambda>r. f_less (Fin 0) (nd_cpu_capacity r) \<and> 0 < nd_memory_capacity_mb r) rows"

definition node_status_records_ok :: "node list \<Rightarrow> node_status_record list \<Rightarrow> bool" where
  "node_status_records_ok ns rows \<longleftrightarrow>
     distinct (map nr_id rows) \<and>
     list_all (\<lambda>r. nr_node_id r \<in> set (map nd_id ns) \<and>
       f_between 0 100 (nr_cpu_usage r) \<and> f_between 0 100 (nr_memory_usage r) \<and>
       opt_all (f_between 0 100) (nr_battery_level r) \<and>
       opt_all (f_between 0 100) (nr_network_quality r) \<and>
       opt_all (f_le (Fin 0)) (nr_bandwidth_mbps r)) rows"

definition dag_tasks_ok :: "dag_task list \<Rightarrow> bool" where
  "dag_tasks_ok rows \<longleftrightarrow>
     distinct (map dt_id rows) \<and> list_all (\<lambda>r. 0 \<le> dt_priority r) rows"

definition dag_subtasks_ok :: "dag_task list \<Rightarrow> dag_subtask list \<Rightarrow> bool" where
  "dag_subtasks_ok ts rows \<longleftrightarrow>
     distinct (map ds_id rows) \<and>
     distinct (map (\<lambda>r. (ds_task_id r, ds_external_id r)) rows) \<and>
     list_all (\<lambda>r. ds_task_id r \<in> set (map dt_id ts) \<and>
       f_less (Fin 0) (ds_compute_load r) \<and>
       f_le (Fin 0) (ds_input_data_size_mb r) \<and> f_le (Fin 0) (ds_output_data_size_mb r) \<and>
       0 \<le> ds_max_retries r \<and> 0 \<le> ds_retry_count r) rows"

definition dag_dependencies_ok ::
  "dag_task list \<Rightarrow> dag_subtask list \<Rightarrow> dag_dependency list \<Rightarrow> bool" where
  "dag_dependencies_ok ts ss rows \<longleftrightarrow>
     distinct (map dd_id rows) \<and>
     distinct (map (\<lambda>r. (dd_task_id r, dd_predecessor_subtask_id r, dd_successor_subtask_id r))
       rows) \<and>
     list_all (\<lambda>r. dd_task_id r \<in> set (map dt_id ts) \<and>
       dd_predecessor_subtask_id r \<in> set (map ds_id ss) \<and>
       dd_successor_subtask_id r \<in> set (map ds_id ss) \<and>
       dd_predecessor_subtask_id r \<noteq> dd_successor_subtask_id r) rows"

definition schedule_plans_ok :: "dag_task list \<Rightarrow> schedule_plan list \<Rightarrow> bool" where
  "schedule_plans_ok ts rows \<longleftrightarrow>
     distinct (map sp_id rows) \<and>
     list_all (\<lambda>r. sp_task_id r \<in> set (map dt_id ts) \<and>
       opt_all (\<lambda>n. 0 \<le> n) (sp_estimated_total_duration_ms r) \<and>
       opt_all (f_le (Fin 0)) (sp_estimated_total_energy r)) rows"

definition schedule_plan_items_ok ::
  "schedule_plan list \<Rightarrow> dag_subtask list \<Rightarrow> node list \<Rightarrow> schedule_plan_item list \<Rightarrow> bool" where
  "schedule_plan_items_ok ps ss ns rows \<longleftrightarrow>
     distinct (map pi_id rows) \<and>
     distinct (map (\<lambda>r. (pi_plan_id r, pi_subtask_id r)) rows) \<and>
     list_all (\<lambda>r. pi_plan_id r \<in> set (map sp_id ps) \<and>
       pi_subtask_id r \<in> set (map ds_id ss) \<and> pi_assigned_node_id r \<in> set (map nd_id ns) \<and>
       opt_all (\<lambda>n. 0 \<le> n) (pi_estimated_compute_duration_ms r) \<and>
       opt_all (\<lambda>n. 0 \<le> n) (pi_estimated_transfer_duration_ms r) \<and>
       opt_all (f_le (Fin 0)) (pi_estimated_energy r)) rows"

definition execution_records_ok ::
  "dag_task list \<Rightarrow> dag_subtask list \<Rightarrow> node list \<Rightarrow> schedule_plan_item list \<Rightarrow>
   execution_record list \<Rightarrow> bool" where
  "execution_records_ok ts ss ns pis rows \<longleftrightarrow>
     distinct (map er_id rows) \<and>
     distinct (map (\<lambda>r. (er_subtask_id r, er_attempt r)) rows) \<and>
     list_all (\<lambda>r. er_task_id r \<in> set (map dt_id ts) \<and> er_subtask_id r \<in> set (map ds_id ss) \<and>
       er_node_id r \<in> set (map nd_id ns) \<and>
       opt_all (\<lambda>i. i \<in> set (map pi_id pis)) (er_plan_item_id r) \<and>
       1 \<le> er_attempt r \<and> opt_all (\<lambda>n. 0 \<le> n) (er_duration_ms r)) rows"

definition execution_revoke_events_ok ::
  "dag_task list \<Rightarrow> execution_record list \<Rightarrow> execution_revoke_event list \<Rightarrow> bool" where
  "execution_revoke_events_ok ts es rows \<longleftrightarrow>
     distinct (map re_id rows) \<and>
     list_all (\<lambda>r. re_task_id r \<in> set (map dt_id ts) \<and>
       re_execution_id r \<in> set (map er_id es)) rows"

definition worker_heartbeats_ok :: "worker_heartbeat list \<Rightarrow> bool" where
  "worker_heartbeats_ok rows \<longleftrightarrow>
     distinct (map wh_id rows) \<and> distinct (map wh_worker_name rows)"

definition worker_alerts_ok :: "worker_alert list \<Rightarrow> bool" where
  "worker_alerts_ok rows \<longleftrightarrow> distinct (map wa_id rows)"

definition schema_ok :: "db \<Rightarrow> bool" where
  "schema_ok d \<longleftrightarrow>
     nodes_ok (nodes d) \<and>
     node_status_records_ok (nodes d) (node_status_records d) \<and>
     dag_tasks_ok (dag_tasks d) \<and>
     dag_subtasks_ok (dag_tasks d) (dag_subtasks d) \<and>
     dag_dependencies_ok (dag_tasks d) (dag_subtasks d) (dag_dependencies d) \<and>
     schedule_plans_ok (dag_tasks d) (schedule_plans d) \<and>
     schedule_plan_items_ok (schedule_plans d) (dag_subtasks d) (nodes d)
       (schedule_plan_items d) \<and>
     execution_records_ok (dag_tasks d) (dag_subtasks d) (nodes d) (schedule_plan_items d)
       (execution_records d) \<and>
     execution_revoke_events_ok (dag_tasks d) (execution_records d)
       (execution_revoke_events d) \<and>
     worker_heartbeats_ok (worker_heartbeats d) \<and>
     worker_alerts_ok (worker_alerts d)"

text \<open>Sending the pending changes to the database.\<close>

definition db_flush :: "db \<Rightarrow> db result" where
  "db_flush d = (if schema_ok d then Inr d else Inl IntegrityError)"

lemmas table_ok_defs =
  nodes_ok_def node_status_records_ok_def dag_tasks_ok_def dag_subtasks_ok_def
  dag_dependencies_ok_def schedule_plans_ok_def schedule_plan_items_ok_def
  execution_records_ok_def execution_revoke_events_ok_def worker_heartbeats_ok_def
  worker_alerts_ok_def

lemma schema_ok_empty: "schema_ok empty_db"
  by (simp add: schema_ok_def table_ok_defs empty_db_def)

lemma db_flush_Inr_iff [result_simps]: "db_flush d = Inr d' \<longleftrightarrow> schema_ok d \<and> d' = d"
  by (auto simp: db_flush_def)

lemma db_flush_Inl_iff [result_simps]:
  "db_flush d = Inl e \<longleftrightarrow> \<not> schema_ok d \<and> e = IntegrityError"
  by (auto simp: db_flush_def)

lemma schema_ok_distinct:
  assumes "schema_ok d"
  shows "distinct (map dt_id (dag_tasks d))" and "distinct (map ds_id (dag_subtasks d))"
    and "distinct (map sp_id (schedule_plans d))"
    and "distinct (map pi_id (schedule_plan_items d))"
    and "distinct (map er_id (execution_records d))" and "distinct (map nd_id (nodes d))"
    and "distinct (map dd_id (dag_dependencies d))"
  using assms by (simp_all add: schema_ok_def table_ok_defs)

end
