(* ===== verification/Repositories.thy ===== *)
theory Repositories
  imports Models
begin

text \<open>
  \<open>app/repositories\<close>: the queries and inserts of the services. A \<open>SELECT\<close> is a filter
  of a table, \<open>ORDER BY\<close> a stable sort (the order of rows with equal keys is left
  open by SQL; the model takes insertion order), \<open>OFFSET/LIMIT\<close> is \<open>paginate\<close>, which
  the database refuses with an error for negative numbers. Two interfaces are stated as
  locales: \<open>row_store\<close>, what reading a table by primary key returns after an insert
  or an update, and \<open>paged_list\<close>, the contract all list queries share.
\<close>

section \<open>Queries\<close>

definition paginate :: "int \<Rightarrow> int \<Rightarrow> 'r list \<Rightarrow> 'r list result" where
  "paginate page page_size rows =
     (let offset = (page - 1) * page_size in
      if offset < 0 \<or> page_size < 0 then Inl DatabaseError
      else Inr (take (nat page_size) (drop (nat offset) rows)))"

definition order_desc :: "('r \<Rightarrow> int) \<Rightarrow> 'r list \<Rightarrow> 'r list" where
  "order_desc key = sort_key (\<lambda>r. - key r)"

definition order_asc :: "('r \<Rightarrow> int) \<Rightarrow> 'r list \<Rightarrow> 'r list" where
  "order_asc key = sort_key key"

text \<open>An optional equality condition of a query.\<close>

definition matches :: "'a option \<Rightarrow> 'a \<Rightarrow> bool" where
  "matches c v = (case c of None \<Rightarrow> True | Some w \<Rightarrow> v = w)"

section \<open>The interface of a table\<close>

locale row_store =
  fixes rows :: "'d \<Rightarrow> 'r list"
    and key :: "'r \<Rightarrow> uuid"
    and get :: "'d \<Rightarrow> uuid \<Rightarrow> 'r option"
    and upd :: "uuid \<Rightarrow> ('r \<Rightarrow> 'r) \<Rightarrow> 'd \<Rightarrow> 'd"
    and add :: "'r \<Rightarrow> 'd \<Rightarrow> 'd"
  assumes get_rows: "get d i = row_get key i (rows d)"
    and rows_upd: "rows (upd i f d) = row_upd key i f (rows d)"
    and rows_add: "rows (add r d) = rows d @ [r]"
begin

lemma get_SomeD: "get d i = Some r \<Longrightarrow> r \<in> set (rows d) \<and> key r = i"
  unfolding get_rows by (rule row_get_SomeD)

lemma get_iff:
  "distinct (map key (rows d)) \<Longrightarrow> get d i = Some r \<longleftrightarrow> r \<in> set (rows d) \<and> key r = i"
  unfolding get_rows by (rule row_get_iff)

lemma get_upd:
  "(\<And>r. key (f r) = key r) \<Longrightarrow>
     get (upd i f d) j = (if j = i then map_option f (get d j) else get d j)"
  by (simp add: get_rows rows_upd row_get_upd)

lemma keys_upd: "(\<And>r. key (f r) = key r) \<Longrightarrow> map key (rows (upd i f d)) = map key (rows d)"
  by (simp add: rows_upd row_upd_keys)

lemma mem_upd:
  "r \<in> set (rows (upd i f d)) \<longleftrightarrow> (\<exists>r0 \<in> set (rows d). r = (if key r0 = i then f r0 else r0))"
  by (simp add: rows_upd set_row_upd)

lemma get_add:
  "key r \<notin> key ` set (rows d) \<Longrightarrow> get (add r d) j = (if j = key r then Some r else get d j)"
  unfolding get_rows rows_add row_get_append
  using row_get_None_iff [of key "key r" "rows d"]
  by (auto simp: row_get_Cons split: option.split)

end

section \<open>The contract of the list queries\<close>

text \<open>
  Every list query returns one page of a selection together with the size of the whole
  selection.
\<close>

locale paged_list =
  fixes query :: "'d \<Rightarrow> int \<Rightarrow> int \<Rightarrow> ('r list \<times> int) result"
    and selection :: "'d \<Rightarrow> 'r list"
  assumes query_eq: "query d page page_size =
    and_then (paginate page page_size (selection d))
      (\<lambda>items. Inr (items, int (length (selection d))))"
begin

lemma query_page:
  "1 \<le> page \<Longrightarrow> 0 \<le> page_size \<Longrightarrow> query d page page_size =
     Inr (take (nat page_size) (drop (nat ((page - 1) * page_size)) (selection d)),
          int (length (selection d)))"
  by (simp add: query_eq paginate_def Let_def mult_less_0_iff)

lemma query_bounds:
  "query d page page_size = Inr (items, n) \<Longrightarrow>
     int (length items) \<le> page_size \<and> n = int (length (selection d)) \<and>
     set items \<subseteq> set (selection d)"
  by (auto simp: query_eq paginate_def Let_def result_simps split: if_splits
      dest: in_set_takeD in_set_dropD)

lemma pages_prefix:
  assumes "0 \<le> page_size"
  shows "concat (map (\<lambda>k. case query d (int k + 1) page_size of Inl e \<Rightarrow> [] | Inr p \<Rightarrow> fst p)
           [0..<n]) = take (n * nat page_size) (selection d)"
proof (induction n)
  case 0
  then show ?case by simp
next
  case (Suc n)
  have off: "nat (int n * page_size) = n * nat page_size"
    using assms by (simp add: nat_mult_distrib)
  have "take (Suc n * nat page_size) (selection d) =
      take (n * nat page_size) (selection d) @
      take (nat page_size) (drop (n * nat page_size) (selection d))"
    by (simp add: take_add [symmetric] add.commute)
  with Suc.IH off show ?case
    using assms by (simp add: query_page)
qed

text \<open>Reading the pages one after the other reads the whole selection, each row once.\<close>

lemma pages_cover:
  assumes "0 \<le> page_size" and "int (length (selection d)) \<le> int n * page_size"
  shows "concat (map (\<lambda>k. case query d (int k + 1) page_size of Inl e \<Rightarrow> [] | Inr p \<Rightarrow> fst p)
           [0..<n]) = selection d"
proof -
  have "nat (int n * page_size) = n * nat page_size"
    using assms(1) by (simp add: nat_mult_distrib)
  with assms(2) have "length (selection d) \<le> n * nat page_size" by linarith
  with pages_prefix [OF assms(1)] show ?thesis by simp
qed

end

section \<open>\<open>TaskRepository\<close>\<close>

text \<open>
  \<open>create\<close> stores the task together with the subtasks attached to it (the relationship
  cascades) and flushes.
\<close>

definition task_create :: "numeric \<Rightarrow> dag_task \<Rightarrow> dag_subtask list \<Rightarrow> db \<Rightarrow> db result" where
  "task_create numeric t subtasks d =
     and_then (store_task t) (\<lambda>row.
     and_then (map_result (store_subtask numeric) subtasks) (\<lambda>rows.
     db_flush (d\<lparr>dag_tasks := dag_tasks d @ [row], dag_subtasks := dag_subtasks d @ rows\<rparr>)))"

definition task_get_by_id :: "db \<Rightarrow> uuid \<Rightarrow> dag_task option" where
  "task_get_by_id d task_id = row_get dt_id task_id (dag_tasks d)"

text \<open>The relationships \<open>task.subtasks\<close> and \<open>task.dependencies\<close>.\<close>

definition task_subtasks :: "db \<Rightarrow> uuid \<Rightarrow> dag_subtask list" where
  "task_subtasks d task_id = filter (\<lambda>s. ds_task_id s = task_id) (dag_subtasks d)"

definition task_dependencies :: "db \<Rightarrow> uuid \<Rightarrow> dag_dependency list" where
  "task_dependencies d task_id = filter (\<lambda>r. dd_task_id r = task_id) (dag_dependencies d)"

definition repo_list_tasks ::
  "TaskStatus option \<Rightarrow> db \<Rightarrow> int \<Rightarrow> int \<Rightarrow> (dag_task list \<times> int) result" where
  "repo_list_tasks status d page page_size =
     (let selected = filter (\<lambda>t. matches status (dt_status t)) (dag_tasks d) in
      and_then (paginate page page_size (order_desc dt_created_at selected)) (\<lambda>items.
      Inr (items, int (length selected))))"

definition repo_list_subtasks ::
  "uuid \<Rightarrow> SubtaskStatus option \<Rightarrow> db \<Rightarrow> int \<Rightarrow> int \<Rightarrow> (dag_subtask list \<times> int) result" where
  "repo_list_subtasks task_id status d page page_size =
     (let selected = filter (\<lambda>s. ds_task_id s = task_id \<and> matches status (ds_status s))
                       (dag_subtasks d) in
      and_then (paginate page page_size (order_asc ds_created_at selected)) (\<lambda>items.
      Inr (items, int (length selected))))"

definition upd_task :: "uuid \<Rightarrow> (dag_task \<Rightarrow> dag_task) \<Rightarrow> db \<Rightarrow> db" where
  "upd_task i f d = d\<lparr>dag_tasks := row_upd dt_id i f (dag_tasks d)\<rparr>"

definition add_task :: "dag_task \<Rightarrow> db \<Rightarrow> db" where
  "add_task r d = d\<lparr>dag_tasks := dag_tasks d @ [r]\<rparr>"

definition get_subtask_row :: "db \<Rightarrow> uuid \<Rightarrow> dag_subtask option" where
  "get_subtask_row d i = row_get ds_id i (dag_subtasks d)"

definition upd_subtask :: "uuid \<Rightarrow> (dag_subtask \<Rightarrow> dag_subtask) \<Rightarrow> db \<Rightarrow> db" where
  "upd_subtask i f d = d\<lparr>dag_subtasks := row_upd ds_id i f (dag_subtasks d)\<rparr>"

definition add_subtask :: "dag_subtask \<Rightarrow> db \<Rightarrow> db" where
  "add_subtask r d = d\<lparr>dag_subtasks := dag_subtasks d @ [r]\<rparr>"

section \<open>\<open>ScheduleRepository\<close>\<close>

definition schedule_get_by_id :: "db \<Rightarrow> uuid \<Rightarrow> schedule_plan option" where
  "schedule_get_by_id d plan_id = row_get sp_id plan_id (schedule_plans d)"

text \<open>The relationship \<open>plan.items\<close>.\<close>

definition plan_items :: "db \<Rightarrow> uuid \<Rightarrow> schedule_plan_item list" where
  "plan_items d plan_id = filter (\<lambda>r. pi_plan_id r = plan_id) (schedule_plan_items d)"

definition schedule_create ::
  "numeric \<Rightarrow> schedule_plan \<Rightarrow> schedule_plan_item list \<Rightarrow> db \<Rightarrow> (schedule_plan \<times> db) result"
where
  "schedule_create numeric plan items d =
     and_then (store_plan numeric plan) (\<lambda>row.
     and_then (map_result (store_plan_item numeric) items) (\<lambda>rows.
     and_then (db_flush (d\<lparr>schedule_plans := schedule_plans d @ [row],
       schedule_plan_items := schedule_plan_items d @ rows\<rparr>)) (\<lambda>d'.
     Inr (case schedule_get_by_id d' (sp_id plan) of None \<Rightarrow> row | Some p \<Rightarrow> p, d'))))"

definition repo_list_plans ::
  "uuid \<Rightarrow> db \<Rightarrow> int \<Rightarrow> int \<Rightarrow> (schedule_plan list \<times> int) result" where
  "repo_list_plans task_id d page page_size =
     (let selected = filter (\<lambda>p. sp_task_id p = task_id) (schedule_plans d) in
      and_then (paginate page page_size (order_desc sp_created_at selected)) (\<lambda>items.
      Inr (items, int (length selected))))"

definition upd_plan :: "uuid \<Rightarrow> (schedule_plan \<Rightarrow> schedule_plan) \<Rightarrow> db \<Rightarrow> db" where
  "upd_plan i f d = d\<lparr>schedule_plans := row_upd sp_id i f (schedule_plans d)\<rparr>"

definition add_plan :: "schedule_plan \<Rightarrow> db \<Rightarrow> db" where
  "add_plan r d = d\<lparr>schedule_plans := schedule_plans d @ [r]\<rparr>"

section \<open>\<open>ExecutionRepository\<close>\<close>

definition execution_create_many :: "execution_record list \<Rightarrow> db \<Rightarrow> db result" where
  "execution_create_many records d =
     db_flush (d\<lparr>execution_records := execution_records d @ records\<rparr>)"

text \<open>
  \<open>get_by_id\<close>, \<open>get_plain_by_id\<close> and \<open>get_by_id_for_update\<close> read the same row; they
  differ in what is loaded with it and in the row lock.
\<close>

definition execution_get_by_id :: "db \<Rightarrow> uuid \<Rightarrow> execution_record option" where
  "execution_get_by_id d execution_id = row_get er_id execution_id (execution_records d)"

definition repo_list_executions ::
  "uuid \<Rightarrow> ExecutionStatus option \<Rightarrow> db \<Rightarrow> int \<Rightarrow> int \<Rightarrow> (execution_record list \<times> int) result" where
  "repo_list_executions task_id status d page page_size =
     (let selected = filter (\<lambda>r. er_task_id r = task_id \<and> matches status (er_status r))
                       (execution_records d) in
      and_then (paginate page page_size (order_desc er_created_at selected)) (\<lambda>items.
      Inr (items, int (length selected))))"

definition list_running_by_task :: "db \<Rightarrow> uuid \<Rightarrow> execution_record list" where
  "list_running_by_task d task_id =
     filter (\<lambda>r. er_task_id r = task_id \<and> er_status r = ExecutionStatus.RUNNING)
       (execution_records d)"

definition list_all_by_task :: "db \<Rightarrow> uuid \<Rightarrow> execution_record list" where
  "list_all_by_task d task_id =
     order_asc er_created_at (filter (\<lambda>r. er_task_id r = task_id) (execution_records d))"

definition upd_execution :: "uuid \<Rightarrow> (execution_record \<Rightarrow> execution_record) \<Rightarrow> db \<Rightarrow> db" where
  "upd_execution i f d = d\<lparr>execution_records := row_upd er_id i f (execution_records d)\<rparr>"

definition add_execution :: "execution_record \<Rightarrow> db \<Rightarrow> db" where
  "add_execution r d = d\<lparr>execution_records := execution_records d @ [r]\<rparr>"

definition set_celery_task_id :: "uuid \<Rightarrow> string \<Rightarrow> db \<Rightarrow> db" where
  "set_celery_task_id execution_id celery_task_id d =
     (case execution_get_by_id d execution_id of
        None \<Rightarrow> d
      | Some _ \<Rightarrow>
          upd_execution execution_id (\<lambda>r. r\<lparr>er_celery_task_id := Some celery_task_id\<rparr>) d)"

text \<open>
  The number of execution records of a task per node type, for the types that occur: the
  join of \<open>execution_records\<close> with \<open>nodes\<close>, grouped.
\<close>

definition count_by_node_type :: "db \<Rightarrow> uuid \<Rightarrow> NodeType \<Rightarrow> int option" where
  "count_by_node_type d task_id nt =
     (let joined = concat (map (\<lambda>r. filter (\<lambda>n. nd_id n = er_node_id r) (nodes d))
            (filter (\<lambda>r. er_task_id r = task_id) (execution_records d)));
          c = length (filter (\<lambda>n. nd_node_type n = nt) joined)
      in if c = 0 then None else Some (int c))"

section \<open>\<open>RevokeEventRepository\<close>\<close>

definition revoke_event_create :: "execution_revoke_event \<Rightarrow> db \<Rightarrow> db result" where
  "revoke_event_create event d =
     db_flush (d\<lparr>execution_revoke_events := execution_revoke_events d @ [event]\<rparr>)"

section \<open>\<open>NodeRepository\<close>\<close>

definition node_create :: "numeric \<Rightarrow> node \<Rightarrow> db \<Rightarrow> db result" where
  "node_create numeric n d =
     and_then (store_node numeric n) (\<lambda>row. db_flush (d\<lparr>nodes := nodes d @ [row]\<rparr>))"

definition node_get_by_id :: "db \<Rightarrow> uuid \<Rightarrow> node option" where
  "node_get_by_id d node_id = row_get nd_id node_id (nodes d)"

definition node_get_by_name :: "db \<Rightarrow> string \<Rightarrow> node option" where
  "node_get_by_name d name = find (\<lambda>n. nd_name n = name) (nodes d)"

definition repo_list_nodes ::
  "NodeType option \<Rightarrow> NodeStatus option \<Rightarrow> db \<Rightarrow> int \<Rightarrow> int \<Rightarrow> (node list \<times> int) result" where
  "repo_list_nodes node_type status d page page_size =
     (let selected = filter (\<lambda>n. matches node_type (nd_node_type n) \<and>
                       matches status (nd_status n)) (nodes d) in
      and_then (paginate page page_size (order_desc nd_created_at selected)) (\<lambda>items.
      Inr (items, int (length selected))))"

definition node_list_by_status :: "db \<Rightarrow> NodeStatus \<Rightarrow> node list" where
  "node_list_by_status d status = filter (\<lambda>n. nd_status n = status) (nodes d)"

definition get_latest_status_record :: "db \<Rightarrow> uuid \<Rightarrow> node_status_record option" where
  "get_latest_status_record d node_id =
     (case order_desc nr_reported_at
             (filter (\<lambda>r. nr_node_id r = node_id) (node_status_records d)) of
        [] \<Rightarrow> None
      | r # _ \<Rightarrow> Some r)"

definition create_status_record :: "numeric \<Rightarrow> node_status_record \<Rightarrow> db \<Rightarrow> db result" where
  "create_status_record numeric r d =
     and_then (store_status_record numeric r) (\<lambda>row.
     db_flush (d\<lparr>node_status_records := node_status_records d @ [row]\<rparr>))"

definition repo_list_status_records ::
  "uuid \<Rightarrow> db \<Rightarrow> int \<Rightarrow> int \<Rightarrow> (node_status_record list \<times> int) result" where
  "repo_list_status_records node_id d page page_size =
     (let selected = filter (\<lambda>r. nr_node_id r = node_id) (node_status_records d) in
      and_then (paginate page page_size (order_desc nr_reported_at selected)) (\<lambda>items.
      Inr (items, int (length selected))))"

definition upd_node :: "uuid \<Rightarrow> (node \<Rightarrow> node) \<Rightarrow> db \<Rightarrow> db" where
  "upd_node i f d = d\<lparr>nodes := row_upd nd_id i f (nodes d)\<rparr>"

definition add_node :: "node \<Rightarrow> db \<Rightarrow> db" where
  "add_node r d = d\<lparr>nodes := nodes d @ [r]\<rparr>"

section \<open>The tables of the model meet the interfaces\<close>

interpretation task_rows: row_store dag_tasks dt_id task_get_by_id upd_task add_task
  by unfold_locales (simp_all add: task_get_by_id_def upd_task_def add_task_def)

interpretation subtask_rows: row_store dag_subtasks ds_id get_subtask_row upd_subtask add_subtask
  by unfold_locales (simp_all add: get_subtask_row_def upd_subtask_def add_subtask_def)

interpretation plan_rows: row_store schedule_plans sp_id schedule_get_by_id upd_plan add_plan
  by unfold_locales (simp_all add: schedule_get_by_id_def upd_plan_def add_plan_def)

interpretation execution_rows:
  row_store execution_records er_id execution_get_by_id upd_execution add_execution
  by unfold_locales (simp_all add: execution_get_by_id_def upd_execution_def add_execution_def)

interpretation node_rows: row_store nodes nd_id node_get_by_id upd_node add_node
  by unfold_locales (simp_all add: node_get_by_id_def upd_node_def add_node_def)

lemma length_order_desc [simp]: "length (order_desc k xs) = length xs"
  by (simp add: order_desc_def)

lemma length_order_asc [simp]: "length (order_asc k xs) = length xs"
  by (simp add: order_asc_def)

lemma set_order_desc [simp]: "set (order_desc k xs) = set xs"
  by (simp add: order_desc_def)

lemma set_order_asc [simp]: "set (order_asc k xs) = set xs"
  by (simp add: order_asc_def)

interpretation task_pages: paged_list "repo_list_tasks status"
    "\<lambda>d. order_desc dt_created_at (filter (\<lambda>t. matches status (dt_status t)) (dag_tasks d))"
  for status
  by unfold_locales (simp add: repo_list_tasks_def Let_def)

interpretation subtask_pages: paged_list "repo_list_subtasks task_id status"
    "\<lambda>d. order_asc ds_created_at
       (filter (\<lambda>s. ds_task_id s = task_id \<and> matches status (ds_status s)) (dag_subtasks d))"
  for task_id status
  by unfold_locales (simp add: repo_list_subtasks_def Let_def)

interpretation plan_pages: paged_list "repo_list_plans task_id"
    "\<lambda>d. order_desc sp_created_at (filter (\<lambda>p. sp_task_id p = task_id) (schedule_plans d))"
  for task_id
  by unfold_locales (simp add: repo_list_plans_def Let_def)

interpretation execution_pages: paged_list "repo_list_executions task_id status"
    "\<lambda>d. order_desc er_created_at
       (filter (\<lambda>r. er_task_id r = task_id \<and> matches status (er_status r)) (execution_records d))"
  for task_id status
  by unfold_locales (simp add: repo_list_executions_def Let_def)

interpretation node_pages: paged_list "repo_list_nodes node_type status"
    "\<lambda>d. order_desc nd_created_at
       (filter (\<lambda>n. matches node_type (nd_node_type n) \<and> matches status (nd_status n)) (nodes d))"
  for node_type status
  by unfold_locales (simp add: repo_list_nodes_def Let_def)

interpretation status_record_pages: paged_list "repo_list_status_records node_id"
    "\<lambda>d. order_desc nr_reported_at
       (filter (\<lambda>r. nr_node_id r = node_id) (node_status_records d))"
  for node_id
  by unfold_locales (simp add: repo_list_status_records_def Let_def)

end
