(* ===== verification/Task_Service.thy ===== *)
theory Task_Service
  imports State_Machine Dag Repositories
begin

text \<open>
  \<open>app/services/task_service.py\<close> with the request classes of \<open>app/schemas/task.py\<close>
  that it reads, and \<open>app/services/execution_revoker.py\<close>. An operation takes the
  committed database and returns its result with the new database, or the exception; the
  session is rolled back on an exception (\<open>app/db/session.py\<close>), so an error leaves the
  database as it was. \<open>now\<close> is what \<open>datetime.now(UTC)\<close> returns, and \<open>server_now\<close> what \<open>now()\<close> of
  the database is for the transaction, the default of the \<open>created_at\<close> columns.
\<close>

section \<open>Requests\<close>

record SubtaskCreate =
  sc_external_id :: string
  sc_name :: string
  sc_compute_load :: pyfloat
  sc_input_data_size_mb :: pyfloat
  sc_output_data_size_mb :: pyfloat
  sc_execution_constraint :: SubtaskExecutionConstraint
  sc_max_retries :: int
  sc_metadata :: json_object

record DependencyCreate =
  dc_from :: string
  dc_to :: string

record DagTaskCreate =
  tc_name :: string
  tc_priority :: int
  tc_deadline_at :: "datetime option"
  tc_submitted_by :: "string option"
  tc_subtasks :: "SubtaskCreate list"
  tc_dependencies :: "DependencyCreate list"
  tc_metadata :: json_object

section \<open>Errors\<close>

definition task_not_found :: "uuid \<Rightarrow> exc" where
  "task_not_found task_id =
     AppError \<lparr>code = ''TASK_NOT_FOUND'', message = ''Task not found'', status_code = 404,
       details = [(''task_id'', DUuid task_id)]\<rparr>"

definition task_state_conflict :: "uuid \<Rightarrow> TaskStatus \<Rightarrow> TaskStatus \<Rightarrow> string \<Rightarrow> exc" where
  "task_state_conflict task_id current target m =
     AppError \<lparr>code = ''TASK_STATE_CONFLICT'', message = m, status_code = 409,
       details = [(''task_id'', DUuid task_id),
         (''current_status'', DStr (task_status_value current)),
         (''target_status'', DStr (task_status_value target))]\<rparr>"

definition dag_validation_failed :: "string \<Rightarrow> exc" where
  "dag_validation_failed m =
     AppError \<lparr>code = ''DAG_VALIDATION_FAILED'', message = m, status_code = 400,
       details = [(''reason'', DStr m)]\<rparr>"

text \<open>
  \<open>ensure_transition_allowed\<close> on two task statuses with its \<open>ValueError\<close> turned into
  the application error, as the services wrap it.
\<close>

definition ensure_task_transition :: "uuid \<Rightarrow> TaskStatus \<Rightarrow> TaskStatus \<Rightarrow> unit result" where
  "ensure_task_transition task_id current target =
     except_value_error
       (ensure_transition_allowed (task_status_value current) (task_status_value target))
       (task_state_conflict task_id current target)"

lemma ensure_task_transition_eq:
  "ensure_task_transition i s t =
     (if task_next s t then Inr ()
      else Inl (task_state_conflict i s t
        (illegal_transition_message (task_status_value s) (task_status_value t))))"
  by (simp add: ensure_task_transition_def ensure_transition_allowed_cases)

lemma ensure_task_transition_Inr_iff [result_simps]:
  "ensure_task_transition i s t = Inr u \<longleftrightarrow> task_next s t"
  by (simp add: ensure_task_transition_eq)

section \<open>Creating a task\<close>

definition new_subtask ::
  "datetime \<Rightarrow> uuid \<Rightarrow> string list \<Rightarrow> uuid \<Rightarrow> SubtaskCreate \<Rightarrow> dag_subtask" where
  "new_subtask server_now task_id successor_ids i subtask =
     \<lparr>ds_id = i, ds_task_id = task_id,
      ds_external_id = sc_external_id subtask,
      ds_name = sc_name subtask,
      ds_status = (if sc_external_id subtask \<in> set successor_ids
                   then SubtaskStatus.WAITING else SubtaskStatus.READY),
      ds_execution_constraint = sc_execution_constraint subtask,
      ds_compute_load = sc_compute_load subtask,
      ds_input_data_size_mb = sc_input_data_size_mb subtask,
      ds_output_data_size_mb = sc_output_data_size_mb subtask,
      ds_max_retries = sc_max_retries subtask,
      ds_retry_count = 0,
      ds_failure_reason = None,
      ds_metadata = sc_metadata subtask,
      ds_created_at = server_now, ds_started_at = None, ds_finished_at = None\<rparr>"

definition new_task :: "datetime \<Rightarrow> uuid \<Rightarrow> DagTaskCreate \<Rightarrow> dag_task" where
  "new_task server_now task_id data =
     \<lparr>dt_id = task_id,
      dt_name = tc_name data,
      dt_status = TaskStatus.PENDING,
      dt_priority = tc_priority data,
      dt_deadline_at = tc_deadline_at data,
      dt_submitted_by = tc_submitted_by data,
      dt_failure_reason = None,
      dt_metadata = tc_metadata data,
      dt_created_at = server_now, dt_scheduled_at = None, dt_started_at = None,
      dt_finished_at = None\<rparr>"

definition new_dependency ::
  "datetime \<Rightarrow> uuid \<Rightarrow> (string \<Rightarrow> uuid option) \<Rightarrow> uuid \<times> string \<times> string \<Rightarrow>
   dag_dependency result" where
  "new_dependency server_now task_id subtask_map e =
     and_then (lookup_key subtask_map (fst (snd e))) (\<lambda>p.
     and_then (lookup_key subtask_map (snd (snd e))) (\<lambda>s.
     Inr \<lparr>dd_id = fst e, dd_task_id = task_id, dd_predecessor_subtask_id = p,
          dd_successor_subtask_id = s, dd_created_at = server_now\<rparr>))"

definition create_task :: "numeric \<Rightarrow> datetime \<Rightarrow> DagTaskCreate \<Rightarrow> db \<Rightarrow> (dag_task \<times> db) result" where
  "create_task numeric server_now data d =
     (let subtask_ids = map sc_external_id (tc_subtasks data);
          dependencies = map (\<lambda>x. (dc_from x, dc_to x)) (tc_dependencies data) in
      and_then (except_value_error (validate_dag subtask_ids dependencies)
        dag_validation_failed) (\<lambda>_.
      let successor_ids = map snd dependencies;
          task_id = next_uuid d;
          n = length (tc_subtasks data);
          task = new_task server_now task_id data;
          subtasks = map2 (new_subtask server_now task_id successor_ids)
            [task_id + 1..<task_id + 1 + n] (tc_subtasks data) in
      and_then (task_create numeric task subtasks (d\<lparr>next_uuid := task_id + 1 + n\<rparr>)) (\<lambda>d1.
      let subtask_map = dict_display (map (\<lambda>s. (ds_external_id s, ds_id s))
            (task_subtasks d1 task_id));
          m = length dependencies in
      and_then (map_result (new_dependency server_now task_id subtask_map)
        (zip [next_uuid d1..<next_uuid d1 + m] dependencies)) (\<lambda>rows.
      and_then (db_flush (d1\<lparr>dag_dependencies := dag_dependencies d1 @ rows,
        next_uuid := next_uuid d1 + m\<rparr>)) (\<lambda>d2.
      Inr (task, d2))))))"

section \<open>Reading\<close>

definition get_task :: "db \<Rightarrow> uuid \<Rightarrow> dag_task result" where
  "get_task d task_id =
     (case task_get_by_id d task_id of
        None \<Rightarrow> Inl (task_not_found task_id)
      | Some task \<Rightarrow> Inr task)"

definition list_tasks ::
  "TaskStatus option \<Rightarrow> int \<Rightarrow> int \<Rightarrow> db \<Rightarrow> (dag_task list \<times> int) result" where
  "list_tasks status page page_size d = repo_list_tasks status d page page_size"

definition list_subtasks ::
  "uuid \<Rightarrow> SubtaskStatus option \<Rightarrow> int \<Rightarrow> int \<Rightarrow> db \<Rightarrow> (dag_subtask list \<times> int) result" where
  "list_subtasks task_id status page page_size d =
     and_then (get_task d task_id) (\<lambda>_. repo_list_subtasks task_id status d page page_size)"

section \<open>Cancelling a task\<close>

text \<open>
  The revoker is injected into the service: it answers whether Celery took the request,
  or raises (the string is \<open>str(exc)\<close>). \<open>ExecutionRevoker.revoke\<close> is the default one,
  over \<open>celery_app.control.revoke\<close>, of which only its raising matters.
\<close>

type_synonym revoker = "string \<Rightarrow> string + bool"

definition execution_revoker_revoke :: "(string \<Rightarrow> string + unit) \<Rightarrow> revoker" where
  "execution_revoker_revoke control_revoke celery_task_id =
     (case control_revoke celery_task_id of Inl _ \<Rightarrow> Inr False | Inr _ \<Rightarrow> Inr True)"

definition revoke_execution :: "revoker \<Rightarrow> string \<Rightarrow> bool \<times> string option" where
  "revoke_execution revoker celery_task_id =
     (case revoker celery_task_id of
        Inl msg \<Rightarrow> (False, Some msg)
      | Inr success \<Rightarrow>
          (success, if success then None else Some ''Celery revoke returned false''))"

definition cancel_record :: "string option \<Rightarrow> datetime \<Rightarrow> execution_record \<Rightarrow> execution_record" where
  "cancel_record reason canceled_at r =
     r\<lparr>er_status := ExecutionStatus.CANCELED, er_finished_at := Some canceled_at,
       er_failure_reason := reason\<rparr>"

definition cancel_running_execution ::
  "revoker \<Rightarrow> string option \<Rightarrow> datetime \<Rightarrow> execution_record \<Rightarrow> db \<Rightarrow> db result" where
  "cancel_running_execution revoker reason canceled_at r d =
     and_then (ensure_transition_allowed (execution_status_value (er_status r))
       (execution_status_value ExecutionStatus.CANCELED)) (\<lambda>_.
     let d' = upd_execution (er_id r) (cancel_record reason canceled_at) d in
     case er_celery_task_id r of
       None \<Rightarrow> Inr d'
     | Some celery_task_id \<Rightarrow>
         (let outcome = revoke_execution revoker celery_task_id in
          revoke_event_create
            \<lparr>re_id = next_uuid d', re_task_id = er_task_id r, re_execution_id = er_id r,
             re_celery_task_id = celery_task_id, re_success = fst outcome,
             re_error_message = snd outcome, re_requested_at = canceled_at,
             re_created_at = canceled_at\<rparr>
            (d'\<lparr>next_uuid := next_uuid d' + 1\<rparr>)))"

definition cancel_running_executions ::
  "revoker \<Rightarrow> uuid \<Rightarrow> string option \<Rightarrow> datetime \<Rightarrow> db \<Rightarrow> db result" where
  "cancel_running_executions revoker task_id reason canceled_at d =
     for_each (cancel_running_execution revoker reason canceled_at)
       (list_running_by_task d task_id) d"

definition terminal_statuses :: "SubtaskStatus list" where
  "terminal_statuses = [SubtaskStatus.SUCCESS, SubtaskStatus.FAILED, SubtaskStatus.CANCELED]"

definition cancel_subtask :: "string option \<Rightarrow> datetime \<Rightarrow> dag_subtask \<Rightarrow> dag_subtask" where
  "cancel_subtask reason canceled_at s =
     s\<lparr>ds_status := SubtaskStatus.CANCELED, ds_finished_at := Some canceled_at,
       ds_failure_reason := reason\<rparr>"

definition cancel_non_terminal_subtask ::
  "string option \<Rightarrow> datetime \<Rightarrow> dag_subtask \<Rightarrow> db \<Rightarrow> db result" where
  "cancel_non_terminal_subtask reason canceled_at s d =
     (if ds_status s \<in> set terminal_statuses then Inr d
      else and_then (ensure_transition_allowed (subtask_status_value (ds_status s))
             (subtask_status_value SubtaskStatus.CANCELED)) (\<lambda>_.
           Inr (upd_subtask (ds_id s) (cancel_subtask reason canceled_at) d)))"

definition cancel_non_terminal_subtasks ::
  "uuid \<Rightarrow> string option \<Rightarrow> datetime \<Rightarrow> db \<Rightarrow> db result" where
  "cancel_non_terminal_subtasks task_id reason canceled_at d =
     for_each (cancel_non_terminal_subtask reason canceled_at) (task_subtasks d task_id) d"

definition cancel_task ::
  "revoker \<Rightarrow> datetime \<Rightarrow> uuid \<Rightarrow> string option \<Rightarrow> db \<Rightarrow> db result" where
  "cancel_task revoker now task_id reason d =
     and_then (get_task d task_id) (\<lambda>task.
     and_then (ensure_task_transition task_id (dt_status task) TaskStatus.CANCELED) (\<lambda>_.
     let d1 = upd_task task_id (\<lambda>t. t\<lparr>dt_status := TaskStatus.CANCELED,
                dt_failure_reason := reason,
                dt_finished_at := or_else (dt_finished_at t) now\<rparr>) d in
     and_then (cancel_running_executions revoker task_id reason now d1) (\<lambda>d2.
     and_then (cancel_non_terminal_subtasks task_id reason now d2) (\<lambda>d3.
     db_flush d3))))"

end
