(* ===== verification/Execution_Service.thy ===== *)
theory Execution_Service
  imports Task_Service
begin

text \<open>
  \<open>app/services/execution_service.py\<close>: starting the execution of a schedule plan and
  taking the results of the workers. The helpers keep the names of the code, and
  every \<open>raise\<close> is a value. The objects that one session loads are shared
  (SQLAlchemy's identity map), so \<open>record.subtask\<close> and the element of
  \<open>task.subtasks\<close> with the same identifier are one row of the model.
\<close>

section \<open>Results and errors\<close>

record ExecutionStartResult =
  es_task_id :: uuid
  es_schedule_plan_id :: uuid
  es_status :: TaskStatus
  es_execution_count :: int
  es_execution_ids :: "uuid list"

record ExecutionResult =
  xr_execution_id :: uuid
  xr_subtask_status :: SubtaskStatus
  xr_task_status :: TaskStatus
  xr_accepted :: bool

record ExecutionDispatchRegistration =
  dr_execution_id :: uuid
  dr_celery_task_id :: string

definition schedule_plan_not_found :: "uuid \<Rightarrow> exc" where
  "schedule_plan_not_found plan_id =
     AppError \<lparr>code = ''SCHEDULE_PLAN_NOT_FOUND'', message = ''Schedule plan not found'',
       status_code = 404, details = [(''schedule_plan_id'', DUuid plan_id)]\<rparr>"

definition plan_task_mismatch :: "uuid \<Rightarrow> uuid \<Rightarrow> exc" where
  "plan_task_mismatch task_id plan_id =
     AppError \<lparr>code = ''SCHEDULE_PLAN_TASK_MISMATCH'',
       message = ''Schedule plan does not belong to task'', status_code = 400,
       details = [(''task_id'', DUuid task_id), (''schedule_plan_id'', DUuid plan_id)]\<rparr>"

definition no_executable_plan_item :: "uuid \<Rightarrow> exc" where
  "no_executable_plan_item plan_id =
     AppError \<lparr>code = ''NO_EXECUTABLE_PLAN_ITEM'',
       message = ''Schedule plan has no executable items'', status_code = 409,
       details = [(''schedule_plan_id'', DUuid plan_id)]\<rparr>"

definition execution_not_found :: "uuid \<Rightarrow> exc" where
  "execution_not_found execution_id =
     AppError \<lparr>code = ''EXECUTION_NOT_FOUND'', message = ''Execution record not found'',
       status_code = 404, details = [(''execution_id'', DUuid execution_id)]\<rparr>"

definition execution_state_conflict ::
  "uuid \<Rightarrow> ExecutionStatus \<Rightarrow> ExecutionStatus \<Rightarrow> string \<Rightarrow> exc" where
  "execution_state_conflict execution_id current target m =
     AppError \<lparr>code = ''EXECUTION_STATE_CONFLICT'', message = m, status_code = 409,
       details = [(''execution_id'', DUuid execution_id),
         (''current_status'', DStr (execution_status_value current)),
         (''target_status'', DStr (execution_status_value target))]\<rparr>"

definition subtask_state_conflict ::
  "uuid \<Rightarrow> SubtaskStatus \<Rightarrow> SubtaskStatus \<Rightarrow> string \<Rightarrow> exc" where
  "subtask_state_conflict subtask_id current target m =
     AppError \<lparr>code = ''SUBTASK_STATE_CONFLICT'', message = m, status_code = 409,
       details = [(''subtask_id'', DUuid subtask_id),
         (''current_status'', DStr (subtask_status_value current)),
         (''target_status'', DStr (subtask_status_value target))]\<rparr>"

definition plan_state_conflict ::
  "uuid \<Rightarrow> SchedulePlanStatus \<Rightarrow> SchedulePlanStatus \<Rightarrow> string \<Rightarrow> exc" where
  "plan_state_conflict plan_id current target m =
     AppError \<lparr>code = ''SCHEDULE_PLAN_STATE_CONFLICT'', message = m, status_code = 409,
       details = [(''schedule_plan_id'', DUuid plan_id),
         (''current_status'', DStr (plan_status_value current)),
         (''target_status'', DStr (plan_status_value target))]\<rparr>"

section \<open>Guards\<close>

definition ensure_task_can_run :: "TaskStatus \<Rightarrow> uuid \<Rightarrow> unit result" where
  "ensure_task_can_run status task_id =
     (if status = TaskStatus.RUNNING then Inr ()
      else ensure_task_transition task_id status TaskStatus.RUNNING)"

definition ensure_plan_can_apply :: "schedule_plan \<Rightarrow> unit result" where
  "ensure_plan_can_apply plan =
     except_value_error
       (ensure_transition_allowed (plan_status_value (sp_status plan))
         (plan_status_value SchedulePlanStatus.APPLIED))
       (plan_state_conflict (sp_id plan) (sp_status plan) SchedulePlanStatus.APPLIED)"

definition move_subtask_to_running :: "SubtaskStatus \<Rightarrow> uuid \<Rightarrow> unit result" where
  "move_subtask_to_running status subtask_id =
     except_value_error
       (and_then (ensure_transition_allowed (subtask_status_value status)
          (subtask_status_value SubtaskStatus.DISPATCHED)) (\<lambda>_.
        ensure_transition_allowed (subtask_status_value SubtaskStatus.DISPATCHED)
          (subtask_status_value SubtaskStatus.RUNNING)))
       (subtask_state_conflict subtask_id status SubtaskStatus.RUNNING)"

definition ensure_execution_can_finish ::
  "ExecutionStatus \<Rightarrow> ExecutionStatus \<Rightarrow> uuid \<Rightarrow> unit result" where
  "ensure_execution_can_finish current target execution_id =
     except_value_error
       (ensure_transition_allowed (execution_status_value current)
         (execution_status_value target))
       (execution_state_conflict execution_id current target)"

definition move_subtask_to_terminal ::
  "SubtaskStatus \<Rightarrow> SubtaskStatus \<Rightarrow> uuid \<Rightarrow> unit result" where
  "move_subtask_to_terminal current target subtask_id =
     except_value_error
       (ensure_transition_allowed (subtask_status_value current) (subtask_status_value target))
       (subtask_state_conflict subtask_id current target)"

definition move_subtask_to_retry_ready :: "SubtaskStatus \<Rightarrow> uuid \<Rightarrow> unit result" where
  "move_subtask_to_retry_ready current subtask_id =
     except_value_error
       (and_then (ensure_transition_allowed (subtask_status_value current)
          (subtask_status_value SubtaskStatus.FAILED)) (\<lambda>_.
        and_then (ensure_transition_allowed (subtask_status_value SubtaskStatus.FAILED)
          (subtask_status_value SubtaskStatus.RETRYING)) (\<lambda>_.
        ensure_transition_allowed (subtask_status_value SubtaskStatus.RETRYING)
          (subtask_status_value SubtaskStatus.READY))))
       (subtask_state_conflict subtask_id current SubtaskStatus.READY)"

definition can_retry_subtask :: "ExecutionStatus \<Rightarrow> int \<Rightarrow> int \<Rightarrow> bool" where
  "can_retry_subtask status retry_count max_retries =
     (status \<in> set [ExecutionStatus.FAILED, ExecutionStatus.TIMEOUT] \<and>
      retry_count < max_retries)"

definition move_task_to_terminal :: "TaskStatus \<Rightarrow> TaskStatus \<Rightarrow> uuid \<Rightarrow> unit result" where
  "move_task_to_terminal current target task_id = ensure_task_transition task_id current target"

lemma ensure_task_can_run_Inr_iff [result_simps]:
  "ensure_task_can_run s i = Inr u \<longleftrightarrow> s \<in> {TaskStatus.SCHEDULED, TaskStatus.RUNNING}"
  by (cases s) (simp_all add: ensure_task_can_run_def result_simps)

lemma ensure_plan_can_apply_Inr_iff [result_simps]:
  "ensure_plan_can_apply p = Inr u \<longleftrightarrow> sp_status p = SchedulePlanStatus.GENERATED"
  by (cases "sp_status p") (simp_all add: ensure_plan_can_apply_def result_simps)

lemma move_subtask_to_running_Inr_iff [result_simps]:
  "move_subtask_to_running s i = Inr u \<longleftrightarrow> s = SubtaskStatus.READY"
  by (cases s) (simp_all add: move_subtask_to_running_def result_simps)

lemma ensure_execution_can_finish_Inr_iff [result_simps]:
  "ensure_execution_can_finish s t i = Inr u \<longleftrightarrow> execution_next s t"
  by (simp add: ensure_execution_can_finish_def result_simps)

lemma move_subtask_to_terminal_Inr_iff [result_simps]:
  "move_subtask_to_terminal s t i = Inr u \<longleftrightarrow> subtask_next s t"
  by (simp add: move_subtask_to_terminal_def result_simps)

lemma move_subtask_to_retry_ready_Inr_iff [result_simps]:
  "move_subtask_to_retry_ready s i = Inr u \<longleftrightarrow> s = SubtaskStatus.RUNNING"
  by (cases s) (simp_all add: move_subtask_to_retry_ready_def result_simps)

lemma move_task_to_terminal_Inr_iff [result_simps]:
  "move_task_to_terminal s t i = Inr u \<longleftrightarrow> task_next s t"
  by (simp add: move_task_to_terminal_def result_simps)

section \<open>Starting an execution\<close>

definition get_plan :: "db \<Rightarrow> uuid \<Rightarrow> schedule_plan result" where
  "get_plan d schedule_plan_id =
     (case schedule_get_by_id d schedule_plan_id of
        None \<Rightarrow> Inl (schedule_plan_not_found schedule_plan_id)
      | Some plan \<Rightarrow> Inr plan)"

definition new_execution_record ::
  "datetime \<Rightarrow> uuid \<Rightarrow> schedule_plan_item \<Rightarrow> dag_subtask \<Rightarrow> uuid \<Rightarrow> execution_record" where
  "new_execution_record now task_id item subtask i =
     \<lparr>er_id = i, er_task_id = task_id, er_subtask_id = pi_subtask_id item,
      er_node_id = pi_assigned_node_id item, er_plan_item_id = Some (pi_id item),
      er_attempt = ds_retry_count subtask + 1, er_status = ExecutionStatus.RUNNING,
      er_started_at = Some now, er_finished_at = None, er_duration_ms = None,
      er_output_summary = None, er_failure_reason = None, er_celery_task_id = None,
      er_created_at = now\<rparr>"

text \<open>
  One round of the loop over \<open>plan.items\<close>: the state is the database and the records
  built so far, which are inserted after the loop.
\<close>

definition start_item ::
  "datetime \<Rightarrow> uuid \<Rightarrow> schedule_plan_item \<Rightarrow> db \<times> execution_record list \<Rightarrow>
   (db \<times> execution_record list) result" where
  "start_item now task_id item st =
     (let d = fst st; records = snd st in
      case get_subtask_row d (pi_subtask_id item) of
        None \<Rightarrow> Inl AttributeError
      | Some subtask \<Rightarrow>
          and_then (move_subtask_to_running (ds_status subtask) (ds_id subtask)) (\<lambda>_.
          Inr (upd_subtask (ds_id subtask) (\<lambda>s. s\<lparr>ds_status := SubtaskStatus.RUNNING,
                 ds_started_at := Some now\<rparr>) (d\<lparr>next_uuid := next_uuid d + 1\<rparr>),
               records @ [new_execution_record now task_id item subtask (next_uuid d)])))"

definition start_execution ::
  "datetime \<Rightarrow> uuid \<Rightarrow> uuid \<Rightarrow> db \<Rightarrow> (ExecutionStartResult \<times> db) result" where
  "start_execution now task_id schedule_plan_id d =
     and_then (get_task d task_id) (\<lambda>task.
     and_then (ensure_task_can_run (dt_status task) task_id) (\<lambda>_.
     and_then (get_plan d schedule_plan_id) (\<lambda>plan.
     if sp_task_id plan \<noteq> task_id then Inl (plan_task_mismatch task_id schedule_plan_id)
     else
     and_then (ensure_plan_can_apply plan) (\<lambda>_.
     if plan_items d schedule_plan_id = []
     then Inl (no_executable_plan_item schedule_plan_id)
     else
     and_then (for_each (start_item now task_id) (plan_items d schedule_plan_id) (d, [])) (\<lambda>st.
     let records = snd st;
         d1 = upd_plan schedule_plan_id (\<lambda>p. p\<lparr>sp_status := SchedulePlanStatus.APPLIED,
                sp_applied_at := Some now\<rparr>) (fst st);
         d2 = upd_task task_id (\<lambda>t. t\<lparr>dt_status := TaskStatus.RUNNING,
                dt_started_at := or_else (dt_started_at t) now\<rparr>) d1 in
     and_then (execution_create_many records d2) (\<lambda>d3.
     Inr (\<lparr>es_task_id = task_id, es_schedule_plan_id = schedule_plan_id,
           es_status = TaskStatus.RUNNING, es_execution_count = int (length records),
           es_execution_ids = map er_id records\<rparr>, d3)))))))"

section \<open>Queries and Celery identifiers\<close>

definition list_task_executions ::
  "uuid \<Rightarrow> ExecutionStatus option \<Rightarrow> int \<Rightarrow> int \<Rightarrow> db \<Rightarrow>
   (execution_record list \<times> int) result" where
  "list_task_executions task_id status page page_size d =
     and_then (get_task d task_id) (\<lambda>_. repo_list_executions task_id status d page page_size)"

definition record_celery_task_ids ::
  "ExecutionDispatchRegistration list \<Rightarrow> db \<Rightarrow> db result" where
  "record_celery_task_ids dispatch_results d =
     db_flush (fold (\<lambda>item. set_celery_task_id (dr_execution_id item) (dr_celery_task_id item))
       dispatch_results d)"

section \<open>Taking a result\<close>

text \<open>
  \<open>subtask_by_id\<close> of \<open>_unlock_successors\<close>: the rows of \<open>task.subtasks\<close> by identifier,
  read at their current state.
\<close>

definition subtask_by_id :: "db \<Rightarrow> uuid \<Rightarrow> uuid \<Rightarrow> dag_subtask option" where
  "subtask_by_id d task_id i = row_get ds_id i (task_subtasks d task_id)"

text \<open>\<open>all(subtask_by_id[p].status == SUCCESS for p in predecessor_ids)\<close>, left to right.\<close>

fun all_succeeded :: "db \<Rightarrow> uuid \<Rightarrow> uuid list \<Rightarrow> bool result" where
  "all_succeeded d task_id [] = Inr True"
| "all_succeeded d task_id (p # ps) =
     and_then (lookup_key (subtask_by_id d task_id) p) (\<lambda>s.
     if ds_status s = SubtaskStatus.SUCCESS then all_succeeded d task_id ps else Inr False)"

definition predecessor_ids :: "db \<Rightarrow> uuid \<Rightarrow> uuid \<Rightarrow> uuid list" where
  "predecessor_ids d task_id successor_id =
     map dd_predecessor_subtask_id
       (filter (\<lambda>r. dd_successor_subtask_id r = successor_id) (task_dependencies d task_id))"

definition unlock_successor :: "uuid \<Rightarrow> uuid \<Rightarrow> dag_dependency \<Rightarrow> db \<Rightarrow> db result" where
  "unlock_successor task_id completed_subtask_id dependency d =
     (if dd_predecessor_subtask_id dependency \<noteq> completed_subtask_id then Inr d
      else
      and_then (lookup_key (subtask_by_id d task_id) (dd_successor_subtask_id dependency))
        (\<lambda>successor.
      if ds_status successor \<noteq> SubtaskStatus.WAITING then Inr d
      else
      and_then (all_succeeded d task_id (predecessor_ids d task_id (ds_id successor))) (\<lambda>ok.
      if \<not> ok then Inr d
      else
      and_then (ensure_transition_allowed (subtask_status_value (ds_status successor))
        (subtask_status_value SubtaskStatus.READY)) (\<lambda>_.
      Inr (upd_subtask (ds_id successor) (\<lambda>s. s\<lparr>ds_status := SubtaskStatus.READY\<rparr>) d)))))"

definition unlock_successors :: "uuid \<Rightarrow> uuid \<Rightarrow> db \<Rightarrow> db result" where
  "unlock_successors task_id completed_subtask_id d =
     for_each (unlock_successor task_id completed_subtask_id) (task_dependencies d task_id) d"

definition all_subtasks_succeeded :: "db \<Rightarrow> uuid \<Rightarrow> bool" where
  "all_subtasks_succeeded d task_id =
     list_all (\<lambda>s. ds_status s = SubtaskStatus.SUCCESS) (task_subtasks d task_id)"

text \<open>The branch of \<open>report_result\<close> for a successful execution.\<close>

definition report_success ::
  "datetime \<Rightarrow> uuid \<Rightarrow> dag_subtask \<Rightarrow> TaskStatus \<Rightarrow> db \<Rightarrow> db result" where
  "report_success now task_id subtask task_status d =
     and_then (move_subtask_to_terminal (ds_status subtask) SubtaskStatus.SUCCESS
       (ds_id subtask)) (\<lambda>_.
     let d1 = upd_subtask (ds_id subtask) (\<lambda>s. s\<lparr>ds_status := SubtaskStatus.SUCCESS,
                ds_finished_at := Some now\<rparr>) d in
     and_then (unlock_successors task_id (ds_id subtask) d1) (\<lambda>d2.
     if all_subtasks_succeeded d2 task_id
     then and_then (move_task_to_terminal task_status TaskStatus.SUCCESS task_id) (\<lambda>_.
          Inr (upd_task task_id (\<lambda>t. t\<lparr>dt_status := TaskStatus.SUCCESS,
            dt_finished_at := Some now\<rparr>) d2))
     else Inr d2))"

text \<open>The branch for an execution that failed, timed out or was canceled.\<close>

definition report_failure ::
  "datetime \<Rightarrow> uuid \<Rightarrow> dag_subtask \<Rightarrow> TaskStatus \<Rightarrow> ExecutionStatus \<Rightarrow> string option \<Rightarrow> db \<Rightarrow>
   db result" where
  "report_failure now task_id subtask task_status status failure_reason d =
     (if can_retry_subtask status (ds_retry_count subtask) (ds_max_retries subtask)
      then and_then (move_subtask_to_retry_ready (ds_status subtask) (ds_id subtask)) (\<lambda>_.
        Inr (upd_subtask (ds_id subtask) (\<lambda>s. s\<lparr>ds_status := SubtaskStatus.READY,
          ds_retry_count := ds_retry_count s + 1, ds_started_at := None,
          ds_finished_at := None, ds_failure_reason := failure_reason\<rparr>) d))
      else
        and_then (move_subtask_to_terminal (ds_status subtask) SubtaskStatus.FAILED
          (ds_id subtask)) (\<lambda>_.
        let d1 = upd_subtask (ds_id subtask) (\<lambda>s. s\<lparr>ds_status := SubtaskStatus.FAILED,
                   ds_finished_at := Some now, ds_failure_reason := failure_reason\<rparr>) d in
        and_then (move_task_to_terminal task_status TaskStatus.FAILED task_id) (\<lambda>_.
        Inr (upd_task task_id (\<lambda>t. t\<lparr>dt_status := TaskStatus.FAILED,
          dt_failure_reason := failure_reason, dt_finished_at := Some now\<rparr>) d1))))"

text \<open>The result object reads the statuses that the subtask and the task then have.\<close>

definition execution_result :: "uuid \<Rightarrow> uuid \<Rightarrow> uuid \<Rightarrow> bool \<Rightarrow> db \<Rightarrow> ExecutionResult result" where
  "execution_result execution_id subtask_id task_id accepted d =
     (case (get_subtask_row d subtask_id, task_get_by_id d task_id) of
        (Some s, Some t) \<Rightarrow>
          Inr \<lparr>xr_execution_id = execution_id, xr_subtask_status = ds_status s,
               xr_task_status = dt_status t, xr_accepted = accepted\<rparr>
      | _ \<Rightarrow> Inl AttributeError)"

definition finish_record ::
  "datetime \<Rightarrow> ExecutionStatus \<Rightarrow> int option \<Rightarrow> string option \<Rightarrow> string option \<Rightarrow>
   execution_record \<Rightarrow> execution_record" where
  "finish_record now status duration_ms output_summary failure_reason r =
     r\<lparr>er_status := status, er_finished_at := Some now, er_duration_ms := duration_ms,
       er_output_summary := output_summary, er_failure_reason := failure_reason\<rparr>"

definition report_result ::
  "datetime \<Rightarrow> uuid \<Rightarrow> ExecutionStatus \<Rightarrow> int option \<Rightarrow> string option \<Rightarrow> string option \<Rightarrow>
   db \<Rightarrow> (ExecutionResult \<times> db) result" where
  "report_result now execution_id status duration_ms output_summary failure_reason d =
     (case execution_get_by_id d execution_id of
        None \<Rightarrow> Inl (execution_not_found execution_id)
      | Some r \<Rightarrow>
          if er_status r \<noteq> ExecutionStatus.RUNNING
          then and_then (execution_result (er_id r) (er_subtask_id r) (er_task_id r) False d)
            (\<lambda>x. Inr (x, d))
          else
          and_then (ensure_execution_can_finish (er_status r) status (er_id r)) (\<lambda>_.
          let d1 = upd_execution (er_id r)
                (finish_record now status duration_ms output_summary failure_reason) d in
          case get_subtask_row d1 (er_subtask_id r) of
            None \<Rightarrow> Inl AttributeError
          | Some subtask \<Rightarrow>
              and_then (get_task d1 (er_task_id r)) (\<lambda>task.
              and_then
                (if status = ExecutionStatus.SUCCESS
                 then report_success now (dt_id task) subtask (dt_status task) d1
                 else report_failure now (dt_id task) subtask (dt_status task) status
                        failure_reason d1) (\<lambda>d2.
              and_then (db_flush d2) (\<lambda>d3.
              and_then (execution_result (er_id r) (ds_id subtask) (dt_id task) True d3) (\<lambda>x.
              Inr (x, d3)))))))"

end
