(* ===== verification/Estimation.thy ===== *)
theory Estimation
  imports Models
begin

text \<open>
  \<open>app/scheduler/base.py\<close>, the data the scheduling strategies work on, and
  \<open>app/scheduler/estimation.py\<close>, the cost of running a subtask on a node: compute and
  transfer durations in milliseconds, energy and score, in double arithmetic with the
  exceptions it may raise.
\<close>

section \<open>Data of the strategies\<close>

record SchedulableSubtask =
  ss_id :: uuid
  ss_external_id :: string
  ss_compute_load :: pyfloat
  ss_input_data_size_mb :: pyfloat
  ss_output_data_size_mb :: pyfloat
  ss_execution_constraint :: SubtaskExecutionConstraint

record NodeSnapshot =
  ns_id :: uuid
  ns_name :: string
  ns_node_type :: NodeType
  ns_status :: NodeStatus
  ns_cpu_capacity :: pyfloat
  ns_memory_capacity_mb :: int
  ns_cpu_usage_percent :: pyfloat
  ns_memory_usage_percent :: pyfloat
  ns_battery_level :: "pyfloat option"
  ns_bandwidth_mbps :: "pyfloat option"
  ns_current_load :: "int option"
  ns_queue_length :: "int option"

text \<open>
  A transfer duration is an \<open>int | float\<close>, where the only float is \<open>math.inf\<close>.
\<close>

datatype transfer_ms = Millis int | Infinite

primrec transfer_num :: "transfer_ms \<Rightarrow> pynum" where
  "transfer_num (Millis n) = PInt n"
| "transfer_num Infinite = PFloat PosInf"

primrec transfer_text :: "transfer_ms \<Rightarrow> string" where
  "transfer_text (Millis n) = int_text n"
| "transfer_text Infinite = ''inf''"

record SchedulePlanItem =
  si_subtask_id :: uuid
  si_subtask_external_id :: string
  si_assigned_node_id :: uuid
  si_assigned_node_name :: string
  si_assigned_node_type :: NodeType
  si_estimated_compute_duration_ms :: int
  si_estimated_transfer_duration_ms :: transfer_ms
  si_estimated_energy :: pyfloat
  si_decision_reason :: string

record SchedulePlan =
  gp_strategy_name :: SchedulerStrategyName
  gp_items :: "SchedulePlanItem list"
  gp_estimated_total_duration_ms :: pynum
  gp_estimated_total_energy :: pyfloat

section \<open>Estimating a candidate\<close>

record CandidateEstimate =
  ce_node :: NodeSnapshot
  ce_compute_duration_ms :: int
  ce_transfer_duration_ms :: transfer_ms
  ce_energy :: pyfloat
  ce_score :: pyfloat

definition node_matches_constraint :: "SchedulableSubtask \<Rightarrow> NodeSnapshot \<Rightarrow> bool" where
  "node_matches_constraint subtask node =
     (if ss_execution_constraint subtask = SubtaskExecutionConstraint.LOCAL_ONLY
      then ns_node_type node = NodeType.UAV
      else if ss_execution_constraint subtask = SubtaskExecutionConstraint.EDGE_ONLY
      then ns_node_type node = NodeType.EDGE
      else True)"

definition usage_ratio :: "NodeSnapshot \<Rightarrow> pyfloat result" where
  "usage_ratio node =
     f_div (py_min (py_max (ns_cpu_usage_percent node) (lit 0)) (lit 95)) (lit 100)"

definition compute_duration_ms_for :: "SchedulableSubtask \<Rightarrow> NodeSnapshot \<Rightarrow> int result" where
  "compute_duration_ms_for subtask node =
     and_then (usage_ratio node) (\<lambda>ratio.
     let effective_cpu_capacity = f_mul (ns_cpu_capacity node) (f_sub (lit 1) ratio) in
     and_then (f_div (ss_compute_load subtask) effective_cpu_capacity) (\<lambda>seconds.
     py_round (f_mul seconds (lit 1000))))"

definition transfer_duration_ms_for ::
  "SchedulableSubtask \<Rightarrow> NodeSnapshot \<Rightarrow> transfer_ms result" where
  "transfer_duration_ms_for subtask node =
     (if ns_node_type node = NodeType.UAV \<or> f_eq (ss_input_data_size_mb subtask) (lit 0)
      then Inr (Millis 0)
      else case ns_bandwidth_mbps node of
          None \<Rightarrow> Inr Infinite
        | Some bandwidth_mbps \<Rightarrow>
            if f_le bandwidth_mbps (lit 0) then Inr Infinite
            else
              and_then (f_div (ss_input_data_size_mb subtask) bandwidth_mbps) (\<lambda>seconds.
              and_then (py_round (f_mul seconds (lit 1000))) (\<lambda>n. Inr (Millis n))))"

definition estimate_energy :: "int \<Rightarrow> transfer_ms \<Rightarrow> NodeSnapshot \<Rightarrow> pyfloat result" where
  "estimate_energy compute_duration_ms transfer_duration_ms node =
     and_then (int_true_div compute_duration_ms 1000) (\<lambda>compute_seconds.
     and_then (num_div_int (transfer_num transfer_duration_ms) 1000) (\<lambda>transfer_seconds.
     if ns_node_type node = NodeType.UAV then Inr (f_mul compute_seconds (lit 2))
     else Inr (f_add (f_mul compute_seconds (lit (4 / 10)))
                     (f_mul transfer_seconds (lit (8 / 10))))))"

definition estimate_candidate ::
  "SchedulableSubtask \<Rightarrow> NodeSnapshot \<Rightarrow> pyfloat \<Rightarrow> CandidateEstimate result" where
  "estimate_candidate subtask node energy_cost_weight =
     and_then (compute_duration_ms_for subtask node) (\<lambda>compute_duration_ms.
     and_then (transfer_duration_ms_for subtask node) (\<lambda>transfer_duration_ms.
     and_then (estimate_energy compute_duration_ms transfer_duration_ms node) (\<lambda>energy.
     and_then (num_add (PInt compute_duration_ms) (transfer_num transfer_duration_ms))
       (\<lambda>duration.
     and_then (to_float duration) (\<lambda>x.
     Inr \<lparr>ce_node = node, ce_compute_duration_ms = compute_duration_ms,
          ce_transfer_duration_ms = transfer_duration_ms, ce_energy = energy,
          ce_score = f_add x (f_mul energy_cost_weight energy)\<rparr>)))))"

text \<open>\<open>isinstance(value, int | float)\<close> holds of a \<open>bool\<close>, too.\<close>

definition float_option :: "json_object option \<Rightarrow> string \<Rightarrow> pyfloat \<Rightarrow> pyfloat result" where
  "float_option options key dflt =
     (case options of
        None \<Rightarrow> Inr dflt
      | Some opts \<Rightarrow>
          (case map_of opts key of
             None \<Rightarrow> Inr dflt
           | Some (JBool b) \<Rightarrow> float_of_int (if b then 1 else 0)
           | Some (JInt n) \<Rightarrow> float_of_int n
           | Some (JFloat x) \<Rightarrow> Inr x
           | Some _ \<Rightarrow> Inr dflt))"

section \<open>Properties of the estimates\<close>

lemma transfer_uav:
  "ns_node_type node = NodeType.UAV \<Longrightarrow> transfer_duration_ms_for subtask node = Inr (Millis 0)"
  by (simp add: transfer_duration_ms_for_def)

lemma estimate_candidate_node:
  "estimate_candidate subtask node w = Inr c \<Longrightarrow> ce_node c = node"
  by (auto simp: estimate_candidate_def result_simps)

text \<open>A candidate that survives the filter on finite scores has a finite transfer duration.\<close>

lemma f_add_PosInf: "\<not> isfinite (f_add PosInf y)"
  by (cases y) simp_all

lemma candidate_finite_transfer:
  assumes "estimate_candidate subtask node w = Inr c" and "isfinite (ce_score c)"
  shows "\<exists>n. ce_transfer_duration_ms c = Millis n"
proof (cases "ce_transfer_duration_ms c")
  case Infinite
  with assms(1) have "\<not> isfinite (ce_score c)"
    by (auto simp: estimate_candidate_def result_simps float_of_int_def f_add_PosInf
        split: pyfloat.splits)
  with assms(2) show ?thesis by simp
qed auto

text \<open>
  Within the bounds of the columns the estimate of the compute duration never raises:
  the clamped usage leaves at least 1/32 of the capacity, and every intermediate value
  stays far below the largest double.
\<close>

definition compute_exact :: "rat \<Rightarrow> rat \<Rightarrow> rat \<Rightarrow> int" where
  "compute_exact l c u =
     (let free = round_double (1 - round_double (min (max u 0) 95 / 100));
          effective = round_double (c * free);
          seconds = round_double (l / effective)
      in round_half_even (round_double (seconds * 1000)))"

lemma clamp_eq:
  "py_min (py_max (Fin u) (lit 0)) (lit 95) = Fin (min (max u 0) 95)"
  by (auto simp: py_min_def py_max_def lit_def fl_numeral)

lemma free_bounds:
  fixes u :: rat
  defines "r \<equiv> round_double (min (max u 0) 95 / 100)"
  shows "0 \<le> r" and "r \<le> 31 / 32"
    and "1 / 32 \<le> round_double (1 - r)" and "round_double (1 - r) \<le> 1"
proof -
  have exact: "round_double (31 / 32) = 31 / 32"
  proof (rule round_double_exact)
    show "31 / 32 = of_int 31 * (2 :: rat) powi (- 5)" by (simp add: power_int_minus)
    have "binade (31 / 32) = - 1" by (rule binade_eqI) (simp_all add: power_int_minus)
    then show "last_place (31 / 32) \<le> - 5" by (simp add: last_place_def)
  qed simp
  show r0: "0 \<le> r" unfolding r_def by (intro round_double_nonneg) simp
  have "r \<le> round_double (31 / 32)" unfolding r_def
    by (intro round_double_mono) (auto simp: min_def max_def)
  with exact show r1: "r \<le> 31 / 32" by simp
  have "round_double (2 powi (- 5)) \<le> round_double (1 - r)"
    by (rule round_double_mono) (use r1 in \<open>simp_all add: power_int_minus\<close>)
  moreover have "round_double (2 powi (- 5)) = 2 powi (- 5)" by (rule round_double_pow2) simp
  ultimately show "1 / 32 \<le> round_double (1 - r)" by (simp add: power_int_minus)
  have "round_double (1 - r) \<le> round_double (2 powi 0)"
    by (rule round_double_mono) (use r0 r1 in simp_all)
  moreover have "round_double (2 powi 0) = 2 powi 0" by (rule round_double_pow2) simp
  ultimately show "round_double (1 - r) \<le> 1" by simp
qed

lemma effective_bounds:
  fixes c u :: rat
  assumes "1 / 128 \<le> c" and "c \<le> 2 powi 30"
  defines "e \<equiv> round_double (c * round_double (1 - round_double (min (max u 0) 95 / 100)))"
  shows "2 powi (- 12) \<le> e" and "0 < e" and "c * round_double (1 - round_double (min (max u 0) 95 / 100)) \<le> 2 powi 30"
proof -
  let ?f = "round_double (1 - round_double (min (max u 0) 95 / 100))"
  have "1 / 128 * (1 / 32) \<le> c * ?f"
    using assms(1) free_bounds(3) [of u] by (intro mult_mono) auto
  then have "2 powi (- 12) \<le> c * ?f" by (simp add: power_int_minus)
  then show e: "2 powi (- 12) \<le> e" unfolding e_def by (rule round_double_ge_pow2) simp
  then show "0 < e" by (rule less_le_trans [rotated]) simp
  have "c * ?f \<le> 2 powi 30 * 1"
    using assms(1,2) free_bounds(3,4) [of u] by (intro mult_mono) auto
  then show "c * ?f \<le> 2 powi 30" by simp
qed

lemma seconds_bounds:
  fixes l e :: rat
  assumes "0 \<le> l" and "l \<le> 2 powi 40" and e: "2 powi (- 12) \<le> e"
  shows "0 \<le> l / e" and "l / e \<le> 2 powi 52" and "round_double (l / e) \<le> 2 powi 52"
    and "0 \<le> round_double (l / e)" and "round_double (l / e) * 1000 \<le> 2 powi 62"
proof -
  have pos: "0 < e" using e by (rule less_le_trans [rotated]) simp
  show ge: "0 \<le> l / e" using assms(1) pos by simp
  have "l / e \<le> 2 powi 40 / 2 powi (- 12)"
    using assms pos by (intro frac_le) simp_all
  then show le: "l / e \<le> 2 powi 52" by (simp add: power_int_minus)
  then show r: "round_double (l / e) \<le> 2 powi 52" using ge by (intro round_double_le_pow2) simp_all
  show "0 \<le> round_double (l / e)" using ge by (rule round_double_nonneg)
  from r show "round_double (l / e) * 1000 \<le> 2 powi 62" by simp
qed

lemma compute_duration_exact:
  assumes "ss_compute_load subtask = Fin l" and l: "0 \<le> l" "l \<le> 2 powi 40"
    and "ns_cpu_capacity node = Fin c" and c: "1 / 128 \<le> c" "c \<le> 2 powi 30"
    and "ns_cpu_usage_percent node = Fin u"
  shows "compute_duration_ms_for subtask node = Inr (compute_exact l c u)"
proof -
  let ?p = "min (max u 0) 95 / 100 :: rat"
  let ?free = "round_double (1 - round_double ?p)"
  let ?e = "round_double (c * ?free)"
  note fb = free_bounds [of u] and eb = effective_bounds [OF c, of u]
  note sb = seconds_bounds [OF l eb(1)]
  have "0 \<le> ?p" "?p \<le> 2 powi 0" by (auto simp: min_def max_def)
  then have 1: "fl ?p = Fin (round_double ?p)" by (rule fl_finite) simp_all
  have 2: "fl (1 - round_double ?p) = Fin ?free"
    by (rule fl_finite [where k = 0]) (use fb(1,2) in simp_all)
  have 3: "fl (c * ?free) = Fin ?e"
    by (rule fl_finite [OF _ eb(3)]) (use c fb(3) in simp_all)
  have 4: "fl (l / ?e) = Fin (round_double (l / ?e))"
    by (rule fl_finite [OF sb(1,2)]) simp_all
  have 5: "fl (round_double (l / ?e) * 1000) = Fin (round_double (round_double (l / ?e) * 1000))"
    by (rule fl_finite [OF _ sb(5)]) (use sb(4) in simp_all)
  have "usage_ratio node = Inr (Fin (round_double ?p))"
    using assms(7) 1 by (simp add: usage_ratio_def clamp_eq) (simp add: lit_def fl_numeral)
  then show ?thesis
    using assms(1,4) 2 3 4 5 eb(2)
    by (simp add: compute_duration_ms_for_def compute_exact_def Let_def f_sub_def lit_def fl_numeral)
qed

text \<open>
  More load, less capacity or a higher usage never shorten the estimate.
\<close>

lemma compute_exact_mono:
  assumes l: "0 \<le> l" "l \<le> l'" "l' \<le> 2 powi 40"
    and c: "1 / 128 \<le> c'" "c' \<le> c" "c \<le> 2 powi 30" and u: "u \<le> u'"
  shows "compute_exact l c u \<le> compute_exact l' c' u'"
proof -
  let ?free = "\<lambda>u. round_double (1 - round_double (min (max u 0) 95 / 100))"
  have "round_double (min (max u 0) 95 / 100) \<le> round_double (min (max u' 0) 95 / 100)"
    using u by (intro round_double_mono) (auto simp: min_def max_def)
  then have free: "?free u' \<le> ?free u"
    using free_bounds(2) [of u'] by (intro round_double_mono) simp_all
  have eff: "round_double (c' * ?free u') \<le> round_double (c * ?free u)"
  proof (rule round_double_mono)
    have f: "0 \<le> ?free u'" using free_bounds(3) [of u'] by simp
    show "c' * ?free u' \<le> c * ?free u" by (rule mult_mono) (use free c f in simp_all)
    show "0 \<le> c' * ?free u'" using c f by simp
  qed
  have c1: "1 / 128 \<le> c" and c2: "c' \<le> 2 powi 30" using c by simp_all
  note e' = effective_bounds [OF c(1) c2, of u']
  have "l / round_double (c * ?free u) \<le> l' / round_double (c' * ?free u')"
    using eff e'(2) l by (intro frac_le) simp_all
  then have "round_double (l / round_double (c * ?free u)) \<le>
      round_double (l' / round_double (c' * ?free u'))"
    using l effective_bounds(2) [OF c1 c(3), of u] by (intro round_double_mono) simp_all
  moreover have "0 \<le> round_double (l / round_double (c * ?free u))"
    using l effective_bounds(2) [OF c1 c(3), of u] by (intro round_double_nonneg) simp
  ultimately show ?thesis
    unfolding compute_exact_def Let_def
    by (intro round_half_even_mono round_double_mono) simp_all
qed

lemma compute_exact_nonneg:
  assumes "0 \<le> l" and "1 / 128 \<le> c" and "c \<le> 2 powi 30"
  shows "0 \<le> compute_exact l c u"
  using assms effective_bounds(2) [OF assms(2,3), of u]
  by (auto simp: compute_exact_def Let_def intro!: round_half_even_nonneg round_double_nonneg)

end
