(* ===== verification/Schedulers.thy ===== *)
theory Schedulers
  imports Estimation "HOL-Library.Product_Lexorder" "HOL-Library.List_Lexorder"
    "HOL-Library.Char_ord"
begin

text \<open>
  The three scheduling strategies: \<open>app/scheduler/greedy.py\<close>, \<open>local_only.py\<close> and
  \<open>random_offload.py\<close>. What every strategy promises (the \<open>SchedulerStrategy\<close> protocol)
  is the locale \<open>scheduler_strategy\<close>; the three strategies are interpretations of it.
  \<open>min(..., key=...)\<close> is \<open>min_by\<close>, whose contract is the locale \<open>first_min\<close>.
\<close>

section \<open>Taking the least element by a key\<close>

text \<open>Python compares floats with \<open><\<close> and \<open><=\<close>, tuples lexicographically.\<close>

instantiation pyfloat :: ord
begin

definition less_eq_pyfloat :: "pyfloat \<Rightarrow> pyfloat \<Rightarrow> bool" where
  "less_eq_pyfloat = f_le"

definition less_pyfloat :: "pyfloat \<Rightarrow> pyfloat \<Rightarrow> bool" where
  "less_pyfloat = f_less"

instance ..

end

text \<open>\<open>min(xs, key=key)\<close> keeps the first element that no later one beats.\<close>

fun min_by :: "('a \<Rightarrow> 'k :: ord) \<Rightarrow> 'a list \<Rightarrow> 'a result" where
  "min_by key [] = Inl (ValueError ''min() arg is an empty sequence'')"
| "min_by key (x # xs) = Inr (foldl (\<lambda>best y. if key y < key best then y else best) x xs)"

text \<open>
  The contract: on keys that are comparable (\<open>ok\<close>), \<open><\<close> is a strict weak order, and
  the choice is an element of the list that no element beats.
\<close>

locale first_min =
  fixes key :: "'a \<Rightarrow> 'k :: ord"
    and ok :: "'a \<Rightarrow> bool"
  assumes irrefl: "ok x \<Longrightarrow> \<not> key x < key x"
    and trans: "ok x \<Longrightarrow> ok y \<Longrightarrow> ok z \<Longrightarrow> key x < key y \<Longrightarrow> key y < key z \<Longrightarrow> key x < key z"
    and neg_trans: "ok x \<Longrightarrow> ok y \<Longrightarrow> ok z \<Longrightarrow> \<not> key x < key y \<Longrightarrow> \<not> key y < key z \<Longrightarrow>
      \<not> key x < key z"
begin

lemma fold_min:
  "ok b \<Longrightarrow> \<forall>y \<in> set ys. ok y \<Longrightarrow>
     foldl (\<lambda>best y. if key y < key best then y else best) b ys \<in> insert b (set ys) \<and>
     (\<forall>y \<in> insert b (set ys).
        \<not> key y < key (foldl (\<lambda>best y. if key y < key best then y else best) b ys))"
proof (induction ys arbitrary: b)
  case Nil
  then show ?case by (simp add: irrefl)
next
  case (Cons y ys)
  let ?b = "if key y < key b then y else b"
  let ?m = "foldl (\<lambda>best y. if key y < key best then y else best) ?b ys"
  have okb: "ok ?b" using Cons.prems by simp
  with Cons have IH: "?m \<in> insert ?b (set ys)" "\<forall>z \<in> insert ?b (set ys). \<not> key z < key ?m"
    by simp_all
  have okm: "ok ?m" using IH(1) Cons.prems okb by auto
  have "\<not> key ?b < key ?m" using IH(2) by simp
  moreover have "\<not> key b < key ?b \<and> \<not> key y < key ?b"
  proof (cases "key y < key b")
    case True
    then have "\<not> key b < key y" using irrefl [of b] trans [of b y b] Cons.prems by auto
    with True irrefl [of y] Cons.prems show ?thesis by simp
  next
    case False
    with irrefl [of b] Cons.prems show ?thesis by simp
  qed
  ultimately have "\<not> key b < key ?m" "\<not> key y < key ?m"
    using neg_trans [of b ?b ?m] neg_trans [of y ?b ?m] okb okm Cons.prems by simp_all
  moreover have "foldl (\<lambda>best y. if key y < key best then y else best) b (y # ys) = ?m" by simp
  ultimately show ?case using IH by (auto simp del: foldl_Cons split: if_splits)
qed

lemma min_by_least:
  assumes "min_by key xs = Inr m" and "\<forall>x \<in> set xs. ok x"
  shows "m \<in> set xs" and "\<forall>x \<in> set xs. \<not> key x < key m"
proof -
  from assms(1) obtain y ys where xs: "xs = y # ys"
    and m: "m = foldl (\<lambda>best y. if key y < key best then y else best) y ys"
    by (cases xs) auto
  with assms(2) fold_min [of y ys] show "m \<in> set xs" "\<forall>x \<in> set xs. \<not> key x < key m"
    by simp_all
qed

end

lemma min_by_Inr: "xs \<noteq> [] \<Longrightarrow> \<exists>m. min_by key xs = Inr m"
  by (cases xs) simp_all

lemma min_by_mem: "min_by key xs = Inr m \<Longrightarrow> m \<in> set xs"
proof (cases xs)
  case (Cons x ys)
  have "foldl (\<lambda>best y. if key y < key best then y else best) b ys \<in> insert b (set ys)" for b
    by (induction ys arbitrary: b) (simp, fastforce)
  moreover assume "min_by key xs = Inr m"
  ultimately show ?thesis using Cons by auto
qed simp

text \<open>\<open>x or 0\<close> on an optional integer.\<close>

definition or_zero :: "int option \<Rightarrow> int" where
  "or_zero x = (case x of None \<Rightarrow> 0 | Some n \<Rightarrow> n)"

definition greedy_key :: "CandidateEstimate \<Rightarrow> pyfloat \<times> int \<times> int \<times> string" where
  "greedy_key c =
     (ce_score c, or_zero (ns_queue_length (ce_node c)), or_zero (ns_current_load (ce_node c)),
      ns_name (ce_node c))"

definition local_key :: "CandidateEstimate \<Rightarrow> int \<times> int \<times> int \<times> string" where
  "local_key c =
     (ce_compute_duration_ms c, or_zero (ns_queue_length (ce_node c)),
      or_zero (ns_current_load (ce_node c)), ns_name (ce_node c))"

lemma finite_less:
  "isfinite x \<Longrightarrow> isfinite y \<Longrightarrow>
     (x < y) = (case (x, y) of (Fin a, Fin b) \<Rightarrow> a < b | _ \<Rightarrow> False)"
  "isfinite x \<Longrightarrow> isfinite y \<Longrightarrow>
     (x \<le> y) = (case (x, y) of (Fin a, Fin b) \<Rightarrow> a \<le> b | _ \<Rightarrow> False)"
  by (cases x; cases y; auto simp: less_pyfloat_def less_eq_pyfloat_def f_le_def f_eq_def)+

interpretation greedy_min: first_min greedy_key "\<lambda>c. isfinite (ce_score c)"
proof
  fix x y z :: CandidateEstimate
  let ?rest = "\<lambda>c. snd (greedy_key c)"
  have key: "(greedy_key a < greedy_key b) =
      (ce_score a < ce_score b \<or> ce_score a \<le> ce_score b \<and> ?rest a < ?rest b)" for a b
    by (simp add: less_prod_def greedy_key_def)
  assume x: "isfinite (ce_score x)"
  show "\<not> greedy_key x < greedy_key x"
    unfolding key using x by (cases "ce_score x") (simp_all add: finite_less)
  assume y: "isfinite (ce_score y)" and z: "isfinite (ce_score z)"
  show "greedy_key x < greedy_key z" if "greedy_key x < greedy_key y" "greedy_key y < greedy_key z"
    using that x y z unfolding key
    by (cases "ce_score x"; cases "ce_score y"; cases "ce_score z") (auto simp: finite_less)
  show "\<not> greedy_key x < greedy_key z"
    if "\<not> greedy_key x < greedy_key y" "\<not> greedy_key y < greedy_key z"
    using that x y z unfolding key
    by (cases "ce_score x"; cases "ce_score y"; cases "ce_score z") (auto simp: finite_less)
qed

interpretation local_min: first_min local_key "\<lambda>c. True"
  by unfold_locales auto

section \<open>What the strategies share\<close>

definition finite_candidates ::
  "SchedulableSubtask \<Rightarrow> NodeSnapshot list \<Rightarrow> pyfloat \<Rightarrow> CandidateEstimate list result" where
  "finite_candidates subtask snapshots energy_cost_weight =
     and_then (map_result (\<lambda>node. estimate_candidate subtask node energy_cost_weight) snapshots)
       (\<lambda>candidates. Inr (filter (\<lambda>c. isfinite (ce_score c)) candidates))"

definition total_duration :: "SchedulePlanItem list \<Rightarrow> pynum result" where
  "total_duration items =
     for_each (\<lambda>item acc.
       and_then (num_add (PInt (si_estimated_compute_duration_ms item))
           (transfer_num (si_estimated_transfer_duration_ms item)))
         (num_add acc)) items (PInt 0)"

definition total_energy :: "SchedulePlanItem list \<Rightarrow> pyfloat" where
  "total_energy items =
     py_round4 (foldl (\<lambda>acc item. f_add acc (si_estimated_energy item)) (Fin 0) items)"

definition assemble_plan ::
  "SchedulerStrategyName \<Rightarrow> SchedulePlanItem list \<Rightarrow> SchedulePlan result" where
  "assemble_plan name items =
     and_then (total_duration items) (\<lambda>duration.
     Inr \<lparr>gp_strategy_name = name, gp_items = items,
          gp_estimated_total_duration_ms = duration,
          gp_estimated_total_energy = total_energy items\<rparr>)"

definition plan_item ::
  "SchedulableSubtask \<Rightarrow> CandidateEstimate \<Rightarrow> transfer_ms \<Rightarrow> string \<Rightarrow> SchedulePlanItem" where
  "plan_item subtask candidate transfer reason =
     \<lparr>si_subtask_id = ss_id subtask,
      si_subtask_external_id = ss_external_id subtask,
      si_assigned_node_id = ns_id (ce_node candidate),
      si_assigned_node_name = ns_name (ce_node candidate),
      si_assigned_node_type = ns_node_type (ce_node candidate),
      si_estimated_compute_duration_ms = ce_compute_duration_ms candidate,
      si_estimated_transfer_duration_ms = transfer,
      si_estimated_energy = py_round4 (ce_energy candidate),
      si_decision_reason = reason\<rparr>"

definition cannot_execute :: "string \<Rightarrow> SchedulableSubtask \<Rightarrow> exc" where
  "cannot_execute lead subtask =
     NoAvailableNodeError (lead @ ss_external_id subtask @ '' with constraint '' @
       constraint_value (ss_execution_constraint subtask))"

definition no_schedulable_subtasks :: exc where
  "no_schedulable_subtasks = NoSchedulableSubtaskError ''No schedulable subtasks''"

definition default_energy_cost_weight :: pyfloat where
  "default_energy_cost_weight = lit (2 / 10)"

section \<open>The greedy strategy\<close>

definition greedy_select_best_candidate ::
  "SchedulableSubtask \<Rightarrow> NodeSnapshot list \<Rightarrow> pyfloat \<Rightarrow> CandidateEstimate result" where
  "greedy_select_best_candidate subtask snapshots energy_cost_weight =
     and_then (finite_candidates subtask
         (filter (\<lambda>node. f_less (lit 0) (ns_cpu_capacity node) \<and>
            node_matches_constraint subtask node) snapshots) energy_cost_weight) (\<lambda>candidates.
     if candidates = []
     then Inl (cannot_execute ''No available node can execute subtask '' subtask)
     else min_by greedy_key candidates)"

definition greedy_item ::
  "NodeSnapshot list \<Rightarrow> pyfloat \<Rightarrow> SchedulableSubtask \<Rightarrow> SchedulePlanItem result" where
  "greedy_item online_nodes energy_cost_weight subtask =
     and_then (greedy_select_best_candidate subtask online_nodes energy_cost_weight)
       (\<lambda>candidate.
     Inr (plan_item subtask candidate (ce_transfer_duration_ms candidate)
       (''selected by lowest estimated cost (compute='' @
        int_text (ce_compute_duration_ms candidate) @ ''ms, transfer='' @
        transfer_text (ce_transfer_duration_ms candidate) @ ''ms)'')))"

definition greedy_generate_plan ::
  "SchedulableSubtask list \<Rightarrow> NodeSnapshot list \<Rightarrow> json_object option \<Rightarrow> SchedulePlan result"
where
  "greedy_generate_plan subtasks snapshots options =
     (if subtasks = [] then Inl no_schedulable_subtasks
      else
      let online_nodes = filter (\<lambda>node. ns_status node = NodeStatus.ONLINE) snapshots in
      if online_nodes = []
      then Inl (NoAvailableNodeError ''No online nodes are available for scheduling'')
      else
      and_then (float_option options ''energy_cost_weight'' default_energy_cost_weight)
        (\<lambda>energy_cost_weight.
      and_then (map_result (greedy_item online_nodes energy_cost_weight) subtasks)
        (assemble_plan SchedulerStrategyName.GREEDY)))"

section \<open>The local-only strategy\<close>

definition local_item ::
  "NodeSnapshot list \<Rightarrow> pyfloat \<Rightarrow> SchedulableSubtask \<Rightarrow> SchedulePlanItem result" where
  "local_item online_uavs energy_cost_weight subtask =
     and_then (finite_candidates subtask
       (filter (node_matches_constraint subtask) online_uavs) energy_cost_weight) (\<lambda>candidates.
     if candidates = []
     then Inl (cannot_execute ''No local UAV node can execute subtask '' subtask)
     else
     and_then (min_by local_key candidates) (\<lambda>candidate.
     and_then (num_int (transfer_num (ce_transfer_duration_ms candidate))) (\<lambda>transfer.
     Inr (plan_item subtask candidate (Millis transfer)
       ''selected by local-only strategy''))))"

definition local_only_generate_plan ::
  "SchedulableSubtask list \<Rightarrow> NodeSnapshot list \<Rightarrow> json_object option \<Rightarrow> SchedulePlan result"
where
  "local_only_generate_plan subtasks snapshots options =
     (if subtasks = [] then Inl no_schedulable_subtasks
      else
      let online_uavs = filter (\<lambda>node. ns_status node = NodeStatus.ONLINE \<and>
            ns_node_type node = NodeType.UAV \<and> f_less (lit 0) (ns_cpu_capacity node)) snapshots in
      if online_uavs = []
      then Inl (NoAvailableNodeError ''No online UAV nodes are available for scheduling'')
      else
      and_then (float_option options ''energy_cost_weight'' default_energy_cost_weight)
        (\<lambda>energy_cost_weight.
      and_then (map_result (local_item online_uavs energy_cost_weight) subtasks)
        (assemble_plan SchedulerStrategyName.LOCAL_ONLY)))"

section \<open>The random-offload strategy\<close>

text \<open>\<open>isinstance(seed, int)\<close> holds of a \<open>bool\<close>, too.\<close>

definition seed_option :: "json_object option \<Rightarrow> int option" where
  "seed_option options =
     (case options of
        None \<Rightarrow> None
      | Some opts \<Rightarrow>
          (case map_of opts ''seed'' of
             Some (JInt n) \<Rightarrow> Some n
           | Some (JBool b) \<Rightarrow> Some (if b then 1 else 0)
           | _ \<Rightarrow> None))"

text \<open>
  The generator is a parameter: the index \<open>Random(seed)\<close> draws below \<open>n\<close> after the
  draws with the given bounds. \<open>random.choice\<close> indexes the list with it.
\<close>

type_synonym random = "int option \<Rightarrow> nat list \<Rightarrow> nat \<Rightarrow> nat"

definition random_choice :: "random \<Rightarrow> int option \<Rightarrow> nat list \<Rightarrow> 'a list \<Rightarrow> 'a result" where
  "random_choice random seed drawn xs =
     (let i = random seed drawn (length xs) in
      if i < length xs then Inr (xs ! i) else Inl IndexError)"

definition random_item ::
  "random \<Rightarrow> int option \<Rightarrow> NodeSnapshot list \<Rightarrow> pyfloat \<Rightarrow> SchedulableSubtask \<Rightarrow>
   nat list \<times> SchedulePlanItem list \<Rightarrow> (nat list \<times> SchedulePlanItem list) result" where
  "random_item random seed online_nodes energy_cost_weight subtask st =
     and_then (finite_candidates subtask
       (filter (node_matches_constraint subtask) online_nodes) energy_cost_weight) (\<lambda>candidates.
     if candidates = []
     then Inl (cannot_execute ''No available node can execute subtask '' subtask)
     else
     and_then (random_choice random seed (fst st) candidates) (\<lambda>candidate.
     and_then (num_int (transfer_num (ce_transfer_duration_ms candidate))) (\<lambda>transfer.
     Inr (fst st @ [length candidates],
          snd st @ [plan_item subtask candidate (Millis transfer)
            ''selected by random-offload strategy'']))))"

definition random_offload_generate_plan ::
  "random \<Rightarrow> SchedulableSubtask list \<Rightarrow> NodeSnapshot list \<Rightarrow> json_object option \<Rightarrow>
   SchedulePlan result" where
  "random_offload_generate_plan random subtasks snapshots options =
     (if subtasks = [] then Inl no_schedulable_subtasks
      else
      let online_nodes = filter (\<lambda>node. ns_status node = NodeStatus.ONLINE \<and>
            f_less (lit 0) (ns_cpu_capacity node)) snapshots in
      if online_nodes = []
      then Inl (NoAvailableNodeError ''No online nodes are available for scheduling'')
      else
      and_then (float_option options ''energy_cost_weight'' default_energy_cost_weight)
        (\<lambda>energy_cost_weight.
      and_then (for_each (random_item random (seed_option options) online_nodes
          energy_cost_weight) subtasks ([], [])) (\<lambda>st.
      assemble_plan SchedulerStrategyName.RANDOM_OFFLOAD (snd st))))"

section \<open>The contract of a strategy\<close>

text \<open>
  What a plan item must be for a subtask: it names the subtask, and an online node with
  a positive capacity that satisfies the subtask's constraint and that it reaches in
  finite time, with the durations and the energy estimated for that node.
\<close>

definition item_ok ::
  "NodeSnapshot list \<Rightarrow> pyfloat \<Rightarrow> SchedulableSubtask \<Rightarrow> SchedulePlanItem \<Rightarrow> bool" where
  "item_ok snapshots weight s i \<longleftrightarrow>
     (\<exists>n \<in> set snapshots. \<exists>c k reason.
        ns_status n = NodeStatus.ONLINE \<and> f_less (Fin 0) (ns_cpu_capacity n) \<and>
        node_matches_constraint s n \<and> estimate_candidate s n weight = Inr c \<and>
        isfinite (ce_score c) \<and> ce_transfer_duration_ms c = Millis k \<and>
        i = plan_item s c (Millis k) reason)"

lemma finite_candidates_mem:
  assumes "finite_candidates s ns w = Inr cs" and "c \<in> set cs"
  shows "\<exists>n k. n \<in> set ns \<and> estimate_candidate s n w = Inr c \<and> isfinite (ce_score c) \<and>
    ce_transfer_duration_ms c = Millis k"
proof -
  from assms obtain all where all: "list_all2 (\<lambda>n c. estimate_candidate s n w = Inr c) ns all"
    and c: "c \<in> set all" "isfinite (ce_score c)"
    by (auto simp: finite_candidates_def result_simps map_result_Inr_iff)
  from c(1) obtain j where "j < length all" "c = all ! j" by (auto simp: in_set_conv_nth)
  with all have "ns ! j \<in> set ns" "estimate_candidate s (ns ! j) w = Inr c"
    by (auto simp: list_all2_conv_all_nth)
  with c(2) candidate_finite_transfer show ?thesis by blast
qed

lemma lit_0 [simp]: "lit 0 = Fin 0"
  by (simp add: lit_def)

lemma greedy_item_ok:
  assumes "greedy_item (filter (\<lambda>n. ns_status n = NodeStatus.ONLINE) snapshots) w s = Inr i"
  shows "item_ok snapshots w s i"
proof -
  from assms obtain cs c reason where cs: "finite_candidates s
        (filter (\<lambda>n. f_less (lit 0) (ns_cpu_capacity n) \<and> node_matches_constraint s n)
          (filter (\<lambda>n. ns_status n = NodeStatus.ONLINE) snapshots)) w = Inr cs"
    and m: "min_by greedy_key cs = Inr c"
    and i: "i = plan_item s c (ce_transfer_duration_ms c) reason"
    by (auto simp: greedy_item_def greedy_select_best_candidate_def result_simps
        split: if_splits)
  from finite_candidates_mem [OF cs min_by_mem [OF m]] i show ?thesis
    by (fastforce simp: item_ok_def)
qed

lemma local_item_ok:
  assumes "local_item (filter (\<lambda>n. ns_status n = NodeStatus.ONLINE \<and>
      ns_node_type n = NodeType.UAV \<and> f_less (lit 0) (ns_cpu_capacity n)) snapshots) w s = Inr i"
  shows "item_ok snapshots w s i" and "si_assigned_node_type i = NodeType.UAV"
proof -
  from assms obtain cs c t reason where cs: "finite_candidates s
        (filter (node_matches_constraint s) (filter (\<lambda>n. ns_status n = NodeStatus.ONLINE \<and>
          ns_node_type n = NodeType.UAV \<and> f_less (lit 0) (ns_cpu_capacity n)) snapshots)) w = Inr cs"
    and m: "min_by local_key cs = Inr c"
    and t: "num_int (transfer_num (ce_transfer_duration_ms c)) = Inr t"
    and i: "i = plan_item s c (Millis t) reason"
    by (auto simp: local_item_def result_simps split: if_splits)
  from finite_candidates_mem [OF cs min_by_mem [OF m]] i t
  show "item_ok snapshots w s i" "si_assigned_node_type i = NodeType.UAV"
    by (fastforce simp: item_ok_def plan_item_def dest: estimate_candidate_node)+
qed

lemma random_choice_mem: "random_choice random seed drawn xs = Inr c \<Longrightarrow> c \<in> set xs"
  by (auto simp: random_choice_def Let_def split: if_splits)

lemma random_item_ok:
  assumes "random_item random seed (filter (\<lambda>n. ns_status n = NodeStatus.ONLINE \<and>
      f_less (lit 0) (ns_cpu_capacity n)) snapshots) w s st = Inr st'"
  shows "\<exists>i. snd st' = snd st @ [i] \<and> item_ok snapshots w s i"
proof -
  from assms obtain cs c t reason where cs: "finite_candidates s
        (filter (node_matches_constraint s) (filter (\<lambda>n. ns_status n = NodeStatus.ONLINE \<and>
          f_less (lit 0) (ns_cpu_capacity n)) snapshots)) w = Inr cs"
    and m: "random_choice random seed (fst st) cs = Inr c"
    and t: "num_int (transfer_num (ce_transfer_duration_ms c)) = Inr t"
    and i: "snd st' = snd st @ [plan_item s c (Millis t) reason]"
    by (auto simp: random_item_def result_simps split: if_splits)
  from finite_candidates_mem [OF cs random_choice_mem [OF m]] i t show ?thesis
    by (fastforce simp: item_ok_def)
qed

definition plan_ok ::
  "SchedulerStrategyName \<Rightarrow> SchedulableSubtask list \<Rightarrow> NodeSnapshot list \<Rightarrow> pyfloat \<Rightarrow>
   SchedulePlan \<Rightarrow> bool" where
  "plan_ok name subtasks snapshots weight plan \<longleftrightarrow>
     gp_strategy_name plan = name \<and>
     list_all2 (item_ok snapshots weight) subtasks (gp_items plan) \<and>
     total_duration (gp_items plan) = Inr (gp_estimated_total_duration_ms plan) \<and>
     gp_estimated_total_energy plan = total_energy (gp_items plan)"

lemma item_ok_fields:
  assumes "item_ok snapshots w s i"
  shows "si_subtask_id i = ss_id s"
    and "\<exists>k. si_estimated_transfer_duration_ms i = Millis k"
    and "\<exists>n \<in> set snapshots. si_assigned_node_id i = ns_id n \<and>
      si_assigned_node_name i = ns_name n \<and> si_assigned_node_type i = ns_node_type n \<and>
      ns_status n = NodeStatus.ONLINE \<and> node_matches_constraint s n"
  using assms by (auto simp: item_ok_def plan_item_def dest: estimate_candidate_node)

lemma total_duration_millis:
  assumes "\<forall>i \<in> set items. \<exists>k. si_estimated_transfer_duration_ms i = Millis k"
  shows "\<exists>n. total_duration items = Inr (PInt n)"
proof -
  have "\<exists>n. for_each (\<lambda>item acc.
       and_then (num_add (PInt (si_estimated_compute_duration_ms item))
           (transfer_num (si_estimated_transfer_duration_ms item)))
         (num_add acc)) items (PInt m) = Inr (PInt n)" for m
    using assms
  proof (induction items arbitrary: m)
    case (Cons i items)
    then obtain k where "si_estimated_transfer_duration_ms i = Millis k" by auto
    with Cons show ?case by simp
  qed simp
  then show ?thesis by (simp add: total_duration_def)
qed

text \<open>
  The protocol \<open>SchedulerStrategy\<close>: a strategy refuses an empty request, and a plan it
  returns has one admissible item per subtask, in the order of the request, with their
  totals.
\<close>

locale scheduler_strategy =
  fixes name :: SchedulerStrategyName
    and generate :: "SchedulableSubtask list \<Rightarrow> NodeSnapshot list \<Rightarrow> json_object option \<Rightarrow>
      SchedulePlan result"
  assumes refuses_empty: "generate [] snapshots options = Inl no_schedulable_subtasks"
    and plans: "generate subtasks snapshots options = Inr plan \<Longrightarrow>
      subtasks \<noteq> [] \<and>
      (\<exists>weight. float_option options ''energy_cost_weight'' default_energy_cost_weight = Inr weight \<and>
        plan_ok name subtasks snapshots weight plan)"
begin

lemma plan_subtask_ids:
  assumes "generate subtasks snapshots options = Inr plan"
  shows "map si_subtask_id (gp_items plan) = map ss_id subtasks"
proof -
  from plans [OF assms] obtain w where "list_all2 (item_ok snapshots w) subtasks (gp_items plan)"
    by (auto simp: plan_ok_def)
  then show ?thesis by (induction) (auto dest: item_ok_fields(1))
qed

lemma plan_nonempty: "generate subtasks snapshots options = Inr plan \<Longrightarrow> gp_items plan \<noteq> []"
  using plans plan_subtask_ids by fastforce

lemma plan_item_source:
  assumes "generate subtasks snapshots options = Inr plan" and "i \<in> set (gp_items plan)"
  obtains s n where "s \<in> set subtasks" and "n \<in> set snapshots" and "si_subtask_id i = ss_id s"
    and "si_assigned_node_id i = ns_id n" and "si_assigned_node_type i = ns_node_type n"
    and "ns_status n = NodeStatus.ONLINE" and "node_matches_constraint s n"
    and "\<exists>k. si_estimated_transfer_duration_ms i = Millis k"
proof -
  from plans [OF assms(1)] obtain w
    where all: "list_all2 (item_ok snapshots w) subtasks (gp_items plan)"
    by (auto simp: plan_ok_def)
  from assms(2) obtain j where "j < length (gp_items plan)" "i = gp_items plan ! j"
    by (auto simp: in_set_conv_nth)
  with all have "subtasks ! j \<in> set subtasks" and "item_ok snapshots w (subtasks ! j) i"
    by (auto simp: list_all2_conv_all_nth)
  then obtain s where "s \<in> set subtasks" and ok: "item_ok snapshots w s i" by blast
  with item_ok_fields [OF ok] that show thesis by blast
qed

lemma plan_total_int:
  assumes "generate subtasks snapshots options = Inr plan"
  shows "\<exists>n. gp_estimated_total_duration_ms plan = PInt n"
proof -
  have "\<forall>i \<in> set (gp_items plan). \<exists>k. si_estimated_transfer_duration_ms i = Millis k"
    using plan_item_source [OF assms] by metis
  from total_duration_millis [OF this] plans [OF assms] show ?thesis
    by (auto simp: plan_ok_def)
qed

lemma plan_name: "generate subtasks snapshots options = Inr plan \<Longrightarrow> gp_strategy_name plan = name"
  using plans by (fastforce simp: plan_ok_def)

end

section \<open>The strategies meet the contract\<close>

lemma assemble_plan_ok:
  assumes "assemble_plan name items = Inr plan"
    and "list_all2 (item_ok snapshots w) subtasks items"
  shows "plan_ok name subtasks snapshots w plan"
  using assms by (auto simp: assemble_plan_def plan_ok_def result_simps)

interpretation greedy: scheduler_strategy SchedulerStrategyName.GREEDY greedy_generate_plan
proof
  fix subtasks snapshots options plan
  show "greedy_generate_plan [] snapshots options = Inl no_schedulable_subtasks"
    by (simp add: greedy_generate_plan_def)
  assume "greedy_generate_plan subtasks snapshots options = Inr plan"
  then show "subtasks \<noteq> [] \<and>
      (\<exists>weight. float_option options ''energy_cost_weight'' default_energy_cost_weight = Inr weight \<and>
        plan_ok SchedulerStrategyName.GREEDY subtasks snapshots weight plan)"
    by (auto simp: greedy_generate_plan_def Let_def result_simps map_result_Inr_iff
        split: if_splits elim!: assemble_plan_ok list_all2_mono greedy_item_ok)
qed

interpretation local_only:
  scheduler_strategy SchedulerStrategyName.LOCAL_ONLY local_only_generate_plan
proof
  fix subtasks snapshots options plan
  show "local_only_generate_plan [] snapshots options = Inl no_schedulable_subtasks"
    by (simp add: local_only_generate_plan_def)
  assume "local_only_generate_plan subtasks snapshots options = Inr plan"
  then show "subtasks \<noteq> [] \<and>
      (\<exists>weight. float_option options ''energy_cost_weight'' default_energy_cost_weight = Inr weight \<and>
        plan_ok SchedulerStrategyName.LOCAL_ONLY subtasks snapshots weight plan)"
    by (auto simp: local_only_generate_plan_def Let_def result_simps map_result_Inr_iff
        split: if_splits elim!: assemble_plan_ok list_all2_mono local_item_ok(1) [simplified])
qed

lemma random_items_ok:
  assumes "for_each (random_item random seed (filter (\<lambda>n. ns_status n = NodeStatus.ONLINE \<and>
      f_less (lit 0) (ns_cpu_capacity n)) snapshots) w) subtasks st = Inr st'"
    and "list_all2 (item_ok snapshots w) earlier (snd st)"
  shows "list_all2 (item_ok snapshots w) (earlier @ subtasks) (snd st')"
  using assms
proof (induction subtasks arbitrary: st earlier)
  case (Cons s subtasks)
  from Cons.prems(1) obtain st1 where r: "random_item random seed
      (filter (\<lambda>n. ns_status n = NodeStatus.ONLINE \<and> f_less (lit 0) (ns_cpu_capacity n))
        snapshots) w s st = Inr st1"
    and rest: "for_each (random_item random seed (filter (\<lambda>n. ns_status n = NodeStatus.ONLINE \<and>
      f_less (lit 0) (ns_cpu_capacity n)) snapshots) w) subtasks st1 = Inr st'"
    unfolding for_each.simps and_then_Inr_iff by blast
  from random_item_ok [OF r] Cons.prems(2)
  have "list_all2 (item_ok snapshots w) (earlier @ [s]) (snd st1)"
    by (auto intro: list_all2_appendI)
  from Cons.IH [OF rest this] show ?case by simp
qed simp

interpretation random_offload:
  scheduler_strategy SchedulerStrategyName.RANDOM_OFFLOAD "random_offload_generate_plan random"
  for random
proof
  fix subtasks snapshots options plan
  show "random_offload_generate_plan random [] snapshots options = Inl no_schedulable_subtasks"
    by (simp add: random_offload_generate_plan_def)
  assume "random_offload_generate_plan random subtasks snapshots options = Inr plan"
  then show "subtasks \<noteq> [] \<and>
      (\<exists>weight. float_option options ''energy_cost_weight'' default_energy_cost_weight = Inr weight \<and>
        plan_ok SchedulerStrategyName.RANDOM_OFFLOAD subtasks snapshots weight plan)"
    by (auto simp: random_offload_generate_plan_def Let_def result_simps
        split: if_splits elim!: assemble_plan_ok
        dest!: random_items_ok [where earlier = "[]", simplified])
qed

end
