(* ===== verification/Scheduling_Service.thy ===== *)
theory Scheduling_Service
  imports Task_Service Schedulers
begin

text \<open>
  \<open>app/services/scheduling_service.py\<close>: what the strategies see of the database, the
  choice of the strategy, the translation of its exceptions, storing a plan and comparing
  the strategies.
\<close>

section \<open>What a strategy sees\<close>

text \<open>\<open>float(...)\<close> of the value of a \<open>Numeric\<close> column.\<close>

fun column_float :: "pyfloat \<Rightarrow> pyfloat" where
  "column_float (Fin x) = fl x"
| "column_float x = x"

definition schedulable_subtask :: "dag_subtask \<Rightarrow> SchedulableSubtask" where
  "schedulable_subtask s =
     \<lparr>ss_id = ds_id s, ss_external_id = ds_external_id s,
      ss_compute_load = column_float (ds_compute_load s),
      ss_input_data_size_mb = column_float (ds_input_data_size_mb s),
      ss_output_data_size_mb = column_float (ds_output_data_size_mb s),
      ss_execution_constraint = ds_execution_constraint s\<rparr>"

definition build_schedulable_subtasks :: "db \<Rightarrow> uuid \<Rightarrow> SchedulableSubtask list" where
  "build_schedulable_subtasks d task_id =
     map schedulable_subtask
       (filter (\<lambda>s. ds_status s = SubtaskStatus.READY) (task_subtasks d task_id))"

definition node_snapshot :: "db \<Rightarrow> node \<Rightarrow> NodeSnapshot" where
  "node_snapshot d n =
     (let latest = get_latest_status_record d (nd_id n) in
      \<lparr>ns_id = nd_id n, ns_name = nd_name n, ns_node_type = nd_node_type n,
       ns_status = nd_status n, ns_cpu_capacity = column_float (nd_cpu_capacity n),
       ns_memory_capacity_mb = nd_memory_capacity_mb n,
       ns_cpu_usage_percent =
         (case latest of None \<Rightarrow> lit 0 | Some r \<Rightarrow> column_float (nr_cpu_usage r)),
       ns_memory_usage_percent =
         (case latest of None \<Rightarrow> lit 0 | Some r \<Rightarrow> column_float (nr_memory_usage r)),
       ns_battery_level = Option.bind latest (\<lambda>r. map_option column_float (nr_battery_level r)),
       ns_bandwidth_mbps = Option.bind latest (\<lambda>r. map_option column_float (nr_bandwidth_mbps r)),
       ns_current_load = Option.bind latest nr_current_load,
       ns_queue_length = Option.bind latest nr_queue_length\<rparr>)"

definition load_node_snapshots :: "db \<Rightarrow> NodeSnapshot list" where
  "load_node_snapshots d = map (node_snapshot d) (node_list_by_status d NodeStatus.ONLINE)"

section \<open>Guards\<close>

definition ensure_task_can_schedule :: "TaskStatus \<Rightarrow> uuid \<Rightarrow> unit result" where
  "ensure_task_can_schedule status task_id =
     (if status = TaskStatus.RUNNING then Inr ()
      else ensure_task_transition task_id status TaskStatus.SCHEDULED)"

lemma ensure_task_can_schedule_Inr_iff [result_simps]:
  "ensure_task_can_schedule s i = Inr u \<longleftrightarrow>
     s \<in> {TaskStatus.PENDING, TaskStatus.RUNNING}"
  by (cases s) (simp_all add: ensure_task_can_schedule_def result_simps)

definition scheduler_strategy_not_found :: "string \<Rightarrow> exc" where
  "scheduler_strategy_not_found strategy_name =
     AppError \<lparr>code = ''SCHEDULER_STRATEGY_NOT_FOUND'', message = ''Scheduler strategy not found'',
       status_code = 400, details = [(''strategy_name'', DStr strategy_name)]\<rparr>"

type_synonym strategy =
  "SchedulableSubtask list \<Rightarrow> NodeSnapshot list \<Rightarrow> json_object option \<Rightarrow> SchedulePlan result"

text \<open>The dictionary \<open>self.strategies\<close>, in its insertion order.\<close>

definition strategies :: "random \<Rightarrow> (SchedulerStrategyName \<times> strategy) list" where
  "strategies random =
     [(SchedulerStrategyName.LOCAL_ONLY, local_only_generate_plan),
      (SchedulerStrategyName.RANDOM_OFFLOAD, random_offload_generate_plan random),
      (SchedulerStrategyName.GREEDY, greedy_generate_plan)]"

definition get_strategy :: "random \<Rightarrow> string \<Rightarrow> strategy result" where
  "get_strategy random strategy_name =
     and_then (except_value_error (strategy_name_of_value strategy_name)
       (\<lambda>_. scheduler_strategy_not_found strategy_name)) (\<lambda>normalized_name.
     case map_of (strategies random) normalized_name of
       None \<Rightarrow> Inl (scheduler_strategy_not_found strategy_name)
     | Some strategy \<Rightarrow> Inr strategy)"

text \<open>The two \<open>except\<close> clauses around \<open>strategy.generate_plan\<close>.\<close>

definition no_schedulable_subtask :: "uuid \<Rightarrow> string \<Rightarrow> exc" where
  "no_schedulable_subtask task_id m =
     AppError \<lparr>code = ''NO_SCHEDULABLE_SUBTASK'', message = m, status_code = 409,
       details = [(''task_id'', DUuid task_id)]\<rparr>"

definition no_available_node :: "uuid \<Rightarrow> string \<Rightarrow> exc" where
  "no_available_node task_id m =
     AppError \<lparr>code = ''NO_AVAILABLE_NODE'', message = m, status_code = 409,
       details = [(''task_id'', DUuid task_id)]\<rparr>"

definition except_scheduling_error :: "uuid \<Rightarrow> 'a result \<Rightarrow> 'a result" where
  "except_scheduling_error task_id r =
     (case r of
        Inl (NoSchedulableSubtaskError m) \<Rightarrow> Inl (no_schedulable_subtask task_id m)
      | Inl (NoAvailableNodeError m) \<Rightarrow> Inl (no_available_node task_id m)
      | _ \<Rightarrow> r)"

lemma except_scheduling_error_Inr_iff [result_simps]:
  "except_scheduling_error i r = Inr x \<longleftrightarrow> r = Inr x"
  by (auto simp: except_scheduling_error_def split: sum.splits exc.splits)

section \<open>Generating and storing a plan\<close>

definition new_plan ::
  "datetime \<Rightarrow> uuid \<Rightarrow> uuid \<Rightarrow> SchedulePlan \<Rightarrow> json_object option \<Rightarrow> int \<Rightarrow> schedule_plan" where
  "new_plan now plan_id task_id generated options duration =
     \<lparr>sp_id = plan_id, sp_task_id = task_id, sp_strategy_name = gp_strategy_name generated,
      sp_status = SchedulePlanStatus.GENERATED,
      sp_estimated_total_duration_ms = Some duration,
      sp_estimated_total_energy = Some (gp_estimated_total_energy generated),
      sp_options = (case options of None \<Rightarrow> [] | Some opts \<Rightarrow> opts),
      sp_created_at = now, sp_applied_at = None\<rparr>"

definition new_plan_item ::
  "datetime \<Rightarrow> uuid \<Rightarrow> uuid \<times> SchedulePlanItem \<Rightarrow> schedule_plan_item result" where
  "new_plan_item now plan_id e =
     (let item = snd e in
      and_then (num_int (transfer_num (si_estimated_transfer_duration_ms item))) (\<lambda>transfer.
      Inr \<lparr>pi_id = fst e, pi_plan_id = plan_id, pi_subtask_id = si_subtask_id item,
           pi_assigned_node_id = si_assigned_node_id item,
           pi_estimated_compute_duration_ms = Some (si_estimated_compute_duration_ms item),
           pi_estimated_transfer_duration_ms = Some transfer,
           pi_estimated_energy = Some (si_estimated_energy item),
           pi_decision_reason = Some (si_decision_reason item), pi_created_at = now\<rparr>))"

text \<open>
  The total duration is an \<open>int\<close> when the plan comes from a strategy
  (\<open>plan_total_int\<close> in \<open>scheduler_strategy\<close>), as the column expects.
\<close>

definition persist_plan ::
  "numeric \<Rightarrow> datetime \<Rightarrow> dag_task \<Rightarrow> SchedulePlan \<Rightarrow> json_object option \<Rightarrow> db \<Rightarrow>
   (schedule_plan \<times> db) result" where
  "persist_plan numeric now task generated options d =
     (let plan_id = next_uuid d; n = length (gp_items generated) in
      and_then (num_int (gp_estimated_total_duration_ms generated)) (\<lambda>duration.
      and_then (map_result (new_plan_item now plan_id)
        (zip [plan_id + 1..<plan_id + 1 + n] (gp_items generated))) (\<lambda>items.
      let d1 = d\<lparr>next_uuid := plan_id + 1 + n\<rparr>;
          d2 = (if dt_status task = TaskStatus.PENDING
                then upd_task (dt_id task) (\<lambda>t. t\<lparr>dt_status := TaskStatus.SCHEDULED,
                       dt_scheduled_at := Some now\<rparr>) d1
                else d1) in
      and_then (schedule_create numeric
        (new_plan now plan_id (dt_id task) generated options duration) items d2) (\<lambda>saved.
      and_then (db_flush (snd saved)) (\<lambda>d3. Inr (fst saved, d3))))))"

definition generate_plan ::
  "random \<Rightarrow> numeric \<Rightarrow> datetime \<Rightarrow> uuid \<Rightarrow> string \<Rightarrow> json_object option \<Rightarrow> db \<Rightarrow>
   (schedule_plan \<times> db) result" where
  "generate_plan random numeric now task_id strategy_name options d =
     and_then (get_strategy random strategy_name) (\<lambda>strategy.
     and_then (get_task d task_id) (\<lambda>task.
     and_then (ensure_task_can_schedule (dt_status task) task_id) (\<lambda>_.
     and_then (except_scheduling_error task_id
       (strategy (build_schedulable_subtasks d task_id) (load_node_snapshots d) options))
       (\<lambda>generated.
     persist_plan numeric now task generated options d))))"

section \<open>Reading plans\<close>

definition get_schedule_plan :: "db \<Rightarrow> uuid \<Rightarrow> schedule_plan result" where
  "get_schedule_plan d plan_id =
     (case schedule_get_by_id d plan_id of
        None \<Rightarrow> Inl (AppError \<lparr>code = ''SCHEDULE_PLAN_NOT_FOUND'',
          message = ''Schedule plan not found'', status_code = 404,
          details = [(''schedule_plan_id'', DUuid plan_id)]\<rparr>)
      | Some plan \<Rightarrow> Inr plan)"

definition list_task_plans ::
  "uuid \<Rightarrow> int \<Rightarrow> int \<Rightarrow> db \<Rightarrow> (schedule_plan list \<times> int) result" where
  "list_task_plans task_id page page_size d =
     and_then (get_task d task_id) (\<lambda>_. repo_list_plans task_id d page page_size)"

section \<open>Comparing the strategies\<close>

record ScheduleComparisonItem =
  ci_strategy_name :: SchedulerStrategyName
  ci_feasible :: bool
  ci_failure_code :: "string option"
  ci_failure_reason :: "string option"
  ci_schedulable_subtask_count :: int
  ci_estimated_total_duration_ms :: "pynum option"
  ci_estimated_total_energy :: "pyfloat option"
  ci_local_assignment_count :: int
  ci_edge_assignment_count :: int

definition comparison_options :: "SchedulerStrategyName \<Rightarrow> json_object" where
  "comparison_options name =
     (if name = SchedulerStrategyName.RANDOM_OFFLOAD then [(''seed'', JInt 0)] else [])"

definition infeasible_item ::
  "SchedulerStrategyName \<Rightarrow> string \<Rightarrow> string \<Rightarrow> int \<Rightarrow> ScheduleComparisonItem" where
  "infeasible_item name failure reason n =
     \<lparr>ci_strategy_name = name, ci_feasible = False, ci_failure_code = Some failure,
      ci_failure_reason = Some reason, ci_schedulable_subtask_count = n,
      ci_estimated_total_duration_ms = None, ci_estimated_total_energy = None,
      ci_local_assignment_count = 0, ci_edge_assignment_count = 0\<rparr>"

definition count_assigned :: "NodeType \<Rightarrow> SchedulePlan \<Rightarrow> int" where
  "count_assigned nt plan =
     int (length (filter (\<lambda>i. si_assigned_node_type i = nt) (gp_items plan)))"

definition comparison_item ::
  "SchedulableSubtask list \<Rightarrow> NodeSnapshot list \<Rightarrow> SchedulerStrategyName \<times> strategy \<Rightarrow>
   ScheduleComparisonItem result" where
  "comparison_item subtasks snapshots e =
     (let n = int (length subtasks) in
      case snd e subtasks snapshots (Some (comparison_options (fst e))) of
        Inl (NoSchedulableSubtaskError m) \<Rightarrow>
          Inr (infeasible_item (fst e) ''NO_SCHEDULABLE_SUBTASK'' m n)
      | Inl (NoAvailableNodeError m) \<Rightarrow>
          Inr (infeasible_item (fst e) ''NO_AVAILABLE_NODE'' m n)
      | Inl e \<Rightarrow> Inl e
      | Inr plan \<Rightarrow>
          Inr \<lparr>ci_strategy_name = fst e, ci_feasible = True, ci_failure_code = None,
               ci_failure_reason = None, ci_schedulable_subtask_count = n,
               ci_estimated_total_duration_ms = Some (gp_estimated_total_duration_ms plan),
               ci_estimated_total_energy = Some (gp_estimated_total_energy plan),
               ci_local_assignment_count = count_assigned NodeType.UAV plan,
               ci_edge_assignment_count = count_assigned NodeType.EDGE plan\<rparr>)"

definition compare_strategies :: "random \<Rightarrow> uuid \<Rightarrow> db \<Rightarrow> ScheduleComparisonItem list result" where
  "compare_strategies random task_id d =
     and_then (get_task d task_id) (\<lambda>_.
     map_result (comparison_item (build_schedulable_subtasks d task_id) (load_node_snapshots d))
       (strategies random))"

section \<open>What a strategy of the service returns\<close>

lemma get_strategy_cases:
  assumes "get_strategy random strategy_name = Inr strategy"
  obtains name where "strategy_name = strategy_name_value name"
    and "(name, strategy) \<in> set (strategies random)"
proof -
  from assms obtain name where n: "strategy_name_of_value strategy_name = Inr name"
    and s: "map_of (strategies random) name = Some strategy"
    by (auto simp: get_strategy_def result_simps split: option.splits)
  from n have "strategy_name = strategy_name_value name"
    by (auto simp: strategy_name_of_value_def enum_of_value_def find_Some_iff
        split: option.splits)
  moreover from s have "(name, strategy) \<in> set (strategies random)" by (rule map_of_SomeD)
  ultimately show thesis by (rule that)
qed

lemma strategies_contract:
  "(name, strategy) \<in> set (strategies random) \<Longrightarrow> scheduler_strategy name strategy"
  by (auto simp: strategies_def intro: greedy.scheduler_strategy_axioms
      local_only.scheduler_strategy_axioms random_offload.scheduler_strategy_axioms)

lemma schedulable_ids:
  "map ss_id (build_schedulable_subtasks d task_id) =
     map ds_id (filter (\<lambda>s. ds_status s = SubtaskStatus.READY) (task_subtasks d task_id))"
  by (simp add: build_schedulable_subtasks_def schedulable_subtask_def)

end
