(* ===== verification/Task_Flow.thy ===== *)
theory Task_Flow
  imports Flow Execution_Service Scheduling_Service
begin

text \<open>
  The abstraction from the database to the flows of \<open>Flow\<close>, the invariant of the
  database beyond the constraints of the schema, and how both change when rows are
  rewritten in place or added.
\<close>

section \<open>The flow of a task\<close>

definition subtask_status :: "db \<Rightarrow> uuid \<Rightarrow> uuid \<Rightarrow> SubtaskStatus option" where
  "subtask_status d task_id i = map_option ds_status (subtask_by_id d task_id i)"

definition dependency_edges :: "db \<Rightarrow> uuid \<Rightarrow> (uuid \<times> uuid) set" where
  "dependency_edges d task_id =
     (\<lambda>r. (dd_predecessor_subtask_id r, dd_successor_subtask_id r)) `
       set (task_dependencies d task_id)"

definition task_flow :: "db \<Rightarrow> dag_task \<Rightarrow> flow" where
  "task_flow d t =
     \<lparr>f_task = dt_status t, f_subtasks = subtask_status d (dt_id t),
      f_deps = dependency_edges d (dt_id t)\<rparr>"

lemma task_flow_sel [simp]:
  "f_task (task_flow d t) = dt_status t"
  "f_subtasks (task_flow d t) = subtask_status d (dt_id t)"
  "f_deps (task_flow d t) = dependency_edges d (dt_id t)"
  by (simp_all add: task_flow_def)

section \<open>The invariant of the database\<close>

text \<open>How an execution record and the row of its subtask agree.\<close>

definition record_agrees :: "execution_record \<Rightarrow> dag_subtask \<Rightarrow> bool" where
  "record_agrees r s \<longleftrightarrow>
     ds_id s = er_subtask_id r \<and> ds_task_id s = er_task_id r \<and>
     er_attempt r \<le> ds_retry_count s + 1 \<and>
     (ds_status s \<in> {SubtaskStatus.WAITING, SubtaskStatus.READY} \<longrightarrow>
        er_attempt r \<le> ds_retry_count s) \<and>
     (er_status r = ExecutionStatus.RUNNING \<longrightarrow>
        ds_status s = SubtaskStatus.RUNNING \<and> er_attempt r = ds_retry_count s + 1)"

definition executions_agree :: "db \<Rightarrow> bool" where
  "executions_agree d \<longleftrightarrow>
     (\<forall>r \<in> set (execution_records d). \<exists>s \<in> set (dag_subtasks d). record_agrees r s)"

definition running_recorded :: "db \<Rightarrow> bool" where
  "running_recorded d \<longleftrightarrow>
     (\<forall>s \<in> set (dag_subtasks d). ds_status s = SubtaskStatus.RUNNING \<longrightarrow>
        (\<exists>r \<in> set (execution_records d).
           er_subtask_id r = ds_id s \<and> er_status r = ExecutionStatus.RUNNING))"

definition retries_bounded :: "db \<Rightarrow> bool" where
  "retries_bounded d \<longleftrightarrow>
     (\<forall>s \<in> set (dag_subtasks d). 0 \<le> ds_retry_count s \<and> ds_retry_count s \<le> ds_max_retries s)"

definition plans_agree :: "db \<Rightarrow> bool" where
  "plans_agree d \<longleftrightarrow>
     (\<forall>i \<in> set (schedule_plan_items d). \<exists>p \<in> set (schedule_plans d). \<exists>s \<in> set (dag_subtasks d).
        pi_plan_id i = sp_id p \<and> pi_subtask_id i = ds_id s \<and> ds_task_id s = sp_task_id p)"

definition ids_used :: "db \<Rightarrow> bool" where
  "ids_used d \<longleftrightarrow>
     (\<forall>x \<in> dt_id ` set (dag_tasks d) \<union> ds_id ` set (dag_subtasks d) \<union>
        dd_id ` set (dag_dependencies d) \<union> sp_id ` set (schedule_plans d) \<union>
        pi_id ` set (schedule_plan_items d) \<union> er_id ` set (execution_records d) \<union>
        re_id ` set (execution_revoke_events d). x < next_uuid d)"

definition flows_reachable :: "db \<Rightarrow> bool" where
  "flows_reachable d \<longleftrightarrow> (\<forall>t \<in> set (dag_tasks d). flow_reachable (task_flow d t))"

text \<open>What an operation may do to the flows of the existing tasks: nothing, or one step.\<close>

definition flows_follow :: "db \<Rightarrow> db \<Rightarrow> bool" where
  "flows_follow d d' \<longleftrightarrow>
     (\<forall>t \<in> set (dag_tasks d). \<exists>t' \<in> set (dag_tasks d'). dt_id t' = dt_id t \<and>
        (task_flow d' t' = task_flow d t \<or> flow_step (task_flow d t) (task_flow d' t')))"

definition db_inv :: "db \<Rightarrow> bool" where
  "db_inv d \<longleftrightarrow>
     schema_ok d \<and> flows_reachable d \<and> executions_agree d \<and> running_recorded d \<and>
     retries_bounded d \<and> plans_agree d \<and> ids_used d"

definition db_step :: "db \<Rightarrow> db \<Rightarrow> bool" where
  "db_step d d' \<longleftrightarrow> db_inv d' \<and> flows_follow d d'"

lemma db_inv_flow:
  "db_inv d \<Longrightarrow> t \<in> set (dag_tasks d) \<Longrightarrow> flow_inv (task_flow d t)"
  by (simp add: db_inv_def flows_reachable_def reachable_inv)

lemma db_inv_empty: "db_inv empty_db"
  by (simp add: db_inv_def schema_ok_empty flows_reachable_def executions_agree_def
      running_recorded_def retries_bounded_def plans_agree_def ids_used_def)
    (simp_all add: empty_db_def)

lemma db_inv_distinct:
  assumes "db_inv d"
  shows "distinct (map dt_id (dag_tasks d))" "distinct (map ds_id (dag_subtasks d))"
    "distinct (map sp_id (schedule_plans d))" "distinct (map er_id (execution_records d))"
  using assms schema_ok_distinct by (simp_all add: db_inv_def)

text \<open>Identifiers stay below the next one when rows with fresh identifiers are added.\<close>

lemma ids_used_grow:
  assumes "ids_used d" and "next_uuid d \<le> next_uuid d'"
    and "dt_id ` set (dag_tasks d') \<subseteq> dt_id ` set (dag_tasks d) \<union> {..<next_uuid d'}"
    and "ds_id ` set (dag_subtasks d') \<subseteq> ds_id ` set (dag_subtasks d) \<union> {..<next_uuid d'}"
    and "dd_id ` set (dag_dependencies d') \<subseteq> dd_id ` set (dag_dependencies d) \<union> {..<next_uuid d'}"
    and "sp_id ` set (schedule_plans d') \<subseteq> sp_id ` set (schedule_plans d) \<union> {..<next_uuid d'}"
    and "pi_id ` set (schedule_plan_items d') \<subseteq>
      pi_id ` set (schedule_plan_items d) \<union> {..<next_uuid d'}"
    and "er_id ` set (execution_records d') \<subseteq> er_id ` set (execution_records d) \<union> {..<next_uuid d'}"
    and "re_id ` set (execution_revoke_events d') \<subseteq>
      re_id ` set (execution_revoke_events d) \<union> {..<next_uuid d'}"
  shows "ids_used d'"
proof -
  have step: "\<forall>x \<in> B. x < n'" if "B \<subseteq> A \<union> {..<n'}" "n \<le> n'" "\<forall>x \<in> A. x < n"
    for A B :: "uuid set" and n n'
    using that by (meson Un_iff lessThan_iff less_le_trans subsetD)
  from assms(1) show ?thesis
    unfolding ids_used_def ball_Un
    by (elim conjE, intro conjI)
      (rule step [OF assms(3,2)] step [OF assms(4,2)] step [OF assms(5,2)] step [OF assms(6,2)]
        step [OF assms(7,2)] step [OF assms(8,2)] step [OF assms(9,2)]; assumption)+
qed

section \<open>Reading rows\<close>

lemma task_subtasks_mem:
  "s \<in> set (task_subtasks d t) \<longleftrightarrow> s \<in> set (dag_subtasks d) \<and> ds_task_id s = t"
  by (auto simp: task_subtasks_def)

lemma distinct_task_subtasks:
  "distinct (map ds_id (dag_subtasks d)) \<Longrightarrow> distinct (map ds_id (task_subtasks d t))"
  by (simp add: task_subtasks_def distinct_map_filter)

lemma subtask_by_id_iff:
  assumes "distinct (map ds_id (dag_subtasks d))"
  shows "subtask_by_id d t i = Some s \<longleftrightarrow>
    s \<in> set (dag_subtasks d) \<and> ds_task_id s = t \<and> ds_id s = i"
  unfolding subtask_by_id_def row_get_iff [OF distinct_task_subtasks [OF assms]]
  by (auto simp: task_subtasks_mem)

lemma subtask_status_iff:
  assumes "distinct (map ds_id (dag_subtasks d))"
  shows "subtask_status d t i = Some v \<longleftrightarrow>
    (\<exists>s \<in> set (dag_subtasks d). ds_task_id s = t \<and> ds_id s = i \<and> ds_status s = v)"
  unfolding subtask_status_def using subtask_by_id_iff [OF assms] by auto

lemma get_subtask_row_iff:
  assumes "distinct (map ds_id (dag_subtasks d))"
  shows "get_subtask_row d i = Some s \<longleftrightarrow> s \<in> set (dag_subtasks d) \<and> ds_id s = i"
  by (rule subtask_rows.get_iff [OF assms])

lemma the_task_row:
  assumes "distinct (map dt_id (dag_tasks d))" and "task_get_by_id d i = Some t"
    and "u \<in> set (dag_tasks d)" and "dt_id u = i"
  shows "u = t"
proof -
  have "task_get_by_id d i = Some u" using assms(3,4) task_rows.get_iff [OF assms(1)] by simp
  with assms(2) show ?thesis by simp
qed

lemma the_subtask_row:
  fixes d :: db
  assumes "distinct (map ds_id (dag_subtasks d))" and "u \<in> set (dag_subtasks d)"
    and "s \<in> set (dag_subtasks d)" and "ds_id u = ds_id s"
  shows "u = s"
proof -
  have "get_subtask_row d (ds_id s) = Some u" "get_subtask_row d (ds_id s) = Some s"
    using assms(2-4) get_subtask_row_iff [OF assms(1)] by simp_all
  then show ?thesis by simp
qed

section \<open>Rewriting rows in place\<close>

lemma row_get_map:
  "(\<And>r. key (f r) = key r) \<Longrightarrow> row_get key i (map f rows) = map_option f (row_get key i rows)"
  by (induction rows) (auto simp: row_get_Cons)

lemma task_get_map:
  assumes "dag_tasks d' = map g (dag_tasks d)" and "\<And>t. dt_id (g t) = dt_id t"
  shows "task_get_by_id d' i = map_option g (task_get_by_id d i)"
  using assms by (simp add: task_get_by_id_def row_get_map)

lemma filter_map_task:
  "(\<And>s. ds_task_id (f s) = ds_task_id s) \<Longrightarrow>
     filter (\<lambda>s. ds_task_id s = t) (map f rows) = map f (filter (\<lambda>s. ds_task_id s = t) rows)"
  by (induction rows) auto

lemma task_subtasks_map:
  assumes "dag_subtasks d' = map f (dag_subtasks d)" and "\<And>s. ds_task_id (f s) = ds_task_id s"
  shows "task_subtasks d' t = map f (task_subtasks d t)"
  using assms by (simp add: task_subtasks_def filter_map_task)

lemma subtask_by_id_map:
  assumes "dag_subtasks d' = map f (dag_subtasks d)" and "\<And>s. ds_task_id (f s) = ds_task_id s"
    and "\<And>s. ds_id (f s) = ds_id s"
  shows "subtask_by_id d' t i = map_option f (subtask_by_id d t i)"
  using assms by (simp add: subtask_by_id_def task_subtasks_map row_get_map)

lemma subtask_status_map:
  assumes "dag_subtasks d' = map f (dag_subtasks d)" and "\<And>s. ds_task_id (f s) = ds_task_id s"
    and "\<And>s. ds_id (f s) = ds_id s"
  shows "subtask_status d' t i = map_option (\<lambda>s. ds_status (f s)) (subtask_by_id d t i)"
  unfolding subtask_status_def subtask_by_id_map [OF assms]
  by (simp add: option.map_comp comp_def)

lemma row_upd_as_map:
  "row_upd key i f rows = map (\<lambda>r. if key r = i then f r else r) rows"
  by (simp add: row_upd_def)

text \<open>A loop that rewrites the rows of a list, one after the other.\<close>

lemma row_upd_list:
  assumes "\<And>r. key (f r) = key r" and "distinct (map key xs)"
  shows "fold (\<lambda>x. row_upd key (key x) f) xs rows =
    map (\<lambda>r. if key r \<in> key ` set xs then f r else r) rows"
  using assms(2)
proof (induction xs arbitrary: rows)
  case (Cons x xs)
  then show ?case
    using assms(1) by (auto simp: row_upd_def)
qed simp

lemma key_mem_filter:
  "distinct (map key rows) \<Longrightarrow> r \<in> set rows \<Longrightarrow>
     key r \<in> key ` set (filter P rows) \<longleftrightarrow> P r"
  using row_get_mem [of key rows] by (auto simp: image_iff) (metis option.inject)

lemma row_upd_filter:
  assumes "\<And>r. key (f r) = key r" and "distinct (map key rows)"
  shows "fold (\<lambda>x. row_upd key (key x) f) (filter P rows) rows =
    map (\<lambda>r. if P r then f r else r) rows"
  using row_upd_list [of key f "filter P rows" rows] assms key_mem_filter [of key rows _ P]
  by (auto simp: distinct_map_filter)

text \<open>What the invariant needs of in-place changes of subtasks and execution records.\<close>

lemma executions_agree_map:
  assumes "executions_agree d"
    and "dag_subtasks d' = map f (dag_subtasks d)"
    and "execution_records d' = map g (execution_records d)"
    and "\<And>r s. r \<in> set (execution_records d) \<Longrightarrow> s \<in> set (dag_subtasks d) \<Longrightarrow>
           record_agrees r s \<Longrightarrow> record_agrees (g r) (f s)"
  shows "executions_agree d'"
  using assms unfolding executions_agree_def by (fastforce simp: )

lemma plans_agree_map:
  assumes "plans_agree d" and "dag_subtasks d' = map f (dag_subtasks d)"
    and "schedule_plans d' = map g (schedule_plans d)"
    and "schedule_plan_items d' = schedule_plan_items d"
    and "\<And>s. ds_task_id (f s) = ds_task_id s" and "\<And>s. ds_id (f s) = ds_id s"
    and "\<And>p. sp_id (g p) = sp_id p" and "\<And>p. sp_task_id (g p) = sp_task_id p"
  shows "plans_agree d'"
proof -
  have "\<exists>p \<in> set (schedule_plans d'). \<exists>s \<in> set (dag_subtasks d').
      pi_plan_id i = sp_id p \<and> pi_subtask_id i = ds_id s \<and> ds_task_id s = sp_task_id p"
    if "i \<in> set (schedule_plan_items d)" for i
  proof -
    from that assms(1) obtain p s where "p \<in> set (schedule_plans d)" "s \<in> set (dag_subtasks d)"
      "pi_plan_id i = sp_id p" "pi_subtask_id i = ds_id s" "ds_task_id s = sp_task_id p"
      by (auto simp: plans_agree_def)
    then have "g p \<in> set (schedule_plans d')" "f s \<in> set (dag_subtasks d')"
      "pi_plan_id i = sp_id (g p)" "pi_subtask_id i = ds_id (f s)"
      "ds_task_id (f s) = sp_task_id (g p)"
      using assms(2,3,5-8) by simp_all
    then show ?thesis by blast
  qed
  then show ?thesis using assms(4) by (simp add: plans_agree_def)
qed

text \<open>Changes that stay within one task leave the flows of the others alone.\<close>

lemma dependency_edges_same:
  "dag_dependencies d' = dag_dependencies d \<Longrightarrow> dependency_edges d' = dependency_edges d"
  by (simp add: dependency_edges_def task_dependencies_def fun_eq_iff)

lemma subtask_status_same:
  "dag_subtasks d' = dag_subtasks d \<Longrightarrow> subtask_status d' = subtask_status d"
  by (simp add: subtask_status_def subtask_by_id_def task_subtasks_def fun_eq_iff)

lemma flows_map:
  assumes "flows_reachable d"
    and tasks: "dag_tasks d' = map g (dag_tasks d)"
    and subs: "dag_subtasks d' = map f (dag_subtasks d)"
    and deps: "dag_dependencies d' = dag_dependencies d"
    and g: "\<And>t. dt_id (g t) = dt_id t"
    and f: "\<And>s. ds_task_id (f s) = ds_task_id s" "\<And>s. ds_id (f s) = ds_id s"
    and local_g: "\<And>t. t \<in> set (dag_tasks d) \<Longrightarrow> dt_id t \<noteq> task_id \<Longrightarrow> g t = t"
    and local_f: "\<And>s. s \<in> set (dag_subtasks d) \<Longrightarrow> ds_task_id s \<noteq> task_id \<Longrightarrow> f s = s"
    and step: "\<And>t. t \<in> set (dag_tasks d) \<Longrightarrow> dt_id t = task_id \<Longrightarrow>
      flow_step (task_flow d t) (task_flow d' (g t))"
  shows "flows_reachable d'" and "flows_follow d d'"
proof -
  have follow: "task_flow d' (g t) = task_flow d t \<or> flow_step (task_flow d t) (task_flow d' (g t))"
    if t: "t \<in> set (dag_tasks d)" for t
  proof (cases "dt_id t = task_id")
    case False
    have "map_option f (subtask_by_id d (dt_id t) i) = subtask_by_id d (dt_id t) i" for i
    proof (cases "subtask_by_id d (dt_id t) i")
      case (Some s)
      then have "s \<in> set (task_subtasks d (dt_id t))"
        unfolding subtask_by_id_def by (blast dest: row_get_SomeD)
      with False local_f [of s] Some show ?thesis by (simp add: task_subtasks_mem)
    qed simp
    then have "subtask_status d' (dt_id t) = subtask_status d (dt_id t)"
      unfolding subtask_status_def subtask_by_id_map [OF subs f] by simp
    with False local_g [OF t] show ?thesis
      by (simp add: task_flow_def dependency_edges_same [OF deps])
  qed (use step t in blast)
  then show "flows_follow d d'" using tasks g by (auto simp: flows_follow_def)
  from follow assms(1) tasks show "flows_reachable d'"
    by (auto simp: flows_reachable_def) (metis flow_reachable.step)
qed

lemma task_flow_map:
  assumes "dag_subtasks d' = map f (dag_subtasks d)"
    and "dag_dependencies d' = dag_dependencies d"
    and "\<And>s. ds_task_id (f s) = ds_task_id s" and "\<And>s. ds_id (f s) = ds_id s"
    and "dt_id t' = dt_id t"
  shows "task_flow d' t' = (task_flow d t)\<lparr>f_task := dt_status t',
    f_subtasks := (\<lambda>i. map_option (\<lambda>s. ds_status (f s)) (subtask_by_id d (dt_id t) i))\<rparr>"
  using assms(5) by (simp add: task_flow_def fun_eq_iff dependency_edges_same [OF assms(2)]
      subtask_status_map [OF assms(1,3,4)])

section \<open>Changes that keep the constraints of the schema\<close>

text \<open>
  Fields that no operation changes after the insert: keys, foreign keys and sizes.
\<close>

definition task_keys where
  "task_keys t = (dt_id t, dt_priority t)"

definition subtask_keys where
  "subtask_keys s = (ds_id s, ds_task_id s, ds_external_id s, ds_compute_load s,
     ds_input_data_size_mb s, ds_output_data_size_mb s, ds_max_retries s)"

definition plan_keys where
  "plan_keys p = (sp_id p, sp_task_id p, sp_estimated_total_duration_ms p,
     sp_estimated_total_energy p)"

definition record_keys where
  "record_keys r = (er_id r, er_task_id r, er_subtask_id r, er_node_id r, er_plan_item_id r,
     er_attempt r)"

lemma map_field:
  "(\<And>x. x \<in> set xs \<Longrightarrow> key (f x) = key x) \<Longrightarrow> map key (map f xs) = map key xs"
  by simp

lemma schema_ok_map:
  assumes ok: "schema_ok d"
    and tasks: "dag_tasks d' = map g (dag_tasks d)" "\<And>t. task_keys (g t) = task_keys t"
    and subs: "dag_subtasks d' = map f (dag_subtasks d)" "\<And>s. subtask_keys (f s) = subtask_keys s"
      "\<And>s. s \<in> set (dag_subtasks d) \<Longrightarrow> 0 \<le> ds_retry_count (f s)"
    and plans: "schedule_plans d' = map h (schedule_plans d)" "\<And>p. plan_keys (h p) = plan_keys p"
    and recs: "execution_records d' = map k (execution_records d)"
      "\<And>r. record_keys (k r) = record_keys r"
      "\<And>r. r \<in> set (execution_records d) \<Longrightarrow> opt_all (\<lambda>n. 0 \<le> n) (er_duration_ms (k r))"
    and events: "execution_revoke_events_ok (dag_tasks d) (execution_records d)
      (execution_revoke_events d')"
    and rest: "nodes d' = nodes d" "node_status_records d' = node_status_records d"
      "dag_dependencies d' = dag_dependencies d"
      "schedule_plan_items d' = schedule_plan_items d" "worker_heartbeats d' = worker_heartbeats d"
      "worker_alerts d' = worker_alerts d"
  shows "schema_ok d'"
proof -
  have t: "map dt_id (dag_tasks d') = map dt_id (dag_tasks d)" and
    pr: "dt_priority (g t) = dt_priority t" for t
    using tasks by (simp_all add: task_keys_def)
  have s: "map ds_id (dag_subtasks d') = map ds_id (dag_subtasks d)"
    "map (\<lambda>r. (ds_task_id r, ds_external_id r)) (dag_subtasks d') =
      map (\<lambda>r. (ds_task_id r, ds_external_id r)) (dag_subtasks d)"
    using subs(1,2) by (simp_all add: subtask_keys_def)
  have sf: "ds_task_id (f s) = ds_task_id s" "ds_compute_load (f s) = ds_compute_load s"
    "ds_input_data_size_mb (f s) = ds_input_data_size_mb s"
    "ds_output_data_size_mb (f s) = ds_output_data_size_mb s"
    "ds_max_retries (f s) = ds_max_retries s" for s
    using subs(2) by (simp_all add: subtask_keys_def)
  have p: "map sp_id (schedule_plans d') = map sp_id (schedule_plans d)"
    using plans by (simp add: plan_keys_def)
  have pf: "sp_task_id (h p) = sp_task_id p"
    "sp_estimated_total_duration_ms (h p) = sp_estimated_total_duration_ms p"
    "sp_estimated_total_energy (h p) = sp_estimated_total_energy p" for p
    using plans(2) by (simp_all add: plan_keys_def)
  have r: "map er_id (execution_records d') = map er_id (execution_records d)"
    "map (\<lambda>r. (er_subtask_id r, er_attempt r)) (execution_records d') =
      map (\<lambda>r. (er_subtask_id r, er_attempt r)) (execution_records d)"
    using recs(1,2) by (simp_all add: record_keys_def)
  have rf: "er_task_id (k r) = er_task_id r" "er_subtask_id (k r) = er_subtask_id r"
    "er_node_id (k r) = er_node_id r" "er_plan_item_id (k r) = er_plan_item_id r"
    "er_attempt (k r) = er_attempt r" for r
    using recs(2) by (simp_all add: record_keys_def)
  have ts: "set (map dt_id (dag_tasks d')) = set (map dt_id (dag_tasks d))"
    and ss: "set (map ds_id (dag_subtasks d')) = set (map ds_id (dag_subtasks d))"
    and ps: "set (map sp_id (schedule_plans d')) = set (map sp_id (schedule_plans d))"
    and rs: "set (map er_id (execution_records d')) = set (map er_id (execution_records d))"
    using t s(1) p r(1) by simp_all
  have "dag_tasks_ok (dag_tasks d')"
    using ok unfolding schema_ok_def dag_tasks_ok_def t by (simp add: tasks(1) list_all_iff pr)
  moreover have "dag_subtasks_ok (dag_tasks d') (dag_subtasks d')"
    using ok subs(3) unfolding schema_ok_def dag_subtasks_ok_def s ts
    by (simp add: subs(1) list_all_iff sf)
  moreover have "dag_dependencies_ok (dag_tasks d') (dag_subtasks d') (dag_dependencies d')"
    using ok unfolding schema_ok_def dag_dependencies_ok_def ts ss rest by blast
  moreover have "schedule_plans_ok (dag_tasks d') (schedule_plans d')"
    using ok unfolding schema_ok_def schedule_plans_ok_def p ts
    by (simp add: plans(1) list_all_iff pf)
  moreover have "schedule_plan_items_ok (schedule_plans d') (dag_subtasks d') (nodes d')
      (schedule_plan_items d')"
    using ok unfolding schema_ok_def schedule_plan_items_ok_def ps ss rest by blast
  moreover have "execution_records_ok (dag_tasks d') (dag_subtasks d') (nodes d')
      (schedule_plan_items d') (execution_records d')"
    using ok recs(3) unfolding schema_ok_def execution_records_ok_def r ts ss rest
    by (simp add: recs(1) list_all_iff rf)
  moreover have "execution_revoke_events_ok (dag_tasks d') (execution_records d')
      (execution_revoke_events d')"
    using events unfolding execution_revoke_events_ok_def ts rs .
  ultimately show ?thesis
    using ok unfolding schema_ok_def rest by blast
qed

end
