(* ===== verification/Plan_Store.thy ===== *)
theory Plan_Store
  imports Task_Flow
begin

text \<open>
  \<open>SchedulingService.generate_plan\<close>: what it stores, that the stored plan covers exactly
  the ready subtasks of the task, the step of the flow and the invariant.
\<close>

section \<open>Storing rows keeps their keys\<close>

lemma store_plan_keeps:
  "store_plan numeric p = Inr q \<Longrightarrow> sp_id q = sp_id p \<and> sp_task_id q = sp_task_id p \<and>
     sp_status q = sp_status p \<and> sp_strategy_name q = sp_strategy_name p \<and>
     sp_estimated_total_duration_ms q = sp_estimated_total_duration_ms p"
  by (auto simp: store_plan_def result_simps)

lemma store_plan_item_keeps:
  "store_plan_item numeric i = Inr j \<Longrightarrow> pi_id j = pi_id i \<and> pi_plan_id j = pi_plan_id i \<and>
     pi_subtask_id j = pi_subtask_id i \<and> pi_assigned_node_id j = pi_assigned_node_id i"
  by (auto simp: store_plan_item_def result_simps)

lemma new_plan_item_keys:
  "new_plan_item now plan_id e = Inr i \<Longrightarrow> pi_id i = fst e \<and> pi_plan_id i = plan_id \<and>
     pi_subtask_id i = si_subtask_id (snd e) \<and> pi_assigned_node_id i = si_assigned_node_id (snd e)"
  by (auto simp: new_plan_item_def Let_def result_simps)

lemma map_result_keeps:
  assumes "map_result f xs = Inr ys" and "\<And>x y. f x = Inr y \<Longrightarrow> g y = h x"
  shows "map g ys = map h xs"
  using assms(1) unfolding map_result_Inr_iff
  by (induction) (auto dest: assms(2))

lemma map_comp_snd_zip: "length xs = length ys \<Longrightarrow> map (f \<circ> snd) (zip xs ys) = map f ys"
  by (simp flip: map_map)

section \<open>What is stored\<close>

definition scheduled_task :: "datetime \<Rightarrow> dag_task \<Rightarrow> dag_task \<Rightarrow> dag_task" where
  "scheduled_task now task t =
     (if dt_status task = TaskStatus.PENDING \<and> dt_id t = dt_id task
      then t\<lparr>dt_status := TaskStatus.SCHEDULED, dt_scheduled_at := Some now\<rparr> else t)"

lemma scheduled_task_sel [simp]: "dt_id (scheduled_task now task t) = dt_id t"
  by (simp add: scheduled_task_def)

definition stored_plan :: "db \<Rightarrow> dag_task \<Rightarrow> SchedulePlan \<Rightarrow> schedule_plan \<Rightarrow>
    schedule_plan_item list \<Rightarrow> bool" where
  "stored_plan d task generated row rows \<longleftrightarrow>
     sp_id row = next_uuid d \<and> sp_task_id row = dt_id task \<and>
     sp_status row = SchedulePlanStatus.GENERATED \<and>
     sp_strategy_name row = gp_strategy_name generated \<and>
     map pi_id rows = [next_uuid d + 1..<next_uuid d + 1 + length (gp_items generated)] \<and>
     (\<forall>i \<in> set rows. pi_plan_id i = next_uuid d) \<and>
     map pi_subtask_id rows = map si_subtask_id (gp_items generated) \<and>
     map pi_assigned_node_id rows = map si_assigned_node_id (gp_items generated)"

lemma persist_plan_shape:
  assumes "persist_plan numeric now task generated options d = Inr (p, d')"
  obtains row rows where "stored_plan d task generated row rows" and "p = row"
    and "schema_ok d'"
    and "d' = d\<lparr>next_uuid := next_uuid d + 1 + length (gp_items generated),
      dag_tasks := map (scheduled_task now task) (dag_tasks d),
      schedule_plans := schedule_plans d @ [row],
      schedule_plan_items := schedule_plan_items d @ rows\<rparr>"
proof -
  let ?n = "length (gp_items generated)"
  let ?d1 = "d\<lparr>next_uuid := next_uuid d + 1 + ?n\<rparr>"
  let ?d2 = "if dt_status task = TaskStatus.PENDING
    then upd_task (dt_id task) (\<lambda>t. t\<lparr>dt_status := TaskStatus.SCHEDULED,
      dt_scheduled_at := Some now\<rparr>) ?d1 else ?d1"
  from assms obtain duration items saved where
    items: "map_result (new_plan_item now (next_uuid d))
      (zip [next_uuid d + 1..<next_uuid d + 1 + ?n] (gp_items generated)) = Inr items"
    and saved: "schedule_create numeric
      (new_plan now (next_uuid d) (dt_id task) generated options duration) items ?d2 = Inr saved"
    and d': "p = fst saved" "d' = snd saved"
    unfolding persist_plan_def Let_def and_then_Inr_iff db_flush_Inr_iff
    by (auto simp only: sum.inject prod.inject)
  let ?plan = "new_plan now (next_uuid d) (dt_id task) generated options duration"
  let ?store = "\<lambda>row rows. ?d2\<lparr>schedule_plans := schedule_plans ?d2 @ [row],
       schedule_plan_items := schedule_plan_items ?d2 @ rows\<rparr>"
  from saved obtain row rows where row: "store_plan numeric ?plan = Inr row"
    and rows: "map_result (store_plan_item numeric) items = Inr rows"
    and ok: "schema_ok (?store row rows)"
    and res: "snd saved = ?store row rows" "fst saved =
      (case schedule_get_by_id (?store row rows) (sp_id ?plan) of None \<Rightarrow> row | Some p \<Rightarrow> p)"
    unfolding schedule_create_def and_then_Inr_iff db_flush_Inr_iff
    by (auto simp only: sum.inject prod.inject prod.sel)
  let ?d3 = "?store row rows"
  have tasks: "dag_tasks ?d2 = map (scheduled_task now task) (dag_tasks d)"
    by (cases "dt_status task = TaskStatus.PENDING")
      (simp_all add: upd_task_def row_upd_as_map scheduled_task_def map_idI)
  have d3: "?d3 = d\<lparr>next_uuid := next_uuid d + 1 + length (gp_items generated),
      dag_tasks := map (scheduled_task now task) (dag_tasks d),
      schedule_plans := schedule_plans d @ [row],
      schedule_plan_items := schedule_plan_items d @ rows\<rparr>"
    using tasks by (auto simp: upd_task_def)
  have keys: "map pi_id rows = map fst (zip [next_uuid d + 1..<next_uuid d + 1 + ?n] (gp_items generated))"
    "map pi_subtask_id rows =
      map (si_subtask_id \<circ> snd) (zip [next_uuid d + 1..<next_uuid d + 1 + ?n] (gp_items generated))"
    "map pi_assigned_node_id rows =
      map (si_assigned_node_id \<circ> snd) (zip [next_uuid d + 1..<next_uuid d + 1 + ?n] (gp_items generated))"
    "map pi_plan_id rows =
      map (\<lambda>e. next_uuid d) (zip [next_uuid d + 1..<next_uuid d + 1 + ?n] (gp_items generated))"
    using map_result_keeps [OF rows] map_result_keeps [OF items]
    by (metis (no_types, lifting) store_plan_item_keeps new_plan_item_keys comp_apply)+
  have "pi_plan_id i = next_uuid d" if "i \<in> set rows" for i
  proof -
    from that have "pi_plan_id i \<in> set (map pi_plan_id rows)" by simp
    then show ?thesis unfolding keys by auto
  qed
  then have pr: "stored_plan d task generated row rows"
    unfolding stored_plan_def keys(1-3)
    using store_plan_keeps [OF row] by (simp add: new_plan_def map_comp_snd_zip del: upt_Suc)
  have "schedule_get_by_id ?d3 (sp_id row) = Some row"
    using schema_ok_distinct(3) [OF ok] unfolding d3 by (simp add: plan_rows.get_iff)
  moreover have "sp_id ?plan = sp_id row" using store_plan_keeps [OF row] by simp
  ultimately have "p = row" using d' res by simp
  with pr ok d' res d3 that show thesis by simp
qed

section \<open>Plans cover the ready subtasks\<close>

lemma generate_plan_stored:
  assumes "generate_plan random numeric now task_id strategy_name options d = Inr (p, d')"
  obtains task generated row rows where "task_get_by_id d task_id = Some task"
    and "dt_id task = task_id" and "dt_status task \<in> {TaskStatus.PENDING, TaskStatus.RUNNING}"
    and "strategy_name = strategy_name_value (gp_strategy_name generated)"
    and "map si_subtask_id (gp_items generated) = map ds_id
      (filter (\<lambda>s. ds_status s = SubtaskStatus.READY) (task_subtasks d task_id))"
    and "gp_items generated \<noteq> []"
    and "stored_plan d task generated row rows" and "p = row" and "schema_ok d'"
    and "d' = d\<lparr>next_uuid := next_uuid d + 1 + length (gp_items generated),
      dag_tasks := map (scheduled_task now task) (dag_tasks d),
      schedule_plans := schedule_plans d @ [row],
      schedule_plan_items := schedule_plan_items d @ rows\<rparr>"
proof -
  from assms obtain strategy task u generated where
    strategy: "get_strategy random strategy_name = Inr strategy"
    and task: "get_task d task_id = Inr task"
    and can: "ensure_task_can_schedule (dt_status task) task_id = Inr u"
    and plan: "strategy (build_schedulable_subtasks d task_id) (load_node_snapshots d) options =
      Inr generated"
    and stored: "persist_plan numeric now task generated options d = Inr (p, d')"
    unfolding generate_plan_def and_then_Inr_iff except_scheduling_error_Inr_iff by blast
  from strategy obtain name where name: "strategy_name = strategy_name_value name"
    "(name, strategy) \<in> set (strategies random)" by (rule get_strategy_cases)
  from name(2) have contract: "scheduler_strategy name strategy" by (rule strategies_contract)
  from task have t: "task_get_by_id d task_id = Some task"
    by (auto simp: get_task_def split: option.splits)
  show thesis
  proof (rule persist_plan_shape [OF stored])
    fix row rows
    assume "stored_plan d task generated row rows" "p = row" "schema_ok d'"
      "d' = d\<lparr>next_uuid := next_uuid d + 1 + length (gp_items generated),
      dag_tasks := map (scheduled_task now task) (dag_tasks d),
      schedule_plans := schedule_plans d @ [row],
      schedule_plan_items := schedule_plan_items d @ rows\<rparr>"
    then show thesis
      using that [OF t, of generated row rows] task_rows.get_SomeD [OF t] can name(1)
        scheduler_strategy.plan_subtask_ids [OF contract plan]
        scheduler_strategy.plan_nonempty [OF contract plan]
        scheduler_strategy.plan_name [OF contract plan]
      by (simp add: schedulable_ids result_simps)
  qed
qed

section \<open>The invariant\<close>

lemma plans_agree_add:
  assumes "plans_agree d" and "set (dag_subtasks d') = set (dag_subtasks d)"
    and "schedule_plans d' = schedule_plans d @ [row]"
    and "schedule_plan_items d' = schedule_plan_items d @ rows"
    and "\<forall>i \<in> set rows. pi_plan_id i = sp_id row \<and>
      (\<exists>s \<in> set (dag_subtasks d). pi_subtask_id i = ds_id s \<and> ds_task_id s = sp_task_id row)"
  shows "plans_agree d'"
  using assms unfolding plans_agree_def by (auto 0 4)

lemma scheduled_flow:
  assumes inv: "db_inv d" and task: "task_get_by_id d task_id = Some task"
    and live: "dt_status task \<in> {TaskStatus.PENDING, TaskStatus.RUNNING}"
    and d': "dag_tasks d' = map (scheduled_task now task) (dag_tasks d)"
      "dag_subtasks d' = dag_subtasks d" "dag_dependencies d' = dag_dependencies d"
    and t: "t \<in> set (dag_tasks d)"
  shows "task_flow d' (scheduled_task now task t) = task_flow d t \<or>
    flow_step (task_flow d t) (task_flow d' (scheduled_task now task t))"
proof (cases "dt_status task = TaskStatus.PENDING \<and> dt_id t = dt_id task")
  case True
  have "t = task"
    by (rule the_task_row [OF db_inv_distinct(1) [OF inv] task t])
      (use True task_rows.get_SomeD [OF task] in simp)
  with True have "task_flow d' (scheduled_task now task t) =
      (task_flow d t)\<lparr>f_task := TaskStatus.SCHEDULED\<rparr>"
    by (simp add: task_flow_def scheduled_task_def dependency_edges_same [OF d'(3)]
        subtask_status_same [OF d'(2)])
  moreover have "f_task (task_flow d t) = TaskStatus.PENDING" using True \<open>t = task\<close> by simp
  ultimately show ?thesis using flow_step.schedule [of "task_flow d t"] by simp
next
  case False
  then have "scheduled_task now task t = t" by (auto simp: scheduled_task_def)
  then show ?thesis
    by (simp add: task_flow_def dependency_edges_same [OF d'(3)] subtask_status_same [OF d'(2)])
qed

lemma generate_plan_step:
  assumes inv: "db_inv d"
    and run: "generate_plan random numeric now task_id strategy_name options d = Inr (p, d')"
  shows "db_step d d'"
proof -
  from run show ?thesis
  proof (rule generate_plan_stored)
    fix task generated row rows
    assume task: "task_get_by_id d task_id = Some task" "dt_id task = task_id"
      "dt_status task \<in> {TaskStatus.PENDING, TaskStatus.RUNNING}"
      and ids: "map si_subtask_id (gp_items generated) = map ds_id
        (filter (\<lambda>s. ds_status s = SubtaskStatus.READY) (task_subtasks d task_id))"
      and stored: "stored_plan d task generated row rows" and ok: "schema_ok d'"
      and d': "d' = d\<lparr>next_uuid := next_uuid d + 1 + length (gp_items generated),
        dag_tasks := map (scheduled_task now task) (dag_tasks d),
        schedule_plans := schedule_plans d @ [row],
        schedule_plan_items := schedule_plan_items d @ rows\<rparr>"
    have subtasks: "\<exists>s \<in> set (dag_subtasks d). pi_subtask_id i = ds_id s \<and> ds_task_id s = task_id"
      if "i \<in> set rows" for i
    proof -
      from that have "pi_subtask_id i \<in> set (map pi_subtask_id rows)" by simp
      also have "\<dots> = ds_id ` set (filter (\<lambda>s. ds_status s = SubtaskStatus.READY)
          (task_subtasks d task_id))"
        using stored ids by (simp add: stored_plan_def)
      finally show ?thesis by (auto simp: task_subtasks_mem)
    qed
    have "flows_reachable d'"
      unfolding flows_reachable_def
    proof
      fix t'
      assume "t' \<in> set (dag_tasks d')"
      then obtain t where t: "t \<in> set (dag_tasks d)" "t' = scheduled_task now task t"
        using d' by auto
      have "flow_reachable (task_flow d t)"
        using inv t by (simp add: db_inv_def flows_reachable_def)
      with scheduled_flow [OF inv task(1,3), of d' now t] t d' show "flow_reachable (task_flow d' t')"
        by (auto intro: flow_reachable.step)
    qed
    moreover have "plans_agree d'"
      by (rule plans_agree_add [of d _ row rows])
        (use inv stored subtasks d' task in \<open>auto simp: db_inv_def stored_plan_def\<close>)
    moreover have "ids_used d'"
    proof (rule ids_used_grow [where d = d])
      have "pi_id ` set rows = {next_uuid d + 1..<next_uuid d + 1 + length (gp_items generated)}"
        using stored by (metis stored_plan_def set_map set_upt)
      then show "pi_id ` set (schedule_plan_items d') \<subseteq>
          pi_id ` set (schedule_plan_items d) \<union> {..<next_uuid d'}"
        using d' by auto
      show "sp_id ` set (schedule_plans d') \<subseteq> sp_id ` set (schedule_plans d) \<union> {..<next_uuid d'}"
        using d' stored by (auto simp: stored_plan_def)
    qed (use inv d' in \<open>auto simp: db_inv_def\<close>)
    moreover have "flows_follow d d'"
      unfolding flows_follow_def
      using scheduled_flow [OF inv task(1,3), of d' now] d' by fastforce
    ultimately show ?thesis
      using inv ok d' by (simp add: db_step_def db_inv_def executions_agree_def
          running_recorded_def retries_bounded_def)
  qed
qed

end
