(* ===== verification/Task_Create.thy ===== *)
theory Task_Create
  imports Plan_Store
begin

text \<open>
  \<open>TaskService.create_task\<close>: the rows it stores for a request, that the new task is an
  initial flow (in particular acyclic), and that the invariant is kept.
\<close>

section \<open>The stored subtasks\<close>

definition request_edges :: "DagTaskCreate \<Rightarrow> (string \<times> string) list" where
  "request_edges data = map (\<lambda>x. (dc_from x, dc_to x)) (tc_dependencies data)"

definition created_subtasks :: "uuid \<Rightarrow> DagTaskCreate \<Rightarrow> dag_subtask list \<Rightarrow> bool" where
  "created_subtasks task_id data rows \<longleftrightarrow>
     map ds_id rows = [task_id + 1..<task_id + 1 + length (tc_subtasks data)] \<and>
     map ds_external_id rows = map sc_external_id (tc_subtasks data) \<and>
     map ds_name rows = map sc_name (tc_subtasks data) \<and>
     map ds_execution_constraint rows = map sc_execution_constraint (tc_subtasks data) \<and>
     map ds_max_retries rows = map sc_max_retries (tc_subtasks data) \<and>
     (\<forall>s \<in> set rows. ds_task_id s = task_id \<and> ds_retry_count s = 0 \<and>
        ds_status s = (if ds_external_id s \<in> snd ` set (request_edges data)
          then SubtaskStatus.WAITING else SubtaskStatus.READY))"

text \<open>The sizes and loads are what the columns keep of the requested ones.\<close>

definition created_loads :: "numeric \<Rightarrow> DagTaskCreate \<Rightarrow> dag_subtask list \<Rightarrow> bool" where
  "created_loads numeric data rows \<longleftrightarrow>
     list_all2 (\<lambda>c s. numeric 12 2 (sc_compute_load c) = Inr (ds_compute_load s) \<and>
       numeric 12 2 (sc_input_data_size_mb c) = Inr (ds_input_data_size_mb s) \<and>
       numeric 12 2 (sc_output_data_size_mb c) = Inr (ds_output_data_size_mb s))
       (tc_subtasks data) rows"

lemma store_subtask_keeps:
  "store_subtask numeric s = Inr r \<Longrightarrow> ds_id r = ds_id s \<and> ds_task_id r = ds_task_id s \<and>
     ds_external_id r = ds_external_id s \<and> ds_name r = ds_name s \<and>
     ds_execution_constraint r = ds_execution_constraint s \<and>
     ds_max_retries r = ds_max_retries s \<and> ds_retry_count r = ds_retry_count s \<and>
     ds_status r = ds_status s"
  by (auto simp: store_subtask_def result_simps split: if_splits)

lemma new_subtask_sel [simp]:
  "ds_id (new_subtask now t ss i c) = i" "ds_task_id (new_subtask now t ss i c) = t"
  "ds_external_id (new_subtask now t ss i c) = sc_external_id c"
  "ds_name (new_subtask now t ss i c) = sc_name c"
  "ds_execution_constraint (new_subtask now t ss i c) = sc_execution_constraint c"
  "ds_max_retries (new_subtask now t ss i c) = sc_max_retries c"
  "ds_retry_count (new_subtask now t ss i c) = 0"
  "ds_status (new_subtask now t ss i c) =
     (if sc_external_id c \<in> set ss then SubtaskStatus.WAITING else SubtaskStatus.READY)"
  by (simp_all add: new_subtask_def)

lemma created_subtasks_stored:
  assumes "map_result (store_subtask numeric)
      (map2 (new_subtask now task_id (map snd (request_edges data)))
        [task_id + 1..<task_id + 1 + length (tc_subtasks data)] (tc_subtasks data)) = Inr rows"
  shows "created_subtasks task_id data rows"
proof -
  let ?z = "zip [task_id + 1..<task_id + 1 + length (tc_subtasks data)] (tc_subtasks data)"
  have k: "map g rows = map (\<lambda>e. g (new_subtask now task_id (map snd (request_edges data))
      (fst e) (snd e))) ?z"
    if "\<And>s r. store_subtask numeric s = Inr r \<Longrightarrow> g r = g s" for g :: "dag_subtask \<Rightarrow> 'c"
    using map_result_keeps [OF assms, of g g] that by (simp add: comp_def case_prod_unfold)
  note keeps = store_subtask_keeps [where numeric = numeric]
  have all: "\<forall>s \<in> set rows. ds_task_id s = task_id \<and> ds_retry_count s = 0 \<and>
        ds_status s = (if ds_external_id s \<in> snd ` set (request_edges data)
          then SubtaskStatus.WAITING else SubtaskStatus.READY)"
  proof
    fix s
    assume s: "s \<in> set rows"
    let ?g = "\<lambda>s. (ds_task_id s, ds_retry_count s, ds_status s, ds_external_id s)"
    have "?g s \<in> set (map ?g rows)" using s by simp
    also have "map ?g rows = map (\<lambda>e. ?g (new_subtask now task_id (map snd (request_edges data))
      (fst e) (snd e))) ?z"
      by (rule k) (auto dest: keeps)
    finally obtain e where "?g s = ?g (new_subtask now task_id (map snd (request_edges data))
      (fst e) (snd e))" unfolding set_map by blast
    then show "ds_task_id s = task_id \<and> ds_retry_count s = 0 \<and>
        ds_status s = (if ds_external_id s \<in> snd ` set (request_edges data)
          then SubtaskStatus.WAITING else SubtaskStatus.READY)"
      by simp
  qed
  have "map ds_id rows = map fst ?z" using k [of ds_id] keeps by simp
  moreover have "map ds_external_id rows = map (sc_external_id \<circ> snd) ?z"
    "map ds_name rows = map (sc_name \<circ> snd) ?z"
    "map ds_execution_constraint rows = map (sc_execution_constraint \<circ> snd) ?z"
    "map ds_max_retries rows = map (sc_max_retries \<circ> snd) ?z"
    using k [of ds_external_id] k [of ds_name] k [of ds_execution_constraint] k [of ds_max_retries]
      keeps by (simp_all add: comp_def)
  ultimately show ?thesis
    using all by (simp add: created_subtasks_def map_comp_snd_zip del: upt_Suc)
qed

lemma created_loads_stored:
  assumes "map_result (store_subtask numeric)
      (map2 (new_subtask now task_id es)
        [task_id + 1..<task_id + 1 + length (tc_subtasks data)] (tc_subtasks data)) = Inr rows"
  shows "created_loads numeric data rows"
proof -
  let ?ids = "[task_id + 1..<task_id + 1 + length (tc_subtasks data)]"
  have rows: "list_all2 (\<lambda>e r. store_subtask numeric (new_subtask now task_id es (fst e) (snd e)) = Inr r)
      (zip ?ids (tc_subtasks data)) rows"
    using assms unfolding map_result_Inr_iff list_all2_map1 by (simp add: case_prod_unfold)
  have "list_all2 (\<lambda>e s. numeric 12 2 (sc_compute_load (snd e)) = Inr (ds_compute_load s) \<and>
       numeric 12 2 (sc_input_data_size_mb (snd e)) = Inr (ds_input_data_size_mb s) \<and>
       numeric 12 2 (sc_output_data_size_mb (snd e)) = Inr (ds_output_data_size_mb s))
       (zip ?ids (tc_subtasks data)) rows"
    by (rule list_all2_mono [OF rows])
      (auto simp: store_subtask_def new_subtask_def result_simps split: if_splits)
  then have "list_all2 (\<lambda>c s. numeric 12 2 (sc_compute_load c) = Inr (ds_compute_load s) \<and>
       numeric 12 2 (sc_input_data_size_mb c) = Inr (ds_input_data_size_mb s) \<and>
       numeric 12 2 (sc_output_data_size_mb c) = Inr (ds_output_data_size_mb s))
       (map snd (zip ?ids (tc_subtasks data))) rows"
    unfolding list_all2_map1 .
  then show ?thesis by (simp add: created_loads_def del: upt_Suc)
qed

section \<open>The stored dependencies\<close>

lemma dict_display_iff:
  "distinct (map fst kvs) \<Longrightarrow> dict_display kvs k = Some v \<longleftrightarrow> (k, v) \<in> set kvs"
proof (induction kvs)
  case (Cons kv kvs)
  obtain k' v' where kv: "kv = (k', v')" by (cases kv)
  have "dict_display kvs k' = None" if "k' \<notin> fst ` set kvs" for k'
    using that by (induction kvs) (auto split: option.splits)
  with Cons kv show ?case by (force split: option.splits)
qed simp

definition created_dependencies ::
  "uuid \<Rightarrow> DagTaskCreate \<Rightarrow> uuid \<Rightarrow> dag_subtask list \<Rightarrow> dag_dependency list \<Rightarrow> bool" where
  "created_dependencies task_id data first_id subs rows \<longleftrightarrow>
     map dd_id rows = [first_id..<first_id + length (tc_dependencies data)] \<and>
     (\<forall>r \<in> set rows. dd_task_id r = task_id) \<and>
     list_all2 (\<lambda>e r. \<exists>p \<in> set subs. \<exists>s \<in> set subs.
        ds_external_id p = fst e \<and> ds_external_id s = snd e \<and>
        dd_predecessor_subtask_id r = ds_id p \<and> dd_successor_subtask_id r = ds_id s)
       (request_edges data) rows"

lemma created_dependencies_stored:
  assumes dist: "distinct (map ds_external_id subs)"
    and rows: "map_result (new_dependency now task_id
        (dict_display (map (\<lambda>s. (ds_external_id s, ds_id s)) subs)))
      (zip [k..<k + length (request_edges data)] (request_edges data)) = Inr rows"
  shows "created_dependencies task_id data k subs rows"
proof -
  let ?m = "dict_display (map (\<lambda>s. (ds_external_id s, ds_id s)) subs)"
  let ?z = "zip [k..<k + length (request_edges data)] (request_edges data)"
  have m: "?m x = Some i \<longleftrightarrow> (\<exists>s \<in> set subs. ds_external_id s = x \<and> ds_id s = i)" for x i
    by (subst dict_display_iff) (use dist in \<open>auto simp: comp_def\<close>)
  have len: "length (request_edges data) = length (tc_dependencies data)"
    by (simp add: request_edges_def)
  have all: "list_all2 (\<lambda>e r. dd_id r = fst e \<and> dd_task_id r = task_id \<and>
      ?m (fst (snd e)) = Some (dd_predecessor_subtask_id r) \<and>
      ?m (snd (snd e)) = Some (dd_successor_subtask_id r)) ?z rows"
    using rows unfolding map_result_Inr_iff
    by (rule list_all2_mono) (auto simp: new_dependency_def result_simps)
  then have "map dd_id rows = map fst ?z" and task: "\<forall>r \<in> set rows. dd_task_id r = task_id"
    by (induction) auto
  moreover from all have "list_all2 (\<lambda>e r. ?m (fst e) = Some (dd_predecessor_subtask_id r) \<and>
      ?m (snd e) = Some (dd_successor_subtask_id r)) (map snd ?z) rows"
    unfolding list_all2_map1 by (rule list_all2_mono) simp
  then have "list_all2 (\<lambda>e r. \<exists>p \<in> set subs. \<exists>s \<in> set subs.
        ds_external_id p = fst e \<and> ds_external_id s = snd e \<and>
        dd_predecessor_subtask_id r = ds_id p \<and> dd_successor_subtask_id r = ds_id s)
       (map snd ?z) rows"
    by (rule list_all2_mono) (simp add: m, metis)
  ultimately show ?thesis
    unfolding created_dependencies_def using len by (simp del: upt_Suc)
qed

section \<open>The new flow\<close>

lemma acyclic_map:
  assumes "acyclic r" and "\<And>x y. (x, y) \<in> r' \<Longrightarrow> (g x, g y) \<in> r"
  shows "acyclic r'"
proof -
  have "(g x, g y) \<in> r\<^sup>+" if "(x, y) \<in> r'\<^sup>+" for x y
    using that
  proof induction
    case (base y)
    then show ?case using assms(2) by blast
  next
    case (step y z)
    then show ?case using assms(2) by (meson trancl.trancl_into_trancl)
  qed
  with assms(1) show ?thesis unfolding acyclic_def by blast
qed

lemma created_dependencies_edges:
  assumes rows: "created_dependencies task_id data k subs rows"
    and dist: "distinct (map ds_external_id subs)"
  shows "(x, y) \<in> (\<lambda>r. (dd_predecessor_subtask_id r, dd_successor_subtask_id r)) ` set rows \<longleftrightarrow>
    (\<exists>p \<in> set subs. \<exists>s \<in> set subs. x = ds_id p \<and> y = ds_id s \<and>
       (ds_external_id p, ds_external_id s) \<in> set (request_edges data))" (is "?l \<longleftrightarrow> ?r")
proof -
  have all: "list_all2 (\<lambda>e r. \<exists>p \<in> set subs. \<exists>s \<in> set subs.
        ds_external_id p = fst e \<and> ds_external_id s = snd e \<and>
        dd_predecessor_subtask_id r = ds_id p \<and> dd_successor_subtask_id r = ds_id s)
       (request_edges data) rows"
    using rows by (simp add: created_dependencies_def)
  have inj: "p = q" if "p \<in> set subs" "q \<in> set subs" "ds_external_id p = ds_external_id q" for p q
    using dist that by (simp add: distinct_map inj_on_def)
  show ?thesis
  proof
    assume ?l
    then obtain r where r: "r \<in> set rows" "x = dd_predecessor_subtask_id r"
      "y = dd_successor_subtask_id r" by blast
    then obtain j where "j < length rows" "r = rows ! j" by (auto simp: in_set_conv_nth)
    with all obtain p s where "p \<in> set subs" "s \<in> set subs"
      "(ds_external_id p, ds_external_id s) = request_edges data ! j"
      "dd_predecessor_subtask_id r = ds_id p" "dd_successor_subtask_id r = ds_id s"
      "j < length (request_edges data)"
      unfolding list_all2_conv_all_nth by (metis prod.collapse)
    with r show ?r by (metis nth_mem)
  next
    assume ?r
    then obtain p s where ps: "p \<in> set subs" "s \<in> set subs" "x = ds_id p" "y = ds_id s"
      "(ds_external_id p, ds_external_id s) \<in> set (request_edges data)" by blast
    then obtain j where j: "j < length (request_edges data)"
      "(ds_external_id p, ds_external_id s) = request_edges data ! j"
      by (metis in_set_conv_nth)
    with all obtain q u where "q \<in> set subs" "u \<in> set subs" "ds_external_id q = ds_external_id p"
      "ds_external_id u = ds_external_id s" "dd_predecessor_subtask_id (rows ! j) = ds_id q"
      "dd_successor_subtask_id (rows ! j) = ds_id u" and len: "j < length rows"
      unfolding list_all2_conv_all_nth by (metis fst_conv snd_conv)
    with inj ps have "(x, y) = (dd_predecessor_subtask_id (rows ! j), dd_successor_subtask_id (rows ! j))"
      by metis
    then show ?l using len by (metis (no_types, lifting) imageI nth_mem)
  qed
qed

text \<open>The flow of the stored rows is initial.\<close>

lemma created_flow_initial:
  assumes valid: "validate_dag (map sc_external_id (tc_subtasks data)) (request_edges data) = Inr ()"
    and subs: "created_subtasks task_id data subs"
    and deps: "created_dependencies task_id data k subs rows"
    and flow: "f_task f = TaskStatus.PENDING"
      "\<And>i. f_subtasks f i = map_option ds_status (row_get ds_id i subs)"
      "f_deps f = (\<lambda>r. (dd_predecessor_subtask_id r, dd_successor_subtask_id r)) ` set rows"
  shows "flow_initial f"
proof -
  let ?edges = "set (request_edges data)"
  have ext: "map ds_external_id subs = map sc_external_id (tc_subtasks data)"
    and ids: "distinct (map ds_id subs)"
    using subs by (simp_all add: created_subtasks_def del: upt_Suc)
  have "validate_dag (map ds_external_id subs) (request_edges data) = Inr ()"
    using valid ext by simp
  then have v: "subs \<noteq> []" "distinct (map ds_external_id subs)" "acyclic ?edges"
    "?edges \<subseteq> ds_external_id ` set subs \<times> ds_external_id ` set subs"
    unfolding validate_dag_accepts by simp_all
  note edge = created_dependencies_edges [OF deps v(2), folded flow(3)]
  have get: "row_get ds_id (ds_id s) subs = Some s" if "s \<in> set subs" for s
    by (rule row_get_mem [OF ids that])
  have dom: "dom (f_subtasks f) = ds_id ` set subs"
    using row_get_None_iff [of ds_id _ subs] by (auto simp: flow(2) dom_def)
  have "acyclic (f_deps f)"
  proof (rule acyclic_map [OF v(3)])
    show "(ds_external_id (the (row_get ds_id x subs)), ds_external_id (the (row_get ds_id y subs)))
        \<in> ?edges" if "(x, y) \<in> f_deps f" for x y
      using that unfolding edge by (auto simp: get)
  qed
  moreover have "f_deps f \<subseteq> ds_id ` set subs \<times> ds_id ` set subs" using edge by auto
  ultimately have "flow_wf f" using v(1) by (simp add: flow_wf_def dom)
  moreover have "f_subtasks f i =
      Some (if i \<in> Range (f_deps f) then SubtaskStatus.WAITING else SubtaskStatus.READY)"
    if "i \<in> dom (f_subtasks f)" for i
  proof -
    from that obtain s where s: "s \<in> set subs" "i = ds_id s" unfolding dom by blast
    have inj: "u = s" if "u \<in> set subs" "ds_id u = ds_id s" for u
      using ids that s(1) by (simp add: distinct_map inj_on_def)
    have "i \<in> Range (f_deps f) \<longleftrightarrow> ds_external_id s \<in> snd ` ?edges"
    proof
      assume "i \<in> Range (f_deps f)"
      then show "ds_external_id s \<in> snd ` ?edges"
        using edge s inj by (metis RangeE imageI snd_conv)
    next
      assume "ds_external_id s \<in> snd ` ?edges"
      then obtain x where x: "(x, ds_external_id s) \<in> ?edges" by force
      with v(4) obtain p where "p \<in> set subs" "ds_external_id p = x" by auto
      with x edge [of "ds_id p" i] s show "i \<in> Range (f_deps f)" by blast
    qed
    with subs s get show ?thesis by (simp add: flow(2) created_subtasks_def)
  qed
  ultimately show ?thesis using flow(1) by (simp add: flow_initial_def)
qed

section \<open>The effect of \<open>create_task\<close>\<close>

lemma old_rows_fresh:
  assumes "db_inv d"
  shows "\<forall>s \<in> set (dag_subtasks d). ds_task_id s < next_uuid d"
    and "\<forall>r \<in> set (dag_dependencies d). dd_task_id r < next_uuid d"
    and "\<forall>t \<in> set (dag_tasks d). dt_id t < next_uuid d"
proof -
  show old: "\<forall>t \<in> set (dag_tasks d). dt_id t < next_uuid d"
    using assms by (simp add: db_inv_def ids_used_def)
  then show "\<forall>s \<in> set (dag_subtasks d). ds_task_id s < next_uuid d"
    "\<forall>r \<in> set (dag_dependencies d). dd_task_id r < next_uuid d"
    using assms by (fastforce simp: db_inv_def schema_ok_def table_ok_defs list_all_iff)+
qed

lemma create_task_stored:
  assumes inv: "db_inv d" and run: "create_task numeric now data d = Inr (t, d')"
  obtains subs deps where
    "validate_dag (map sc_external_id (tc_subtasks data)) (request_edges data) = Inr ()"
    and "t = new_task now (next_uuid d) data"
    and "created_subtasks (next_uuid d) data subs"
    and "created_dependencies (next_uuid d) data
      (next_uuid d + 1 + length (tc_subtasks data)) subs deps"
    and "created_loads numeric data subs" and "schema_ok d'"
    and "dag_tasks d' = dag_tasks d @ [t]" and "dag_subtasks d' = dag_subtasks d @ subs"
    and "dag_dependencies d' = dag_dependencies d @ deps"
    and "d' = d\<lparr>next_uuid := next_uuid d', dag_tasks := dag_tasks d',
      dag_subtasks := dag_subtasks d', dag_dependencies := dag_dependencies d'\<rparr>"
    and "next_uuid d' =
      next_uuid d + 1 + length (tc_subtasks data) + length (tc_dependencies data)"
proof -
  let ?T = "next_uuid d" and ?n = "length (tc_subtasks data)"
  let ?new = "map2 (new_subtask now ?T (map snd (request_edges data)))
    [?T + 1..<?T + 1 + ?n] (tc_subtasks data)"
  let ?d0 = "d\<lparr>next_uuid := ?T + 1 + ?n\<rparr>"
  from run obtain u d1 deps where
    valid: "validate_dag (map sc_external_id (tc_subtasks data)) (request_edges data) = Inr u"
    and create: "task_create numeric (new_task now ?T data) ?new ?d0 = Inr d1"
    and deps: "map_result (new_dependency now ?T
        (dict_display (map (\<lambda>s. (ds_external_id s, ds_id s)) (task_subtasks d1 ?T))))
      (zip [next_uuid d1..<next_uuid d1 + length (request_edges data)] (request_edges data)) =
        Inr deps"
    and flush: "db_flush (d1\<lparr>dag_dependencies := dag_dependencies d1 @ deps,
        next_uuid := next_uuid d1 + length (request_edges data)\<rparr>) = Inr d'"
    and t: "t = new_task now ?T data"
    unfolding create_task_def Let_def request_edges_def and_then_Inr_iff
      except_value_error_Inr_iff by (auto simp only: sum.inject prod.inject)
  from create obtain subs where stored: "map_result (store_subtask numeric) ?new = Inr subs"
    and d1: "d1 = ?d0\<lparr>dag_tasks := dag_tasks ?d0 @ [new_task now ?T data],
      dag_subtasks := dag_subtasks ?d0 @ subs\<rparr>"
    unfolding task_create_def and_then_Inr_iff db_flush_Inr_iff store_task_Inr_iff by blast
  note loads = created_loads_stored [OF stored]
  from stored have created: "created_subtasks ?T data subs" by (rule created_subtasks_stored)
  have "filter (\<lambda>s. ds_task_id s = ?T) (dag_subtasks d) = []"
    using old_rows_fresh(1) [OF inv] by (auto simp: filter_empty_conv)
  moreover have "filter (\<lambda>s. ds_task_id s = ?T) subs = subs"
    using created by (simp add: created_subtasks_def)
  ultimately have new: "task_subtasks d1 ?T = subs" by (simp add: d1 task_subtasks_def)
  have "map ds_external_id subs = map sc_external_id (tc_subtasks data)"
    using created by (simp add: created_subtasks_def)
  with valid have "distinct (map ds_external_id subs)" by (simp add: validate_dag_accepts)
  from created_dependencies_stored [OF this deps [unfolded new]]
  have "created_dependencies ?T data (?T + 1 + ?n) subs deps" by (simp add: d1)
  with valid t created loads flush d1 show thesis
    by (intro that [of subs deps]) (auto simp: db_flush_Inr_iff request_edges_def)
qed

section \<open>The invariant\<close>

lemma new_task_rows:
  assumes inv: "db_inv d" and "created_subtasks (next_uuid d) data subs"
    and "created_dependencies (next_uuid d) data k subs deps"
    and "dag_subtasks d' = dag_subtasks d @ subs" and "dag_dependencies d' = dag_dependencies d @ deps"
  shows "task_subtasks d' (next_uuid d) = subs" and "task_dependencies d' (next_uuid d) = deps"
proof -
  have "filter (\<lambda>s. ds_task_id s = next_uuid d) (dag_subtasks d) = []"
    "filter (\<lambda>r. dd_task_id r = next_uuid d) (dag_dependencies d) = []"
    using old_rows_fresh [OF inv] by (auto simp: filter_empty_conv)
  with assms show "task_subtasks d' (next_uuid d) = subs" "task_dependencies d' (next_uuid d) = deps"
    by (simp_all add: task_subtasks_def task_dependencies_def created_subtasks_def
        created_dependencies_def)
qed

lemma create_task_flows:
  assumes inv: "db_inv d" and run: "create_task numeric now data d = Inr (t, d')"
  shows "flow_initial (task_flow d' t)"
    and "\<And>u. u \<in> set (dag_tasks d) \<Longrightarrow> task_flow d' u = task_flow d u"
proof -
  note fresh = old_rows_fresh [OF inv]
  obtain subs deps where
    valid: "validate_dag (map sc_external_id (tc_subtasks data)) (request_edges data) = Inr ()"
    and t: "t = new_task now (next_uuid d) data"
    and created: "created_subtasks (next_uuid d) data subs" "created_dependencies (next_uuid d) data
      (next_uuid d + 1 + length (tc_subtasks data)) subs deps"
    and rows: "dag_subtasks d' = dag_subtasks d @ subs"
      "dag_dependencies d' = dag_dependencies d @ deps"
    by (rule create_task_stored [OF inv run])
  have own: "\<forall>s \<in> set subs. ds_task_id s = next_uuid d" "\<forall>r \<in> set deps. dd_task_id r = next_uuid d"
    using created by (simp_all add: created_subtasks_def created_dependencies_def)
  from new_task_rows [OF inv created rows] show "flow_initial (task_flow d' t)"
    by (intro created_flow_initial [OF valid created])
      (simp_all add: t new_task_def subtask_status_def subtask_by_id_def dependency_edges_def)
  show "task_flow d' u = task_flow d u" if u: "u \<in> set (dag_tasks d)" for u
  proof -
    have ne: "dt_id u \<noteq> next_uuid d" using fresh(3) u by auto
    then have "filter (\<lambda>s. ds_task_id s = dt_id u) subs = []"
      "filter (\<lambda>r. dd_task_id r = dt_id u) deps = []"
      using own by (auto simp: filter_empty_conv)
    then have "task_subtasks d' (dt_id u) = task_subtasks d (dt_id u)"
      "task_dependencies d' (dt_id u) = task_dependencies d (dt_id u)"
      by (simp_all add: task_subtasks_def task_dependencies_def rows)
    then show ?thesis
      by (simp add: task_flow_def subtask_status_def subtask_by_id_def dependency_edges_def
          fun_eq_iff)
  qed
qed

lemma create_task_step:
  assumes inv: "db_inv d" and run: "create_task numeric now data d = Inr (t, d')"
  shows "db_step d d'"
proof -
  obtain subs deps where
    t: "t = new_task now (next_uuid d) data"
    and created: "created_subtasks (next_uuid d) data subs" "created_dependencies (next_uuid d) data
      (next_uuid d + 1 + length (tc_subtasks data)) subs deps"
    and ok: "schema_ok d'"
    and rows: "dag_tasks d' = dag_tasks d @ [t]" "dag_subtasks d' = dag_subtasks d @ subs"
      "dag_dependencies d' = dag_dependencies d @ deps"
    and rest: "d' = d\<lparr>next_uuid := next_uuid d', dag_tasks := dag_tasks d',
      dag_subtasks := dag_subtasks d', dag_dependencies := dag_dependencies d'\<rparr>"
    and nx: "next_uuid d' =
      next_uuid d + 1 + length (tc_subtasks data) + length (tc_dependencies data)"
    by (rule create_task_stored [OF inv run])
  have same: "execution_records d' = execution_records d" "schedule_plans d' = schedule_plans d"
    "schedule_plan_items d' = schedule_plan_items d"
    "execution_revoke_events d' = execution_revoke_events d"
    by (subst rest, simp)+
  have new: "ds_status s \<noteq> SubtaskStatus.RUNNING" "ds_retry_count s = 0" if "s \<in> set subs" for s
    using created(1) that by (simp_all add: created_subtasks_def)
  have "flows_reachable d'"
    using create_task_flows [OF inv run] inv
    by (auto simp: flows_reachable_def rows db_inv_def intro: flow_reachable.initial)
  moreover have "executions_agree d'"
    using inv by (auto simp: executions_agree_def rows same db_inv_def)
  moreover have "plans_agree d'"
    using inv unfolding plans_agree_def db_inv_def rows same set_append by (meson UnI1)
  moreover have "running_recorded d'"
    using inv new(1) by (auto simp: running_recorded_def rows same db_inv_def)
  moreover have "retries_bounded d'"
  proof -
    have "0 \<le> ds_max_retries s" if "s \<in> set subs" for s
      using ok that by (auto simp: schema_ok_def dag_subtasks_ok_def list_all_iff rows)
    with inv new(2) show ?thesis by (auto simp: retries_bounded_def rows db_inv_def)
  qed
  moreover have "ids_used d'"
  proof (rule ids_used_grow [where d = d])
    have "set (map ds_id subs) = set [next_uuid d + 1..<next_uuid d + 1 + length (tc_subtasks data)]"
      using created(1) unfolding created_subtasks_def by (elim conjE) (simp only:)
    then have "ds_id ` set subs \<subseteq> {..<next_uuid d'}" using nx by auto
    then show "ds_id ` set (dag_subtasks d') \<subseteq> ds_id ` set (dag_subtasks d) \<union> {..<next_uuid d'}"
      unfolding rows set_append image_Un by blast
    have "set (map dd_id deps) = set [next_uuid d + 1 + length (tc_subtasks data)..<
        next_uuid d + 1 + length (tc_subtasks data) + length (tc_dependencies data)]"
      using created(2) unfolding created_dependencies_def by (elim conjE) (simp only:)
    then have "dd_id ` set deps \<subseteq> {..<next_uuid d'}" using nx by auto
    then show "dd_id ` set (dag_dependencies d') \<subseteq>
        dd_id ` set (dag_dependencies d) \<union> {..<next_uuid d'}"
      unfolding rows set_append image_Un by blast
    show "dt_id ` set (dag_tasks d') \<subseteq> dt_id ` set (dag_tasks d) \<union> {..<next_uuid d'}"
      using nx by (auto simp: rows t new_task_def)
  qed (use inv nx same in \<open>auto simp: db_inv_def\<close>)
  moreover have "flows_follow d d'"
    using create_task_flows(2) [OF inv run] by (fastforce simp: flows_follow_def rows)
  ultimately show ?thesis using ok by (simp add: db_step_def db_inv_def)
qed

end
