(* ===== verification/Task_Cancel.thy ===== *)
theory Task_Cancel
  imports Task_Flow
begin

text \<open>
  What \<open>TaskService.cancel_task\<close> does: the exact change of every table, the invariant
  and the step of the task's flow.
\<close>

section \<open>The two loops\<close>

lemma cancel_record_shape:
  assumes "cancel_running_execution revoker reason now r d = Inr d'"
    and "er_status r = ExecutionStatus.RUNNING"
  shows "\<exists>events k. d' = d\<lparr>
      execution_records := row_upd er_id (er_id r) (cancel_record reason now) (execution_records d),
      execution_revoke_events := execution_revoke_events d @ events,
      next_uuid := next_uuid d + k\<rparr> \<and>
    map re_execution_id events = (if er_celery_task_id r = None then [] else [er_id r]) \<and>
    (\<forall>e \<in> set events. re_id e < next_uuid d + k)"
proof (cases "er_celery_task_id r")
  case None
  with assms show ?thesis
    by - (rule exI [of _ "[]"], rule exI [of _ "0 :: nat"],
      auto simp: cancel_running_execution_def upd_execution_def Let_def result_simps)
next
  case (Some cid)
  let ?o = "revoke_execution revoker cid"
  let ?e = "\<lparr>re_id = next_uuid d, re_task_id = er_task_id r, re_execution_id = er_id r,
    re_celery_task_id = cid, re_success = fst ?o, re_error_message = snd ?o,
    re_requested_at = now, re_created_at = now\<rparr>"
  from Some assms show ?thesis
    by - (rule exI [of _ "[?e]"], rule exI [of _ "1 :: nat"],
      simp add: cancel_running_execution_def upd_execution_def Let_def result_simps
        revoke_event_create_def)
qed

lemma cancel_records_shape:
  assumes "for_each (cancel_running_execution revoker reason now) xs d = Inr d'"
    and "\<forall>r \<in> set xs. er_status r = ExecutionStatus.RUNNING"
  shows "\<exists>events k. d' = d\<lparr>
      execution_records := fold (\<lambda>r. row_upd er_id (er_id r) (cancel_record reason now)) xs
        (execution_records d),
      execution_revoke_events := execution_revoke_events d @ events,
      next_uuid := next_uuid d + k\<rparr> \<and>
    map re_execution_id events = map er_id (filter (\<lambda>r. er_celery_task_id r \<noteq> None) xs) \<and>
    (\<forall>e \<in> set events. re_id e < next_uuid d + k)"
  using assms
proof (induction xs arbitrary: d)
  case Nil
  then show ?case by - (rule exI [of _ "[]"], rule exI [of _ "0 :: nat"], simp)
next
  case (Cons r xs)
  from Cons.prems(1) obtain d1 where first: "cancel_running_execution revoker reason now r d = Inr d1"
    and rest: "for_each (cancel_running_execution revoker reason now) xs d1 = Inr d'"
    by (auto simp: result_simps)
  from cancel_record_shape [OF first] Cons.prems(2) obtain ev1 k1 where d1: "d1 = d\<lparr>
      execution_records := row_upd er_id (er_id r) (cancel_record reason now) (execution_records d),
      execution_revoke_events := execution_revoke_events d @ ev1, next_uuid := next_uuid d + k1\<rparr>"
    and ev1: "map re_execution_id ev1 = (if er_celery_task_id r = None then [] else [er_id r])"
    and k1: "\<forall>e \<in> set ev1. re_id e < next_uuid d + k1"
    by auto
  from Cons.IH [OF rest] Cons.prems(2) obtain ev2 k2 where d': "d' = d1\<lparr>
      execution_records := fold (\<lambda>r. row_upd er_id (er_id r) (cancel_record reason now)) xs
        (execution_records d1),
      execution_revoke_events := execution_revoke_events d1 @ ev2,
      next_uuid := next_uuid d1 + k2\<rparr>"
    and ev2: "map re_execution_id ev2 = map er_id (filter (\<lambda>r. er_celery_task_id r \<noteq> None) xs)"
    and k2: "\<forall>e \<in> set ev2. re_id e < next_uuid d1 + k2"
    by auto
  show ?case
    by (rule exI [of _ "ev1 @ ev2"], rule exI [of _ "k1 + k2"])
      (use d1 d' ev1 ev2 k1 k2 in \<open>auto simp: add.assoc\<close>)
qed

lemma cancel_one_shape:
  "cancel_non_terminal_subtask reason now s d = Inr d' \<Longrightarrow>
     d' = (if ds_status s \<in> set terminal_statuses then d
           else d\<lparr>dag_subtasks :=
             row_upd ds_id (ds_id s) (cancel_subtask reason now) (dag_subtasks d)\<rparr>)"
  by (auto simp: cancel_non_terminal_subtask_def upd_subtask_def result_simps split: if_splits)

lemma cancel_subtasks_shape:
  assumes "for_each (cancel_non_terminal_subtask reason now) xs d = Inr d'"
  shows "d' = d\<lparr>dag_subtasks :=
    fold (\<lambda>s. row_upd ds_id (ds_id s) (cancel_subtask reason now))
      (filter (\<lambda>s. ds_status s \<notin> set terminal_statuses) xs) (dag_subtasks d)\<rparr>"
  using assms
proof (induction xs arbitrary: d)
  case (Cons s xs)
  then obtain d1 where "cancel_non_terminal_subtask reason now s d = Inr d1"
    and rest: "for_each (cancel_non_terminal_subtask reason now) xs d1 = Inr d'"
    by (auto simp: result_simps)
  from cancel_one_shape [OF this(1)] Cons.IH [OF rest] show ?case by simp
qed simp

section \<open>The effect on every table\<close>

definition canceled_row :: "uuid \<Rightarrow> string option \<Rightarrow> datetime \<Rightarrow> dag_subtask \<Rightarrow> dag_subtask" where
  "canceled_row task_id reason now s =
     (if ds_task_id s = task_id \<and> ds_status s \<notin> set terminal_statuses
      then cancel_subtask reason now s else s)"

definition canceled_record ::
  "uuid \<Rightarrow> string option \<Rightarrow> datetime \<Rightarrow> execution_record \<Rightarrow> execution_record" where
  "canceled_record task_id reason now r =
     (if er_task_id r = task_id \<and> er_status r = ExecutionStatus.RUNNING
      then cancel_record reason now r else r)"

lemma canceled_row_sel [simp]:
  "ds_id (canceled_row t reason now s) = ds_id s"
  "ds_task_id (canceled_row t reason now s) = ds_task_id s"
  "ds_retry_count (canceled_row t reason now s) = ds_retry_count s"
  "ds_max_retries (canceled_row t reason now s) = ds_max_retries s"
  by (simp_all add: canceled_row_def cancel_subtask_def)

lemma terminal_iff: "s \<in> set terminal_statuses \<longleftrightarrow> cancel_status s = s"
  by (cases s) (simp_all add: terminal_statuses_def cancel_status_def)

lemma canceled_row_status:
  "ds_status (canceled_row t reason now s) =
     (if ds_task_id s = t then cancel_status (ds_status s) else ds_status s)"
  by (cases "ds_status s")
    (simp_all add: canceled_row_def cancel_subtask_def terminal_statuses_def cancel_status_def)

lemma cancel_task_effect:
  assumes "cancel_task revoker now task_id reason d = Inr d'"
    and dist: "distinct (map ds_id (dag_subtasks d))" "distinct (map er_id (execution_records d))"
  obtains t events k where "task_get_by_id d task_id = Some t"
    and "dt_status t \<in> {TaskStatus.PENDING, TaskStatus.SCHEDULED, TaskStatus.RUNNING}"
    and "d' = d\<lparr>
      dag_tasks := row_upd dt_id task_id (\<lambda>t. t\<lparr>dt_status := TaskStatus.CANCELED,
        dt_failure_reason := reason, dt_finished_at := or_else (dt_finished_at t) now\<rparr>)
        (dag_tasks d),
      dag_subtasks := map (canceled_row task_id reason now) (dag_subtasks d),
      execution_records := map (canceled_record task_id reason now) (execution_records d),
      execution_revoke_events := execution_revoke_events d @ events,
      next_uuid := next_uuid d + k\<rparr>"
    and "map re_execution_id events =
      map er_id (filter (\<lambda>r. er_celery_task_id r \<noteq> None) (list_running_by_task d task_id))"
    and "\<forall>e \<in> set events. re_id e < next_uuid d + k"
    and "schema_ok d'"
proof -
  let ?g = "\<lambda>t. t\<lparr>dt_status := TaskStatus.CANCELED, dt_failure_reason := reason,
    dt_finished_at := or_else (dt_finished_at t) now\<rparr>"
  let ?d1 = "d\<lparr>dag_tasks := row_upd dt_id task_id ?g (dag_tasks d)\<rparr>"
  from assms(1) obtain t d2 d3 where t: "task_get_by_id d task_id = Some t"
    and live: "task_next (dt_status t) TaskStatus.CANCELED"
    and d2: "cancel_running_executions revoker task_id reason now ?d1 = Inr d2"
    and d3: "cancel_non_terminal_subtasks task_id reason now d2 = Inr d3"
    and ok: "schema_ok d3" "d' = d3"
    by (auto simp: cancel_task_def get_task_def Let_def upd_task_def result_simps
        split: option.splits)
  have run: "list_running_by_task ?d1 task_id = list_running_by_task d task_id"
    by (simp add: list_running_by_task_def)
  from cancel_records_shape [OF d2 [unfolded cancel_running_executions_def run]]
  obtain events k where d2': "d2 = ?d1\<lparr>
      execution_records := fold (\<lambda>r. row_upd er_id (er_id r) (cancel_record reason now))
        (list_running_by_task d task_id) (execution_records d),
      execution_revoke_events := execution_revoke_events d @ events,
      next_uuid := next_uuid d + k\<rparr>"
    and ev: "map re_execution_id events =
      map er_id (filter (\<lambda>r. er_celery_task_id r \<noteq> None) (list_running_by_task d task_id))"
      "\<forall>e \<in> set events. re_id e < next_uuid d + k"
    by (auto simp: list_running_by_task_def)
  have recs: "fold (\<lambda>r. row_upd er_id (er_id r) (cancel_record reason now))
      (list_running_by_task d task_id) (execution_records d) =
    map (canceled_record task_id reason now) (execution_records d)"
    unfolding list_running_by_task_def canceled_record_def
    by (rule row_upd_filter [OF _ dist(2)]) (simp add: cancel_record_def)
  have subs: "fold (\<lambda>s. row_upd ds_id (ds_id s) (cancel_subtask reason now))
      (filter (\<lambda>s. ds_status s \<notin> set terminal_statuses) (task_subtasks d task_id))
      (dag_subtasks d) = map (canceled_row task_id reason now) (dag_subtasks d)"
    unfolding task_subtasks_def filter_filter canceled_row_def
    using row_upd_filter [OF _ dist(1), of "cancel_subtask reason now"
        "\<lambda>s. ds_task_id s = task_id \<and> ds_status s \<notin> set terminal_statuses"]
    by (simp add: cancel_subtask_def conj_commute)
  have "task_subtasks d2 task_id = task_subtasks d task_id"
    by (simp add: d2' task_subtasks_def)
  with cancel_subtasks_shape [OF d3 [unfolded cancel_non_terminal_subtasks_def]]
  have "d3 = d2\<lparr>dag_subtasks := map (canceled_row task_id reason now) (dag_subtasks d)\<rparr>"
    using subs by (simp add: d2')
  moreover have "dt_status t \<in> {TaskStatus.PENDING, TaskStatus.SCHEDULED, TaskStatus.RUNNING}"
    using live by (cases "dt_status t") simp_all
  ultimately show thesis
    using that [OF t _ _ ev] ok d2' recs by simp
qed

section \<open>The invariant and the step of the flow\<close>

lemma cancel_flow_step:
  assumes "dag_subtasks d' = map (canceled_row (dt_id t) reason now) (dag_subtasks d)"
    and "dag_dependencies d' = dag_dependencies d"
    and "dt_status t \<in> {TaskStatus.PENDING, TaskStatus.SCHEDULED, TaskStatus.RUNNING}"
    and "dt_id t' = dt_id t" and "dt_status t' = TaskStatus.CANCELED"
  shows "flow_step (task_flow d t) (task_flow d' t')"
proof -
  have "map_option (\<lambda>s. ds_status (canceled_row (dt_id t) reason now s))
      (subtask_by_id d (dt_id t) i) = map_option cancel_status (subtask_status d (dt_id t) i)" for i
  proof (cases "subtask_by_id d (dt_id t) i")
    case (Some s)
    then have "s \<in> set (task_subtasks d (dt_id t))"
      unfolding subtask_by_id_def by (blast dest: row_get_SomeD)
    with Some show ?thesis
      by (simp add: subtask_status_def canceled_row_status task_subtasks_mem)
  qed (simp add: subtask_status_def)
  then have "task_flow d' t' = (task_flow d t)\<lparr>f_task := TaskStatus.CANCELED,
      f_subtasks := (\<lambda>i. map_option cancel_status (f_subtasks (task_flow d t) i))\<rparr>"
    using task_flow_map [OF assms(1,2) _ _ assms(4)] assms(5) by simp
  moreover have "flow_step (task_flow d t) \<dots>"
    using assms(3) by (intro flow_step.cancel) simp
  ultimately show ?thesis by simp
qed

lemma row_upd_local:
  "row_upd dt_id i g rows = map (\<lambda>t. if dt_id t = i then g t else t) rows"
  by (rule row_upd_as_map)

lemma cancel_task_step:
  assumes inv: "db_inv d" and run: "cancel_task revoker now task_id reason d = Inr d'"
  shows "db_step d d'"
proof -
  note dist = db_inv_distinct [OF inv]
  let ?g = "\<lambda>t. if dt_id t = task_id then t\<lparr>dt_status := TaskStatus.CANCELED,
    dt_failure_reason := reason, dt_finished_at := or_else (dt_finished_at t) now\<rparr> else t"
  let ?f = "canceled_row task_id reason now"
  from cancel_task_effect [OF run dist(2,4)] obtain t events k where
    t: "task_get_by_id d task_id = Some t"
    and live: "dt_status t \<in> {TaskStatus.PENDING, TaskStatus.SCHEDULED, TaskStatus.RUNNING}"
    and d': "d' = d\<lparr>
      dag_tasks := row_upd dt_id task_id (\<lambda>t. t\<lparr>dt_status := TaskStatus.CANCELED,
        dt_failure_reason := reason, dt_finished_at := or_else (dt_finished_at t) now\<rparr>)
        (dag_tasks d),
      dag_subtasks := map ?f (dag_subtasks d),
      execution_records := map (canceled_record task_id reason now) (execution_records d),
      execution_revoke_events := execution_revoke_events d @ events,
      next_uuid := next_uuid d + k\<rparr>"
    and ev: "\<forall>e \<in> set events. re_id e < next_uuid d + k"
    and ok: "schema_ok d'" .
  have tasks: "dag_tasks d' = map ?g (dag_tasks d)" by (simp add: d' row_upd_local)
  have subs: "dag_subtasks d' = map ?f (dag_subtasks d)"
    and recs: "execution_records d' = map (canceled_record task_id reason now) (execution_records d)"
    and deps: "dag_dependencies d' = dag_dependencies d" by (simp_all add: d')
  have step: "flow_step (task_flow d u) (task_flow d' (?g u))"
    if u: "u \<in> set (dag_tasks d)" "dt_id u = task_id" for u
  proof -
    have "u = t" by (rule the_task_row [OF dist(1) t u])
    with live u subs deps show ?thesis
      by (intro cancel_flow_step [where reason = reason and now = now]) simp_all
  qed
  have "flows_reachable d'" and follow: "flows_follow d d'"
    by (rule flows_map [where task_id = task_id, OF _ tasks subs deps];
        (use inv step in \<open>simp add: db_inv_def canceled_row_def cancel_subtask_def\<close>))+
  moreover have "executions_agree d'"
  proof (rule executions_agree_map [OF _ subs recs])
    show "executions_agree d" using inv by (simp add: db_inv_def)
    show "record_agrees (canceled_record task_id reason now r) (?f s)" if "record_agrees r s" for r s
      using that by (cases "ds_status s")
        (auto simp: record_agrees_def canceled_record_def cancel_record_def canceled_row_status
          cancel_status_def)
  qed
  moreover have "running_recorded d'"
    unfolding running_recorded_def
  proof (intro ballI impI)
    fix s'
    assume "s' \<in> set (dag_subtasks d')" and s'r: "ds_status s' = SubtaskStatus.RUNNING"
    then obtain s where s: "s \<in> set (dag_subtasks d)" "s' = ?f s" by (auto simp: subs)
    with s'r have other: "ds_task_id s \<noteq> task_id" "ds_status s = SubtaskStatus.RUNNING"
      by (auto simp: canceled_row_status cancel_status_def split: if_splits)
    with s inv obtain r where r: "r \<in> set (execution_records d)" "er_subtask_id r = ds_id s"
      "er_status r = ExecutionStatus.RUNNING"
      by (auto simp: db_inv_def running_recorded_def)
    moreover from r(1) inv obtain u where "u \<in> set (dag_subtasks d)" "record_agrees r u"
      by (auto simp: db_inv_def executions_agree_def)
    with r(2) s(1) dist(2) have "er_task_id r = ds_task_id s"
      by (metis record_agrees_def get_subtask_row_iff option.inject)
    ultimately show "\<exists>r \<in> set (execution_records d'). er_subtask_id r = ds_id s' \<and>
        er_status r = ExecutionStatus.RUNNING"
      using other s(2) by (force simp: recs canceled_record_def)
  qed
  moreover have "retries_bounded d'"
    using inv by (simp add: db_inv_def retries_bounded_def subs)
  moreover have "plans_agree d'"
    by (rule plans_agree_map [where d = d and f = ?f and g = "\<lambda>p. p"])
      (use inv in \<open>simp_all add: db_inv_def d'\<close>)
  moreover have "ids_used d'"
  proof -
    have "dt_id ` set (dag_tasks d') = dt_id ` set (dag_tasks d)"
      "ds_id ` set (dag_subtasks d') = ds_id ` set (dag_subtasks d)"
      "er_id ` set (execution_records d') = er_id ` set (execution_records d)"
      unfolding tasks subs recs
      by (rule keys_map; simp add: canceled_record_def cancel_record_def)+
    with inv ev show ?thesis
      unfolding db_inv_def ids_used_def by (auto simp: d' intro: trans_less_add1)
  qed
  ultimately show ?thesis using ok follow by (simp add: db_step_def db_inv_def)
qed

section \<open>Cancelling a live task always succeeds\<close>

definition revocable :: "execution_record list \<Rightarrow> db \<Rightarrow> bool" where
  "revocable xs d \<longleftrightarrow>
     schema_ok d \<and> (\<forall>e \<in> set (execution_revoke_events d). re_id e < next_uuid d) \<and>
     (\<forall>r \<in> set xs. er_status r = ExecutionStatus.RUNNING \<and>
        er_task_id r \<in> set (map dt_id (dag_tasks d)) \<and>
        er_id r \<in> set (map er_id (execution_records d)))"

lemma revocable_update:
  assumes ok: "revocable (r # xs) d"
    and events: "map re_id events = (if c then [] else [next_uuid d])"
      "\<forall>e \<in> set events. re_task_id e = er_task_id r \<and> re_execution_id e = er_id r"
  shows "revocable xs (d\<lparr>
      execution_records := row_upd er_id i (cancel_record reason now) (execution_records d),
      next_uuid := next_uuid d + (if c then 0 else 1),
      execution_revoke_events := execution_revoke_events d @ events\<rparr>)"
proof -
  let ?k = "\<lambda>r. if er_id r = i then cancel_record reason now r else r"
  let ?d = "d\<lparr>execution_records := row_upd er_id i (cancel_record reason now) (execution_records d),
      next_uuid := next_uuid d + (if c then 0 else 1),
      execution_revoke_events := execution_revoke_events d @ events\<rparr>"
  have sd: "schema_ok d" using ok by (simp add: revocable_def)
  have used: "\<forall>e \<in> set (execution_revoke_events d). re_id e < next_uuid d"
    using ok by (simp add: revocable_def)
  have new: "re_id e = next_uuid d \<and> \<not> c" if "e \<in> set events" for e
    using events(1) that by (cases c) (auto dest: arg_cong [where f = set])
  have ev: "execution_revoke_events_ok (dag_tasks d) (execution_records d)
      (execution_revoke_events d @ events)"
  proof -
    have old: "distinct (map re_id (execution_revoke_events d))"
      "list_all (\<lambda>r. re_task_id r \<in> set (map dt_id (dag_tasks d)) \<and>
        re_execution_id r \<in> set (map er_id (execution_records d))) (execution_revoke_events d)"
      using sd unfolding schema_ok_def execution_revoke_events_ok_def by blast+
    have "distinct (map re_id events)" using events(1) by (cases c) simp_all
    moreover have "re_id ` set (execution_revoke_events d) \<inter> re_id ` set events = {}"
      using used new by fastforce
    moreover have "list_all (\<lambda>e. re_task_id e \<in> set (map dt_id (dag_tasks d)) \<and>
        re_execution_id e \<in> set (map er_id (execution_records d))) events"
      using events(2) ok unfolding revocable_def list_all_iff by simp
    ultimately show ?thesis
      using old unfolding execution_revoke_events_ok_def by simp
  qed
  have keys: "map er_id (row_upd er_id i (cancel_record reason now) (execution_records d)) =
      map er_id (execution_records d)"
    by (rule row_upd_keys) (simp add: cancel_record_def)
  have "schema_ok ?d"
    by (rule schema_ok_map [OF sd, where k = ?k and f = "\<lambda>s. s" and g = "\<lambda>t. t" and h = "\<lambda>p. p"])
      (use sd ev in \<open>auto simp: row_upd_def cancel_record_def record_keys_def schema_ok_def
        dag_subtasks_ok_def execution_records_ok_def list_all_iff\<close>)
  moreover have "\<forall>e \<in> set (execution_revoke_events ?d). re_id e < next_uuid ?d"
    using used new by (auto intro: less_SucI)
  moreover have "\<forall>q \<in> set xs. er_status q = ExecutionStatus.RUNNING \<and>
      er_task_id q \<in> set (map dt_id (dag_tasks d)) \<and> er_id q \<in> set (map er_id (execution_records d))"
    using ok by (simp add: revocable_def)
  ultimately show ?thesis unfolding revocable_def by (simp add: keys)
qed

lemma cancel_record_total:
  assumes ok: "revocable (r # xs) d"
  shows "\<exists>d'. cancel_running_execution revoker reason now r d = Inr d' \<and> revocable xs d'"
proof -
  have run: "er_status r = ExecutionStatus.RUNNING" using ok by (simp add: revocable_def)
  show ?thesis
  proof (cases "er_celery_task_id r")
    case None
    with run revocable_update [OF ok, of "[]" True "er_id r" reason now] show ?thesis
      by (simp add: cancel_running_execution_def ensure_transition_allowed_cases upd_execution_def
          Let_def)
  next
    case (Some c)
    let ?o = "revoke_execution revoker c"
    from run Some revocable_update [OF ok, of "[\<lparr>re_id = next_uuid d, re_task_id = er_task_id r,
        re_execution_id = er_id r, re_celery_task_id = c, re_success = fst ?o,
        re_error_message = snd ?o, re_requested_at = now, re_created_at = now\<rparr>]" False "er_id r"
        reason now]
    show ?thesis
      by (simp add: cancel_running_execution_def ensure_transition_allowed_cases upd_execution_def
          Let_def revoke_event_create_def revocable_def db_flush_def)
  qed
qed

lemma cancel_records_total:
  "revocable xs d \<Longrightarrow>
     \<exists>d'. for_each (cancel_running_execution revoker reason now) xs d = Inr d' \<and> revocable [] d'"
proof (induction xs arbitrary: d)
  case (Cons r xs)
  from cancel_record_total [OF Cons.prems] obtain d1 where
    d1: "cancel_running_execution revoker reason now r d = Inr d1" "revocable xs d1" by blast
  from Cons.IH [OF d1(2)] d1(1) show ?case by simp
qed simp

lemma cancel_subtasks_total:
  "schema_ok d \<Longrightarrow>
     \<exists>d'. for_each (cancel_non_terminal_subtask reason now) xs d = Inr d' \<and> schema_ok d'"
proof (induction xs arbitrary: d)
  case (Cons s xs)
  have "schema_ok (upd_subtask (ds_id s) (cancel_subtask reason now) d)"
    by (rule schema_ok_map [OF Cons.prems, where k = "\<lambda>r. r" and g = "\<lambda>t. t" and h = "\<lambda>p. p"
          and f = "\<lambda>r. if ds_id r = ds_id s then cancel_subtask reason now r else r"])
      (use Cons.prems in \<open>auto simp: upd_subtask_def row_upd_def cancel_subtask_def
        subtask_keys_def schema_ok_def dag_subtasks_ok_def execution_records_ok_def list_all_iff\<close>)
  then have "\<exists>d'. cancel_non_terminal_subtask reason now s d = Inr d' \<and> schema_ok d'"
    using Cons.prems
    by (cases "ds_status s")
      (simp_all add: cancel_non_terminal_subtask_def terminal_statuses_def
        ensure_transition_allowed_cases)
  then obtain d1 where d1: "cancel_non_terminal_subtask reason now s d = Inr d1" "schema_ok d1"
    by blast
  from Cons.IH [OF d1(2)] d1(1) show ?case by simp
qed simp

lemma cancel_task_succeeds:
  assumes inv: "db_inv d"
  shows "(\<exists>d'. cancel_task revoker now i reason d = Inr d') \<longleftrightarrow>
    (\<exists>t. task_get_by_id d i = Some t \<and>
       dt_status t \<in> {TaskStatus.PENDING, TaskStatus.SCHEDULED, TaskStatus.RUNNING})"
proof
  note dist = db_inv_distinct [OF inv]
  assume "\<exists>d'. cancel_task revoker now i reason d = Inr d'"
  then show "\<exists>t. task_get_by_id d i = Some t \<and>
      dt_status t \<in> {TaskStatus.PENDING, TaskStatus.SCHEDULED, TaskStatus.RUNNING}"
    using cancel_task_effect [OF _ dist(2,4)] by metis
next
  assume "\<exists>t. task_get_by_id d i = Some t \<and>
      dt_status t \<in> {TaskStatus.PENDING, TaskStatus.SCHEDULED, TaskStatus.RUNNING}"
  then obtain t where t: "task_get_by_id d i = Some t"
    and live: "task_next (dt_status t) TaskStatus.CANCELED" by auto
  let ?d1 = "upd_task i (\<lambda>t. t\<lparr>dt_status := TaskStatus.CANCELED,
    dt_failure_reason := reason, dt_finished_at := or_else (dt_finished_at t) now\<rparr>) d"
  have ok: "schema_ok d" using inv by (simp add: db_inv_def)
  have "schema_ok ?d1"
    by (rule schema_ok_map [OF ok, where k = "\<lambda>r. r" and f = "\<lambda>s. s" and h = "\<lambda>p. p"
          and g = "\<lambda>t. if dt_id t = i then t\<lparr>dt_status := TaskStatus.CANCELED,
            dt_failure_reason := reason, dt_finished_at := or_else (dt_finished_at t) now\<rparr> else t"])
      (use ok in \<open>auto simp: upd_task_def row_upd_def task_keys_def schema_ok_def
        dag_subtasks_ok_def execution_records_ok_def list_all_iff\<close>)
  moreover have "map dt_id (dag_tasks ?d1) = map dt_id (dag_tasks d)"
    by (simp add: task_rows.keys_upd)
  then have "set (map dt_id (dag_tasks ?d1)) = set (map dt_id (dag_tasks d))" by simp
  moreover have "\<forall>e \<in> set (execution_revoke_events d). re_id e < next_uuid d"
    using inv by (simp add: db_inv_def ids_used_def)
  moreover have "\<forall>r \<in> set (execution_records d). er_task_id r \<in> set (map dt_id (dag_tasks d))"
    using ok by (simp add: schema_ok_def execution_records_ok_def list_all_iff)
  ultimately have "revocable (list_running_by_task ?d1 i) ?d1"
    unfolding revocable_def list_running_by_task_def by (auto simp: upd_task_def)
  from cancel_records_total [OF this, of revoker reason now] obtain d2 where
    d2: "cancel_running_executions revoker i reason now ?d1 = Inr d2" "schema_ok d2"
    by (auto simp: cancel_running_executions_def revocable_def)
  from cancel_subtasks_total [OF d2(2), of reason now] obtain d3 where
    "cancel_non_terminal_subtasks i reason now d2 = Inr d3" "schema_ok d3"
    by (auto simp: cancel_non_terminal_subtasks_def)
  with t live d2(1) show "\<exists>d'. cancel_task revoker now i reason d = Inr d'"
    by (simp add: cancel_task_def get_task_def ensure_task_transition_eq Let_def db_flush_def)
qed

end
