(* ===== verification/Execution_Start.thy ===== *)
theory Execution_Start
  imports Task_Flow
begin

text \<open>
  \<open>ExecutionService.start_execution\<close>: its exact effect, that it never violates a
  constraint of the schema, the step of the flow and the invariant.
\<close>

section \<open>The loop over the plan items\<close>

definition started_row :: "datetime \<Rightarrow> uuid set \<Rightarrow> dag_subtask \<Rightarrow> dag_subtask" where
  "started_row now S s =
     (if ds_id s \<in> S then s\<lparr>ds_status := SubtaskStatus.RUNNING, ds_started_at := Some now\<rparr> else s)"

definition started_records ::
  "datetime \<Rightarrow> uuid \<Rightarrow> db \<Rightarrow> schedule_plan_item list \<Rightarrow> execution_record list" where
  "started_records now task_id d items =
     map2 (\<lambda>k i. new_execution_record now task_id i (the (get_subtask_row d (pi_subtask_id i))) k)
       [next_uuid d..<next_uuid d + length items] items"

lemma started_row_sel [simp]:
  "ds_id (started_row now S s) = ds_id s" "ds_task_id (started_row now S s) = ds_task_id s"
  "ds_retry_count (started_row now S s) = ds_retry_count s"
  "ds_max_retries (started_row now S s) = ds_max_retries s"
  "subtask_keys (started_row now S s) = subtask_keys s"
  by (simp_all add: started_row_def subtask_keys_def)

lemma start_item_Inr_iff:
  "start_item now task_id i (d, recs) = Inr st \<longleftrightarrow>
     (\<exists>s. get_subtask_row d (pi_subtask_id i) = Some s \<and> ds_status s = SubtaskStatus.READY \<and>
        st = (upd_subtask (pi_subtask_id i) (\<lambda>s. s\<lparr>ds_status := SubtaskStatus.RUNNING,
              ds_started_at := Some now\<rparr>) (d\<lparr>next_uuid := next_uuid d + 1\<rparr>),
            recs @ [new_execution_record now task_id i s (next_uuid d)]))"
  using subtask_rows.get_SomeD [of d "pi_subtask_id i"]
  by (auto simp: start_item_def result_simps split: option.splits)

lemma start_items_shape:
  assumes "for_each (start_item now task_id) items (d, recs) = Inr st"
    and "distinct (map pi_subtask_id items)"
  shows "st = (d\<lparr>dag_subtasks := map (started_row now (pi_subtask_id ` set items)) (dag_subtasks d),
      next_uuid := next_uuid d + length items\<rparr>, recs @ started_records now task_id d items) \<and>
    (\<forall>i \<in> set items. \<exists>s. get_subtask_row d (pi_subtask_id i) = Some s \<and>
      ds_status s = SubtaskStatus.READY)"
  using assms
proof (induction items arbitrary: d recs)
  case Nil
  have "started_row now {} = id" by (rule ext) (simp add: started_row_def)
  with Nil show ?case by (simp add: started_records_def)
next
  case (Cons i items)
  let ?j = "pi_subtask_id i"
  from Cons.prems(1) obtain s where s: "get_subtask_row d ?j = Some s"
      "ds_status s = SubtaskStatus.READY"
    and rest: "for_each (start_item now task_id) items
      (upd_subtask ?j (\<lambda>s. s\<lparr>ds_status := SubtaskStatus.RUNNING, ds_started_at := Some now\<rparr>)
         (d\<lparr>next_uuid := next_uuid d + 1\<rparr>),
       recs @ [new_execution_record now task_id i s (next_uuid d)]) = Inr st"
    unfolding for_each.simps and_then_Inr_iff start_item_Inr_iff by blast
  let ?d1 = "upd_subtask ?j (\<lambda>s. s\<lparr>ds_status := SubtaskStatus.RUNNING, ds_started_at := Some now\<rparr>)
    (d\<lparr>next_uuid := next_uuid d + 1\<rparr>)"
  have d1: "?d1 = d\<lparr>dag_subtasks := map (started_row now {?j}) (dag_subtasks d),
      next_uuid := next_uuid d + 1\<rparr>"
    by (simp add: upd_subtask_def row_upd_as_map started_row_def [abs_def])
  have other: "get_subtask_row ?d1 (pi_subtask_id k) = get_subtask_row d (pi_subtask_id k)"
    if "k \<in> set items" for k
  proof -
    have "pi_subtask_id k \<noteq> ?j" using Cons.prems(2) that by (metis distinct.simps(2) imageI list.map(2) set_map)
    then show ?thesis
      by (subst subtask_rows.get_upd) (simp_all add: get_subtask_row_def)
  qed
  have rows: "map (started_row now (pi_subtask_id ` set items)) (map (started_row now {?j}) (dag_subtasks d)) =
      map (started_row now (pi_subtask_id ` set (i # items))) (dag_subtasks d)"
    by (auto simp: started_row_def)
  have recs: "new_execution_record now task_id i s (next_uuid d) # started_records now task_id ?d1 items =
      started_records now task_id d (i # items)"
  proof -
    have up: "[next_uuid d..<next_uuid d + length (i # items)] =
        next_uuid d # [Suc (next_uuid d)..<Suc (next_uuid d) + length items]"
      by (simp add: upt_rec)
    have "next_uuid ?d1 = Suc (next_uuid d)" by (simp add: upd_subtask_def)
    moreover have "map2 (\<lambda>k i. new_execution_record now task_id i
          (the (get_subtask_row ?d1 (pi_subtask_id i))) k) ks items =
        map2 (\<lambda>k i. new_execution_record now task_id i
          (the (get_subtask_row d (pi_subtask_id i))) k) ks items" for ks
      using other by (auto dest!: set_zip_rightD)
    ultimately show ?thesis using s(1) unfolding started_records_def up by simp
  qed
  from Cons.IH [OF rest] Cons.prems(2) have
    st: "st = (?d1\<lparr>dag_subtasks := map (started_row now (pi_subtask_id ` set items)) (dag_subtasks ?d1),
      next_uuid := next_uuid ?d1 + length items\<rparr>,
      (recs @ [new_execution_record now task_id i s (next_uuid d)]) @ started_records now task_id ?d1 items)"
    and ready: "\<forall>k \<in> set items. \<exists>s. get_subtask_row ?d1 (pi_subtask_id k) = Some s \<and>
      ds_status s = SubtaskStatus.READY"
    by auto
  from st recs rows have "st = (d\<lparr>dag_subtasks :=
        map (started_row now (pi_subtask_id ` set (i # items))) (dag_subtasks d),
      next_uuid := next_uuid d + length (i # items)\<rparr>,
      recs @ started_records now task_id d (i # items))"
    unfolding d1 by simp
  with ready other s show ?case by auto
qed

text \<open>Conversely, the loop runs through when every item's subtask is ready.\<close>

lemma start_items_total:
  assumes "\<forall>i \<in> set items. \<exists>s. get_subtask_row d (pi_subtask_id i) = Some s \<and>
      ds_status s = SubtaskStatus.READY"
    and "distinct (map pi_subtask_id items)"
  shows "\<exists>st. for_each (start_item now task_id) items (d, recs) = Inr st"
  using assms
proof (induction items arbitrary: d recs)
  case (Cons i items)
  let ?j = "pi_subtask_id i"
  from Cons.prems(1) obtain s where s: "get_subtask_row d ?j = Some s"
      "ds_status s = SubtaskStatus.READY" by auto
  then have first: "start_item now task_id i (d, recs) =
      Inr (upd_subtask ?j (\<lambda>s. s\<lparr>ds_status := SubtaskStatus.RUNNING, ds_started_at := Some now\<rparr>)
         (d\<lparr>next_uuid := next_uuid d + 1\<rparr>),
       recs @ [new_execution_record now task_id i s (next_uuid d)])" (is "_ = Inr (?d1, _)")
    unfolding start_item_Inr_iff by blast
  have "get_subtask_row ?d1 (pi_subtask_id k) = get_subtask_row d (pi_subtask_id k)"
    if "k \<in> set items" for k
  proof -
    have "pi_subtask_id k \<noteq> ?j" using Cons.prems(2) that by (metis distinct.simps(2) imageI list.map(2) set_map)
    then show ?thesis
      by (subst subtask_rows.get_upd) (simp_all add: get_subtask_row_def)
  qed
  with Cons.IH [of ?d1] Cons.prems first show ?case by simp
qed simp

section \<open>The new execution records\<close>

lemma started_records_mem:
  assumes "r \<in> set (started_records now task_id d items)"
  obtains i k where "i \<in> set items" and "next_uuid d \<le> k" and "k < next_uuid d + length items"
    and "r = new_execution_record now task_id i (the (get_subtask_row d (pi_subtask_id i))) k"
proof -
  from assms obtain k i where "(k, i) \<in> set (zip [next_uuid d..<next_uuid d + length items] items)"
    and r: "r = new_execution_record now task_id i (the (get_subtask_row d (pi_subtask_id i))) k"
    by (auto simp: started_records_def)
  from set_zip_leftD [OF this(1)] set_zip_rightD [OF this(1)] r show thesis
    by (intro that [of i k]) simp_all
qed

lemma started_records_ids:
  "map er_id (started_records now task_id d items) = [next_uuid d..<next_uuid d + length items]"
  "map er_subtask_id (started_records now task_id d items) = map pi_subtask_id items"
  by (rule nth_equalityI; simp add: started_records_def new_execution_record_def)+

lemma started_records_cover:
  assumes "i \<in> set items"
  shows "\<exists>r \<in> set (started_records now task_id d items). er_subtask_id r = pi_subtask_id i \<and>
    er_status r = ExecutionStatus.RUNNING"
proof -
  from assms have "pi_subtask_id i \<in> er_subtask_id ` set (started_records now task_id d items)"
    unfolding set_map [symmetric] started_records_ids by simp
  then obtain r where "r \<in> set (started_records now task_id d items)"
    "er_subtask_id r = pi_subtask_id i" by force
  moreover from this(1) have "er_status r = ExecutionStatus.RUNNING"
    by (rule started_records_mem) (simp add: new_execution_record_def)
  ultimately show ?thesis by blast
qed

section \<open>Starting under the invariant\<close>

definition start_db :: "datetime \<Rightarrow> uuid \<Rightarrow> uuid \<Rightarrow> db \<Rightarrow> db" where
  "start_db now task_id plan_id d =
     (let items = plan_items d plan_id in
      d\<lparr>dag_subtasks := map (started_row now (pi_subtask_id ` set items)) (dag_subtasks d),
        next_uuid := next_uuid d + length items,
        schedule_plans := map (\<lambda>p. if sp_id p = plan_id then p\<lparr>sp_status := SchedulePlanStatus.APPLIED,
          sp_applied_at := Some now\<rparr> else p) (schedule_plans d),
        dag_tasks := map (\<lambda>t. if dt_id t = task_id then t\<lparr>dt_status := TaskStatus.RUNNING,
          dt_started_at := or_else (dt_started_at t) now\<rparr> else t) (dag_tasks d),
        execution_records := execution_records d @ started_records now task_id d items\<rparr>)"

definition startable :: "uuid \<Rightarrow> uuid \<Rightarrow> db \<Rightarrow> bool" where
  "startable task_id plan_id d \<longleftrightarrow>
     (\<exists>t p. task_get_by_id d task_id = Some t \<and>
        dt_status t \<in> {TaskStatus.SCHEDULED, TaskStatus.RUNNING} \<and>
        schedule_get_by_id d plan_id = Some p \<and> sp_task_id p = task_id \<and>
        sp_status p = SchedulePlanStatus.GENERATED) \<and>
     plan_items d plan_id \<noteq> [] \<and>
     (\<forall>i \<in> set (plan_items d plan_id). \<exists>s. get_subtask_row d (pi_subtask_id i) = Some s \<and>
        ds_status s = SubtaskStatus.READY)"

lemma plan_items_distinct:
  assumes "schema_ok d"
  shows "distinct (map pi_subtask_id (plan_items d plan_id))"
proof -
  have "distinct (map (\<lambda>r. (pi_plan_id r, pi_subtask_id r)) (plan_items d plan_id))"
    using assms
    by (auto simp: schema_ok_def schedule_plan_items_ok_def plan_items_def distinct_map_filter)
  then show ?thesis by (auto simp: distinct_map inj_on_def plan_items_def)
qed

text \<open>The state in which \<open>start_execution\<close> flushes the new records.\<close>

lemma start_execution_eq:
  assumes "schema_ok d" and "startable task_id plan_id d"
  shows "start_execution now task_id plan_id d =
    and_then (db_flush (start_db now task_id plan_id d)) (\<lambda>d'.
      Inr (\<lparr>es_task_id = task_id, es_schedule_plan_id = plan_id,
        es_status = TaskStatus.RUNNING,
        es_execution_count = int (length (plan_items d plan_id)),
        es_execution_ids = [next_uuid d..<next_uuid d + length (plan_items d plan_id)]\<rparr>, d'))"
proof -
  let ?items = "plan_items d plan_id"
  note dist = plan_items_distinct [OF assms(1), of plan_id]
  from assms(2) obtain t p where tp: "task_get_by_id d task_id = Some t"
    "dt_status t \<in> {TaskStatus.SCHEDULED, TaskStatus.RUNNING}"
    "schedule_get_by_id d plan_id = Some p" "sp_task_id p = task_id"
    "sp_status p = SchedulePlanStatus.GENERATED" "?items \<noteq> []"
    and ready: "\<forall>i \<in> set ?items. \<exists>s. get_subtask_row d (pi_subtask_id i) = Some s \<and>
      ds_status s = SubtaskStatus.READY"
    by (auto simp: startable_def)
  from start_items_total [OF ready dist] obtain st where
    st: "for_each (start_item now task_id) ?items (d, []) = Inr st" by blast
  have len: "length (started_records now task_id d ?items) = length ?items"
    by (simp add: started_records_def)
  have can: "ensure_task_can_run (dt_status t) task_id = Inr ()"
    "ensure_plan_can_apply p = Inr ()" using tp by (simp_all add: result_simps)
  show ?thesis
    using start_items_shape [OF st dist] st tp can len
    by (simp add: start_execution_def get_task_def get_plan_def Let_def execution_create_many_def
        upd_plan_def upd_task_def row_upd_as_map start_db_def started_records_ids)
qed

lemma start_execution_startable:
  assumes "schema_ok d" and "start_execution now task_id plan_id d = Inr (x, d')"
  shows "startable task_id plan_id d"
proof -
  from assms(2) obtain st where
    st: "for_each (start_item now task_id) (plan_items d plan_id) (d, []) = Inr st"
    by (auto simp: start_execution_def result_simps split: if_splits)
  from start_items_shape [OF st plan_items_distinct [OF assms(1)]] assms(2) show ?thesis
    by (auto simp: startable_def start_execution_def get_task_def get_plan_def result_simps
        split: option.splits if_splits)
qed

lemma schema_ok_add_records:
  assumes ok: "schema_ok d" and "next_uuid d' = n" and "d' = d\<lparr>next_uuid := n,
      execution_records := execution_records d @ new\<rparr>"
    and "distinct (map er_id (execution_records d @ new))"
    and "distinct (map (\<lambda>r. (er_subtask_id r, er_attempt r)) (execution_records d @ new))"
    and "\<forall>r \<in> set new. er_task_id r \<in> set (map dt_id (dag_tasks d)) \<and>
      er_subtask_id r \<in> set (map ds_id (dag_subtasks d)) \<and>
      er_node_id r \<in> set (map nd_id (nodes d)) \<and>
      opt_all (\<lambda>i. i \<in> set (map pi_id (schedule_plan_items d))) (er_plan_item_id r) \<and>
      1 \<le> er_attempt r \<and> er_duration_ms r = None"
  shows "schema_ok d'"
proof -
  have "execution_records_ok (dag_tasks d) (dag_subtasks d) (nodes d) (schedule_plan_items d)
      (execution_records d @ new)"
    using ok assms(4-6) by (auto simp: schema_ok_def execution_records_ok_def list_all_iff opt_all_def)
  moreover have "execution_revoke_events_ok (dag_tasks d) (execution_records d @ new)
      (execution_revoke_events d)"
    using ok by (auto simp: schema_ok_def execution_revoke_events_ok_def list_all_iff)
  ultimately show ?thesis
    using ok unfolding assms(3) schema_ok_def by simp
qed

lemma startable_items:
  assumes inv: "db_inv d" and "startable task_id plan_id d"
    and i: "i \<in> set (plan_items d plan_id)"
  obtains s where "s \<in> set (dag_subtasks d)" and "ds_id s = pi_subtask_id i"
    and "get_subtask_row d (pi_subtask_id i) = Some s"
    and "ds_task_id s = task_id" and "ds_status s = SubtaskStatus.READY"
proof -
  note dist = db_inv_distinct [OF inv]
  from assms(2) i obtain s p where s: "get_subtask_row d (pi_subtask_id i) = Some s"
    "ds_status s = SubtaskStatus.READY"
    and p: "schedule_get_by_id d plan_id = Some p" "sp_task_id p = task_id"
    by (auto simp: startable_def)
  have sd: "s \<in> set (dag_subtasks d)" "ds_id s = pi_subtask_id i"
    using subtask_rows.get_SomeD [OF s(1)] by simp_all
  from i have "i \<in> set (schedule_plan_items d)" "pi_plan_id i = plan_id"
    by (simp_all add: plan_items_def)
  with inv obtain q u where q: "q \<in> set (schedule_plans d)" "sp_id q = plan_id"
    and u: "u \<in> set (dag_subtasks d)" "ds_id u = pi_subtask_id i" "ds_task_id u = sp_task_id q"
    unfolding db_inv_def plans_agree_def by metis
  have "schedule_get_by_id d plan_id = Some q" using q plan_rows.get_iff [OF dist(3)] by simp
  with p have "sp_task_id q = task_id" by simp
  moreover have "u = s" by (rule the_subtask_row [OF dist(2) u(1) sd(1)]) (simp add: u(2) sd(2))
  ultimately show thesis using that [OF sd s(1) _ s(2)] u(3) by simp
qed

lemma start_schema_ok:
  assumes inv: "db_inv d" and go: "startable task_id plan_id d"
  shows "schema_ok (start_db now task_id plan_id d)"
proof -
  let ?items = "plan_items d plan_id" and ?new = "started_records now task_id d (plan_items d plan_id)"
  note dist = db_inv_distinct [OF inv]
  have ok: "schema_ok d" using inv by (simp add: db_inv_def)
  let ?d1 = "d\<lparr>dag_subtasks := map (started_row now (pi_subtask_id ` set ?items)) (dag_subtasks d),
      schedule_plans := map (\<lambda>p. if sp_id p = plan_id then p\<lparr>sp_status := SchedulePlanStatus.APPLIED,
        sp_applied_at := Some now\<rparr> else p) (schedule_plans d),
      dag_tasks := map (\<lambda>t. if dt_id t = task_id then t\<lparr>dt_status := TaskStatus.RUNNING,
        dt_started_at := or_else (dt_started_at t) now\<rparr> else t) (dag_tasks d)\<rparr>"
  have ok1: "schema_ok ?d1"
    by (rule schema_ok_map [OF ok, where k = "\<lambda>r. r"
            and f = "started_row now (pi_subtask_id ` set ?items)"
            and g = "\<lambda>t. if dt_id t = task_id then t\<lparr>dt_status := TaskStatus.RUNNING,
              dt_started_at := or_else (dt_started_at t) now\<rparr> else t"
            and h = "\<lambda>p. if sp_id p = plan_id then p\<lparr>sp_status := SchedulePlanStatus.APPLIED,
              sp_applied_at := Some now\<rparr> else p"])
      (use ok in \<open>auto simp: task_keys_def plan_keys_def schema_ok_def dag_subtasks_ok_def
        execution_records_ok_def list_all_iff\<close>)
  have new: "\<exists>s i k. s \<in> set (dag_subtasks d) \<and> i \<in> set ?items \<and> ds_id s = pi_subtask_id i \<and>
      ds_status s = SubtaskStatus.READY \<and> r = new_execution_record now task_id i s k \<and>
      next_uuid d \<le> k" if r: "r \<in> set ?new" for r
  proof -
    from r obtain i k where ik: "i \<in> set ?items" "next_uuid d \<le> k"
      "r = new_execution_record now task_id i (the (get_subtask_row d (pi_subtask_id i))) k"
      by (rule started_records_mem)
    from startable_items [OF inv go ik(1)] obtain s where "s \<in> set (dag_subtasks d)"
      "ds_id s = pi_subtask_id i" "get_subtask_row d (pi_subtask_id i) = Some s"
      "ds_status s = SubtaskStatus.READY" by metis
    with ik show ?thesis by (metis option.sel)
  qed
  have fresh: "er_id r < next_uuid d" if "r \<in> set (execution_records d)" for r
    using inv that by (auto simp: db_inv_def ids_used_def)
  have "distinct (map er_id (execution_records d @ ?new))"
    using dist(4) by (auto simp: started_records_ids dest!: fresh)
  moreover have "distinct (map (\<lambda>r. (er_subtask_id r, er_attempt r)) (execution_records d @ ?new))"
  proof -
    have old: "distinct (map (\<lambda>r. (er_subtask_id r, er_attempt r)) (execution_records d))"
      using ok by (simp add: schema_ok_def execution_records_ok_def)
    have "distinct (map er_subtask_id ?new)"
      using plan_items_distinct [OF ok] by (simp add: started_records_ids)
    then have "distinct (map (\<lambda>r. (er_subtask_id r, er_attempt r)) ?new)"
      by (auto simp: distinct_map inj_on_def)
    moreover have "(er_subtask_id q, er_attempt q) \<noteq> (er_subtask_id r, er_attempt r)"
      if q: "q \<in> set (execution_records d)" and r: "r \<in> set ?new" for q r
    proof
      assume eq: "(er_subtask_id q, er_attempt q) = (er_subtask_id r, er_attempt r)"
      from new [OF r] obtain s i k where s: "s \<in> set (dag_subtasks d)" "ds_id s = pi_subtask_id i"
        "ds_status s = SubtaskStatus.READY" "r = new_execution_record now task_id i s k" by blast
      from inv q obtain u where u: "u \<in> set (dag_subtasks d)" "record_agrees q u"
        by (auto simp: db_inv_def executions_agree_def)
      have "u = s"
        by (rule the_subtask_row [OF dist(2) u(1) s(1)])
          (use u(2) eq s in \<open>simp add: record_agrees_def new_execution_record_def\<close>)
      with u(2) s eq show False by (simp add: record_agrees_def new_execution_record_def)
    qed
    ultimately show ?thesis using old by auto
  qed
  moreover have "er_task_id r \<in> set (map dt_id (dag_tasks d)) \<and>
      er_subtask_id r \<in> set (map ds_id (dag_subtasks d)) \<and>
      er_node_id r \<in> set (map nd_id (nodes d)) \<and>
      opt_all (\<lambda>i. i \<in> set (map pi_id (schedule_plan_items d))) (er_plan_item_id r) \<and>
      1 \<le> er_attempt r \<and> er_duration_ms r = None" if r: "r \<in> set ?new" for r
  proof -
    from new [OF r] obtain s i k where s: "s \<in> set (dag_subtasks d)" "i \<in> set ?items"
      "ds_id s = pi_subtask_id i" and rr: "r = new_execution_record now task_id i s k" by blast
    from s(2) have i: "i \<in> set (schedule_plan_items d)" by (simp add: plan_items_def)
    with ok have "pi_assigned_node_id i \<in> set (map nd_id (nodes d))"
      by (auto simp: schema_ok_def schedule_plan_items_ok_def list_all_iff)
    moreover from go have "task_id \<in> set (map dt_id (dag_tasks d))"
      by (auto simp: startable_def dest!: task_rows.get_SomeD)
    moreover have "0 \<le> ds_retry_count s"
      using inv s(1) by (simp add: db_inv_def retries_bounded_def)
    ultimately show ?thesis
      using rr s i by (auto simp: new_execution_record_def opt_all_def image_iff intro: sym)
  qed
  moreover have "map dt_id (dag_tasks ?d1) = map dt_id (dag_tasks d)"
    "map ds_id (dag_subtasks ?d1) = map ds_id (dag_subtasks d)" by simp_all
  then have "set (map dt_id (dag_tasks ?d1)) = set (map dt_id (dag_tasks d))"
    "set (map ds_id (dag_subtasks ?d1)) = set (map ds_id (dag_subtasks d))" by metis+
  ultimately show ?thesis
    by (intro schema_ok_add_records [OF ok1, where n = "next_uuid d + length ?items" and new = ?new])
      (simp_all add: start_db_def Let_def)
qed

text \<open>\<open>start_execution\<close> succeeds exactly when the plan can be started.\<close>

lemma start_execution_succeeds:
  assumes inv: "db_inv d"
  shows "(\<exists>x d'. start_execution now task_id plan_id d = Inr (x, d')) \<longleftrightarrow> startable task_id plan_id d"
proof
  assume "\<exists>x d'. start_execution now task_id plan_id d = Inr (x, d')"
  with inv show "startable task_id plan_id d"
    using start_execution_startable by (auto simp: db_inv_def)
next
  assume go: "startable task_id plan_id d"
  have ok: "schema_ok d" using inv by (simp add: db_inv_def)
  from start_schema_ok [OF inv go] show "\<exists>x d'. start_execution now task_id plan_id d = Inr (x, d')"
    unfolding start_execution_eq [OF ok go] by (auto simp: db_flush_def)
qed

lemma start_execution_db:
  assumes inv: "db_inv d" and run: "start_execution now task_id plan_id d = Inr (x, d')"
  shows "startable task_id plan_id d" and "d' = start_db now task_id plan_id d"
proof -
  have ok: "schema_ok d" using inv by (simp add: db_inv_def)
  from start_execution_startable [OF ok run] show go: "startable task_id plan_id d" .
  from run show "d' = start_db now task_id plan_id d"
    unfolding start_execution_eq [OF ok go] by (auto simp: result_simps)
qed

section \<open>The step of the flow and the invariant\<close>

definition item_subtasks :: "db \<Rightarrow> uuid \<Rightarrow> uuid set" where
  "item_subtasks d plan_id = pi_subtask_id ` set (plan_items d plan_id)"

lemma start_status:
  assumes inv: "db_inv d" and go: "startable task_id plan_id d"
  shows "subtask_status (start_db now task_id plan_id d) task_id i =
    (if i \<in> item_subtasks d plan_id then Some SubtaskStatus.RUNNING else subtask_status d task_id i)"
proof -
  note dist = db_inv_distinct [OF inv]
  have st: "subtask_status (start_db now task_id plan_id d) task_id i =
      map_option (\<lambda>s. ds_status (started_row now (item_subtasks d plan_id) s))
        (subtask_by_id d task_id i)"
    by (rule subtask_status_map) (simp_all add: start_db_def item_subtasks_def Let_def)
  show ?thesis
  proof (cases "i \<in> item_subtasks d plan_id")
    case True
    then obtain it where it: "it \<in> set (plan_items d plan_id)" "i = pi_subtask_id it"
      by (auto simp: item_subtasks_def)
    from startable_items [OF inv go it(1)] obtain s where "s \<in> set (dag_subtasks d)"
      "ds_id s = i" "ds_task_id s = task_id" using it(2) by metis
    then have "subtask_by_id d task_id i = Some s"
      using subtask_by_id_iff [OF dist(2)] by simp
    with True st \<open>ds_id s = i\<close> show ?thesis by (simp add: started_row_def)
  next
    case False
    have "ds_id s = i" if "subtask_by_id d task_id i = Some s" for s
      using that subtask_by_id_iff [OF dist(2)] by simp
    with False st show ?thesis
      by (cases "subtask_by_id d task_id i") (simp_all add: started_row_def subtask_status_def)
  qed
qed

lemma start_flow_step:
  assumes inv: "db_inv d" and go: "startable task_id plan_id d"
    and t: "task_get_by_id d task_id = Some t" "dt_id t' = task_id" "dt_status t' = TaskStatus.RUNNING"
  shows "flow_step (task_flow d t) (task_flow (start_db now task_id plan_id d) t')"
proof -
  have tid: "dt_id t = task_id" using task_rows.get_SomeD [OF t(1)] by simp
  have "dependency_edges (start_db now task_id plan_id d) = dependency_edges d"
    by (rule dependency_edges_same) (simp add: start_db_def Let_def)
  then have flow: "task_flow (start_db now task_id plan_id d) t' =
      (task_flow d t)\<lparr>f_task := TaskStatus.RUNNING, f_subtasks :=
        (\<lambda>i. if i \<in> item_subtasks d plan_id then Some SubtaskStatus.RUNNING
          else f_subtasks (task_flow d t) i)\<rparr>"
    using t tid by (simp add: task_flow_def fun_eq_iff start_status [OF inv go])
  have ready: "\<forall>i \<in> item_subtasks d plan_id. f_subtasks (task_flow d t) i = Some SubtaskStatus.READY"
  proof
    fix i
    assume "i \<in> item_subtasks d plan_id"
    then obtain it where it: "it \<in> set (plan_items d plan_id)" "i = pi_subtask_id it"
      by (auto simp: item_subtasks_def)
    from startable_items [OF inv go it(1)] obtain s where "s \<in> set (dag_subtasks d)"
      "ds_id s = i" "ds_task_id s = task_id" "ds_status s = SubtaskStatus.READY"
      using it(2) by metis
    then show "f_subtasks (task_flow d t) i = Some SubtaskStatus.READY"
      using subtask_status_iff [OF db_inv_distinct(2) [OF inv]] tid by auto
  qed
  from go t(1) have "f_task (task_flow d t) \<in> {TaskStatus.SCHEDULED, TaskStatus.RUNNING}"
    and "item_subtasks d plan_id \<noteq> {}" by (auto simp: startable_def item_subtasks_def)
  from flow_step.start [OF this ready] show ?thesis unfolding flow .
qed

lemma start_executions_agree:
  assumes inv: "db_inv d" and go: "startable task_id plan_id d"
  shows "executions_agree (start_db now task_id plan_id d)"
proof -
  let ?f = "started_row now (item_subtasks d plan_id)"
  have subs: "dag_subtasks (start_db now task_id plan_id d) = map ?f (dag_subtasks d)"
    and recs: "execution_records (start_db now task_id plan_id d) =
      execution_records d @ started_records now task_id d (plan_items d plan_id)"
    by (simp_all add: start_db_def item_subtasks_def Let_def)
  have "\<exists>s \<in> set (dag_subtasks d). record_agrees r (?f s)" if r: "r \<in> set (execution_records d)" for r
  proof -
    from inv r obtain s where s: "s \<in> set (dag_subtasks d)" "record_agrees r s"
      by (auto simp: db_inv_def executions_agree_def)
    then have "record_agrees r (?f s)" by (auto simp: record_agrees_def started_row_def)
    with s show ?thesis by blast
  qed
  moreover have "\<exists>s \<in> set (dag_subtasks d). record_agrees r (?f s)"
    if r: "r \<in> set (started_records now task_id d (plan_items d plan_id))" for r
  proof -
    from r obtain i k where ik: "i \<in> set (plan_items d plan_id)"
      "r = new_execution_record now task_id i (the (get_subtask_row d (pi_subtask_id i))) k"
      by (rule started_records_mem)
    from startable_items [OF inv go ik(1)] obtain s where s: "s \<in> set (dag_subtasks d)"
      "ds_id s = pi_subtask_id i" "get_subtask_row d (pi_subtask_id i) = Some s"
      "ds_task_id s = task_id" by metis
    have "ds_id s \<in> item_subtasks d plan_id" using ik(1) s(2) by (auto simp: item_subtasks_def)
    then have "record_agrees r (?f s)"
      using s ik by (simp add: record_agrees_def started_row_def new_execution_record_def)
    with s show ?thesis by blast
  qed
  ultimately show ?thesis unfolding executions_agree_def subs recs by (auto simp: image_iff)
qed

lemma start_db_step:
  assumes inv: "db_inv d" and go: "startable task_id plan_id d"
  shows "db_step d (start_db now task_id plan_id d)"
proof -
  let ?d = "start_db now task_id plan_id d" and ?items = "plan_items d plan_id"
  let ?f = "started_row now (item_subtasks d plan_id)"
  let ?g = "\<lambda>t. if dt_id t = task_id then t\<lparr>dt_status := TaskStatus.RUNNING,
    dt_started_at := or_else (dt_started_at t) now\<rparr> else t"
  let ?h = "\<lambda>p. if sp_id p = plan_id then p\<lparr>sp_status := SchedulePlanStatus.APPLIED,
    sp_applied_at := Some now\<rparr> else p"
  note dist = db_inv_distinct [OF inv]
  have eqs: "dag_subtasks ?d = map ?f (dag_subtasks d)" "dag_tasks ?d = map ?g (dag_tasks d)"
    "schedule_plans ?d = map ?h (schedule_plans d)" "dag_dependencies ?d = dag_dependencies d"
    "schedule_plan_items ?d = schedule_plan_items d"
    "execution_records ?d = execution_records d @ started_records now task_id d ?items"
    "execution_revoke_events ?d = execution_revoke_events d"
    "next_uuid ?d = next_uuid d + length ?items"
    by (simp_all add: start_db_def item_subtasks_def Let_def)
  from go obtain t0 where t0: "task_get_by_id d task_id = Some t0" by (auto simp: startable_def)
  have local: "?f s = s" if "s \<in> set (dag_subtasks d)" "ds_task_id s \<noteq> task_id" for s
  proof -
    have "ds_id s \<notin> item_subtasks d plan_id"
    proof
      assume "ds_id s \<in> item_subtasks d plan_id"
      then obtain it where it: "it \<in> set ?items" "ds_id s = pi_subtask_id it"
        by (auto simp: item_subtasks_def)
      from startable_items [OF inv go it(1)] obtain u where "u \<in> set (dag_subtasks d)"
        "ds_id u = ds_id s" "ds_task_id u = task_id" using it(2) by metis
      with the_subtask_row [OF dist(2) this(1) that(1)] that(2) show False by simp
    qed
    then show ?thesis by (simp add: started_row_def)
  qed
  have step: "flow_step (task_flow d t) (task_flow ?d (?g t))"
    if "t \<in> set (dag_tasks d)" "dt_id t = task_id" for t
    using start_flow_step [OF inv go t0, of "?g t"] the_task_row [OF dist(1) t0 that] that by simp
  have flows: "flows_reachable ?d" and follow: "flows_follow d ?d"
    by (rule flows_map [OF _ eqs(2,1,4), where task_id = task_id];
        (use inv local step in \<open>simp add: db_inv_def\<close>))+
  have "running_recorded ?d"
    unfolding running_recorded_def
  proof (intro ballI impI)
    fix u
    assume "u \<in> set (dag_subtasks ?d)" and run: "ds_status u = SubtaskStatus.RUNNING"
    then obtain s where s: "s \<in> set (dag_subtasks d)" "u = ?f s" unfolding eqs by auto
    show "\<exists>r \<in> set (execution_records ?d). er_subtask_id r = ds_id u \<and>
      er_status r = ExecutionStatus.RUNNING"
    proof (cases "ds_id s \<in> item_subtasks d plan_id")
      case True
      then obtain i where "i \<in> set ?items" "pi_subtask_id i = ds_id s"
        by (auto simp: item_subtasks_def)
      with started_records_cover [of i ?items now task_id d] s show ?thesis
        unfolding eqs by auto
    next
      case False
      with s run inv show ?thesis
        unfolding eqs by (auto simp: started_row_def db_inv_def running_recorded_def)
    qed
  qed
  moreover have "retries_bounded ?d"
    using inv unfolding db_inv_def retries_bounded_def eqs by simp
  moreover have "plans_agree ?d"
    by (rule plans_agree_map [OF _ eqs(1,3,5)]) (use inv in \<open>simp_all add: db_inv_def\<close>)
  moreover have "ids_used ?d"
  proof (rule ids_used_grow [where d = d])
    show "dt_id ` set (dag_tasks ?d) \<subseteq> dt_id ` set (dag_tasks d) \<union> {..<next_uuid ?d}"
      "ds_id ` set (dag_subtasks ?d) \<subseteq> ds_id ` set (dag_subtasks d) \<union> {..<next_uuid ?d}"
      "sp_id ` set (schedule_plans ?d) \<subseteq> sp_id ` set (schedule_plans d) \<union> {..<next_uuid ?d}"
      unfolding eqs by auto
    have "er_id ` set (execution_records ?d) =
        er_id ` set (execution_records d) \<union> {next_uuid d..<next_uuid d + length ?items}"
      unfolding eqs set_append image_Un using started_records_ids(1) [of now task_id d ?items]
      by (metis set_map set_upt)
    moreover have "{next_uuid d..<next_uuid d + length ?items} \<subseteq> {..<next_uuid ?d}"
      unfolding eqs by auto
    ultimately show "er_id ` set (execution_records ?d) \<subseteq>
        er_id ` set (execution_records d) \<union> {..<next_uuid ?d}" by blast
  qed (use inv in \<open>simp_all add: db_inv_def eqs(4,5,7,8)\<close>)
  ultimately show ?thesis
    using start_schema_ok [OF inv go] start_executions_agree [OF inv go] flows follow
    by (simp add: db_step_def db_inv_def)
qed

lemma start_execution_step:
  assumes "db_inv d" and "start_execution now task_id plan_id d = Inr (x, d')"
  shows "db_step d d'"
  using start_execution_db [OF assms] start_db_step [OF assms(1)] by simp

end
