(* ===== verification/Unlocking.thy ===== *)
theory Unlocking
  imports Task_Flow
begin

text \<open>
  \<open>ExecutionService._unlock_successors\<close>: the loop over the dependencies changes exactly
  the waiting successors of the completed subtask whose predecessors are all
  successful, and never meets an unknown identifier. This is \<open>unlock\<close> of the flow.
\<close>

text \<open>The rows that may be unlocked, and those that the dependencies \<open>done\<close> reach.\<close>

definition eligible :: "db \<Rightarrow> uuid \<Rightarrow> dag_subtask \<Rightarrow> bool" where
  "eligible d task_id s \<longleftrightarrow>
     ds_task_id s = task_id \<and> ds_status s = SubtaskStatus.WAITING \<and>
     (\<forall>p. (p, ds_id s) \<in> dependency_edges d task_id \<longrightarrow> succeeded (subtask_status d task_id) p)"

definition reached :: "uuid \<Rightarrow> dag_dependency list \<Rightarrow> uuid \<Rightarrow> bool" where
  "reached c done i \<longleftrightarrow>
     (\<exists>r \<in> set done. dd_predecessor_subtask_id r = c \<and> dd_successor_subtask_id r = i)"

definition unlocked_row ::
  "db \<Rightarrow> uuid \<Rightarrow> uuid \<Rightarrow> dag_dependency list \<Rightarrow> dag_subtask \<Rightarrow> dag_subtask" where
  "unlocked_row d task_id c done s =
     (if eligible d task_id s \<and> reached c done (ds_id s)
      then s\<lparr>ds_status := SubtaskStatus.READY\<rparr> else s)"

lemma reached_snoc [simp]:
  "reached c (done @ [x]) i \<longleftrightarrow>
     reached c done i \<or> dd_predecessor_subtask_id x = c \<and> dd_successor_subtask_id x = i"
  by (auto simp: reached_def)

lemma reached_Nil [simp]: "\<not> reached c [] i"
  by (simp add: reached_def)

definition unlocked_db :: "db \<Rightarrow> uuid \<Rightarrow> uuid \<Rightarrow> dag_dependency list \<Rightarrow> db" where
  "unlocked_db d task_id c done =
     d\<lparr>dag_subtasks := map (unlocked_row d task_id c done) (dag_subtasks d)\<rparr>"

lemma unlocked_row_sel [simp]:
  "ds_id (unlocked_row d t c done s) = ds_id s"
  "ds_task_id (unlocked_row d t c done s) = ds_task_id s"
  "ds_retry_count (unlocked_row d t c done s) = ds_retry_count s"
  "ds_max_retries (unlocked_row d t c done s) = ds_max_retries s"
  by (simp_all add: unlocked_row_def)

lemma unlocked_row_cases:
  "unlocked_row d t c done s = s \<or>
   ds_task_id s = t \<and> ds_status s = SubtaskStatus.WAITING \<and>
     unlocked_row d t c done s = s\<lparr>ds_status := SubtaskStatus.READY\<rparr>"
  by (simp add: unlocked_row_def eligible_def)

lemma unlocked_row_success [simp]:
  "ds_status (unlocked_row d t c done s) = SubtaskStatus.SUCCESS \<longleftrightarrow>
     ds_status s = SubtaskStatus.SUCCESS"
  by (auto simp: unlocked_row_def eligible_def)

lemma unlocked_db_Nil [simp]: "unlocked_db d t c [] = d"
proof -
  have "unlocked_row d t c [] = id" by (rule ext) (simp add: unlocked_row_def)
  then show ?thesis by (simp add: unlocked_db_def)
qed

lemma subtask_by_id_unlocked:
  "subtask_by_id (unlocked_db d t c done) t i =
     map_option (unlocked_row d t c done) (subtask_by_id d t i)"
  by (rule subtask_by_id_map) (simp_all add: unlocked_db_def)

lemma edges_iff:
  "(p, s) \<in> dependency_edges d t \<longleftrightarrow>
     (\<exists>r \<in> set (task_dependencies d t).
        dd_predecessor_subtask_id r = p \<and> dd_successor_subtask_id r = s)"
  by (auto simp: dependency_edges_def)

lemma predecessor_ids_set:
  "set (predecessor_ids (unlocked_db d t c done) t i) = {p. (p, i) \<in> dependency_edges d t}"
  by (auto simp: predecessor_ids_def unlocked_db_def task_dependencies_def edges_iff)

lemma all_succeeded_unlocked:
  assumes "set ps \<subseteq> dom (subtask_status d t)"
  shows "all_succeeded (unlocked_db d t c done) t ps =
    Inr (\<forall>p \<in> set ps. succeeded (subtask_status d t) p)"
  using assms
proof (induction ps)
  case (Cons p ps)
  then obtain s where s: "subtask_by_id d t p = Some s"
    by (auto simp: subtask_status_def)
  with Cons show ?case
    by (simp add: subtask_by_id_unlocked lookup_key_def succeeded_def subtask_status_def)
qed simp

lemma unlock_one:
  assumes dist: "distinct (map ds_id (dag_subtasks d))"
    and within: "dependency_edges d t \<subseteq> dom (subtask_status d t) \<times> dom (subtask_status d t)"
    and x: "x \<in> set (task_dependencies d t)"
  shows "unlock_successor t c x (unlocked_db d t c done) = Inr (unlocked_db d t c (done @ [x]))"
proof (cases "dd_predecessor_subtask_id x = c")
  case False
  then have "unlocked_row d t c (done @ [x]) = unlocked_row d t c done"
    by (intro ext) (simp add: unlocked_row_def)
  with False show ?thesis by (simp add: unlock_successor_def unlocked_db_def)
next
  case hit: True
  let ?i = "dd_successor_subtask_id x" and ?D = "unlocked_db d t c done"
  have "(c, ?i) \<in> dependency_edges d t" using x hit by (auto simp: edges_iff)
  with within have "?i \<in> dom (subtask_status d t)" by blast
  then obtain s where s: "subtask_by_id d t ?i = Some s"
    by (auto simp: subtask_status_def)
  then have sd: "s \<in> set (dag_subtasks d)" "ds_task_id s = t" "ds_id s = ?i"
    using subtask_by_id_iff [OF dist] by simp_all
  let ?u = "unlocked_row d t c done s"
  have look: "lookup_key (subtask_by_id ?D t) ?i = Inr ?u"
    by (simp add: lookup_key_def subtask_by_id_unlocked s)
  have "set (predecessor_ids ?D t ?i) \<subseteq> dom (subtask_status d t)"
    using within by (auto simp: predecessor_ids_set)
  from all_succeeded_unlocked [OF this, of c "done"]
  have all: "all_succeeded ?D t (predecessor_ids ?D t ?i) =
      Inr (ds_status s = SubtaskStatus.WAITING \<longrightarrow> eligible d t s)"
    if "ds_status s = SubtaskStatus.WAITING"
    using that by (simp add: predecessor_ids_set eligible_def sd)
  have other: "ds_id u \<noteq> ?i" if "u \<in> set (dag_subtasks d)" "u \<noteq> s" for u
    using that the_subtask_row [OF dist _ sd(1)] sd(3) by auto
  have same: "unlocked_row d t c (done @ [x]) u = unlocked_row d t c done u"
    if "u \<in> set (dag_subtasks d)" "u \<noteq> s" for u
    using other [OF that] by (simp add: unlocked_row_def)
  show ?thesis
  proof (cases "eligible d t s \<and> \<not> reached c done ?i")
    case False
    then have "unlocked_row d t c (done @ [x]) s = ?u"
      by (auto simp: unlocked_row_def sd)
    with same have D: "unlocked_db d t c (done @ [x]) = ?D"
      unfolding unlocked_db_def by (metis (no_types, lifting) map_cong)
    show ?thesis
    proof (cases "ds_status ?u = SubtaskStatus.WAITING")
      case True
      then have u: "?u = s" "ds_status s = SubtaskStatus.WAITING"
        using unlocked_row_cases [of d t c "done" s] by auto
      from True False have "\<not> eligible d t s" by (auto simp: unlocked_row_def sd)
      with u all have "all_succeeded ?D t (predecessor_ids ?D t ?i) = Inr False" by simp
      with u hit look D show ?thesis by (simp add: unlock_successor_def sd)
    qed (use hit look D in \<open>simp add: unlock_successor_def\<close>)
  next
    case new: True
    then have u: "?u = s" by (simp add: unlocked_row_def sd)
    from new have wait: "ds_status s = SubtaskStatus.WAITING" by (simp add: eligible_def)
    from new have "unlocked_row d t c (done @ [x]) s = s\<lparr>ds_status := SubtaskStatus.READY\<rparr>"
      by (simp add: unlocked_row_def sd hit)
    then have "(if ds_id v = ?i then (unlocked_row d t c done v)\<lparr>ds_status := SubtaskStatus.READY\<rparr>
        else unlocked_row d t c done v) = unlocked_row d t c (done @ [x]) v"
      if "v \<in> set (dag_subtasks d)" for v
      using same [OF that] other [OF that] u sd(3) by (cases "v = s") simp_all
    then have "row_upd ds_id ?i (\<lambda>s. s\<lparr>ds_status := SubtaskStatus.READY\<rparr>)
        (map (unlocked_row d t c done) (dag_subtasks d)) =
      map (unlocked_row d t c (done @ [x])) (dag_subtasks d)"
      unfolding row_upd_def map_map by (intro map_cong) simp_all
    then have "upd_subtask ?i (\<lambda>s. s\<lparr>ds_status := SubtaskStatus.READY\<rparr>) ?D =
        unlocked_db d t c (done @ [x])"
      by (simp add: upd_subtask_def unlocked_db_def)
    with new wait u hit look all [OF wait] show ?thesis
      by (simp add: unlock_successor_def sd ensure_transition_allowed_cases)
  qed
qed

lemma unlock_all:
  assumes dist: "distinct (map ds_id (dag_subtasks d))"
    and within: "dependency_edges d t \<subseteq> dom (subtask_status d t) \<times> dom (subtask_status d t)"
  shows "set xs \<subseteq> set (task_dependencies d t) \<Longrightarrow>
    for_each (unlock_successor t c) xs (unlocked_db d t c done) =
      Inr (unlocked_db d t c (done @ xs))"
proof (induction xs arbitrary: "done")
  case (Cons x xs)
  then show ?case using unlock_one [OF dist within, of x c "done"] by simp
qed simp

lemma unlock_successors_eq:
  assumes "distinct (map ds_id (dag_subtasks d))"
    and "dependency_edges d t \<subseteq> dom (subtask_status d t) \<times> dom (subtask_status d t)"
  shows "unlock_successors t c d = Inr (unlocked_db d t c (task_dependencies d t))"
  using unlock_all [OF assms subset_refl, of c "[]"] by (simp add: unlock_successors_def)

lemma unlocked_status:
  assumes dist: "distinct (map ds_id (dag_subtasks d))"
  shows "subtask_status (unlocked_db d t c (task_dependencies d t)) t =
    unlock (dependency_edges d t) c (subtask_status d t)"
proof
  fix i
  show "subtask_status (unlocked_db d t c (task_dependencies d t)) t i =
    unlock (dependency_edges d t) c (subtask_status d t) i"
  proof (cases "subtask_by_id d t i")
    case None
    then show ?thesis
      by (simp add: subtask_status_def subtask_by_id_unlocked unlock_def ready_after_def)
  next
    case (Some s)
    then have "ds_task_id s = t" "ds_id s = i" using subtask_by_id_iff [OF dist] by simp_all
    then have "unlocked_row d t c (task_dependencies d t) s =
        (if ready_after (dependency_edges d t) c (subtask_status d t) i
         then s\<lparr>ds_status := SubtaskStatus.READY\<rparr> else s)"
      using Some unfolding unlocked_row_def ready_after_def eligible_def reached_def
        edges_iff [symmetric]
      by (simp add: subtask_status_def conj_ac)
    then show ?thesis
      using Some by (simp add: subtask_status_def subtask_by_id_unlocked unlock_def)
  qed
qed

end
