(* ===== verification/Execution_Report.thy ===== *)
theory Execution_Report
  imports Unlocking
begin

text \<open>
  \<open>ExecutionService.report_result\<close>: what each of its outcomes does to the database, the
  step of the flow it is, and that it keeps the invariant.
\<close>

section \<open>The rows around a running execution\<close>

lemma the_record_subtask:
  assumes inv: "db_inv d" and r: "r \<in> set (execution_records d)"
  obtains s t where "s \<in> set (dag_subtasks d)" and "record_agrees r s"
    and "get_subtask_row d (er_subtask_id r) = Some s"
    and "task_get_by_id d (er_task_id r) = Some t" and "dt_id t = er_task_id r"
    and "t \<in> set (dag_tasks d)"
    and "subtask_status d (dt_id t) (ds_id s) = Some (ds_status s)"
proof -
  note dist = db_inv_distinct [OF inv]
  from inv r obtain s where s: "s \<in> set (dag_subtasks d)" "record_agrees r s"
    by (auto simp: db_inv_def executions_agree_def)
  moreover from s have "get_subtask_row d (er_subtask_id r) = Some s"
    using get_subtask_row_iff [OF dist(2)] by (simp add: record_agrees_def)
  moreover from inv r obtain t where t: "t \<in> set (dag_tasks d)" "dt_id t = er_task_id r"
    by (auto simp: db_inv_def schema_ok_def execution_records_ok_def list_all_iff)
  moreover from t have "task_get_by_id d (er_task_id r) = Some t"
    using task_rows.get_iff [OF dist(1)] by simp
  moreover have "subtask_status d (dt_id t) (ds_id s) = Some (ds_status s)"
    using subtask_status_iff [OF dist(2)] s t(2) by (auto simp: record_agrees_def)
  ultimately show thesis using that by blast
qed

lemma running_task:
  assumes inv: "db_inv d" and r: "r \<in> set (execution_records d)"
    and run: "er_status r = ExecutionStatus.RUNNING"
    and t: "t \<in> set (dag_tasks d)" "dt_id t = er_task_id r"
  shows "dt_status t = TaskStatus.RUNNING \<or> dt_status t = TaskStatus.FAILED"
proof -
  note dist = db_inv_distinct [OF inv]
  from the_record_subtask [OF inv r] obtain s u where
    "task_get_by_id d (er_task_id r) = Some u" and s: "record_agrees r s"
    and st: "subtask_status d (dt_id u) (ds_id s) = Some (ds_status s)" by metis
  with the_task_row [OF dist(1) _ t] have "t = u" by simp
  with st s run have "f_subtasks (task_flow d t) (ds_id s) = Some SubtaskStatus.RUNNING"
    by (simp add: record_agrees_def)
  moreover have "task_coherent (task_flow d t)"
    using db_inv_flow [OF inv t(1)] by (simp add: flow_inv_def)
  ultimately show ?thesis using coherent_running by fastforce
qed

lemma only_running_record:
  assumes inv: "db_inv d" and r: "r \<in> set (execution_records d)" "er_status r = ExecutionStatus.RUNNING"
    and q: "q \<in> set (execution_records d)" "er_status q = ExecutionStatus.RUNNING"
    and same: "er_subtask_id q = er_subtask_id r"
  shows "q = r"
proof -
  from the_record_subtask [OF inv r(1)] obtain s where
    s: "record_agrees r s" "get_subtask_row d (er_subtask_id r) = Some s" by metis
  from the_record_subtask [OF inv q(1)] obtain u where
    u: "record_agrees q u" "get_subtask_row d (er_subtask_id q) = Some u" by metis
  from s u same have "s = u" by simp
  with s(1) u(1) r(2) q(2) have "er_attempt q = er_attempt r" by (simp add: record_agrees_def)
  moreover have "distinct (map (\<lambda>r. (er_subtask_id r, er_attempt r)) (execution_records d))"
    using inv by (simp add: db_inv_def schema_ok_def execution_records_ok_def)
  ultimately show ?thesis
    using r(1) q(1) same by (auto simp: distinct_map dest!: inj_onD)
qed

section \<open>What a report may change\<close>

text \<open>
  The reported subtask leaves \<open>RUNNING\<close>; of the others, some that waited become ready.
\<close>

definition reported_row :: "uuid \<Rightarrow> dag_subtask \<Rightarrow> dag_subtask \<Rightarrow> bool" where
  "reported_row c s s' \<longleftrightarrow>
     subtask_keys s' = subtask_keys s \<and>
     (if ds_id s = c
      then ds_status s' \<in> {SubtaskStatus.SUCCESS, SubtaskStatus.FAILED} \<and>
             ds_retry_count s' = ds_retry_count s \<or>
           ds_status s' = SubtaskStatus.READY \<and> ds_retry_count s' = ds_retry_count s + 1 \<and>
             ds_retry_count s < ds_max_retries s
      else s' = s \<or>
           ds_status s = SubtaskStatus.WAITING \<and> s' = s\<lparr>ds_status := SubtaskStatus.READY\<rparr>)"

definition finished_record ::
  "uuid \<Rightarrow> datetime \<Rightarrow> ExecutionStatus \<Rightarrow> int option \<Rightarrow> string option \<Rightarrow> string option \<Rightarrow>
   execution_record \<Rightarrow> execution_record" where
  "finished_record i now status duration summary reason r =
     (if er_id r = i then finish_record now status duration summary reason r else r)"

lemma record_agrees_reported:
  assumes "record_agrees q s" and rep: "reported_row (er_subtask_id r) s s'"
    and status: "status \<noteq> ExecutionStatus.RUNNING"
    and only: "er_status q = ExecutionStatus.RUNNING \<Longrightarrow> er_subtask_id q = er_subtask_id r \<Longrightarrow> q = r"
  shows "record_agrees (finished_record (er_id r) now status duration summary reason q) s'"
proof (cases "ds_id s = er_subtask_id r")
  case True
  with assms(1) have q: "er_subtask_id q = er_subtask_id r" by (simp add: record_agrees_def)
  have "er_status (finished_record (er_id r) now status duration summary reason q) \<noteq>
      ExecutionStatus.RUNNING"
    using only [OF _ q] status by (auto simp: finished_record_def finish_record_def)
  with True assms(1) rep show ?thesis
    by (auto simp: record_agrees_def reported_row_def subtask_keys_def finished_record_def
        finish_record_def)
next
  case False
  with assms(1) have "q \<noteq> r" by (auto simp: record_agrees_def)
  with False assms(1) rep status show ?thesis
    by (auto simp: record_agrees_def reported_row_def finished_record_def finish_record_def)
qed

lemma report_keeps_inv:
  assumes inv: "db_inv d"
    and r: "r \<in> set (execution_records d)" "er_status r = ExecutionStatus.RUNNING"
    and status: "status \<noteq> ExecutionStatus.RUNNING"
    and tasks: "dag_tasks d' = map g (dag_tasks d)" "\<And>t. task_keys (g t) = task_keys t"
      "\<And>t. t \<in> set (dag_tasks d) \<Longrightarrow> dt_id t \<noteq> er_task_id r \<Longrightarrow> g t = t"
    and subs: "dag_subtasks d' = map f (dag_subtasks d)" "\<And>s. subtask_keys (f s) = subtask_keys s"
      "\<And>s. s \<in> set (dag_subtasks d) \<Longrightarrow> ds_task_id s \<noteq> er_task_id r \<Longrightarrow> f s = s"
      "\<And>s. s \<in> set (dag_subtasks d) \<Longrightarrow> reported_row (er_subtask_id r) s (f s)"
    and rest: "d' = d\<lparr>dag_tasks := dag_tasks d', dag_subtasks := dag_subtasks d',
      execution_records := map (finished_record (er_id r) now status duration summary reason)
        (execution_records d)\<rparr>"
    and duration: "opt_all (\<lambda>n. 0 \<le> n) duration"
    and step: "\<And>t. t \<in> set (dag_tasks d) \<Longrightarrow> dt_id t = er_task_id r \<Longrightarrow>
      flow_step (task_flow d t) (task_flow d' (g t))"
  shows "db_step d d'"
proof -
  let ?k = "finished_record (er_id r) now status duration summary reason"
  have recs: "execution_records d' = map ?k (execution_records d)" by (subst rest) simp
  have same: "schedule_plans d' = schedule_plans d"
    "schedule_plan_items d' = schedule_plan_items d" "dag_dependencies d' = dag_dependencies d"
    "execution_revoke_events d' = execution_revoke_events d" "next_uuid d' = next_uuid d"
    by (subst rest, simp)+
  have g_id: "dt_id (g t) = dt_id t" for t using tasks(2) by (simp add: task_keys_def)
  have f_id: "ds_id (f s) = ds_id s" "ds_task_id (f s) = ds_task_id s"
    "ds_max_retries (f s) = ds_max_retries s" for s
    using subs(2) by (simp_all add: subtask_keys_def)
  have k_id: "er_id (?k q) = er_id q" for q by (simp add: finished_record_def finish_record_def)
  have bounded: "0 \<le> ds_retry_count (f s) \<and> ds_retry_count (f s) \<le> ds_max_retries s"
    if s: "s \<in> set (dag_subtasks d)" for s
  proof -
    have "0 \<le> ds_retry_count s" "ds_retry_count s \<le> ds_max_retries s"
      using inv s by (simp_all add: db_inv_def retries_bounded_def)
    then show ?thesis using subs(4) [OF s] by (auto simp: reported_row_def split: if_splits)
  qed
  have "schema_ok d'"
  proof (rule schema_ok_map [where d = d and g = g and f = f and h = "\<lambda>p. p" and k = ?k])
    show "opt_all (\<lambda>n. 0 \<le> n) (er_duration_ms (?k q))" if "q \<in> set (execution_records d)" for q
      using inv that duration by (auto simp: db_inv_def schema_ok_def execution_records_ok_def
          list_all_iff finished_record_def finish_record_def)
    show "execution_revoke_events_ok (dag_tasks d) (execution_records d)
        (execution_revoke_events d')"
      using inv same by (simp add: db_inv_def schema_ok_def)
    show "nodes d' = nodes d" "node_status_records d' = node_status_records d"
      "worker_heartbeats d' = worker_heartbeats d" "worker_alerts d' = worker_alerts d"
      by (subst rest, simp)+
  qed (use inv tasks subs recs same bounded in \<open>simp_all add: db_inv_def record_keys_def
      finished_record_def finish_record_def\<close>)
  moreover have "flows_reachable d'" and follow: "flows_follow d d'"
    by (rule flows_map [where task_id = "er_task_id r", OF _ tasks(1) subs(1) same(3)];
        (use inv tasks subs g_id f_id step in \<open>simp add: db_inv_def\<close>))+
  moreover have "executions_agree d'"
  proof (rule executions_agree_map [OF _ subs(1) recs])
    show "executions_agree d" using inv by (simp add: db_inv_def)
    show "record_agrees (?k q) (f s)"
      if "q \<in> set (execution_records d)" "s \<in> set (dag_subtasks d)" "record_agrees q s" for q s
      using that(3) subs(4) [OF that(2)] status only_running_record [OF inv r that(1)]
      by (rule record_agrees_reported)
  qed
  moreover have "running_recorded d'"
    unfolding running_recorded_def
  proof (intro ballI impI)
    fix s'
    assume "s' \<in> set (dag_subtasks d')" and run: "ds_status s' = SubtaskStatus.RUNNING"
    then obtain s where s: "s \<in> set (dag_subtasks d)" "s' = f s" by (auto simp: subs)
    with run subs(4) [OF s(1)] have ns: "ds_id s \<noteq> er_subtask_id r" "f s = s"
      by (auto simp: reported_row_def split: if_splits)
    with s run inv obtain q where q: "q \<in> set (execution_records d)" "er_subtask_id q = ds_id s"
      "er_status q = ExecutionStatus.RUNNING"
      by (auto simp: db_inv_def running_recorded_def)
    have "er_id q \<noteq> er_id r"
      using ns q r(1) execution_rows.get_iff [OF db_inv_distinct(4) [OF inv], of "er_id r"]
      by (metis option.inject)
    then have "?k q = q" by (simp add: finished_record_def)
    with q s ns recs show "\<exists>q \<in> set (execution_records d'). er_subtask_id q = ds_id s' \<and>
        er_status q = ExecutionStatus.RUNNING" by force
  qed
  moreover have "retries_bounded d'"
    using bounded by (auto simp: retries_bounded_def subs(1) f_id)
  moreover have "plans_agree d'"
    by (rule plans_agree_map [where d = d and f = f and g = "\<lambda>p. p"])
      (use inv subs(1) same f_id in \<open>simp_all add: db_inv_def\<close>)
  moreover have "ids_used d'"
  proof -
    have "dt_id ` set (dag_tasks d') = dt_id ` set (dag_tasks d)"
      "ds_id ` set (dag_subtasks d') = ds_id ` set (dag_subtasks d)"
      "er_id ` set (execution_records d') = er_id ` set (execution_records d)"
      unfolding tasks(1) subs(1) recs using g_id f_id k_id by (intro keys_map; simp)+
    with inv show ?thesis unfolding db_inv_def ids_used_def by (simp add: same)
  qed
  ultimately show ?thesis using follow by (simp add: db_step_def db_inv_def)
qed

section \<open>A successful execution\<close>

definition succeeded_row :: "datetime \<Rightarrow> uuid \<Rightarrow> dag_subtask \<Rightarrow> dag_subtask" where
  "succeeded_row now c s =
     (if ds_id s = c then s\<lparr>ds_status := SubtaskStatus.SUCCESS, ds_finished_at := Some now\<rparr> else s)"

definition task_ended :: "TaskStatus \<Rightarrow> string option \<Rightarrow> datetime \<Rightarrow> uuid \<Rightarrow> dag_task \<Rightarrow> dag_task"
  where
  "task_ended v reason now i t =
     (if dt_id t = i then t\<lparr>dt_status := v, dt_failure_reason := reason, dt_finished_at := Some now\<rparr>
      else t)"

lemma all_subtasks_succeeded_iff:
  assumes "distinct (map ds_id (dag_subtasks d))"
  shows "all_subtasks_succeeded d t \<longleftrightarrow>
    (\<forall>i \<in> dom (subtask_status d t). succeeded (subtask_status d t) i)"
proof
  assume all: "all_subtasks_succeeded d t"
  show "\<forall>i \<in> dom (subtask_status d t). succeeded (subtask_status d t) i"
  proof
    fix i
    assume "i \<in> dom (subtask_status d t)"
    then obtain v where v: "subtask_status d t i = Some v" by blast
    with all have "v = SubtaskStatus.SUCCESS"
      using subtask_status_iff [OF assms]
      by (auto simp: all_subtasks_succeeded_def list_all_iff task_subtasks_mem)
    with v show "succeeded (subtask_status d t) i" by (simp add: succeeded_def)
  qed
next
  assume all: "\<forall>i \<in> dom (subtask_status d t). succeeded (subtask_status d t) i"
  have "ds_status s = SubtaskStatus.SUCCESS" if "s \<in> set (task_subtasks d t)" for s
  proof -
    from that have "subtask_status d t (ds_id s) = Some (ds_status s)"
      using subtask_status_iff [OF assms] by (auto simp: task_subtasks_mem)
    with all show ?thesis by (force simp: succeeded_def)
  qed
  then show "all_subtasks_succeeded d t"
    by (simp add: all_subtasks_succeeded_def list_all_iff)
qed

text \<open>The database after a successful report, up to the execution record.\<close>

definition success_db :: "datetime \<Rightarrow> uuid \<Rightarrow> uuid \<Rightarrow> db \<Rightarrow> db" where
  "success_db now t c d =
     unlocked_db (d\<lparr>dag_subtasks := map (succeeded_row now c) (dag_subtasks d)\<rparr>) t c
       (task_dependencies d t)"

lemma succeeded_row_sel [simp]:
  "ds_id (succeeded_row now c s) = ds_id s"
  "ds_task_id (succeeded_row now c s) = ds_task_id s"
  by (simp_all add: succeeded_row_def)

lemma succeeded_row_status:
  assumes dist: "distinct (map ds_id (dag_subtasks d))"
    and c: "c \<in> dom (subtask_status d t)"
  shows "subtask_status (d\<lparr>dag_subtasks := map (succeeded_row now c) (dag_subtasks d)\<rparr>) t =
    (subtask_status d t)(c \<mapsto> SubtaskStatus.SUCCESS)" (is "subtask_status ?e t = _")
proof
  fix i
  have "subtask_status ?e t i =
      map_option (\<lambda>s. ds_status (succeeded_row now c s)) (subtask_by_id d t i)"
    by (rule subtask_status_map) simp_all
  moreover have "ds_id s = i" if "subtask_by_id d t i = Some s" for s
    using that subtask_by_id_iff [OF dist] by simp
  ultimately show "subtask_status ?e t i =
      ((subtask_status d t)(c \<mapsto> SubtaskStatus.SUCCESS)) i"
    using c by (cases "subtask_by_id d t i")
      (auto simp: subtask_status_def succeeded_row_def)
qed

lemma success_db_status:
  assumes dist: "distinct (map ds_id (dag_subtasks d))"
    and c: "c \<in> dom (subtask_status d t)"
  shows "subtask_status (success_db now t c d) t =
    unlock (dependency_edges d t) c ((subtask_status d t)(c \<mapsto> SubtaskStatus.SUCCESS))"
proof -
  let ?e = "d\<lparr>dag_subtasks := map (succeeded_row now c) (dag_subtasks d)\<rparr>"
  have "distinct (map ds_id (dag_subtasks ?e))" using dist by (simp add: comp_def)
  from unlocked_status [OF this, of t c]
  have "subtask_status (success_db now t c d) t =
      unlock (dependency_edges ?e t) c (subtask_status ?e t)"
    by (simp add: success_db_def task_dependencies_def)
  moreover have "dependency_edges ?e = dependency_edges d" by (rule dependency_edges_same) simp
  ultimately show ?thesis using succeeded_row_status [OF dist c] by simp
qed

lemma report_success_eq:
  fixes now :: datetime
  assumes dist: "distinct (map ds_id (dag_subtasks d))"
    and t: "t \<in> set (dag_tasks d)" and inv: "flow_inv (task_flow d t)"
    and s: "s \<in> set (dag_subtasks d)" "ds_task_id s = dt_id t"
      "ds_status s = SubtaskStatus.RUNNING"
  defines "d1 \<equiv> success_db now (dt_id t) (ds_id s) d"
  shows "report_success now (dt_id t) s (dt_status t) d =
    Inr (if f_task (flow_success (ds_id s) (task_flow d t)) = TaskStatus.SUCCESS
         then upd_task (dt_id t) (\<lambda>t. t\<lparr>dt_status := TaskStatus.SUCCESS,
           dt_finished_at := Some now\<rparr>) d1
         else d1)"
proof -
  let ?c = "ds_id s" and ?sub = "subtask_status d (dt_id t)"
  let ?e = "d\<lparr>dag_subtasks := map (succeeded_row now ?c) (dag_subtasks d)\<rparr>"
  let ?h = "?sub(?c \<mapsto> SubtaskStatus.SUCCESS)"
  have run: "?sub ?c = Some SubtaskStatus.RUNNING"
    using subtask_status_iff [OF dist] s by auto
  have e: "upd_subtask ?c (\<lambda>s. s\<lparr>ds_status := SubtaskStatus.SUCCESS, ds_finished_at := Some now\<rparr>) d
      = ?e"
    by (simp add: upd_subtask_def row_upd_as_map succeeded_row_def [abs_def])
  have dist_e: "distinct (map ds_id (dag_subtasks ?e))" using dist by (simp add: comp_def)
  have edges: "dependency_edges ?e = dependency_edges d" by (rule dependency_edges_same) simp
  have deps: "task_dependencies ?e = task_dependencies d"
    by (simp add: task_dependencies_def fun_eq_iff)
  from run have c: "?c \<in> dom ?sub" by blast
  then have "dom (subtask_status ?e (dt_id t)) = dom ?sub"
    unfolding succeeded_row_status [OF dist c] by (simp add: insert_absorb)
  moreover have "dependency_edges d (dt_id t) \<subseteq> dom ?sub \<times> dom ?sub"
    using inv by (simp add: flow_inv_def flow_wf_def)
  ultimately have unl: "unlock_successors (dt_id t) ?c ?e = Inr d1"
    using unlock_successors_eq [OF dist_e, of "dt_id t" ?c]
    by (simp add: edges d1_def success_db_def deps)
  have d1s: "subtask_status d1 (dt_id t) = unlock (dependency_edges d (dt_id t)) ?c ?h"
    unfolding d1_def by (rule success_db_status [OF dist c])
  have dist_1: "distinct (map ds_id (dag_subtasks d1))"
    using dist by (simp add: d1_def success_db_def unlocked_db_def comp_def)
  have all: "all_subtasks_succeeded d1 (dt_id t) \<longleftrightarrow>
      (\<forall>i \<in> dom (f_subtasks (flow_success ?c (task_flow d t))).
         succeeded (f_subtasks (flow_success ?c (task_flow d t))) i)"
    unfolding all_subtasks_succeeded_iff [OF dist_1] d1s
    by (simp add: flow_success_def Let_def)
  have step: "flow_step (task_flow d t) (flow_success ?c (task_flow d t))"
    using run by (intro flow_step.success) simp
  have "task_coherent (task_flow d t)" using inv by (simp add: flow_inv_def)
  from coherent_running [OF this] run
  have live: "dt_status t = TaskStatus.RUNNING \<or> dt_status t = TaskStatus.FAILED" by simp
  have "all_subtasks_succeeded d1 (dt_id t) \<longleftrightarrow>
      f_task (flow_success ?c (task_flow d t)) = TaskStatus.SUCCESS"
    using live unfolding all by (auto simp: flow_success_def Let_def)
  moreover have "dt_status t = TaskStatus.RUNNING"
    if "f_task (flow_success ?c (task_flow d t)) = TaskStatus.SUCCESS"
    using step_terminal [OF step inv] live that by auto
  ultimately show ?thesis
    using s(3) unl by (auto simp: report_success_def e Let_def move_subtask_to_terminal_def
        move_task_to_terminal_def ensure_task_transition_eq ensure_transition_allowed_cases)
qed

section \<open>The outcomes of a report\<close>

text \<open>The database in which the record is finished and nothing else is changed yet.\<close>

definition finished_db ::
  "uuid \<Rightarrow> datetime \<Rightarrow> ExecutionStatus \<Rightarrow> int option \<Rightarrow> string option \<Rightarrow> string option \<Rightarrow> db \<Rightarrow> db"
where
  "finished_db i now status duration summary reason d =
     d\<lparr>execution_records := map (finished_record i now status duration summary reason)
       (execution_records d)\<rparr>"

lemma finished_db_sel [simp]:
  "dag_subtasks (finished_db i now status duration summary reason d) = dag_subtasks d"
  "dag_tasks (finished_db i now status duration summary reason d) = dag_tasks d"
  "dag_dependencies (finished_db i now status duration summary reason d) = dag_dependencies d"
  by (simp_all add: finished_db_def)

lemma task_flow_finished [simp]:
  "task_flow (finished_db i now status duration summary reason d) t = task_flow d t"
  "subtask_status (finished_db i now status duration summary reason d) = subtask_status d"
  "dependency_edges (finished_db i now status duration summary reason d) = dependency_edges d"
  by (simp_all add: task_flow_def subtask_status_def subtask_by_id_def task_subtasks_def
      dependency_edges_def task_dependencies_def fun_eq_iff)

definition report_branch ::
  "datetime \<Rightarrow> ExecutionStatus \<Rightarrow> string option \<Rightarrow> dag_subtask \<Rightarrow> dag_task \<Rightarrow> db \<Rightarrow> db result"
where
  "report_branch now status reason s t d =
     (if status = ExecutionStatus.SUCCESS
      then report_success now (dt_id t) s (dt_status t) d
      else report_failure now (dt_id t) s (dt_status t) status reason d)"

lemma report_result_unfold:
  assumes "execution_get_by_id d i = Some r" and "er_status r = ExecutionStatus.RUNNING"
    and "status \<noteq> ExecutionStatus.RUNNING"
    and "get_subtask_row d (er_subtask_id r) = Some s"
    and "task_get_by_id d (er_task_id r) = Some t"
  shows "report_result now i status duration summary reason d =
    and_then (report_branch now status reason s t
        (finished_db i now status duration summary reason d)) (\<lambda>d2.
    and_then (db_flush d2) (\<lambda>d3.
    and_then (execution_result i (ds_id s) (dt_id t) True d3) (\<lambda>x. Inr (x, d3))))"
proof -
  have i: "er_id r = i" using execution_rows.get_SomeD [OF assms(1)] by simp
  have "upd_execution i (finish_record now status duration summary reason) d =
      finished_db i now status duration summary reason d"
    by (simp add: upd_execution_def finished_db_def row_upd_as_map finished_record_def [abs_def])
  moreover have "get_subtask_row (finished_db i now status duration summary reason d) =
      get_subtask_row d"
    "task_get_by_id (finished_db i now status duration summary reason d) = task_get_by_id d"
    by (simp_all add: get_subtask_row_def task_get_by_id_def fun_eq_iff)
  moreover have "ensure_execution_can_finish (er_status r) status i = Inr ()"
    using assms(2,3) by (simp add: result_simps)
  ultimately show ?thesis
    using assms by (simp add: report_result_def report_branch_def i Let_def get_task_def)
qed

lemma report_accepted:
  assumes inv: "db_inv d" and get: "execution_get_by_id d i = Some r"
    and run: "er_status r = ExecutionStatus.RUNNING" "status \<noteq> ExecutionStatus.RUNNING"
    and rows: "get_subtask_row d (er_subtask_id r) = Some s"
      "task_get_by_id d (er_task_id r) = Some t"
    and branch: "report_branch now status reason s t
        (finished_db i now status duration summary reason d) = Inr d'"
    and inv': "db_inv d'"
    and recs: "execution_records d' = map (finished_record i now status duration summary reason)
        (execution_records d)"
  shows "\<exists>x s' t'. report_result now i status duration summary reason d = Inr (x, d') \<and>
    get_subtask_row d' (ds_id s) = Some s' \<and> task_get_by_id d' (dt_id t) = Some t' \<and>
    x = \<lparr>xr_execution_id = i, xr_subtask_status = ds_status s', xr_task_status = dt_status t',
         xr_accepted = True\<rparr>"
proof -
  have r: "r \<in> set (execution_records d)" "er_id r = i"
    using execution_rows.get_SomeD [OF get] by simp_all
  let ?q = "finished_record i now status duration summary reason r"
  have "?q \<in> set (execution_records d')" using r recs by simp
  from the_record_subtask [OF inv' this] obtain s' t' where
    "get_subtask_row d' (er_subtask_id ?q) = Some s'"
    "task_get_by_id d' (er_task_id ?q) = Some t'" by metis
  moreover have "er_subtask_id ?q = ds_id s" "er_task_id ?q = dt_id t"
    using rows subtask_rows.get_SomeD task_rows.get_SomeD
    by (auto simp: finished_record_def finish_record_def)
  moreover have "schema_ok d'" using inv' by (simp add: db_inv_def)
  ultimately show ?thesis
    using report_result_unfold [OF get run rows, of now duration summary reason] branch
    by (simp add: execution_result_def db_flush_def)
qed

subsection \<open>Success\<close>

lemma report_success_step:
  fixes now :: datetime and summary reason :: "string option"
  assumes inv: "db_inv d" and get: "execution_get_by_id d i = Some r"
    and run: "er_status r = ExecutionStatus.RUNNING"
    and duration: "opt_all (\<lambda>n. 0 \<le> n) duration"
    and rows: "get_subtask_row d (er_subtask_id r) = Some s"
      "task_get_by_id d (er_task_id r) = Some t"
  defines "d1 \<equiv> finished_db i now ExecutionStatus.SUCCESS duration summary reason d"
  shows "\<exists>d'. report_branch now ExecutionStatus.SUCCESS reason s t d1 = Inr d' \<and> db_step d d' \<and>
    execution_records d' = execution_records d1 \<and>
    (\<forall>t'. task_get_by_id d' (dt_id t) = Some t' \<longrightarrow>
       task_flow d' t' = flow_success (ds_id s) (task_flow d t))"
proof -
  note dist = db_inv_distinct [OF inv]
  have r: "r \<in> set (execution_records d)" "er_id r = i"
    using execution_rows.get_SomeD [OF get] by simp_all
  from the_record_subtask [OF inv r(1)] rows have s: "s \<in> set (dag_subtasks d)"
    "record_agrees r s" and t: "dt_id t = er_task_id r" "t \<in> set (dag_tasks d)"
    by (metis option.inject)+
  then have st: "ds_task_id s = dt_id t" "ds_status s = SubtaskStatus.RUNNING"
    "ds_id s = er_subtask_id r" using run by (simp_all add: record_agrees_def)
  let ?c = "ds_id s" and ?F = "flow_success (ds_id s) (task_flow d t)"
  let ?won = "f_task ?F = TaskStatus.SUCCESS"
  let ?ts = "\<lambda>u. if dt_id u = dt_id t \<and> ?won
    then u\<lparr>dt_status := TaskStatus.SUCCESS, dt_finished_at := Some now\<rparr> else u"
  let ?mid = "d1\<lparr>dag_subtasks := map (succeeded_row now ?c) (dag_subtasks d1)\<rparr>"
  let ?f = "\<lambda>u. unlocked_row ?mid (dt_id t) ?c (task_dependencies d1 (dt_id t))
    (succeeded_row now ?c u)"
  define d' where "d' = d1\<lparr>dag_tasks := map ?ts (dag_tasks d), dag_subtasks := map ?f (dag_subtasks d)\<rparr>"
  have run_st: "subtask_status d (dt_id t) ?c = Some SubtaskStatus.RUNNING"
    using s(1) st(1,2) unfolding subtask_status_iff [OF dist(2)] by blast
  have flow1: "flow_inv (task_flow d1 t)"
    using db_inv_flow [OF inv t(2)] by (simp add: d1_def)
  have dist1: "distinct (map ds_id (dag_subtasks d1))" using dist(2) by (simp add: d1_def)
  have F1: "flow_success ?c (task_flow d1 t) = ?F" by (simp add: d1_def)
  have same1: "dag_tasks d1 = dag_tasks d" "dag_subtasks d1 = dag_subtasks d"
    by (simp_all add: d1_def)
  have succ_db: "success_db now (dt_id t) ?c d1 = d1\<lparr>dag_subtasks := map ?f (dag_subtasks d1)\<rparr>"
    by (simp add: success_db_def unlocked_db_def comp_def)
  have "report_success now (dt_id t) s (dt_status t) d1 = Inr d'"
  proof -
    have "t \<in> set (dag_tasks d1)" "s \<in> set (dag_subtasks d1)" using t s by (simp_all add: d1_def)
    from report_success_eq [OF dist1 this(1) flow1 this(2) st(1,2), where now = now]
    have eq: "report_success now (dt_id t) s (dt_status t) d1 =
        Inr (if ?won then upd_task (dt_id t) (\<lambda>t. t\<lparr>dt_status := TaskStatus.SUCCESS,
           dt_finished_at := Some now\<rparr>) (d1\<lparr>dag_subtasks := map ?f (dag_subtasks d1)\<rparr>)
         else d1\<lparr>dag_subtasks := map ?f (dag_subtasks d1)\<rparr>)"
      unfolding F1 succ_db .
    show ?thesis
      unfolding eq d'_def by (cases ?won) (simp_all add: upd_task_def row_upd_as_map same1 [symmetric])
  qed
  then have branch: "report_branch now ExecutionStatus.SUCCESS reason s t d1 = Inr d'"
    by (simp add: report_branch_def)
  have subs: "dag_subtasks d' = map ?f (dag_subtasks d)" by (simp add: d'_def)
  have same: "dag_dependencies d' = dag_dependencies d" by (simp add: d'_def d1_def)
  have stat: "subtask_status d' (dt_id t) = f_subtasks ?F"
  proof -
    have "dag_subtasks d' = dag_subtasks (success_db now (dt_id t) ?c d1)"
      unfolding succ_db by (simp add: d'_def same1)
    from subtask_status_same [OF this] have "subtask_status d' (dt_id t) =
        subtask_status (success_db now (dt_id t) ?c d1) (dt_id t)"
      by simp
    also have "\<dots> = unlock (dependency_edges d1 (dt_id t)) ?c
        ((subtask_status d1 (dt_id t))(?c \<mapsto> SubtaskStatus.SUCCESS))"
    proof (rule success_db_status [OF dist1])
      show "?c \<in> dom (subtask_status d1 (dt_id t))"
        using run_st by (simp add: d1_def domI)
    qed
    finally show ?thesis by (simp add: flow_success_def Let_def d1_def)
  qed
  have flow: "task_flow d' (?ts u) = ?F" if "u = t" for u
  proof -
    have "f_task ?F = (if ?won then TaskStatus.SUCCESS else dt_status t)"
      by (auto simp: flow_success_def Let_def)
    then show ?thesis
      using stat dependency_edges_same [OF same] that
      by (simp add: task_flow_def flow_success_def Let_def)
  qed
  have uniq: "u = t" if "u \<in> set (dag_tasks d)" "dt_id u = er_task_id r" for u
    by (rule the_task_row [OF dist(1) rows(2) that])
  have step: "flow_step (task_flow d t) ?F"
    using run_st by (intro flow_step.success) simp
  have "db_step d d'"
  proof (rule report_keeps_inv [OF inv r(1) run, where f = ?f and g = ?ts])
    show "d' = d\<lparr>dag_tasks := dag_tasks d', dag_subtasks := dag_subtasks d', execution_records :=
        map (finished_record (er_id r) now ExecutionStatus.SUCCESS duration summary reason)
        (execution_records d)\<rparr>"
      by (simp add: d'_def d1_def finished_db_def r)
    show "reported_row (er_subtask_id r) u (?f u)" if "u \<in> set (dag_subtasks d)" for u
      using unlocked_row_cases [of ?mid "dt_id t" ?c "task_dependencies d1 (dt_id t)"
          "succeeded_row now ?c u"]
      by (auto simp: reported_row_def subtask_keys_def succeeded_row_def st(3))
    show "?f u = u" if "u \<in> set (dag_subtasks d)" "ds_task_id u \<noteq> er_task_id r" for u
    proof -
      have "ds_id u \<noteq> ?c"
        using the_subtask_row [OF dist(2) that(1) s(1)] that(2) st(1) t(1) by auto
      then have u: "succeeded_row now ?c u = u" by (simp add: succeeded_row_def)
      with that(2) t(1) show ?thesis by (simp add: unlocked_row_def eligible_def)
    qed
    show "flow_step (task_flow d u) (task_flow d' (?ts u))"
      if "u \<in> set (dag_tasks d)" "dt_id u = er_task_id r" for u
      using step flow [OF uniq [OF that]] uniq [OF that] by simp
    show "subtask_keys (?f u) = subtask_keys u" for u
      using unlocked_row_cases [of ?mid "dt_id t" ?c "task_dependencies d1 (dt_id t)"
          "succeeded_row now ?c u"]
      by (auto simp: subtask_keys_def succeeded_row_def)
  qed (use duration t in \<open>auto simp: d'_def task_keys_def\<close>)
  moreover have "task_flow d' t' = ?F" if "task_get_by_id d' (dt_id t) = Some t'" for t'
  proof -
    have "task_get_by_id d' (dt_id t) = map_option ?ts (task_get_by_id d (dt_id t))"
      by (rule task_get_map) (simp_all add: d'_def)
    then have "t' = ?ts t" using rows(2) t(1) that by simp
    then show ?thesis using flow [OF refl] by simp
  qed
  moreover have "execution_records d' = execution_records d1" by (simp add: d'_def)
  ultimately show ?thesis using branch by blast
qed

subsection \<open>Retry and failure\<close>

text \<open>What the remaining branches do to the row of the subtask.\<close>

definition retried_row :: "string option \<Rightarrow> dag_subtask \<Rightarrow> dag_subtask" where
  "retried_row reason s =
     s\<lparr>ds_status := SubtaskStatus.READY, ds_retry_count := ds_retry_count s + 1,
       ds_started_at := None, ds_finished_at := None, ds_failure_reason := reason\<rparr>"

definition failed_row :: "datetime \<Rightarrow> string option \<Rightarrow> dag_subtask \<Rightarrow> dag_subtask" where
  "failed_row now reason s =
     s\<lparr>ds_status := SubtaskStatus.FAILED, ds_finished_at := Some now, ds_failure_reason := reason\<rparr>"

lemma one_row_status:
  assumes dist: "distinct (map ds_id (dag_subtasks d))"
    and s: "s \<in> set (dag_subtasks d)"
    and subs: "dag_subtasks d' = map (\<lambda>u. if ds_id u = ds_id s then k u else u) (dag_subtasks d)"
    and keys: "\<And>u. subtask_keys (k u) = subtask_keys u"
  shows "subtask_status d' (ds_task_id s) =
    (subtask_status d (ds_task_id s))(ds_id s \<mapsto> ds_status (k s))"
proof
  fix i
  have k: "ds_id (k u) = ds_id u" "ds_task_id (k u) = ds_task_id u" for u
    using keys [of u] by (simp_all add: subtask_keys_def)
  have new: "subtask_status d' (ds_task_id s) i = map_option
      (\<lambda>u. ds_status (if ds_id u = ds_id s then k u else u)) (subtask_by_id d (ds_task_id s) i)"
    by (rule subtask_status_map [OF subs]) (simp_all add: k)
  have own: "subtask_by_id d (ds_task_id s) (ds_id s) = Some s"
    using s subtask_by_id_iff [OF dist] by simp
  show "subtask_status d' (ds_task_id s) i =
      ((subtask_status d (ds_task_id s))(ds_id s \<mapsto> ds_status (k s))) i"
  proof (cases "i = ds_id s")
    case True
    with new own show ?thesis by simp
  next
    case False
    show ?thesis
    proof (cases "subtask_by_id d (ds_task_id s) i")
      case (Some u)
      then have "ds_id u = i" using subtask_by_id_iff [OF dist] by simp
      with False Some new show ?thesis by (simp add: subtask_status_def)
    qed (use False new in \<open>simp add: subtask_status_def\<close>)
  qed
qed

text \<open>A report that rewrites the row of its subtask only, and possibly ends the task.\<close>

lemma report_row_inv:
  assumes inv: "db_inv d" and get: "execution_get_by_id d i = Some r"
    and run: "er_status r = ExecutionStatus.RUNNING" and status: "status \<noteq> ExecutionStatus.RUNNING"
    and duration: "opt_all (\<lambda>n. 0 \<le> n) duration"
    and rows: "get_subtask_row d (er_subtask_id r) = Some s"
      "task_get_by_id d (er_task_id r) = Some t"
    and d': "d' = (finished_db i now status duration summary reason d)
      \<lparr>dag_tasks := map (\<lambda>u. if dt_id u = dt_id t then e u else u) (dag_tasks d),
       dag_subtasks := map (\<lambda>u. if ds_id u = ds_id s then k u else u) (dag_subtasks d)\<rparr>"
    and keys: "\<And>u. subtask_keys (k u) = subtask_keys u" "\<And>u. task_keys (e u) = task_keys u"
    and row: "reported_row (ds_id s) s (k s)"
    and step: "flow_step (task_flow d t) ((task_flow d t)\<lparr>f_task := dt_status (e t),
      f_subtasks := (f_subtasks (task_flow d t))(ds_id s \<mapsto> ds_status (k s))\<rparr>)"
  shows "db_step d d' \<and> execution_records d' =
      map (finished_record i now status duration summary reason) (execution_records d) \<and>
    (\<forall>t'. task_get_by_id d' (dt_id t) = Some t' \<longrightarrow>
      task_flow d' t' = (task_flow d t)\<lparr>f_task := dt_status (e t),
        f_subtasks := (f_subtasks (task_flow d t))(ds_id s \<mapsto> ds_status (k s))\<rparr>)"
proof -
  note dist = db_inv_distinct [OF inv]
  have r: "r \<in> set (execution_records d)" "er_id r = i"
    using execution_rows.get_SomeD [OF get] by simp_all
  from the_record_subtask [OF inv r(1)] rows have s: "s \<in> set (dag_subtasks d)"
    "record_agrees r s" and t: "dt_id t = er_task_id r" "t \<in> set (dag_tasks d)"
    by (metis option.inject)+
  then have st: "ds_task_id s = dt_id t" "ds_id s = er_subtask_id r"
    by (simp_all add: record_agrees_def)
  let ?f = "\<lambda>u. if ds_id u = ds_id s then k u else u"
  let ?g = "\<lambda>u. if dt_id u = dt_id t then e u else u"
  let ?F = "(task_flow d t)\<lparr>f_task := dt_status (e t),
      f_subtasks := (f_subtasks (task_flow d t))(ds_id s \<mapsto> ds_status (k s))\<rparr>"
  have subs: "dag_subtasks d' = map ?f (dag_subtasks d)" by (simp add: d')
  have tasks: "dag_tasks d' = map ?g (dag_tasks d)" by (simp add: d')
  have deps: "dag_dependencies d' = dag_dependencies d" by (simp add: d')
  have gid: "dt_id (?g u) = dt_id u" for u using keys(2) by (simp add: task_keys_def)
  have flow: "task_flow d' (?g t) = ?F"
    using one_row_status [OF dist(2) s(1) subs keys(1)] st(1) gid [of t]
    by (simp add: task_flow_def dependency_edges_same [OF deps])
  have same: "u = s" if "u \<in> set (dag_subtasks d)" "ds_id u = ds_id s" for u
    by (rule the_subtask_row [OF dist(2) that(1) s(1) that(2)])
  have uniq: "u = t" if "u \<in> set (dag_tasks d)" "dt_id u = er_task_id r" for u
    by (rule the_task_row [OF dist(1) rows(2) that])
  have "db_step d d'"
  proof (rule report_keeps_inv [OF inv r(1) run status, where f = ?f and g = ?g])
    show "d' = d\<lparr>dag_tasks := dag_tasks d', dag_subtasks := dag_subtasks d', execution_records :=
        map (finished_record (er_id r) now status duration summary reason) (execution_records d)\<rparr>"
      by (simp add: d' finished_db_def r)
    show "reported_row (er_subtask_id r) u (?f u)" if "u \<in> set (dag_subtasks d)" for u
      using row same [OF that] st(2) by (auto simp: reported_row_def)
    show "?f u = u" if "u \<in> set (dag_subtasks d)" "ds_task_id u \<noteq> er_task_id r" for u
      using same [OF that(1)] that(2) st(1) t(1) by auto
    show "flow_step (task_flow d u) (task_flow d' (?g u))"
      if "u \<in> set (dag_tasks d)" "dt_id u = er_task_id r" for u
      using uniq [OF that] flow step by simp
  qed (use duration t keys tasks subs in auto)
  moreover have "task_flow d' t' = ?F" if "task_get_by_id d' (dt_id t) = Some t'" for t'
    using task_get_map [OF tasks gid, of "dt_id t"] rows(2) t(1) that flow by simp
  ultimately show ?thesis by (simp add: d' finished_db_def)
qed

lemma report_retry_step:
  fixes now :: datetime and summary reason :: "string option"
  assumes inv: "db_inv d" and get: "execution_get_by_id d i = Some r"
    and run: "er_status r = ExecutionStatus.RUNNING"
    and duration: "opt_all (\<lambda>n. 0 \<le> n) duration"
    and rows: "get_subtask_row d (er_subtask_id r) = Some s"
      "task_get_by_id d (er_task_id r) = Some t"
    and retry: "can_retry_subtask status (ds_retry_count s) (ds_max_retries s)"
  defines "d1 \<equiv> finished_db i now status duration summary reason d"
  shows "\<exists>d'. report_branch now status reason s t d1 = Inr d' \<and> db_step d d' \<and>
    execution_records d' = execution_records d1 \<and>
    (\<forall>t'. task_get_by_id d' (dt_id t) = Some t' \<longrightarrow>
       task_flow d' t' = (task_flow d t)\<lparr>f_subtasks :=
         (f_subtasks (task_flow d t))(ds_id s \<mapsto> SubtaskStatus.READY)\<rparr>) \<and>
    (\<forall>s'. get_subtask_row d' (ds_id s) = Some s' \<longrightarrow> ds_retry_count s' = ds_retry_count s + 1)"
proof -
  note dist = db_inv_distinct [OF inv]
  have r: "r \<in> set (execution_records d)" using execution_rows.get_SomeD [OF get] by simp
  from the_record_subtask [OF inv r] rows have s: "s \<in> set (dag_subtasks d)" "record_agrees r s"
    and stat: "subtask_status d (dt_id t) (ds_id s) = Some (ds_status s)"
    by (metis option.inject)+
  have srun: "ds_status s = SubtaskStatus.RUNNING" using s(2) run by (simp add: record_agrees_def)
  have st: "status \<in> {ExecutionStatus.FAILED, ExecutionStatus.TIMEOUT}"
    "ds_retry_count s < ds_max_retries s"
    using retry by (auto simp: can_retry_subtask_def)
  let ?f = "\<lambda>u. if ds_id u = ds_id s then retried_row reason u else u"
  define d' where "d' = d1\<lparr>dag_tasks := map (\<lambda>u. if dt_id u = dt_id t then u else u) (dag_tasks d),
    dag_subtasks := map ?f (dag_subtasks d)\<rparr>"
  have upd: "upd_subtask (ds_id s) (\<lambda>s. s\<lparr>ds_status := SubtaskStatus.READY,
      ds_retry_count := ds_retry_count s + 1, ds_started_at := None, ds_finished_at := None,
      ds_failure_reason := reason\<rparr>) d1 = d'"
    by (simp add: upd_subtask_def row_upd_as_map d'_def d1_def retried_row_def [abs_def] finished_db_def)
  have "report_branch now status reason s t d1 = Inr d'"
    using st(1) retry srun
    by (auto simp: report_branch_def report_failure_def upd move_subtask_to_retry_ready_def
        ensure_transition_allowed_cases)
  moreover have "db_step d d' \<and> execution_records d' =
      map (finished_record i now status duration summary reason) (execution_records d) \<and>
    (\<forall>t'. task_get_by_id d' (dt_id t) = Some t' \<longrightarrow>
      task_flow d' t' = (task_flow d t)\<lparr>f_task := dt_status t, f_subtasks :=
        (f_subtasks (task_flow d t))(ds_id s \<mapsto> ds_status (retried_row reason s))\<rparr>)"
  proof (rule report_row_inv [OF inv get run _ duration rows])
    show "d' = (finished_db i now status duration summary reason d)
        \<lparr>dag_tasks := map (\<lambda>u. if dt_id u = dt_id t then u else u) (dag_tasks d),
         dag_subtasks := map ?f (dag_subtasks d)\<rparr>"
      by (simp add: d'_def d1_def)
    have "flow_step (task_flow d t) ((task_flow d t)\<lparr>f_subtasks :=
        (f_subtasks (task_flow d t))(ds_id s \<mapsto> SubtaskStatus.READY)\<rparr>)"
      using stat srun by (intro flow_step.retry) simp
    then show "flow_step (task_flow d t) ((task_flow d t)\<lparr>f_task := dt_status t, f_subtasks :=
        (f_subtasks (task_flow d t))(ds_id s \<mapsto> ds_status (retried_row reason s))\<rparr>)"
      by (simp add: retried_row_def task_flow_def)
  qed (use st in \<open>auto simp: subtask_keys_def retried_row_def reported_row_def\<close>)
  moreover have "ds_retry_count s' = ds_retry_count s + 1"
    if "get_subtask_row d' (ds_id s) = Some s'" for s'
  proof -
    have "get_subtask_row d' (ds_id s) = map_option ?f (get_subtask_row d (ds_id s))"
      by (simp add: get_subtask_row_def d'_def row_get_map retried_row_def)
    moreover have "get_subtask_row d (ds_id s) = Some s"
      using s(1) get_subtask_row_iff [OF dist(2)] by simp
    ultimately show ?thesis using that by (auto simp: retried_row_def)
  qed
  ultimately show ?thesis by (auto simp: d1_def finished_db_def retried_row_def task_flow_def)
qed

lemma report_fail_step:
  fixes now :: datetime and summary reason :: "string option"
  assumes inv: "db_inv d" and get: "execution_get_by_id d i = Some r"
    and run: "er_status r = ExecutionStatus.RUNNING"
    and status: "status \<noteq> ExecutionStatus.RUNNING" "status \<noteq> ExecutionStatus.SUCCESS"
    and duration: "opt_all (\<lambda>n. 0 \<le> n) duration"
    and rows: "get_subtask_row d (er_subtask_id r) = Some s"
      "task_get_by_id d (er_task_id r) = Some t"
    and no_retry: "\<not> can_retry_subtask status (ds_retry_count s) (ds_max_retries s)"
    and live: "dt_status t = TaskStatus.RUNNING"
  defines "d1 \<equiv> finished_db i now status duration summary reason d"
  shows "\<exists>d'. report_branch now status reason s t d1 = Inr d' \<and> db_step d d' \<and>
    execution_records d' = execution_records d1 \<and>
    (\<forall>t'. task_get_by_id d' (dt_id t) = Some t' \<longrightarrow>
       task_flow d' t' = (task_flow d t)\<lparr>f_task := TaskStatus.FAILED, f_subtasks :=
         (f_subtasks (task_flow d t))(ds_id s \<mapsto> SubtaskStatus.FAILED)\<rparr>)"
proof -
  have r: "r \<in> set (execution_records d)" using execution_rows.get_SomeD [OF get] by simp
  from the_record_subtask [OF inv r] rows have s: "s \<in> set (dag_subtasks d)" "record_agrees r s"
    and stat: "subtask_status d (dt_id t) (ds_id s) = Some (ds_status s)"
    by (metis option.inject)+
  have srun: "ds_status s = SubtaskStatus.RUNNING" using s(2) run by (simp add: record_agrees_def)
  let ?e = "\<lambda>u. u\<lparr>dt_status := TaskStatus.FAILED, dt_failure_reason := reason,
    dt_finished_at := Some now\<rparr>"
  let ?f = "\<lambda>u. if ds_id u = ds_id s then failed_row now reason u else u"
  define d' where "d' = d1\<lparr>dag_tasks := map (\<lambda>u. if dt_id u = dt_id t then ?e u else u) (dag_tasks d),
    dag_subtasks := map ?f (dag_subtasks d)\<rparr>"
  have upd: "upd_task (dt_id t) ?e (upd_subtask (ds_id s) (\<lambda>s. s\<lparr>ds_status := SubtaskStatus.FAILED,
      ds_finished_at := Some now, ds_failure_reason := reason\<rparr>) d1) = d'"
    by (simp add: upd_subtask_def upd_task_def row_upd_as_map d'_def d1_def failed_row_def [abs_def]
        finished_db_def)
  have "report_branch now status reason s t d1 = Inr d'"
    using no_retry srun live status
    by (simp add: report_branch_def report_failure_def upd move_subtask_to_terminal_def Let_def
        move_task_to_terminal_def ensure_task_transition_eq ensure_transition_allowed_cases)
  moreover have "db_step d d' \<and> execution_records d' =
      map (finished_record i now status duration summary reason) (execution_records d) \<and>
    (\<forall>t'. task_get_by_id d' (dt_id t) = Some t' \<longrightarrow>
      task_flow d' t' = (task_flow d t)\<lparr>f_task := dt_status (?e t), f_subtasks :=
        (f_subtasks (task_flow d t))(ds_id s \<mapsto> ds_status (failed_row now reason s))\<rparr>)"
  proof (rule report_row_inv [OF inv get run status(1) duration rows])
    show "d' = (finished_db i now status duration summary reason d)
        \<lparr>dag_tasks := map (\<lambda>u. if dt_id u = dt_id t then ?e u else u) (dag_tasks d),
         dag_subtasks := map ?f (dag_subtasks d)\<rparr>"
      by (simp add: d'_def d1_def)
    have "flow_step (task_flow d t) ((task_flow d t)\<lparr>f_subtasks :=
        (f_subtasks (task_flow d t))(ds_id s \<mapsto> SubtaskStatus.FAILED), f_task := TaskStatus.FAILED\<rparr>)"
      using stat srun live by (intro flow_step.fail) simp_all
    then show "flow_step (task_flow d t) ((task_flow d t)\<lparr>f_task := dt_status (?e t), f_subtasks :=
        (f_subtasks (task_flow d t))(ds_id s \<mapsto> ds_status (failed_row now reason s))\<rparr>)"
      by (simp add: failed_row_def task_flow_def)
  qed (auto simp: subtask_keys_def task_keys_def failed_row_def reported_row_def)
  ultimately show ?thesis by (auto simp: d1_def finished_db_def failed_row_def task_flow_def)
qed

text \<open>A task that has already failed refuses a second permanent failure.\<close>

lemma report_fail_refused:
  fixes now :: datetime and summary reason :: "string option"
  assumes inv: "db_inv d" and get: "execution_get_by_id d i = Some r"
    and run: "er_status r = ExecutionStatus.RUNNING"
    and status: "status \<noteq> ExecutionStatus.RUNNING" "status \<noteq> ExecutionStatus.SUCCESS"
    and rows: "get_subtask_row d (er_subtask_id r) = Some s"
      "task_get_by_id d (er_task_id r) = Some t"
    and no_retry: "\<not> can_retry_subtask status (ds_retry_count s) (ds_max_retries s)"
    and failed: "dt_status t = TaskStatus.FAILED"
  shows "report_result now i status duration summary reason d =
    Inl (task_state_conflict (dt_id t) TaskStatus.FAILED TaskStatus.FAILED
      (illegal_transition_message (task_status_value TaskStatus.FAILED)
        (task_status_value TaskStatus.FAILED)))"
proof -
  have r: "r \<in> set (execution_records d)" using execution_rows.get_SomeD [OF get] by simp
  from the_record_subtask [OF inv r] rows have "record_agrees r s" by (metis option.inject)
  then have "ds_status s = SubtaskStatus.RUNNING" using run by (simp add: record_agrees_def)
  then show ?thesis
    using report_result_unfold [OF get run status(1) rows] status no_retry failed
    by (simp add: report_branch_def report_failure_def move_subtask_to_terminal_def Let_def
        move_task_to_terminal_def ensure_task_transition_eq ensure_transition_allowed_cases)
qed

section \<open>Every accepted report keeps the invariant\<close>

lemma report_result_step:
  fixes now :: datetime and summary reason :: "string option"
  assumes inv: "db_inv d" and duration: "opt_all (\<lambda>n. 0 \<le> n) duration"
    and run: "report_result now i status duration summary reason d = Inr (x, d')"
  shows "db_step d d'"
proof -
  from run obtain r where get: "execution_get_by_id d i = Some r"
    by (auto simp: report_result_def split: option.splits)
  show ?thesis
  proof (cases "er_status r = ExecutionStatus.RUNNING")
    case False
    with get run inv show ?thesis
      by (auto simp: report_result_def result_simps db_step_def flows_follow_def)
  next
    case rr: True
    have ns: "status \<noteq> ExecutionStatus.RUNNING"
      using run get rr by (auto simp: report_result_def result_simps)
    have r: "r \<in> set (execution_records d)" using execution_rows.get_SomeD [OF get] by simp
    from the_record_subtask [OF inv r] obtain s t where
      rows: "get_subtask_row d (er_subtask_id r) = Some s"
        "task_get_by_id d (er_task_id r) = Some t"
      and t: "t \<in> set (dag_tasks d)" "dt_id t = er_task_id r" by metis
    note unf = report_result_unfold [OF get rr ns rows, of now duration summary reason]
    from run unf obtain d2 where b: "report_branch now status reason s t
        (finished_db i now status duration summary reason d) = Inr d2" and d2: "d' = d2"
      by (auto simp: result_simps)
    have "db_step d d2"
    proof (cases "status = ExecutionStatus.SUCCESS")
      case True
      with report_success_step [OF inv get rr duration rows,
          where now = now and summary = summary and reason = reason] b show ?thesis by auto
    next
      case nsuc: False
      show ?thesis
      proof (cases "can_retry_subtask status (ds_retry_count s) (ds_max_retries s)")
        case True
        with report_retry_step [OF inv get rr duration rows True,
          where now = now and summary = summary and reason = reason] b show ?thesis by auto
      next
        case nr: False
        from running_task [OF inv r rr t] show ?thesis
        proof
          assume "dt_status t = TaskStatus.RUNNING"
          from report_fail_step [OF inv get rr ns nsuc duration rows nr this,
            where now = now and summary = summary and reason = reason] b show ?thesis by auto
        next
          assume "dt_status t = TaskStatus.FAILED"
          from report_fail_refused [OF inv get rr ns nsuc rows nr this,
            where now = now and duration = duration and summary = summary and reason = reason] run
          show ?thesis by simp
        qed
      qed
    qed
    with d2 show ?thesis by simp
  qed
qed

end
