(* ===== verification/Node_Service.thy ===== *)
theory Node_Service
  imports Task_Flow
begin

text \<open>
  \<open>app/services/node_service.py\<close> with the requests of \<open>app/schemas/node.py\<close>: registering
  a node, its status reports and the lists. Registration and reports touch the tables of
  the nodes only, so they keep the invariant and every task's flow.
\<close>

section \<open>Requests\<close>

record NodeCreate =
  nc_name :: string
  nc_node_type :: NodeType
  nc_cpu_capacity :: pyfloat
  nc_memory_capacity_mb :: int
  nc_network_address :: "string option"
  nc_description :: "string option"

record NodeStatusCreate =
  ns_report_battery_level :: "pyfloat option"
  ns_report_cpu_usage :: pyfloat
  ns_report_memory_usage :: pyfloat
  ns_report_network_quality :: "pyfloat option"
  ns_report_bandwidth_mbps :: "pyfloat option"
  ns_report_latitude :: "pyfloat option"
  ns_report_longitude :: "pyfloat option"
  ns_report_current_load :: "int option"
  ns_report_queue_length :: "int option"
  ns_report_reported_at :: datetime

text \<open>What the \<open>Field\<close> constraints of the request classes let through.\<close>

definition valid_node_create :: "NodeCreate \<Rightarrow> bool" where
  "valid_node_create data \<longleftrightarrow>
     1 \<le> py_len (nc_name data) \<and> py_len (nc_name data) \<le> 128 \<and>
     f_less (Fin 0) (nc_cpu_capacity data) \<and> 0 < nc_memory_capacity_mb data \<and>
     opt_all (\<lambda>a. py_len a \<le> 255) (nc_network_address data)"

definition valid_node_status_create :: "NodeStatusCreate \<Rightarrow> bool" where
  "valid_node_status_create data \<longleftrightarrow>
     opt_all (f_between 0 100) (ns_report_battery_level data) \<and>
     f_between 0 100 (ns_report_cpu_usage data) \<and>
     f_between 0 100 (ns_report_memory_usage data) \<and>
     opt_all (f_between 0 100) (ns_report_network_quality data) \<and>
     opt_all (f_le (Fin 0)) (ns_report_bandwidth_mbps data) \<and>
     opt_all (f_between (- 90) 90) (ns_report_latitude data) \<and>
     opt_all (f_between (- 180) 180) (ns_report_longitude data) \<and>
     opt_all (\<lambda>n. 0 \<le> n) (ns_report_current_load data) \<and>
     opt_all (\<lambda>n. 0 \<le> n) (ns_report_queue_length data)"

section \<open>Operations\<close>

definition node_name_conflict :: "string \<Rightarrow> exc" where
  "node_name_conflict name =
     AppError \<lparr>code = ''NODE_NAME_CONFLICT'', message = ''Node name already exists'',
       status_code = 409, details = [(''name'', DStr name)]\<rparr>"

definition node_not_found :: "uuid \<Rightarrow> exc" where
  "node_not_found node_id =
     AppError \<lparr>code = ''NODE_NOT_FOUND'', message = ''Node not found'', status_code = 404,
       details = [(''node_id'', DUuid node_id)]\<rparr>"

definition new_node :: "datetime \<Rightarrow> uuid \<Rightarrow> NodeCreate \<Rightarrow> node" where
  "new_node now i data =
     \<lparr>nd_id = i, nd_name = nc_name data, nd_node_type = nc_node_type data,
      nd_status = NodeStatus.ONLINE, nd_cpu_capacity = nc_cpu_capacity data,
      nd_memory_capacity_mb = nc_memory_capacity_mb data,
      nd_network_address = nc_network_address data, nd_description = nc_description data,
      nd_last_heartbeat_at = None, nd_created_at = now\<rparr>"

text \<open>The node returned is the stored row: \<open>repository.create\<close> refreshes it.\<close>

definition create_node :: "numeric \<Rightarrow> datetime \<Rightarrow> NodeCreate \<Rightarrow> db \<Rightarrow> (node \<times> db) result" where
  "create_node numeric now data d =
     (if node_get_by_name d (nc_name data) \<noteq> None then Inl (node_name_conflict (nc_name data))
      else
        let node = new_node now (next_uuid d) data in
        and_then (node_create numeric node (d\<lparr>next_uuid := next_uuid d + 1\<rparr>)) (\<lambda>d'.
        Inr (case node_get_by_id d' (nd_id node) of None \<Rightarrow> node | Some n \<Rightarrow> n, d')))"

definition get_node :: "db \<Rightarrow> uuid \<Rightarrow> node result" where
  "get_node d node_id =
     (case node_get_by_id d node_id of
        None \<Rightarrow> Inl (node_not_found node_id)
      | Some node \<Rightarrow> Inr node)"

definition list_nodes ::
  "NodeType option \<Rightarrow> NodeStatus option \<Rightarrow> int \<Rightarrow> int \<Rightarrow> db \<Rightarrow> (node list \<times> int) result" where
  "list_nodes node_type status page page_size d = repo_list_nodes node_type status d page page_size"

definition resolve_node_status :: "NodeStatusCreate \<Rightarrow> NodeStatus" where
  "resolve_node_status data =
     (let high_queue = (case ns_report_queue_length data of None \<Rightarrow> False | Some n \<Rightarrow> 10 \<le> n);
          high_load = (case ns_report_current_load data of None \<Rightarrow> False | Some n \<Rightarrow> 10 \<le> n)
      in if f_le (lit 90) (ns_report_cpu_usage data) \<or> f_le (lit 90) (ns_report_memory_usage data) \<or>
            high_queue \<or> high_load
         then NodeStatus.BUSY else NodeStatus.ONLINE)"

definition new_status_record ::
  "datetime \<Rightarrow> uuid \<Rightarrow> uuid \<Rightarrow> NodeStatusCreate \<Rightarrow> node_status_record" where
  "new_status_record now i node_id data =
     \<lparr>nr_id = i, nr_node_id = node_id, nr_battery_level = ns_report_battery_level data,
      nr_cpu_usage = ns_report_cpu_usage data, nr_memory_usage = ns_report_memory_usage data,
      nr_network_quality = ns_report_network_quality data,
      nr_bandwidth_mbps = ns_report_bandwidth_mbps data, nr_latitude = ns_report_latitude data,
      nr_longitude = ns_report_longitude data, nr_current_load = ns_report_current_load data,
      nr_queue_length = ns_report_queue_length data, nr_reported_at = ns_report_reported_at data,
      nr_created_at = now\<rparr>"

definition report_status ::
  "numeric \<Rightarrow> datetime \<Rightarrow> uuid \<Rightarrow> NodeStatusCreate \<Rightarrow> db \<Rightarrow> (node_status_record \<times> db) result" where
  "report_status numeric now node_id data d =
     and_then (get_node d node_id) (\<lambda>node.
     let r = new_status_record now (next_uuid d) (nd_id node) data;
         d1 = upd_node (nd_id node) (\<lambda>n. n\<lparr>nd_last_heartbeat_at := Some (ns_report_reported_at data),
                nd_status := resolve_node_status data\<rparr>) (d\<lparr>next_uuid := next_uuid d + 1\<rparr>) in
     and_then (create_status_record numeric r d1) (\<lambda>d2.
     and_then (db_flush d2) (\<lambda>d3.
     Inr (case row_get nr_id (nr_id r) (node_status_records d3) of
            None \<Rightarrow> r | Some saved_record \<Rightarrow> saved_record, d3))))"

definition list_status_records ::
  "uuid \<Rightarrow> int \<Rightarrow> int \<Rightarrow> db \<Rightarrow> (node_status_record list \<times> int) result" where
  "list_status_records node_id page page_size d =
     and_then (get_node d node_id) (\<lambda>_. repo_list_status_records node_id d page page_size)"

section \<open>Tasks are not touched\<close>

text \<open>The part of the database that the tasks and their executions live in.\<close>

definition task_tables where
  "task_tables d =
     (dag_tasks d, dag_subtasks d, dag_dependencies d, schedule_plans d, schedule_plan_items d,
      execution_records d, execution_revoke_events d)"

lemma task_tables_eqD:
  assumes "task_tables d' = task_tables d"
  shows "dag_tasks d' = dag_tasks d" "dag_subtasks d' = dag_subtasks d"
    "dag_dependencies d' = dag_dependencies d" "schedule_plans d' = schedule_plans d"
    "schedule_plan_items d' = schedule_plan_items d" "execution_records d' = execution_records d"
    "execution_revoke_events d' = execution_revoke_events d"
  using assms by (simp_all add: task_tables_def)

lemma same_flows:
  assumes "dag_subtasks d' = dag_subtasks d" and "dag_dependencies d' = dag_dependencies d"
  shows "task_flow d' = task_flow d"
  by (simp add: task_flow_def fun_eq_iff dependency_edges_same [OF assms(2)]
      subtask_status_same [OF assms(1)])

lemma untouched_tasks_step:
  assumes inv: "db_inv d" and same: "task_tables d' = task_tables d"
    and ok: "schema_ok d'" and ids: "next_uuid d \<le> next_uuid d'"
  shows "db_step d d'"
proof -
  note eqs = task_tables_eqD [OF same]
  note flow = same_flows [OF eqs(2,3)]
  have "ids_used d'"
    by (rule ids_used_grow [where d = d]) (use inv ids eqs in \<open>simp_all add: db_inv_def\<close>)
  moreover have "flows_follow d d'" by (auto simp: flows_follow_def eqs flow)
  ultimately show ?thesis
    using inv ok eqs flow by (simp add: db_step_def db_inv_def flows_reachable_def
        executions_agree_def running_recorded_def retries_bounded_def plans_agree_def)
qed

lemma create_node_step:
  assumes "db_inv d" and "create_node numeric now data d = Inr (n, d')"
  shows "db_step d d'"
  using assms(2)
  by (intro untouched_tasks_step [OF assms(1)])
    (auto simp: create_node_def Let_def node_create_def task_tables_def result_simps split: if_splits)

lemma report_status_step:
  assumes "db_inv d" and "report_status numeric now node_id data d = Inr (r, d')"
  shows "db_step d d'"
  using assms(2)
  by (intro untouched_tasks_step [OF assms(1)])
    (auto simp: report_status_def Let_def create_status_record_def task_tables_def upd_node_def
      result_simps)

section \<open>What the operations do\<close>

text \<open>A registered node is online, under a name of its own, and can be read back.\<close>

lemma store_node_keeps:
  "store_node numeric n = Inr m \<Longrightarrow> nd_id m = nd_id n \<and> nd_name m = nd_name n \<and>
     nd_status m = nd_status n \<and> nd_node_type m = nd_node_type n"
  by (auto simp: store_node_def result_simps split: if_splits)

lemma new_node_id [simp]: "nd_id (new_node now i data) = i"
  by (simp add: new_node_def)

lemma new_status_record_id [simp]:
  "nr_id (new_status_record now i node_id data) = i"
  "nr_node_id (new_status_record now i node_id data) = node_id"
  by (simp_all add: new_status_record_def)

lemma create_node_stored:
  assumes "create_node numeric now data d = Inr (n, d')"
  shows "get_node d' (nd_id n) = Inr n" and "nd_name n = nc_name data"
    and "nd_node_type n = nc_node_type data" and "nd_status n = NodeStatus.ONLINE"
    and "nodes d' = nodes d @ [n]" and "nc_name data \<notin> nd_name ` set (nodes d)"
proof -
  from assms obtain row where row: "store_node numeric (new_node now (next_uuid d) data) = Inr row"
    and d': "d' = d\<lparr>next_uuid := next_uuid d + 1, nodes := nodes d @ [row]\<rparr>" and ok: "schema_ok d'"
    and n: "n = (case node_get_by_id d' (next_uuid d) of None \<Rightarrow> new_node now (next_uuid d) data
      | Some n \<Rightarrow> n)" and free: "node_get_by_name d (nc_name data) = None"
    by (auto simp: create_node_def Let_def node_create_def result_simps split: if_splits)
  note keeps = store_node_keeps [OF row]
  have "node_get_by_id d' (nd_id row) = Some row"
    using schema_ok_distinct(6) [OF ok] by (simp add: node_rows.get_iff d')
  with n keeps have "n = row" by (simp add: new_node_def)
  with \<open>node_get_by_id d' (nd_id row) = Some row\<close> show "get_node d' (nd_id n) = Inr n"
    by (simp add: get_node_def)
  from \<open>n = row\<close> keeps d' show "nd_name n = nc_name data" "nd_node_type n = nc_node_type data"
    "nd_status n = NodeStatus.ONLINE" "nodes d' = nodes d @ [n]" by (simp_all add: new_node_def)
  from free show "nc_name data \<notin> nd_name ` set (nodes d)"
    by (auto simp: node_get_by_name_def find_None_iff)
qed

lemma create_node_conflict:
  "create_node numeric now data d = Inl (node_name_conflict (nc_name data))"
  if "nc_name data \<in> nd_name ` set (nodes d)"
  using that by (auto simp: create_node_def node_get_by_name_def find_None_iff)

text \<open>A report decides the node's status, whatever the status was.\<close>

lemma resolve_node_status_busy:
  "resolve_node_status data = NodeStatus.BUSY \<longleftrightarrow>
     f_le (Fin 90) (ns_report_cpu_usage data) \<or> f_le (Fin 90) (ns_report_memory_usage data) \<or>
     (\<exists>n. ns_report_queue_length data = Some n \<and> 10 \<le> n) \<or>
     (\<exists>n. ns_report_current_load data = Some n \<and> 10 \<le> n)"
  by (auto simp: resolve_node_status_def Let_def lit_def fl_numeral split: option.splits)

lemma resolve_node_status_if:
  "resolve_node_status data =
     (if f_le (Fin 90) (ns_report_cpu_usage data) \<or> f_le (Fin 90) (ns_report_memory_usage data) \<or>
        (\<exists>n. ns_report_queue_length data = Some n \<and> 10 \<le> n) \<or>
        (\<exists>n. ns_report_current_load data = Some n \<and> 10 \<le> n)
      then NodeStatus.BUSY else NodeStatus.ONLINE)"
  by (auto simp: resolve_node_status_def Let_def lit_def fl_numeral split: option.splits)

lemma report_status_node:
  assumes "report_status numeric now node_id data d = Inr (r, d')"
  shows "\<exists>n. node_get_by_id d node_id = Some n \<and> node_get_by_id d' node_id =
    Some (n\<lparr>nd_last_heartbeat_at := Some (ns_report_reported_at data),
      nd_status := resolve_node_status data\<rparr>)"
    and "nr_node_id r = node_id"
    and "\<forall>i. i \<noteq> node_id \<longrightarrow> node_get_by_id d' i = node_get_by_id d i"
proof -
  from assms obtain n where n: "node_get_by_id d node_id = Some n"
    by (auto simp: report_status_def get_node_def split: option.splits)
  let ?d1 = "upd_node (nd_id n) (\<lambda>n. n\<lparr>nd_last_heartbeat_at := Some (ns_report_reported_at data),
        nd_status := resolve_node_status data\<rparr>) (d\<lparr>next_uuid := next_uuid d + 1\<rparr>)"
  have recs: "node_status_records ?d1 = node_status_records d" by (simp add: upd_node_def)
  from assms obtain row where
    row: "store_status_record numeric (new_status_record now (next_uuid d) (nd_id n) data) = Inr row"
    and d': "d' = ?d1\<lparr>node_status_records := node_status_records d @ [row]\<rparr>"
    and ok: "schema_ok d'"
    and r: "r = (case row_get nr_id (next_uuid d) (node_status_records d') of
      None \<Rightarrow> new_status_record now (next_uuid d) (nd_id n) data | Some q \<Rightarrow> q)"
    unfolding report_status_def get_node_def n option.case and_then_simps Let_def
      create_status_record_def and_then_Inr_iff db_flush_Inr_iff recs new_status_record_id
    by (elim exE conjE) (simp only: sum.inject prod.inject, blast)
  have id: "nd_id n = node_id" using node_rows.get_SomeD [OF n] by simp
  show "\<forall>i. i \<noteq> node_id \<longrightarrow> node_get_by_id d' i = node_get_by_id d i"
    by (simp add: d' id node_get_by_id_def upd_node_def row_get_upd)
  have "node_get_by_id d' node_id = map_option (\<lambda>n. n\<lparr>nd_last_heartbeat_at :=
      Some (ns_report_reported_at data), nd_status := resolve_node_status data\<rparr>)
      (node_get_by_id d node_id)"
    by (simp add: d' id node_get_by_id_def upd_node_def row_get_upd)
  with n show "\<exists>n. node_get_by_id d node_id = Some n \<and> node_get_by_id d' node_id =
    Some (n\<lparr>nd_last_heartbeat_at := Some (ns_report_reported_at data),
      nd_status := resolve_node_status data\<rparr>)" by simp
  have keep: "nr_id row = next_uuid d" "nr_node_id row = node_id"
    using row id by (auto simp: store_status_record_def new_status_record_def result_simps
        split: if_splits)
  have "distinct (map nr_id (node_status_records d'))"
    using ok by (simp add: schema_ok_def node_status_records_ok_def)
  then have "row_get nr_id (next_uuid d) (node_status_records d') = Some row"
    using keep by (simp add: row_get_iff d')
  with r keep show "nr_node_id r = node_id" by simp
qed

end
