(* ===== verification/Worker_Health.thy ===== *)
theory Worker_Health
  imports Node_Service Config
begin

text \<open>
  Heartbeats and alerts of the workers: \<open>app/repositories/worker_repository.py\<close>,
  \<open>worker_alert_repository.py\<close>, \<open>app/services/worker_heartbeat_service.py\<close> and
  \<open>worker_alert_service.py\<close>. A worker has one heartbeat row, which every report rewrites;
  alerts only accumulate.
\<close>

section \<open>Counting by group\<close>

text \<open>
  \<open>{str(key): count for key, count in rows}\<close> of a \<open>GROUP BY\<close>: every key that occurs,
  once, with the number of its rows.
\<close>

definition group_count :: "('r \<Rightarrow> string) \<Rightarrow> 'r list \<Rightarrow> (string \<times> int) list" where
  "group_count key rows =
     map (\<lambda>k. (k, int (length (filter (\<lambda>r. key r = k) rows)))) (remdups (map key rows))"

lemma group_count_keys: "map fst (group_count key rows) = remdups (map key rows)"
  by (simp add: group_count_def comp_def)

lemma sum_indicator:
  "distinct ks \<Longrightarrow> (\<Sum>k \<leftarrow> ks. of_bool (x = k) :: int) = of_bool (x \<in> set ks)"
  by (induction ks) auto

lemma sum_over_groups:
  assumes "distinct ks" and "key ` set rows \<subseteq> set ks"
  shows "(\<Sum>k \<leftarrow> ks. int (length (filter (\<lambda>r. key r = k) rows))) = int (length rows)"
  using assms(2)
proof (induction rows)
  case (Cons r rows)
  have one: "(\<Sum>k \<leftarrow> ks. of_bool (key r = k) :: int) = 1"
    using Cons.prems by (simp add: sum_indicator [OF assms(1)])
  have "(\<Sum>k \<leftarrow> ks. int (length (filter (\<lambda>x. key x = k) (r # rows)))) =
      (\<Sum>k \<leftarrow> ks. of_bool (key r = k) + int (length (filter (\<lambda>x. key x = k) rows)))"
    by (intro arg_cong [where f = sum_list] map_cong) auto
  also have "\<dots> = 1 + int (length rows)"
    using Cons one by (simp add: sum_list_addf)
  finally show ?case by simp
qed (simp add: sum_list_0)

text \<open>The counts of the groups add up to the number of rows.\<close>

lemma group_count_total: "sum_list (map snd (group_count key rows)) = int (length rows)"
  using sum_over_groups [of "remdups (map key rows)" key rows]
  by (simp add: group_count_def comp_def)

section \<open>\<open>WorkerRepository\<close>\<close>

definition heartbeat_get_by_name :: "db \<Rightarrow> string \<Rightarrow> worker_heartbeat option" where
  "heartbeat_get_by_name d name = row_get wh_worker_name name (worker_heartbeats d)"

definition heartbeat_fields ::
  "string \<Rightarrow> int option \<Rightarrow> WorkerStatus \<Rightarrow> uuid option \<Rightarrow> datetime \<Rightarrow> worker_heartbeat \<Rightarrow>
   worker_heartbeat" where
  "heartbeat_fields hostname process_id status current_execution_id last_seen_at h =
     h\<lparr>wh_hostname := hostname, wh_process_id := process_id, wh_status := status,
       wh_current_execution_id := current_execution_id, wh_last_seen_at := last_seen_at\<rparr>"

definition upsert_heartbeat ::
  "datetime \<Rightarrow> string \<Rightarrow> string \<Rightarrow> int option \<Rightarrow> WorkerStatus \<Rightarrow> uuid option \<Rightarrow> datetime \<Rightarrow> db \<Rightarrow>
   (worker_heartbeat \<times> db) result" where
  "upsert_heartbeat now worker_name hostname process_id status current_execution_id last_seen_at d =
     (case heartbeat_get_by_name d worker_name of
        None \<Rightarrow>
          let h = \<lparr>wh_id = next_uuid d, wh_worker_name = worker_name, wh_hostname = hostname,
                wh_process_id = process_id, wh_status = status,
                wh_current_execution_id = current_execution_id, wh_last_seen_at = last_seen_at,
                wh_created_at = now\<rparr> in
          and_then (db_flush (d\<lparr>next_uuid := next_uuid d + 1,
            worker_heartbeats := worker_heartbeats d @ [h]\<rparr>)) (\<lambda>d'. Inr (h, d'))
      | Some h0 \<Rightarrow>
          let f = heartbeat_fields hostname process_id status current_execution_id last_seen_at in
          and_then (db_flush (d\<lparr>worker_heartbeats :=
            row_upd wh_worker_name worker_name f (worker_heartbeats d)\<rparr>)) (\<lambda>d'. Inr (f h0, d')))"

definition count_total :: "db \<Rightarrow> int" where
  "count_total d = int (length (worker_heartbeats d))"

definition count_seen_since :: "db \<Rightarrow> datetime \<Rightarrow> int" where
  "count_seen_since d cutoff =
     int (length (filter (\<lambda>h. cutoff \<le> wh_last_seen_at h) (worker_heartbeats d)))"

definition latest_seen_at :: "db \<Rightarrow> datetime option" where
  "latest_seen_at d =
     (case map wh_last_seen_at (worker_heartbeats d) of
        [] \<Rightarrow> None
      | t # ts \<Rightarrow> Some (fold max ts t))"

definition workers_by_status :: "db \<Rightarrow> (string \<times> int) list" where
  "workers_by_status d = group_count (\<lambda>h. worker_status_value (wh_status h)) (worker_heartbeats d)"

section \<open>\<open>WorkerHeartbeatService\<close>\<close>

record WorkerHeartbeatSnapshot =
  hs_total_workers :: int
  hs_online_workers :: int
  hs_latest_seen_at :: "datetime option"
  hs_workers_by_status :: "(string \<times> int) list"

text \<open>\<open>int(latest_seen_at.timestamp())\<close>, in seconds\<close>

definition latest_seen_timestamp :: "WorkerHeartbeatSnapshot \<Rightarrow> int result" where
  "latest_seen_timestamp s =
     (case hs_latest_seen_at s of
        None \<Rightarrow> Inr 0
      | Some t \<Rightarrow> and_then (int_true_div t 1000000) int_of_float)"

definition report_heartbeat ::
  "datetime \<Rightarrow> string \<Rightarrow> string \<Rightarrow> int option \<Rightarrow> WorkerStatus \<Rightarrow> uuid option \<Rightarrow> datetime option \<Rightarrow>
   db \<Rightarrow> (worker_heartbeat \<times> db) result" where
  "report_heartbeat now worker_name hostname process_id status current_execution_id reported_at d =
     (let seen_at = (case reported_at of None \<Rightarrow> now | Some t \<Rightarrow> t) in
      upsert_heartbeat now worker_name hostname process_id status current_execution_id seen_at d)"

definition heartbeat_snapshot :: "Settings \<Rightarrow> datetime \<Rightarrow> db \<Rightarrow> WorkerHeartbeatSnapshot" where
  "heartbeat_snapshot settings reference_time d =
     (let cutoff = reference_time - worker_heartbeat_timeout_seconds settings * 1000000 in
      \<lparr>hs_total_workers = count_total d, hs_online_workers = count_seen_since d cutoff,
       hs_latest_seen_at = latest_seen_at d, hs_workers_by_status = workers_by_status d\<rparr>)"

section \<open>Alerts\<close>

definition alert_create ::
  "datetime \<Rightarrow> WorkerAlertType \<Rightarrow> AlertSeverity \<Rightarrow> string \<Rightarrow> string option \<Rightarrow> uuid option \<Rightarrow>
   string option \<Rightarrow> json_object \<Rightarrow> db \<Rightarrow> (worker_alert \<times> db) result" where
  "alert_create now alert_type severity msg worker_name execution_id celery_task_id info d =
     (let a = \<lparr>wa_id = next_uuid d, wa_alert_type = alert_type, wa_severity = severity,
            wa_worker_name = worker_name, wa_execution_id = execution_id,
            wa_celery_task_id = celery_task_id, wa_message = msg, wa_details = info,
            wa_created_at = now\<rparr> in
      and_then (db_flush (d\<lparr>next_uuid := next_uuid d + 1,
        worker_alerts := worker_alerts d @ [a]\<rparr>)) (\<lambda>d'. Inr (a, d')))"

definition alerts_by_type :: "db \<Rightarrow> (string \<times> int) list" where
  "alerts_by_type d =
     group_count (\<lambda>a. worker_alert_type_value (wa_alert_type a)) (worker_alerts d)"

definition list_alerts ::
  "WorkerAlertType option \<Rightarrow> AlertSeverity option \<Rightarrow> db \<Rightarrow> int \<Rightarrow> int \<Rightarrow>
   (worker_alert list \<times> int) result" where
  "list_alerts alert_type severity d page page_size =
     (let selected = filter (\<lambda>a. matches alert_type (wa_alert_type a) \<and>
            matches severity (wa_severity a)) (worker_alerts d) in
      and_then (paginate page page_size (order_desc wa_created_at selected)) (\<lambda>items.
      Inr (items, int (length selected))))"

text \<open>The class name and the text of the exceptions that exhaust the retries of a worker.\<close>

definition exception_name :: "exc \<Rightarrow> string" where
  "exception_name e =
     (case e of
        OperationalError _ \<Rightarrow> ''OperationalError''
      | PoolTimeoutError _ \<Rightarrow> ''TimeoutError''
      | DBAPIError name _ _ \<Rightarrow> name
      | _ \<Rightarrow> '''')"

definition exception_text :: "exc \<Rightarrow> string" where
  "exception_text e =
     (case e of
        OperationalError m \<Rightarrow> m
      | PoolTimeoutError m \<Rightarrow> m
      | DBAPIError _ _ m \<Rightarrow> m
      | _ \<Rightarrow> '''')"

definition report_retry_exhausted ::
  "datetime \<Rightarrow> uuid \<Rightarrow> string \<Rightarrow> string option \<Rightarrow> int \<Rightarrow> int \<Rightarrow> exc \<Rightarrow> db \<Rightarrow> db result" where
  "report_retry_exhausted now execution_id worker_name celery_task_id retry_count max_retries e d =
     and_then (alert_create now WorkerAlertType.CELERY_RETRY_EXHAUSTED AlertSeverity.ERROR
       ''Celery execution retry budget exhausted'' (Some worker_name) (Some execution_id)
       celery_task_id
       [(''retry_count'', JInt retry_count), (''max_retries'', JInt max_retries),
        (''exception_type'', JStr (exception_name e)),
        (''exception_message'', JStr (exception_text e))] d) (\<lambda>r. Inr (snd r))"

interpretation alert_pages: paged_list "list_alerts alert_type severity"
    "\<lambda>d. order_desc wa_created_at (filter (\<lambda>a. matches alert_type (wa_alert_type a) \<and>
       matches severity (wa_severity a)) (worker_alerts d))"
  for alert_type severity
  by unfold_locales (simp add: list_alerts_def Let_def)

section \<open>Tasks are not touched\<close>

lemma report_heartbeat_step:
  assumes "db_inv d"
    and "report_heartbeat now name host pid status current reported d = Inr (h, d')"
  shows "db_step d d'"
  using assms(2)
  by (intro untouched_tasks_step [OF assms(1)])
    (auto simp: report_heartbeat_def upsert_heartbeat_def Let_def task_tables_def result_simps
      split: option.splits)

lemma report_retry_exhausted_step:
  assumes "db_inv d" and "report_retry_exhausted now i name celery n m e d = Inr d'"
  shows "db_step d d'"
  using assms(2)
  by (intro untouched_tasks_step [OF assms(1)])
    (auto simp: report_retry_exhausted_def alert_create_def Let_def task_tables_def result_simps)

section \<open>One row per worker\<close>

lemma row_get_upd_same:
  "(\<And>r. key (f r) = key r) \<Longrightarrow> row_get key i rows = Some r \<Longrightarrow>
     row_get key i (row_upd key i f rows) = Some (f r)"
  by (simp add: row_get_upd)

lemma heartbeat_fields_name [simp]:
  "wh_worker_name (heartbeat_fields host pid status current seen h) = wh_worker_name h"
  "wh_status (heartbeat_fields host pid status current seen h) = status"
  "wh_last_seen_at (heartbeat_fields host pid status current seen h) = seen"
  "wh_current_execution_id (heartbeat_fields host pid status current seen h) = current"
  by (simp_all add: heartbeat_fields_def)

lemma upsert_heartbeat_reads_back:
  assumes "upsert_heartbeat now name host pid status current seen d = Inr (h, d')"
  shows "heartbeat_get_by_name d' name = Some h" and "wh_status h = status"
    and "wh_last_seen_at h = seen" and "wh_current_execution_id h = current"
    and "set (map wh_worker_name (worker_heartbeats d')) =
      insert name (set (map wh_worker_name (worker_heartbeats d)))"
proof -
  show "heartbeat_get_by_name d' name = Some h"
    using assms unfolding upsert_heartbeat_def heartbeat_get_by_name_def
    by (auto simp: Let_def result_simps row_get_append row_get_Cons row_get_upd_same
        split: option.splits)
  show "wh_status h = status" "wh_last_seen_at h = seen" "wh_current_execution_id h = current"
    using assms by (auto simp: upsert_heartbeat_def Let_def result_simps split: option.splits)
  show "set (map wh_worker_name (worker_heartbeats d')) =
      insert name (set (map wh_worker_name (worker_heartbeats d)))"
  proof (cases "heartbeat_get_by_name d name")
    case None
    with assms show ?thesis by (auto simp: upsert_heartbeat_def Let_def result_simps)
  next
    case (Some h0)
    then have "name \<in> set (map wh_worker_name (worker_heartbeats d))"
      using row_get_SomeD [of wh_worker_name name "worker_heartbeats d" h0]
      by (auto simp: heartbeat_get_by_name_def)
    moreover have "map wh_worker_name (worker_heartbeats d') = map wh_worker_name (worker_heartbeats d)"
      using assms Some
      by (auto simp: upsert_heartbeat_def Let_def result_simps row_upd_keys)
    ultimately show ?thesis by auto
  qed
qed

text \<open>The workers counted as online are among all workers, and more are with a later cutoff.\<close>

lemma online_workers_bounds:
  "0 \<le> hs_online_workers (heartbeat_snapshot settings now d)"
  "hs_online_workers (heartbeat_snapshot settings now d) \<le>
     hs_total_workers (heartbeat_snapshot settings now d)"
  "sum_list (map snd (hs_workers_by_status (heartbeat_snapshot settings now d))) =
     hs_total_workers (heartbeat_snapshot settings now d)"
  by (simp_all add: heartbeat_snapshot_def Let_def count_seen_since_def count_total_def
      workers_by_status_def group_count_total)

lemma fresh_heartbeat_online:
  assumes "upsert_heartbeat now name host pid status current seen d = Inr (h, d')"
    and "reference - worker_heartbeat_timeout_seconds settings * 1000000 \<le> seen"
  shows "0 < hs_online_workers (heartbeat_snapshot settings reference d')"
proof -
  from upsert_heartbeat_reads_back(1,3) [OF assms(1)]
  have "h \<in> set (worker_heartbeats d')" "wh_last_seen_at h = seen"
    using row_get_SomeD [of wh_worker_name name "worker_heartbeats d'" h]
    by (simp_all add: heartbeat_get_by_name_def)
  with assms(2) show ?thesis
    by (auto simp: heartbeat_snapshot_def Let_def count_seen_since_def filter_empty_conv)
qed

end
