(* ===== verification/Platform.thy ===== *)
theory Platform
  imports Task_Create Task_Cancel Execution_Start Execution_Report Node_Service Worker_Health
begin

text \<open>
  The platform as a transition system on committed databases: one step per successful
  transaction of a service, in any order and with any arguments. A transaction that raises
  is rolled back, so it is no step. Reachable databases satisfy the invariant, and every
  step takes each task along its flow.
\<close>

section \<open>Recording the Celery identifiers\<close>

definition differs_in_celery_ids :: "db \<Rightarrow> db \<Rightarrow> bool" where
  "differs_in_celery_ids d d' \<longleftrightarrow>
     (\<exists>k. (\<forall>r. record_keys (k r) = record_keys r \<and> er_status (k r) = er_status r) \<and>
        d' = d\<lparr>execution_records := map k (execution_records d)\<rparr>)"

lemma differs_refl: "differs_in_celery_ids d d"
  unfolding differs_in_celery_ids_def by (rule exI [where x = "\<lambda>r. r"]) simp

lemma differs_trans:
  assumes "differs_in_celery_ids d d1" and "differs_in_celery_ids d1 d2"
  shows "differs_in_celery_ids d d2"
proof -
  from assms(1) obtain k1 where k1: "\<forall>r. record_keys (k1 r) = record_keys r \<and> er_status (k1 r) = er_status r"
    "d1 = d\<lparr>execution_records := map k1 (execution_records d)\<rparr>"
    unfolding differs_in_celery_ids_def by blast
  from assms(2) obtain k2 where k2: "\<forall>r. record_keys (k2 r) = record_keys r \<and> er_status (k2 r) = er_status r"
    "d2 = d1\<lparr>execution_records := map k2 (execution_records d1)\<rparr>"
    unfolding differs_in_celery_ids_def by blast
  show ?thesis
    unfolding differs_in_celery_ids_def
    by (rule exI [where x = "k2 \<circ> k1"]) (use k1 k2 in simp)
qed

lemma set_celery_differs: "differs_in_celery_ids d (set_celery_task_id i c d)"
proof (cases "execution_get_by_id d i")
  case None
  then show ?thesis by (simp add: set_celery_task_id_def differs_refl)
next
  case (Some r)
  then have "set_celery_task_id i c d = d\<lparr>execution_records := map (\<lambda>r. if er_id r = i
      then r\<lparr>er_celery_task_id := Some c\<rparr> else r) (execution_records d)\<rparr>"
    by (simp add: set_celery_task_id_def upd_execution_def row_upd_as_map)
  then show ?thesis
    unfolding differs_in_celery_ids_def
    by (intro exI [where x = "\<lambda>r. if er_id r = i then r\<lparr>er_celery_task_id := Some c\<rparr> else r"])
      (simp add: record_keys_def)
qed

lemma record_celery_differs:
  "record_celery_task_ids rs d = Inr d' \<Longrightarrow> differs_in_celery_ids d d' \<and> schema_ok d'"
proof -
  have "differs_in_celery_ids d
      (fold (\<lambda>item. set_celery_task_id (dr_execution_id item) (dr_celery_task_id item)) rs d)"
    by (induction rs arbitrary: d) (auto intro: differs_refl differs_trans [OF set_celery_differs])
  then show "record_celery_task_ids rs d = Inr d' \<Longrightarrow> differs_in_celery_ids d d' \<and> schema_ok d'"
    by (simp add: record_celery_task_ids_def result_simps)
qed

lemma record_celery_step:
  assumes inv: "db_inv d" and "record_celery_task_ids rs d = Inr d'"
  shows "db_step d d'"
proof -
  from record_celery_differs [OF assms(2)] obtain k where
    k: "\<forall>r. record_keys (k r) = record_keys r \<and> er_status (k r) = er_status r"
    and d': "d' = d\<lparr>execution_records := map k (execution_records d)\<rparr>" and ok: "schema_ok d'"
    unfolding differs_in_celery_ids_def by blast
  from k have key: "er_id (k r) = er_id r" "er_subtask_id (k r) = er_subtask_id r"
    "er_task_id (k r) = er_task_id r" "er_attempt (k r) = er_attempt r"
    "er_status (k r) = er_status r" for r by (simp_all add: record_keys_def)
  have flow: "task_flow d' = task_flow d" by (rule same_flows) (simp_all add: d')
  have "executions_agree d'"
    by (rule executions_agree_map [where d = d and f = "\<lambda>s. s" and g = k])
      (use inv in \<open>simp_all add: d' db_inv_def record_agrees_def key\<close>)
  moreover have "running_recorded d'"
    using inv by (auto simp: running_recorded_def d' db_inv_def key)
  moreover have "ids_used d'"
  proof (rule ids_used_grow [where d = d])
    have "er_id ` set (map k (execution_records d)) = er_id ` set (execution_records d)"
      by (rule keys_map) (simp add: key)
    then show "er_id ` set (execution_records d') \<subseteq> er_id ` set (execution_records d) \<union> {..<next_uuid d'}"
      by (simp add: d')
  qed (use inv in \<open>simp_all add: d' db_inv_def\<close>)
  moreover have "flows_follow d d'" unfolding flows_follow_def flow by (auto simp: d')
  ultimately show ?thesis
    using inv ok flow
    by (simp add: db_step_def db_inv_def flows_reachable_def retries_bounded_def plans_agree_def d')
qed

section \<open>Steps and reachability\<close>

inductive platform_step :: "db \<Rightarrow> db \<Rightarrow> bool" where
  create_task: "create_task numeric now data d = Inr (t, d') \<Longrightarrow> platform_step d d'"
| generate_plan: "generate_plan random numeric now task_id strategy_name options d = Inr (p, d') \<Longrightarrow>
    platform_step d d'"
| start_execution: "start_execution now task_id plan_id d = Inr (x, d') \<Longrightarrow> platform_step d d'"
| record_celery_task_ids: "record_celery_task_ids rs d = Inr d' \<Longrightarrow> platform_step d d'"
| report_result: "opt_all (\<lambda>n. 0 \<le> n) duration \<Longrightarrow>
    report_result now execution_id status duration summary reason d = Inr (y, d') \<Longrightarrow>
    platform_step d d'"
| cancel_task: "cancel_task revoker now task_id reason d = Inr d' \<Longrightarrow> platform_step d d'"
| create_node: "create_node numeric now node_data d = Inr (n, d') \<Longrightarrow> platform_step d d'"
| report_status: "report_status numeric now node_id status_data d = Inr (r, d') \<Longrightarrow>
    platform_step d d'"
| report_heartbeat: "report_heartbeat now name host pid worker_status current reported d = Inr (h, d') \<Longrightarrow>
    platform_step d d'"
| report_retry_exhausted: "report_retry_exhausted now i name celery n m e d = Inr d' \<Longrightarrow>
    platform_step d d'"

inductive_cases platform_stepE: "platform_step d d'"

inductive platform_reachable :: "db \<Rightarrow> bool" where
  empty: "platform_reachable empty_db"
| step: "platform_reachable d \<Longrightarrow> platform_step d d' \<Longrightarrow> platform_reachable d'"

lemma platform_step_follows: "platform_step d d' \<Longrightarrow> db_inv d \<Longrightarrow> db_step d d'"
proof (induction rule: platform_step.induct)
  case (report_result duration now execution_id status summary reason d y d')
  then show ?case by (blast intro: report_result_step)
qed (blast intro: create_task_step generate_plan_step start_execution_step record_celery_step
    cancel_task_step create_node_step report_status_step report_heartbeat_step
    report_retry_exhausted_step)+

lemma platform_reachable_inv: "platform_reachable d \<Longrightarrow> db_inv d"
proof (induction rule: platform_reachable.induct)
  case (step d d')
  then show ?case using platform_step_follows by (simp add: db_step_def)
qed (rule db_inv_empty)

text \<open>New tasks start as initial flows; only \<open>create_task\<close> adds one.\<close>

lemma platform_reachable_flow:
  "platform_reachable d \<Longrightarrow> t \<in> set (dag_tasks d) \<Longrightarrow> flow_reachable (task_flow d t)"
  using platform_reachable_inv by (simp add: db_inv_def flows_reachable_def)

section \<open>Runs\<close>

text \<open>What steps keep of a task, they keep along every run.\<close>

definition platform_run :: "db \<Rightarrow> db \<Rightarrow> bool" where
  "platform_run = platform_step\<^sup>*\<^sup>*"

lemma run_reachable:
  assumes "platform_run d d'" and reach: "platform_reachable d"
  shows "platform_reachable d'"
  using assms(1) unfolding platform_run_def
  by (induction rule: rtranclp_induct) (blast intro: reach platform_reachable.step)+

lemma run_keeps_flow:
  assumes reach: "platform_reachable d" and run: "platform_run d d'"
    and t: "t \<in> set (dag_tasks d)" and P: "P (task_flow d t)"
    and step: "\<And>f g. flow_inv f \<Longrightarrow> flow_step f g \<Longrightarrow> P f \<Longrightarrow> P g"
  shows "\<exists>t' \<in> set (dag_tasks d'). dt_id t' = dt_id t \<and> P (task_flow d' t')"
  using run unfolding platform_run_def
proof (induction rule: rtranclp_induct)
  case base
  then show ?case using t P by blast
next
  case (step d1 d2)
  have "platform_reachable d1"
    using run_reachable [OF _ reach] step.hyps(1) by (simp add: platform_run_def)
  then have inv: "db_inv d1" by (rule platform_reachable_inv)
  from step.IH obtain t1 where t1: "t1 \<in> set (dag_tasks d1)" "dt_id t1 = dt_id t"
    "P (task_flow d1 t1)" by blast
  from platform_step_follows [OF step.hyps(2) inv] t1(1) obtain t2 where
    t2: "t2 \<in> set (dag_tasks d2)" "dt_id t2 = dt_id t1"
    and "task_flow d2 t2 = task_flow d1 t1 \<or> flow_step (task_flow d1 t1) (task_flow d2 t2)"
    unfolding db_step_def flows_follow_def by blast
  then have "P (task_flow d2 t2)"
    using t1 assms(5) [OF db_inv_flow [OF inv t1(1)]] by metis
  with t1 t2 show ?case by auto
qed

end
