(* ===== verification/Metrics_Service.thy ===== *)
theory Metrics_Service
  imports Task_Flow
begin

text \<open>
  \<open>app/services/metrics_service.py\<close>: the figures of one task. The counts are shown to be
  consistent with each other, and the rates to lie between 0 and 1.
\<close>

section \<open>Rates and durations\<close>

definition rate :: "int \<Rightarrow> int \<Rightarrow> pyfloat result" where
  "rate numerator denominator =
     (if denominator = 0 then Inr (Fin 0)
      else and_then (int_true_div numerator denominator) (\<lambda>q. Inr (py_round4 q)))"

text \<open>\<open>(b - a).total_seconds()\<close> divides the microseconds by a million.\<close>

definition elapsed_ms :: "datetime option \<Rightarrow> datetime option \<Rightarrow> int option result" where
  "elapsed_ms started_at finished_at =
     (case (started_at, finished_at) of
        (Some s, Some f) \<Rightarrow>
          and_then (int_true_div (f - s) 1000000) (\<lambda>total_seconds.
          and_then (py_round (f_mul total_seconds (lit 1000))) (\<lambda>n. Inr (Some n)))
      | _ \<Rightarrow> Inr None)"

section \<open>The figures of a task\<close>

record TaskMetricsRead =
  tm_task_id :: uuid
  tm_task_status :: TaskStatus
  tm_total_subtask_count :: int
  tm_success_subtask_count :: int
  tm_failed_subtask_count :: int
  tm_running_subtask_count :: int
  tm_execution_count :: int
  tm_success_execution_count :: int
  tm_failed_execution_count :: int
  tm_running_execution_count :: int
  tm_success_rate :: pyfloat
  tm_failure_rate :: pyfloat
  tm_total_execution_duration_ms :: int
  tm_average_execution_duration_ms :: "pyfloat option"
  tm_local_execution_count :: int
  tm_edge_execution_count :: int
  tm_offload_rate :: pyfloat
  tm_task_elapsed_duration_ms :: "int option"

text \<open>\<open>sum(p(x) for x in xs)\<close> of truth values.\<close>

definition count_if :: "('a \<Rightarrow> bool) \<Rightarrow> 'a list \<Rightarrow> int" where
  "count_if p xs = int (length (filter p xs))"

text \<open>\<open>counts.get(key, 0)\<close>\<close>

definition get_count :: "('k \<Rightarrow> int option) \<Rightarrow> 'k \<Rightarrow> int" where
  "get_count counts k = (case counts k of None \<Rightarrow> 0 | Some n \<Rightarrow> n)"

definition recorded_durations :: "execution_record list \<Rightarrow> int list" where
  "recorded_durations records = List.map_filter er_duration_ms records"

definition average_duration :: "int list \<Rightarrow> pyfloat option result" where
  "average_duration durations =
     (if durations = [] then Inr None
      else and_then (int_true_div (sum_list durations) (int (length durations)))
        (\<lambda>q. Inr (Some (py_round4 q))))"

definition get_task_metrics :: "uuid \<Rightarrow> db \<Rightarrow> TaskMetricsRead result" where
  "get_task_metrics task_id d =
     and_then (get_task d task_id) (\<lambda>task.
     let records = list_all_by_task d task_id;
         node_type_counts = count_by_node_type d task_id;
         subtasks = task_subtasks d (dt_id task);
         execution_count = int (length records);
         success_execution_count = count_if (\<lambda>r. er_status r = ExecutionStatus.SUCCESS) records;
         failed_execution_count = count_if (\<lambda>r. er_status r \<in>
           {ExecutionStatus.FAILED, ExecutionStatus.TIMEOUT, ExecutionStatus.CANCELED}) records;
         running_execution_count = count_if (\<lambda>r. er_status r = ExecutionStatus.RUNNING) records;
         durations = recorded_durations records;
         edge_count = get_count node_type_counts NodeType.EDGE in
     and_then (rate success_execution_count execution_count) (\<lambda>success_rate.
     and_then (rate failed_execution_count execution_count) (\<lambda>failure_rate.
     and_then (average_duration durations) (\<lambda>average.
     and_then (rate edge_count execution_count) (\<lambda>offload_rate.
     and_then (elapsed_ms (dt_started_at task) (dt_finished_at task)) (\<lambda>elapsed.
     Inr \<lparr>tm_task_id = dt_id task, tm_task_status = dt_status task,
          tm_total_subtask_count = int (length subtasks),
          tm_success_subtask_count = count_if (\<lambda>s. ds_status s = SubtaskStatus.SUCCESS) subtasks,
          tm_failed_subtask_count = count_if (\<lambda>s. ds_status s = SubtaskStatus.FAILED) subtasks,
          tm_running_subtask_count = count_if (\<lambda>s. ds_status s = SubtaskStatus.RUNNING) subtasks,
          tm_execution_count = execution_count,
          tm_success_execution_count = success_execution_count,
          tm_failed_execution_count = failed_execution_count,
          tm_running_execution_count = running_execution_count,
          tm_success_rate = success_rate, tm_failure_rate = failure_rate,
          tm_total_execution_duration_ms = sum_list durations,
          tm_average_execution_duration_ms = average,
          tm_local_execution_count = get_count node_type_counts NodeType.UAV,
          tm_edge_execution_count = edge_count, tm_offload_rate = offload_rate,
          tm_task_elapsed_duration_ms = elapsed\<rparr>))))))"

section \<open>Rates lie between 0 and 1\<close>

lemma fl_unit:
  assumes "0 \<le> x" and "x \<le> 1"
  obtains y where "fl x = Fin y" and "0 \<le> y" and "y \<le> 1"
  using fl_mono [OF assms fl_one] by blast

lemma rate_unit:
  assumes "0 \<le> n" and "n \<le> m"
  shows "\<exists>x. rate n m = Inr (Fin x) \<and> 0 \<le> x \<and> x \<le> 1"
proof (cases "m = 0")
  case False
  with assms have "0 \<le> (of_int n :: rat) / of_int m" "(of_int n :: rat) / of_int m \<le> 1"
    by simp_all
  then obtain y where y: "fl (of_int n / of_int m) = Fin y" "0 \<le> y" "y \<le> 1" by (rule fl_unit)
  let ?r = "round_half_even (y * 10000)"
  have "0 \<le> ?r" using y(2) by (intro round_half_even_nonneg) simp
  moreover have "?r \<le> round_half_even (of_int 10000)"
    using y(3) by (intro round_half_even_mono) simp
  then have "?r \<le> 10000" by (simp only: round_half_even_of_int)
  ultimately have "0 \<le> (of_int ?r :: rat) / 10000" "(of_int ?r :: rat) / 10000 \<le> 1"
    by (simp_all add: of_int_le_numeral_iff)
  then obtain z where "fl (of_int ?r / 10000) = Fin z" "0 \<le> z" "z \<le> 1" by (rule fl_unit)
  with y(1) False show ?thesis by (simp add: rate_def int_true_div_def)
qed (simp add: rate_def)

section \<open>The counts agree\<close>

lemma count_if_le: "count_if p xs \<le> int (length xs)"
  by (simp add: count_if_def)

lemma count_if_nonneg: "0 \<le> count_if p xs"
  by (simp add: count_if_def)

lemma execution_counts_add:
  "count_if (\<lambda>r. er_status r = ExecutionStatus.SUCCESS) rs +
   count_if (\<lambda>r. er_status r \<in>
     {ExecutionStatus.FAILED, ExecutionStatus.TIMEOUT, ExecutionStatus.CANCELED}) rs +
   count_if (\<lambda>r. er_status r = ExecutionStatus.RUNNING) rs = int (length rs)"
proof (induction rs)
  case (Cons r rs)
  then show ?case by (cases "er_status r") (simp_all add: count_if_def)
qed (simp add: count_if_def)

lemma joined_node:
  assumes "distinct (map nd_id ns)" and "i \<in> nd_id ` set ns"
  shows "\<exists>n \<in> set ns. filter (\<lambda>n. nd_id n = i) ns = [n]"
  using assms
proof (induction ns)
  case (Cons n ns)
  show ?case
  proof (cases "nd_id n = i")
    case True
    with Cons.prems(1) have "filter (\<lambda>n. nd_id n = i) ns = []"
      unfolding filter_empty_conv by (auto simp: image_iff)
    with True show ?thesis by simp
  qed (use Cons in auto)
qed simp

lemma node_type_counts_add:
  assumes dist: "distinct (map nd_id (nodes d))"
    and known: "\<forall>r \<in> set (execution_records d). er_node_id r \<in> nd_id ` set (nodes d)"
  shows "get_count (count_by_node_type d t) NodeType.UAV +
    get_count (count_by_node_type d t) NodeType.EDGE =
    int (length (filter (\<lambda>r. er_task_id r = t) (execution_records d)))"
proof -
  let ?join = "\<lambda>rs. concat (map (\<lambda>r. filter (\<lambda>n. nd_id n = er_node_id r) (nodes d)) rs)"
  have len: "length (?join rs) = length rs"
    if "\<forall>r \<in> set rs. er_node_id r \<in> nd_id ` set (nodes d)" for rs
    using that
  proof (induction rs)
    case (Cons r rs)
    then show ?case using joined_node [OF dist, of "er_node_id r"] by auto
  qed simp
  have split: "length (filter (\<lambda>n. nd_node_type n = NodeType.UAV) ns) +
      length (filter (\<lambda>n. nd_node_type n = NodeType.EDGE) ns) = length ns" for ns
  proof (induction ns)
    case (Cons n ns)
    then show ?case by (cases "nd_node_type n") simp_all
  qed simp
  have add: "int (length (filter (\<lambda>n. nd_node_type n = NodeType.UAV) ns)) +
      int (length (filter (\<lambda>n. nd_node_type n = NodeType.EDGE) ns)) = int (length ns)" for ns
    using split [of ns] by linarith
  have get: "get_count (count_by_node_type d t) nt = int (length (filter (\<lambda>n. nd_node_type n = nt)
      (?join (filter (\<lambda>r. er_task_id r = t) (execution_records d)))))" for nt
    by (simp add: get_count_def count_by_node_type_def Let_def)
  show ?thesis
    unfolding get add using len [of "filter (\<lambda>r. er_task_id r = t) (execution_records d)"] known
    by simp
qed

lemma metrics_consistent:
  assumes inv: "db_inv d" and run: "get_task_metrics task_id d = Inr m"
  shows "tm_success_execution_count m + tm_failed_execution_count m +
      tm_running_execution_count m = tm_execution_count m"
    and "tm_local_execution_count m + tm_edge_execution_count m = tm_execution_count m"
    and "\<exists>x. tm_success_rate m = Fin x \<and> 0 \<le> x \<and> x \<le> 1"
    and "\<exists>x. tm_failure_rate m = Fin x \<and> 0 \<le> x \<and> x \<le> 1"
    and "\<exists>x. tm_offload_rate m = Fin x \<and> 0 \<le> x \<and> x \<le> 1"
proof -
  let ?rs = "list_all_by_task d task_id"
  have "distinct (map nd_id (nodes d))"
    and "\<forall>r \<in> set (execution_records d). er_node_id r \<in> nd_id ` set (nodes d)"
    using inv by (auto simp: db_inv_def schema_ok_def table_ok_defs list_all_iff)
  then have nt: "get_count (count_by_node_type d task_id) NodeType.UAV +
      get_count (count_by_node_type d task_id) NodeType.EDGE = int (length ?rs)"
    by (simp add: node_type_counts_add list_all_by_task_def)
  moreover have pos: "0 \<le> get_count (count_by_node_type d task_id) nt" for nt
    by (simp add: get_count_def count_by_node_type_def Let_def)
  ultimately have le: "get_count (count_by_node_type d task_id) NodeType.EDGE \<le> int (length ?rs)"
    by (metis le_add_same_cancel2)
  note flat = run [unfolded get_task_metrics_def Let_def and_then_Inr_iff]
  show "tm_success_execution_count m + tm_failed_execution_count m +
      tm_running_execution_count m = tm_execution_count m"
    using flat by (elim exE conjE) (clarsimp simp: execution_counts_add simp del: insert_iff)
  show "tm_local_execution_count m + tm_edge_execution_count m = tm_execution_count m"
    using flat by (elim exE conjE) (clarsimp simp: nt)
  have "\<exists>x. rate (count_if p ?rs) (int (length ?rs)) = Inr (Fin x) \<and> 0 \<le> x \<and> x \<le> 1" for p
    by (rule rate_unit [OF count_if_nonneg count_if_le])
  then have unit: "\<exists>x. u = Fin x \<and> 0 \<le> x \<and> x \<le> 1"
    if "rate (count_if p ?rs) (int (length ?rs)) = Inr u" for p u
    using that by (metis sum.inject(2))
  show "\<exists>x. tm_success_rate m = Fin x \<and> 0 \<le> x \<and> x \<le> 1"
    using flat by (elim exE conjE) (drule unit, clarsimp)
  show "\<exists>x. tm_failure_rate m = Fin x \<and> 0 \<le> x \<and> x \<le> 1"
    using flat by (elim exE conjE) (drule unit, drule unit, clarsimp)
  show "\<exists>x. tm_offload_rate m = Fin x \<and> 0 \<le> x \<and> x \<le> 1"
    using flat rate_unit [OF pos le] by (elim exE conjE) clarsimp
qed

end
