(* ===== verification/Queue_Monitoring.thy ===== *)
theory Queue_Monitoring
  imports Config
begin

text \<open>
  \<open>app/services/queue_monitoring_service.py\<close>: the state of the RabbitMQ queues as the
  management API reports it. The API is a parameter, a \<open>transport\<close> that answers a request
  with a JSON document or an exception and changes the broker. Strings are UTF-8 byte
  sequences, so \<open>quote\<close> works byte by byte.
\<close>

section \<open>Requests to the management API\<close>

record http_request =
  rq_method :: string
  rq_url :: string
  rq_body :: "json option"
  rq_headers :: "(string \<times> string) list"
  rq_timeout :: pyfloat

type_synonym 's transport = "http_request \<Rightarrow> 's \<Rightarrow> json result \<times> 's"

text \<open>\<open>urllib.parse.quote(s, safe='')\<close>: everything but letters, digits and \<open>_.-~\<close> is escaped.\<close>

definition always_safe :: "char \<Rightarrow> bool" where
  "always_safe c =
     (let n = of_char c :: nat in
      48 \<le> n \<and> n \<le> 57 \<or> 65 \<le> n \<and> n \<le> 90 \<or> 97 \<le> n \<and> n \<le> 122 \<or> c \<in> set ''_.-~'')"

definition hex_digit :: "nat \<Rightarrow> char" where
  "hex_digit n = (if n < 10 then char_of (48 + n) else char_of (55 + n))"

fun quote :: "string \<Rightarrow> string" where
  "quote [] = []"
| "quote (c # cs) =
     (if always_safe c then c # quote cs
      else CHR ''%'' # hex_digit (of_char c div 16) # hex_digit (of_char c mod 16) # quote cs)"

text \<open>\<open>s.rstrip(c)\<close>\<close>

definition rstrip :: "char \<Rightarrow> string \<Rightarrow> string" where
  "rstrip c s = rev (dropWhile (\<lambda>x. x = c) (rev s))"

text \<open>\<open>base64.b64encode\<close>\<close>

definition base64_alphabet :: string where
  "base64_alphabet = ''ABCDEFGHIJKLMNOPQRSTUVWXYZabcdefghijklmnopqrstuvwxyz0123456789+/''"

definition base64_digit :: "nat \<Rightarrow> char" where
  "base64_digit n = base64_alphabet ! (n mod 64)"

fun b64encode :: "nat list \<Rightarrow> string" where
  "b64encode [] = []"
| "b64encode [a] = [base64_digit (a div 4), base64_digit (a mod 4 * 16), CHR ''='', CHR ''='']"
| "b64encode [a, b] =
     [base64_digit (a div 4), base64_digit (a mod 4 * 16 + b div 16),
      base64_digit (b mod 16 * 4), CHR ''='']"
| "b64encode (a # b # c # rest) =
     base64_digit (a div 4) # base64_digit (a mod 4 * 16 + b div 16) #
     base64_digit (b mod 16 * 4 + c div 64) # base64_digit (c mod 64) # b64encode rest"

definition build_basic_auth_header :: "string \<Rightarrow> string \<Rightarrow> string" where
  "build_basic_auth_header username password =
     ''Basic '' @ b64encode (map of_char (username @ '':'' @ password))"

definition queue_url :: "Settings \<Rightarrow> string \<Rightarrow> string" where
  "queue_url settings queue_name =
     rstrip (CHR ''/'') (rabbitmq_management_url settings) @ ''/queues/'' @
     quote (rabbitmq_management_vhost settings) @ ''/'' @ quote queue_name"

section \<open>Reading a payload\<close>

text \<open>\<open>payload.get(key, 0)\<close> as an integer; converting a non-finite float raises.\<close>

definition int_value :: "json_object \<Rightarrow> string \<Rightarrow> int result" where
  "int_value payload key =
     (case map_of payload key of
        None \<Rightarrow> Inr 0
      | Some (JBool b) \<Rightarrow> Inr (if b then 1 else 0)
      | Some (JInt n) \<Rightarrow> Inr n
      | Some (JFloat x) \<Rightarrow> int_of_float x
      | Some _ \<Rightarrow> Inr 0)"

text \<open>\<open>except (HTTPError, URLError, OSError, TimeoutError, ValueError)\<close>, with \<open>str(exc)\<close>\<close>

definition transport_error :: "exc \<Rightarrow> string option" where
  "transport_error e = (case e of OSError m \<Rightarrow> Some m | ValueError m \<Rightarrow> Some m | _ \<Rightarrow> None)"

section \<open>Snapshots\<close>

record QueueMonitoringSnapshot =
  qm_queue_name :: string
  qm_enabled :: bool
  qm_available :: bool
  qm_messages :: int
  qm_messages_ready :: int
  qm_messages_unacknowledged :: int
  qm_consumers :: int

definition empty_snapshot :: "string \<Rightarrow> bool \<Rightarrow> QueueMonitoringSnapshot" where
  "empty_snapshot queue_name enabled =
     \<lparr>qm_queue_name = queue_name, qm_enabled = enabled, qm_available = False, qm_messages = 0,
      qm_messages_ready = 0, qm_messages_unacknowledged = 0, qm_consumers = 0\<rparr>"

definition fetch_queue_payload ::
  "'s transport \<Rightarrow> Settings \<Rightarrow> string \<Rightarrow> 's \<Rightarrow> json_object result \<times> 's" where
  "fetch_queue_payload transport settings queue_name w =
     (let (r, w') = transport
        \<lparr>rq_method = ''GET'', rq_url = queue_url settings queue_name, rq_body = None,
         rq_headers = [(''Accept'', ''application/json''),
           (''Authorization'', build_basic_auth_header (rabbitmq_management_username settings)
              (rabbitmq_management_password settings))],
         rq_timeout = rabbitmq_management_timeout_seconds settings\<rparr> w in
      (and_then r (\<lambda>payload. case payload of
         JObj obj \<Rightarrow> Inr obj
       | _ \<Rightarrow> Inl (ValueError ''RabbitMQ queue payload must be a JSON object'')), w'))"

definition snapshot_of_payload :: "string \<Rightarrow> json_object \<Rightarrow> QueueMonitoringSnapshot result" where
  "snapshot_of_payload queue_name payload =
     and_then (int_value payload ''messages'') (\<lambda>messages.
     and_then (int_value payload ''messages_ready'') (\<lambda>ready.
     and_then (int_value payload ''messages_unacknowledged'') (\<lambda>unacknowledged.
     and_then (int_value payload ''consumers'') (\<lambda>consumers.
     Inr \<lparr>qm_queue_name = queue_name, qm_enabled = True, qm_available = True,
          qm_messages = messages, qm_messages_ready = ready,
          qm_messages_unacknowledged = unacknowledged, qm_consumers = consumers\<rparr>))))"

definition load_snapshot ::
  "'s transport \<Rightarrow> Settings \<Rightarrow> string \<Rightarrow> 's \<Rightarrow> QueueMonitoringSnapshot result \<times> 's" where
  "load_snapshot transport settings queue_name w =
     (if \<not> rabbitmq_queue_monitoring_enabled settings
      then (Inr (empty_snapshot queue_name False), w)
      else
        (case fetch_queue_payload transport settings queue_name w of
           (Inl e, w') \<Rightarrow>
             ((case transport_error e of
                 Some _ \<Rightarrow> Inr (empty_snapshot queue_name True)
               | None \<Rightarrow> Inl e), w')
         | (Inr payload, w') \<Rightarrow> (snapshot_of_payload queue_name payload, w')))"

text \<open>\<open>list(dict.fromkeys(xs))\<close> keeps the first of equal elements, in order.\<close>

fun dict_fromkeys :: "'a list \<Rightarrow> 'a list" where
  "dict_fromkeys [] = []"
| "dict_fromkeys (x # xs) = x # filter (\<lambda>y. y \<noteq> x) (dict_fromkeys xs)"

definition queue_names :: "Settings \<Rightarrow> string list" where
  "queue_names settings =
     dict_fromkeys [celery_task_default_queue settings, celery_task_dead_letter_queue settings]"

fun load_each ::
  "'s transport \<Rightarrow> Settings \<Rightarrow> string list \<Rightarrow> 's \<Rightarrow> QueueMonitoringSnapshot list result \<times> 's" where
  "load_each transport settings [] w = (Inr [], w)"
| "load_each transport settings (q # qs) w =
     io_bind (load_snapshot transport settings q) (\<lambda>x.
     io_bind (load_each transport settings qs) (\<lambda>xs. io_return (x # xs))) w"

definition load_snapshots ::
  "'s transport \<Rightarrow> Settings \<Rightarrow> 's \<Rightarrow> QueueMonitoringSnapshot list result \<times> 's" where
  "load_snapshots transport settings = load_each transport settings (queue_names settings)"

text \<open>
  \<open>GET /dead-letter-queue\<close>: \<open>next(...)\<close> over the snapshots raises \<open>StopIteration\<close> when
  none has the name.
\<close>

definition get_dead_letter_queue_snapshot ::
  "'s transport \<Rightarrow> Settings \<Rightarrow> 's \<Rightarrow> QueueMonitoringSnapshot result \<times> 's" where
  "get_dead_letter_queue_snapshot transport settings w =
     (let (r, w') = load_snapshots transport settings w in
      (and_then r (\<lambda>xs.
        case find (\<lambda>x. qm_queue_name x = celery_task_dead_letter_queue settings) xs of
          None \<Rightarrow> Inl StopIteration
        | Some x \<Rightarrow> Inr x), w'))"

section \<open>Names and URLs\<close>

lemma dict_fromkeys_distinct: "distinct (dict_fromkeys xs)" "set (dict_fromkeys xs) = set xs"
  by (induction xs) auto

lemma queue_names_mem: "celery_task_dead_letter_queue settings \<in> set (queue_names settings)"
  by (simp add: queue_names_def dict_fromkeys_distinct del: dict_fromkeys.simps)

lemma nat_of_char_less: "(of_char c :: nat) < 256"
  using range_nat_of_char by (metis atLeastLessThan_iff rangeI)

lemma hex_digit_code:
  "k < 16 \<Longrightarrow> (of_char (hex_digit k) :: nat) = (if k < 10 then 48 + k else 55 + k)"
  by (simp add: hex_digit_def)

lemma hex_digit_inj:
  assumes "m < 16" and "n < 16"
  shows "hex_digit m = hex_digit n \<longleftrightarrow> m = n"
proof
  assume "hex_digit m = hex_digit n"
  then have "(if m < 10 then 48 + m else 55 + m) = (if n < 10 then 48 + n else 55 + n)"
    using hex_digit_code assms by metis
  then show "m = n" by (simp split: if_splits)
qed simp

text \<open>Distinct names have distinct escapes, so distinct queues have distinct URLs.\<close>

lemma percent_not_safe: "\<not> always_safe CHR ''%''"
  by (simp add: always_safe_def Let_def)

lemma quote_inj: "quote s = quote t \<longleftrightarrow> s = t"
proof
  show "quote s = quote t \<Longrightarrow> s = t"
  proof (induction s arbitrary: t)
    case Nil
    then show ?case by (cases t) (auto split: if_splits)
  next
    case (Cons c s)
    then obtain c' t' where t: "t = c' # t'" by (cases t) (auto split: if_splits)
    have lt: "of_char x < (256 :: nat)" for x :: char by (rule nat_of_char_less)
    have div: "of_char x div 16 < (16 :: nat)" for x :: char
      by (rule less_mult_imp_div_less) (use lt [of x] in simp)
    have eq: "x = y" if "of_char x div 16 = (of_char y div 16 :: nat)"
      "of_char x mod 16 = (of_char y mod 16 :: nat)" for x y :: char
      using that by (metis char_of_char div_mult_mod_eq)
    show ?case
    proof (cases "always_safe c")
      case True
      then have "always_safe c'"
        using Cons.prems percent_not_safe unfolding t by (auto split: if_splits)
      with True Cons show ?thesis unfolding t by simp
    next
      case False
      then have "\<not> always_safe c'"
        using Cons.prems percent_not_safe unfolding t by (auto split: if_splits)
      with False Cons div show ?thesis
        unfolding t by (auto simp: hex_digit_inj intro: eq)
    qed
  qed
qed simp

lemma queue_url_inj: "queue_url settings p = queue_url settings q \<longleftrightarrow> p = q"
  by (simp add: queue_url_def quote_inj)

section \<open>What a snapshot says\<close>

lemma load_snapshot_disabled:
  "\<not> rabbitmq_queue_monitoring_enabled settings \<Longrightarrow>
     load_snapshot transport settings q w = (Inr (empty_snapshot q False), w)"
  by (simp add: load_snapshot_def)

lemma load_snapshot_name:
  assumes "load_snapshot transport settings q w = (Inr x, w')"
  shows "qm_queue_name x = q"
  using assms
  by (auto simp: load_snapshot_def empty_snapshot_def snapshot_of_payload_def result_simps
      split: if_splits prod.splits sum.splits option.splits)

lemma load_snapshot_failure:
  assumes "rabbitmq_queue_monitoring_enabled settings"
    and "fetch_queue_payload transport settings q w = (Inl e, w')" and "transport_error e = Some m"
  shows "load_snapshot transport settings q w = (Inr (empty_snapshot q True), w')"
  using assms by (simp add: load_snapshot_def)

lemma load_each_names:
  "load_each transport settings qs w = (Inr xs, w') \<Longrightarrow> map qm_queue_name xs = qs"
  by (induction qs arbitrary: xs w)
    (auto simp: result_simps dest: load_snapshot_name)

lemma load_snapshots_names:
  "load_snapshots transport settings w = (Inr xs, w') \<Longrightarrow>
     map qm_queue_name xs = queue_names settings"
  by (simp add: load_snapshots_def load_each_names)

text \<open>The dead-letter queue is always among the snapshots.\<close>

lemma dead_letter_snapshot_found:
  assumes "load_snapshots transport settings w = (Inr xs, w')"
  shows "\<exists>x \<in> set xs. get_dead_letter_queue_snapshot transport settings w = (Inr x, w') \<and>
    qm_queue_name x = celery_task_dead_letter_queue settings"
proof -
  from load_snapshots_names [OF assms]
  have "celery_task_dead_letter_queue settings \<in> qm_queue_name ` set xs"
    using queue_names_mem [of settings] by (metis list.set_map)
  then have "find (\<lambda>x. qm_queue_name x = celery_task_dead_letter_queue settings) xs \<noteq> None"
    by (auto simp: find_None_iff)
  then obtain x where x: "find (\<lambda>x. qm_queue_name x = celery_task_dead_letter_queue settings) xs = Some x"
    by blast
  then have "x \<in> set xs" "qm_queue_name x = celery_task_dead_letter_queue settings"
    by (auto simp: find_Some_iff)
  with assms x show ?thesis by (auto simp: get_dead_letter_queue_snapshot_def)
qed

end
