(* ===== verification/Dead_Letter.thy ===== *)
theory Dead_Letter
  imports Queue_Monitoring
begin

text \<open>
  \<open>app/services/dead_letter_queue_service.py\<close> (peeking at the dead-letter queue) and
  \<open>dead_letter_flow_verifier.py\<close> (the probe that is published, rejected and looked for in
  the dead-letter queue). \<open>json.dumps\<close> on a message and \<open>str\<close> on a value that is no string
  are parameters, and so are the clock and \<open>sleep\<close>; the polling loop may run forever and
  is a partial function.
\<close>

section \<open>Reading messages\<close>

text \<open>\<open>bool(x)\<close> of a JSON value\<close>

fun truthy :: "json \<Rightarrow> bool" where
  "truthy JNull = False"
| "truthy (JBool b) = b"
| "truthy (JInt n) = (n \<noteq> 0)"
| "truthy (JFloat x) = (x \<noteq> Fin 0)"
| "truthy (JStr s) = (s \<noteq> [])"
| "truthy (JList xs) = (xs \<noteq> [])"
| "truthy (JObj kvs) = (kvs \<noteq> [])"

record DeadLetterQueueMessage =
  dl_payload :: "json option"
  dl_payload_encoding :: "string option"
  dl_exchange :: "string option"
  dl_routing_key :: "string option"
  dl_redelivered :: bool
  dl_message_count :: int
  dl_properties :: json_object
  dl_headers :: json_object

record DeadLetterQueuePeekResult =
  dp_queue_name :: string
  dp_enabled :: bool
  dp_available :: bool
  dp_items :: "DeadLetterQueueMessage list"
  dp_error_message :: "string option"

definition optional_str :: "(json \<Rightarrow> string) \<Rightarrow> json option \<Rightarrow> string option" where
  "optional_str py_str v =
     (case v of
        None \<Rightarrow> None
      | Some JNull \<Rightarrow> None
      | Some (JStr s) \<Rightarrow> Some s
      | Some x \<Rightarrow> Some (py_str x))"

text \<open>\<open>x if isinstance(x, dict) else {}\<close>\<close>

definition object_or_empty :: "json option \<Rightarrow> json_object" where
  "object_or_empty v = (case v of Some (JObj obj) \<Rightarrow> obj | _ \<Rightarrow> [])"

definition message_from_payload ::
  "(json \<Rightarrow> string) \<Rightarrow> json_object \<Rightarrow> DeadLetterQueueMessage result" where
  "message_from_payload py_str payload =
     (let properties = object_or_empty (map_of payload ''properties'');
          headers = object_or_empty (map_of properties ''headers'') in
      and_then (int_value payload ''message_count'') (\<lambda>message_count.
      Inr \<lparr>dl_payload =
             (case map_of payload ''payload'' of None \<Rightarrow> None | Some JNull \<Rightarrow> None | x \<Rightarrow> x),
           dl_payload_encoding = optional_str py_str (map_of payload ''payload_encoding''),
           dl_exchange = optional_str py_str (map_of payload ''exchange''),
           dl_routing_key = optional_str py_str (map_of payload ''routing_key''),
           dl_redelivered =
             (case map_of payload ''redelivered'' of None \<Rightarrow> False | Some v \<Rightarrow> truthy v),
           dl_message_count = message_count, dl_properties = properties,
           dl_headers = headers\<rparr>))"

definition as_object :: "json \<Rightarrow> json_object option" where
  "as_object v = (case v of JObj obj \<Rightarrow> Some obj | _ \<Rightarrow> None)"

text \<open>The two checks on a list of messages, with the messages of the caller.\<close>

definition object_list :: "string \<Rightarrow> string \<Rightarrow> json \<Rightarrow> json_object list result" where
  "object_list not_list not_objects payload =
     (case payload of
        JList items \<Rightarrow>
          if list_all (\<lambda>v. as_object v \<noteq> None) items then Inr (List.map_filter as_object items)
          else Inl (ValueError not_objects)
      | _ \<Rightarrow> Inl (ValueError not_list))"

definition auth_header :: "Settings \<Rightarrow> string \<times> string" where
  "auth_header settings =
     (''Authorization'', build_basic_auth_header (rabbitmq_management_username settings)
        (rabbitmq_management_password settings))"

definition get_body :: "int \<Rightarrow> string \<Rightarrow> int \<Rightarrow> json" where
  "get_body count ackmode trunc =
     JObj [(''count'', JInt count), (''ackmode'', JStr ackmode), (''encoding'', JStr ''auto''),
       (''truncate'', JInt trunc)]"

definition fetch_messages ::
  "'s transport \<Rightarrow> Settings \<Rightarrow> int \<Rightarrow> int \<Rightarrow> 's \<Rightarrow> json_object list result \<times> 's" where
  "fetch_messages transport settings limit trunc =
     io_bind (transport
       \<lparr>rq_method = ''POST'',
        rq_url = queue_url settings (celery_task_dead_letter_queue settings) @ ''/get'',
        rq_body = Some (get_body limit ''ack_requeue_true'' trunc),
        rq_headers = [(''Accept'', ''application/json''), (''Content-Type'', ''application/json''),
          auth_header settings],
        rq_timeout = rabbitmq_management_timeout_seconds settings\<rparr>)
     (\<lambda>payload. io_result (object_list ''RabbitMQ DLQ message payload must be a JSON list''
        ''RabbitMQ DLQ message items must be JSON objects'' payload))"

definition peek_messages ::
  "(json \<Rightarrow> string) \<Rightarrow> 's transport \<Rightarrow> Settings \<Rightarrow> int \<Rightarrow> int \<Rightarrow> 's \<Rightarrow>
   DeadLetterQueuePeekResult result \<times> 's" where
  "peek_messages py_str transport settings limit trunc w =
     (let queue_name = celery_task_dead_letter_queue settings in
      if \<not> rabbitmq_queue_monitoring_enabled settings
      then (Inr \<lparr>dp_queue_name = queue_name, dp_enabled = False, dp_available = False,
                 dp_items = [], dp_error_message = None\<rparr>, w)
      else
        (case fetch_messages transport settings limit trunc w of
           (Inl e, w') \<Rightarrow>
             ((case transport_error e of
                 None \<Rightarrow> Inl e
               | Some m \<Rightarrow> Inr \<lparr>dp_queue_name = queue_name, dp_enabled = True,
                   dp_available = False, dp_items = [], dp_error_message = Some m\<rparr>), w')
         | (Inr payload, w') \<Rightarrow>
             (and_then (map_result (message_from_payload py_str) payload) (\<lambda>items.
              Inr \<lparr>dp_queue_name = queue_name, dp_enabled = True, dp_available = True,
                   dp_items = items, dp_error_message = None\<rparr>), w')))"

section \<open>Requests of the verifier\<close>

definition request_json ::
  "'s transport \<Rightarrow> Settings \<Rightarrow> string \<Rightarrow> string \<Rightarrow> json option \<Rightarrow> 's \<Rightarrow> json result \<times> 's" where
  "request_json transport settings verb url body =
     transport \<lparr>rq_method = verb, rq_url = url, rq_body = body,
       rq_headers = [(''Accept'', ''application/json''), auth_header settings] @
         (case body of None \<Rightarrow> [] | Some _ \<Rightarrow> [(''Content-Type'', ''application/json'')]),
       rq_timeout = rabbitmq_management_timeout_seconds settings\<rparr>"

definition base_url :: "Settings \<Rightarrow> string" where
  "base_url settings = rstrip (CHR ''/'') (rabbitmq_management_url settings)"

definition vhost :: "Settings \<Rightarrow> string" where
  "vhost settings = quote (rabbitmq_management_vhost settings)"

definition binding_url :: "Settings \<Rightarrow> string \<Rightarrow> string \<Rightarrow> string" where
  "binding_url settings exchange_name queue_name =
     base_url settings @ ''/bindings/'' @ vhost settings @ ''/e/'' @ quote exchange_name @ ''/q/'' @
     quote queue_name"

definition exchange_url :: "Settings \<Rightarrow> string \<Rightarrow> string" where
  "exchange_url settings exchange_name =
     base_url settings @ ''/exchanges/'' @ vhost settings @ ''/'' @ quote exchange_name"

definition exchange_publish_url :: "Settings \<Rightarrow> string" where
  "exchange_publish_url settings =
     exchange_url settings (celery_task_default_exchange settings) @ ''/publish''"

definition main_queue_has_dead_letter_config ::
  "'s transport \<Rightarrow> Settings \<Rightarrow> 's \<Rightarrow> bool result \<times> 's" where
  "main_queue_has_dead_letter_config transport settings =
     io_bind (request_json transport settings ''GET''
       (queue_url settings (celery_task_default_queue settings)) None)
     (\<lambda>payload. io_result (case as_object payload of
         None \<Rightarrow> Inl (ValueError ''RabbitMQ queue detail payload must be a JSON object'')
       | Some obj \<Rightarrow>
           (case map_of obj ''arguments'' of
              Some (JObj arguments) \<Rightarrow>
                Inr (map_of arguments ''x-dead-letter-exchange'' =
                       Some (JStr (celery_task_dead_letter_exchange settings)) \<and>
                     map_of arguments ''x-dead-letter-routing-key'' =
                       Some (JStr (celery_task_dead_letter_routing_key settings)))
            | _ \<Rightarrow> Inr False)))"

definition declare_probe_queue ::
  "'s transport \<Rightarrow> Settings \<Rightarrow> string \<Rightarrow> 's \<Rightarrow> json result \<times> 's" where
  "declare_probe_queue transport settings probe_queue =
     request_json transport settings ''PUT'' (queue_url settings probe_queue)
       (Some (JObj [(''durable'', JBool False), (''auto_delete'', JBool True),
          (''arguments'', JObj
             [(''x-dead-letter-exchange'', JStr (celery_task_dead_letter_exchange settings)),
              (''x-dead-letter-routing-key'',
                 JStr (celery_task_dead_letter_routing_key settings))])]))"

definition declare_dead_letter_exchange ::
  "'s transport \<Rightarrow> Settings \<Rightarrow> 's \<Rightarrow> json result \<times> 's" where
  "declare_dead_letter_exchange transport settings =
     request_json transport settings ''PUT''
       (exchange_url settings (celery_task_dead_letter_exchange settings))
       (Some (JObj [(''type'', JStr ''direct''), (''durable'', JBool True),
          (''auto_delete'', JBool False), (''internal'', JBool False), (''arguments'', JObj [])]))"

definition declare_dead_letter_queue ::
  "'s transport \<Rightarrow> Settings \<Rightarrow> 's \<Rightarrow> json result \<times> 's" where
  "declare_dead_letter_queue transport settings =
     request_json transport settings ''PUT''
       (queue_url settings (celery_task_dead_letter_queue settings))
       (Some (JObj [(''durable'', JBool True), (''auto_delete'', JBool False),
          (''arguments'', JObj [])]))"

definition bind_dead_letter_queue ::
  "'s transport \<Rightarrow> Settings \<Rightarrow> 's \<Rightarrow> json result \<times> 's" where
  "bind_dead_letter_queue transport settings =
     request_json transport settings ''POST''
       (binding_url settings (celery_task_dead_letter_exchange settings)
          (celery_task_dead_letter_queue settings))
       (Some (JObj [(''routing_key'', JStr (celery_task_dead_letter_routing_key settings))]))"

definition bind_probe_queue ::
  "'s transport \<Rightarrow> Settings \<Rightarrow> string \<Rightarrow> string \<Rightarrow> 's \<Rightarrow> json result \<times> 's" where
  "bind_probe_queue transport settings probe_queue routing_key =
     request_json transport settings ''POST''
       (binding_url settings (celery_task_default_exchange settings) probe_queue)
       (Some (JObj [(''routing_key'', JStr routing_key)]))"

text \<open>The payload of the probe is itself a JSON text.\<close>

definition publish_probe_message ::
  "(json \<Rightarrow> string) \<Rightarrow> 's transport \<Rightarrow> Settings \<Rightarrow> string \<Rightarrow> string \<Rightarrow> 's \<Rightarrow> bool result \<times> 's" where
  "publish_probe_message dumps transport settings probe_id routing_key =
     io_bind (request_json transport settings ''POST'' (exchange_publish_url settings)
       (Some (JObj
          [(''properties'', JObj [(''delivery_mode'', JInt 2),
              (''content_type'', JStr ''application/json''),
              (''headers'', JObj [(''x-uav-dag-dlq-probe-id'', JStr probe_id)])]),
           (''routing_key'', JStr routing_key),
           (''payload'', JStr (dumps (JObj [(''probe_id'', JStr probe_id),
              (''source'', JStr ''uav-dag-offload-platform'')]))),
           (''payload_encoding'', JStr ''string'')])))
     (\<lambda>payload. io_result (case as_object payload of
         None \<Rightarrow> Inl (ValueError ''RabbitMQ publish payload must be a JSON object'')
       | Some obj \<Rightarrow> Inr (case map_of obj ''routed'' of None \<Rightarrow> False | Some v \<Rightarrow> truthy v)))"

definition get_messages ::
  "'s transport \<Rightarrow> Settings \<Rightarrow> string \<Rightarrow> int \<Rightarrow> string \<Rightarrow> int \<Rightarrow> 's \<Rightarrow> json_object list result \<times> 's" where
  "get_messages transport settings queue_name count ackmode trunc =
     io_bind (request_json transport settings ''POST'' (queue_url settings queue_name @ ''/get'')
       (Some (get_body count ackmode trunc)))
     (\<lambda>payload. io_result (object_list ''RabbitMQ get payload must be a JSON list''
        ''RabbitMQ get message items must be JSON objects'' payload))"

definition reject_probe_message ::
  "'s transport \<Rightarrow> Settings \<Rightarrow> string \<Rightarrow> 's \<Rightarrow> bool result \<times> 's" where
  "reject_probe_message transport settings probe_queue =
     io_bind (get_messages transport settings probe_queue 1 ''reject_requeue_false'' 10000)
       (\<lambda>payload. io_return (payload \<noteq> []))"

definition delete_probe_queue ::
  "'s transport \<Rightarrow> Settings \<Rightarrow> string \<Rightarrow> 's \<Rightarrow> json result \<times> 's" where
  "delete_probe_queue transport settings queue_name =
     request_json transport settings ''DELETE'' (queue_url settings queue_name) None"

definition contains_probe_id :: "(json \<Rightarrow> string) \<Rightarrow> string \<Rightarrow> json_object \<Rightarrow> bool" where
  "contains_probe_id dumps probe_id msg = sublist probe_id (dumps (JObj msg))"

section \<open>The verifier\<close>

record 's clock =
  monotonic :: "'s \<Rightarrow> pyfloat"
  sleep :: "pyfloat \<Rightarrow> 's \<Rightarrow> unit result \<times> 's"

text \<open>The count that is reported after looking at a batch of messages.\<close>

definition seen_count :: "json_object list \<Rightarrow> int \<Rightarrow> int result" where
  "seen_count messages last_message_count =
     (case messages of
        [] \<Rightarrow> Inr last_message_count
      | m # _ \<Rightarrow> and_then (int_value m ''message_count'') (\<lambda>n. Inr (n + int (length messages))))"

text \<open>One round of the polling loop: a final answer, or the count to go on with.\<close>

definition poll_once ::
  "(json \<Rightarrow> string) \<Rightarrow> 's transport \<Rightarrow> 's clock \<Rightarrow> Settings \<Rightarrow> string \<Rightarrow> pyfloat \<Rightarrow> pyfloat \<Rightarrow> int \<Rightarrow>
   's \<Rightarrow> ((bool \<times> int) + int) result \<times> 's" where
  "poll_once dumps transport clock settings probe_id deadline poll_interval_seconds
     last_message_count =
     io_bind (get_messages transport settings (celery_task_dead_letter_queue settings) 50
       ''ack_requeue_true'' 50000) (\<lambda>messages.
     io_bind (io_result (seen_count messages last_message_count)) (\<lambda>n w.
     if list_ex (contains_probe_id dumps probe_id) messages then (Inr (Inl (True, n)), w)
     else if f_le deadline (monotonic clock w) then (Inr (Inl (False, n)), w)
     else io_bind (sleep clock poll_interval_seconds) (\<lambda>_. io_return (Inr n)) w))"

partial_function (option) poll_loop ::
  "(int \<Rightarrow> 's \<Rightarrow> ((bool \<times> int) + int) result \<times> 's) \<Rightarrow> int \<Rightarrow> 's \<Rightarrow> ((bool \<times> int) result \<times> 's) option"
where
  "poll_loop poll n w =
     (case poll n w of
        (r, w') \<Rightarrow>
          (case r of
             Inl e \<Rightarrow> Some (Inl e, w')
           | Inr x \<Rightarrow>
               (case x of Inl answer \<Rightarrow> Some (Inr answer, w') | Inr n' \<Rightarrow> poll_loop poll n' w')))"

definition wait_for_probe_in_dlq ::
  "(json \<Rightarrow> string) \<Rightarrow> 's transport \<Rightarrow> 's clock \<Rightarrow> Settings \<Rightarrow> string \<Rightarrow> pyfloat \<Rightarrow> pyfloat \<Rightarrow>
   's \<Rightarrow> ((bool \<times> int) result \<times> 's) option" where
  "wait_for_probe_in_dlq dumps transport clock settings probe_id timeout_seconds
     poll_interval_seconds w =
     (let deadline = f_add (monotonic clock w) timeout_seconds in
      poll_loop (poll_once dumps transport clock settings probe_id deadline poll_interval_seconds)
        0 w)"

record DeadLetterFlowVerificationResult =
  vr_probe_id :: string
  vr_probe_queue :: string
  vr_probe_routing_key :: string
  vr_main_queue_dead_letter_configured :: bool
  vr_published :: bool
  vr_rejected :: bool
  vr_found_in_dlq :: bool
  vr_dlq_message_count :: int
  vr_error_message :: "string option"

text \<open>
  The \<open>try\<close> block assigns local variables as it goes, and what was assigned before an
  exception is reported. \<open>assign\<close> runs a step on the world and assigns its result.
\<close>

type_synonym 's flow_state = "'s \<times> DeadLetterFlowVerificationResult"

definition assign ::
  "('s \<Rightarrow> 'a result \<times> 's) \<Rightarrow>
   ('a \<Rightarrow> DeadLetterFlowVerificationResult \<Rightarrow> DeadLetterFlowVerificationResult) \<Rightarrow>
   's flow_state \<Rightarrow> unit result \<times> 's flow_state" where
  "assign m set_var st =
     (case m (fst st) of
        (Inl e, w') \<Rightarrow> (Inl e, (w', snd st))
      | (Inr x, w') \<Rightarrow> (Inr (), (w', set_var x (snd st))))"

definition probe_setup ::
  "(json \<Rightarrow> string) \<Rightarrow> 's transport \<Rightarrow> Settings \<Rightarrow> string \<Rightarrow> string \<Rightarrow> string \<Rightarrow>
   's flow_state \<Rightarrow> unit result \<times> 's flow_state" where
  "probe_setup dumps transport settings probe_id probe_queue probe_routing_key =
     io_bind (assign (main_queue_has_dead_letter_config transport settings)
       (\<lambda>b v. v\<lparr>vr_main_queue_dead_letter_configured := b\<rparr>)) (\<lambda>_.
     io_bind (assign (declare_dead_letter_exchange transport settings) (\<lambda>_ v. v)) (\<lambda>_.
     io_bind (assign (declare_dead_letter_queue transport settings) (\<lambda>_ v. v)) (\<lambda>_.
     io_bind (assign (bind_dead_letter_queue transport settings) (\<lambda>_ v. v)) (\<lambda>_.
     io_bind (assign (declare_probe_queue transport settings probe_queue) (\<lambda>_ v. v)) (\<lambda>_.
     io_bind (assign (bind_probe_queue transport settings probe_queue probe_routing_key)
       (\<lambda>_ v. v)) (\<lambda>_.
     io_bind (assign (publish_probe_message dumps transport settings probe_id probe_routing_key)
       (\<lambda>b v. v\<lparr>vr_published := b\<rparr>)) (\<lambda>_.
     assign (reject_probe_message transport settings probe_queue)
       (\<lambda>b v. v\<lparr>vr_rejected := b\<rparr>))))))))"

text \<open>The \<open>finally\<close> clause, with the exceptions it swallows, and the result.\<close>

definition probe_cleanup ::
  "'s transport \<Rightarrow> Settings \<Rightarrow> string \<Rightarrow> unit result \<Rightarrow> 's flow_state \<Rightarrow>
   DeadLetterFlowVerificationResult result \<times> 's" where
  "probe_cleanup transport settings probe_queue r st =
     (case delete_probe_queue transport settings probe_queue (fst st) of
        (deleted, w') \<Rightarrow>
          (and_then (case deleted of
              Inl e \<Rightarrow> if transport_error e = None then Inl e else Inr ()
            | Inr _ \<Rightarrow> Inr ()) (\<lambda>_.
           case r of
             Inr _ \<Rightarrow> Inr (snd st)
           | Inl e \<Rightarrow>
               (case transport_error e of
                  None \<Rightarrow> Inl e
                | Some m \<Rightarrow> Inr ((snd st)\<lparr>vr_error_message := Some m\<rparr>))), w'))"

definition verify_probe_flow ::
  "(json \<Rightarrow> string) \<Rightarrow> 's transport \<Rightarrow> 's clock \<Rightarrow> Settings \<Rightarrow> string \<Rightarrow> pyfloat \<Rightarrow> pyfloat \<Rightarrow>
   's \<Rightarrow> (DeadLetterFlowVerificationResult result \<times> 's) option" where
  "verify_probe_flow dumps transport clock settings uuid4 timeout_seconds poll_interval_seconds w =
     (let probe_id = ''dlq-probe-'' @ uuid4;
          probe_queue = celery_task_default_queue settings @ ''.probe.'' @ probe_id;
          probe_routing_key = celery_task_default_routing_key settings @ ''.probe.'' @ probe_id;
          v0 = \<lparr>vr_probe_id = probe_id, vr_probe_queue = probe_queue,
            vr_probe_routing_key = probe_routing_key, vr_main_queue_dead_letter_configured = False,
            vr_published = False, vr_rejected = False, vr_found_in_dlq = False,
            vr_dlq_message_count = 0, vr_error_message = None\<rparr> in
      case probe_setup dumps transport settings probe_id probe_queue probe_routing_key (w, v0) of
        (Inl e, st) \<Rightarrow> Some (probe_cleanup transport settings probe_queue (Inl e) st)
      | (Inr _, st) \<Rightarrow>
          (case wait_for_probe_in_dlq dumps transport clock settings probe_id timeout_seconds
                  poll_interval_seconds (fst st) of
             None \<Rightarrow> None
           | Some (Inl e, w') \<Rightarrow>
               Some (probe_cleanup transport settings probe_queue (Inl e) (w', snd st))
           | Some (Inr (found, n), w') \<Rightarrow>
               Some (probe_cleanup transport settings probe_queue (Inr ())
                 (w', (snd st)\<lparr>vr_found_in_dlq := found, vr_dlq_message_count := n\<rparr>))))"

section \<open>Peeking\<close>

lemma peek_messages_disabled:
  "\<not> rabbitmq_queue_monitoring_enabled settings \<Longrightarrow>
     snd (peek_messages py_str transport settings limit trunc w) = w"
  by (simp add: peek_messages_def Let_def)

text \<open>An unavailable result carries the reason; an available one has no error.\<close>

lemma peek_messages_available:
  assumes "peek_messages py_str transport settings limit trunc w = (Inr x, w')"
    and "rabbitmq_queue_monitoring_enabled settings"
  shows "dp_available x \<longleftrightarrow> dp_error_message x = None"
    and "\<not> dp_available x \<Longrightarrow> dp_items x = []"
  using assms
  by (auto simp: peek_messages_def Let_def result_simps split: prod.splits sum.splits option.splits)

section \<open>The probe queue is always deleted\<close>

lemma probe_cleanup_deletes:
  "snd (probe_cleanup transport settings q r st) =
     snd (delete_probe_queue transport settings q (fst st))"
  by (simp add: probe_cleanup_def split: prod.splits)

lemma verify_probe_flow_deletes:
  assumes "verify_probe_flow dumps transport clock settings uuid4 timeout_seconds poll w = Some (r, w')"
  shows "\<exists>w1. w' = snd (delete_probe_queue transport settings
    (celery_task_default_queue settings @ ''.probe.'' @ ''dlq-probe-'' @ uuid4) w1)"
  using assms
  by (auto simp: verify_probe_flow_def Let_def split: prod.splits sum.splits option.splits
      dest!: arg_cong [where f = snd] simp: probe_cleanup_deletes)

section \<open>The polling loop ends\<close>

text \<open>
  A clock that does not run backwards and that every successful \<open>sleep\<close> advances by a
  fixed amount at least.
\<close>

definition clock_advances :: "'s transport \<Rightarrow> 's clock \<Rightarrow> pyfloat \<Rightarrow> ('s \<Rightarrow> rat) \<Rightarrow> rat \<Rightarrow> bool" where
  "clock_advances transport clock poll t delta \<longleftrightarrow>
     0 < delta \<and> (\<forall>w. monotonic clock w = Fin (t w)) \<and>
     (\<forall>rq w. t w \<le> t (snd (transport rq w))) \<and>
     (\<forall>w w'. sleep clock poll w = (Inr (), w') \<longrightarrow> t w + delta \<le> t w')"

lemma request_time:
  "clock_advances transport clock poll t delta \<Longrightarrow>
     t w \<le> t (snd (get_messages transport settings q k a n w))"
  by (auto simp: clock_advances_def get_messages_def request_json_def io_bind_def io_result_def
      split: prod.splits sum.splits) (metis snd_conv)+

lemma poll_once_again:
  assumes adv: "clock_advances transport clock poll t delta"
    and run: "poll_once dumps transport clock settings probe (Fin deadline) poll n w = (Inr (Inr n'), w')"
  shows "t w < deadline" and "t w + delta \<le> t w'"
proof -
  from run obtain ms w1 w2 where
    ms: "get_messages transport settings (celery_task_dead_letter_queue settings) 50
      ''ack_requeue_true'' 50000 w = (Inr ms, w1)"
    and late: "\<not> f_le (Fin deadline) (monotonic clock w1)"
    and slept: "sleep clock poll w1 = (Inr (), w2)" and w2: "w' = w2"
    by (auto simp: poll_once_def result_simps io_result_def split: if_splits)
  have "t w \<le> t w1" using request_time [OF adv, of w] ms by (metis snd_conv)
  moreover have "t w1 < deadline"
    using late adv by (auto simp: clock_advances_def f_le_def f_eq_def)
  moreover have "t w1 + delta \<le> t w'" using adv slept w2 by (auto simp: clock_advances_def)
  ultimately show "t w < deadline" "t w + delta \<le> t w'" by simp_all
qed

lemma poll_loop_ends:
  assumes adv: "clock_advances transport clock poll t delta"
  shows "\<exists>y. poll_loop (poll_once dumps transport clock settings probe (Fin deadline) poll) n w = Some y"
proof (induction "nat \<lceil>(deadline - t w) / delta\<rceil>" arbitrary: n w rule: less_induct)
  case less
  have pos: "0 < delta" using adv by (simp add: clock_advances_def)
  show ?case
  proof (cases "poll_once dumps transport clock settings probe (Fin deadline) poll n w")
    case (Pair r w')
    show ?thesis
    proof (cases "\<exists>n'. r = Inr (Inr n')")
      case True
      then obtain n' where r: "r = Inr (Inr n')" by blast
      from poll_once_again [OF adv, of dumps settings probe deadline n w n' w'] Pair r
      have before: "t w < deadline" and later: "t w + delta \<le> t w'" by simp_all
      have "(deadline - t w') / delta \<le> (deadline - t w - delta) / delta"
        using later pos by (intro divide_right_mono) simp_all
      then have "(deadline - t w') / delta \<le> (deadline - t w) / delta - 1"
        using pos by (simp add: diff_divide_distrib)
      moreover have "0 < (deadline - t w) / delta" using before pos by simp
      ultimately have "nat \<lceil>(deadline - t w') / delta\<rceil> < nat \<lceil>(deadline - t w) / delta\<rceil>"
        by linarith
      from less [OF this, of n'] Pair r show ?thesis by (subst poll_loop.simps) simp
    next
      case False
      with Pair show ?thesis
        by (subst poll_loop.simps) (auto split: sum.splits)
    qed
  qed
qed

lemma verify_probe_flow_ends:
  assumes "clock_advances transport clock poll t delta"
    and "\<And>w. \<exists>deadline. f_add (Fin (t w)) timeout_seconds = Fin deadline"
  shows "\<exists>r w'. verify_probe_flow dumps transport clock settings uuid4 timeout_seconds poll w =
    Some (r, w')"
proof -
  have "\<exists>y. wait_for_probe_in_dlq dumps transport clock settings probe timeout_seconds poll w = Some y"
    for probe w
  proof -
    from assms obtain deadline where "f_add (monotonic clock w) timeout_seconds = Fin deadline"
      by (metis clock_advances_def)
    then show ?thesis
      using poll_loop_ends [OF assms(1)] by (simp add: wait_for_probe_in_dlq_def)
  qed
  then have ends: "wait_for_probe_in_dlq dumps transport clock settings probe timeout_seconds poll w =
      None \<Longrightarrow> False" for probe w by (metis option.distinct(1))
  have "\<exists>y. verify_probe_flow dumps transport clock settings uuid4 timeout_seconds poll w = Some y"
    by (auto simp: verify_probe_flow_def Let_def split: prod.splits sum.splits option.splits
        dest: ends)
  then show ?thesis by auto
qed

end
