(* ===== verification/Schemas.thy ===== *)
theory Schemas
  imports Node_Service Scheduling_Service Execution_Service Metrics_Service Worker_Health Dead_Letter
begin

text \<open>
  The request and response classes of \<open>app/schemas\<close> that no service owns: what the
  \<open>Field\<close> constraints and validators of the requests let through, and what
  \<open>from_attributes\<close> reads of a row. The \<open>updated_at\<close> columns are left out, as in the rows.
\<close>

section \<open>Requests\<close>

definition valid_subtask_create :: "SubtaskCreate \<Rightarrow> bool" where
  "valid_subtask_create s \<longleftrightarrow>
     1 \<le> py_len (sc_external_id s) \<and> py_len (sc_external_id s) \<le> 64 \<and>
     1 \<le> py_len (sc_name s) \<and> py_len (sc_name s) \<le> 128 \<and>
     f_less (Fin 0) (sc_compute_load s) \<and> f_le (Fin 0) (sc_input_data_size_mb s) \<and>
     f_le (Fin 0) (sc_output_data_size_mb s) \<and> 0 \<le> sc_max_retries s"

definition valid_dependency_create :: "DependencyCreate \<Rightarrow> bool" where
  "valid_dependency_create e \<longleftrightarrow>
     1 \<le> py_len (dc_from e) \<and> py_len (dc_from e) \<le> 64 \<and>
     1 \<le> py_len (dc_to e) \<and> py_len (dc_to e) \<le> 64"

definition valid_dag_task_create :: "DagTaskCreate \<Rightarrow> bool" where
  "valid_dag_task_create data \<longleftrightarrow>
     1 \<le> py_len (tc_name data) \<and> py_len (tc_name data) \<le> 128 \<and> 0 \<le> tc_priority data \<and>
     opt_all (\<lambda>s. py_len s \<le> 128) (tc_submitted_by data) \<and>
     tc_subtasks data \<noteq> [] \<and> list_all valid_subtask_create (tc_subtasks data) \<and>
     list_all valid_dependency_create (tc_dependencies data)"

record DagTaskCancelRequest =
  cx_reason :: "string option"

definition valid_cancel_request :: "DagTaskCancelRequest \<Rightarrow> bool" where
  "valid_cancel_request r \<longleftrightarrow> opt_all (\<lambda>s. py_len s \<le> 255) (cx_reason r)"

record ScheduleRequest =
  sq_strategy_name :: string
  sq_options :: json_object

definition default_schedule_request :: ScheduleRequest where
  "default_schedule_request =
     \<lparr>sq_strategy_name = strategy_name_value SchedulerStrategyName.GREEDY, sq_options = []\<rparr>"

definition valid_schedule_request :: "ScheduleRequest \<Rightarrow> bool" where
  "valid_schedule_request r \<longleftrightarrow>
     1 \<le> py_len (sq_strategy_name r) \<and> py_len (sq_strategy_name r) \<le> 64"

record ExecutionSimulationOptions =
  so_result_status :: ExecutionStatus
  so_duration_ms :: "int option"
  so_output_summary :: "string option"
  so_failure_reason :: "string option"

definition result_status_must_be_terminal :: "ExecutionStatus \<Rightarrow> ExecutionStatus result" where
  "result_status_must_be_terminal value =
     (if value = ExecutionStatus.RUNNING
      then Inl (ValueError ''Simulated result status must be terminal'') else Inr value)"

definition valid_simulation :: "ExecutionSimulationOptions \<Rightarrow> bool" where
  "valid_simulation s \<longleftrightarrow>
     (case result_status_must_be_terminal (so_result_status s) of Inl _ \<Rightarrow> False | Inr _ \<Rightarrow> True) \<and>
     opt_all (\<lambda>n. 0 \<le> n) (so_duration_ms s)"

record ExecutionStartRequest =
  sx_schedule_plan_id :: uuid
  sx_simulation :: "ExecutionSimulationOptions option"

record ExecutionResultRequest =
  rr_status :: ExecutionStatus
  rr_duration_ms :: "int option"
  rr_output_summary :: "string option"
  rr_failure_reason :: "string option"

definition valid_result_request :: "ExecutionResultRequest \<Rightarrow> bool" where
  "valid_result_request r \<longleftrightarrow> opt_all (\<lambda>n. 0 \<le> n) (rr_duration_ms r)"

text \<open>The query parameters \<open>page\<close> and \<open>page_size\<close> of every list.\<close>

definition valid_page :: "int \<Rightarrow> int \<Rightarrow> bool" where
  "valid_page page page_size \<longleftrightarrow> 1 \<le> page \<and> 1 \<le> page_size \<and> page_size \<le> 100"

section \<open>Responses\<close>

text \<open>The list responses have the same shape over different items.\<close>

record 'a list_response =
  lr_items :: "'a list"
  lr_page :: int
  lr_page_size :: int
  lr_total :: int

record DagTaskRead =
  tr_id :: uuid
  tr_name :: string
  tr_status :: TaskStatus
  tr_priority :: int
  tr_deadline_at :: "datetime option"
  tr_subtask_count :: int
  tr_dependency_count :: int
  tr_created_at :: datetime

record DagTaskListItem =
  tl_id :: uuid
  tl_name :: string
  tl_status :: TaskStatus
  tl_priority :: int
  tl_deadline_at :: "datetime option"
  tl_created_at :: datetime

definition task_list_item :: "dag_task \<Rightarrow> DagTaskListItem" where
  "task_list_item t =
     \<lparr>tl_id = dt_id t, tl_name = dt_name t, tl_status = dt_status t, tl_priority = dt_priority t,
      tl_deadline_at = dt_deadline_at t, tl_created_at = dt_created_at t\<rparr>"

record DagSubtaskRead =
  sb_id :: uuid
  sb_external_id :: string
  sb_name :: string
  sb_status :: SubtaskStatus
  sb_execution_constraint :: SubtaskExecutionConstraint
  sb_compute_load :: pyfloat
  sb_input_data_size_mb :: pyfloat
  sb_output_data_size_mb :: pyfloat
  sb_retry_count :: int
  sb_max_retries :: int

definition subtask_read :: "dag_subtask \<Rightarrow> DagSubtaskRead" where
  "subtask_read s =
     \<lparr>sb_id = ds_id s, sb_external_id = ds_external_id s, sb_name = ds_name s,
      sb_status = ds_status s, sb_execution_constraint = ds_execution_constraint s,
      sb_compute_load = column_float (ds_compute_load s),
      sb_input_data_size_mb = column_float (ds_input_data_size_mb s),
      sb_output_data_size_mb = column_float (ds_output_data_size_mb s),
      sb_retry_count = ds_retry_count s, sb_max_retries = ds_max_retries s\<rparr>"

record DagDependencyRead =
  de_from :: string
  de_to :: string

record DagTaskDetailRead =
  td_id :: uuid
  td_name :: string
  td_status :: TaskStatus
  td_priority :: int
  td_deadline_at :: "datetime option"
  td_subtasks :: "DagSubtaskRead list"
  td_dependencies :: "DagDependencyRead list"
  td_created_at :: datetime

record DagTaskCancelResponse =
  cr_task_id :: uuid
  cr_status :: TaskStatus
  cr_reason :: "string option"

record SchedulePlanItemRead =
  ir_id :: uuid
  ir_subtask_id :: uuid
  ir_assigned_node_id :: uuid
  ir_estimated_compute_duration_ms :: "int option"
  ir_estimated_transfer_duration_ms :: "int option"
  ir_estimated_energy :: "pyfloat option"
  ir_decision_reason :: "string option"

definition plan_item_read :: "schedule_plan_item \<Rightarrow> SchedulePlanItemRead" where
  "plan_item_read i =
     \<lparr>ir_id = pi_id i, ir_subtask_id = pi_subtask_id i, ir_assigned_node_id = pi_assigned_node_id i,
      ir_estimated_compute_duration_ms = pi_estimated_compute_duration_ms i,
      ir_estimated_transfer_duration_ms = pi_estimated_transfer_duration_ms i,
      ir_estimated_energy = map_option column_float (pi_estimated_energy i),
      ir_decision_reason = pi_decision_reason i\<rparr>"

record SchedulePlanRead =
  pr_id :: uuid
  pr_task_id :: uuid
  pr_strategy_name :: SchedulerStrategyName
  pr_status :: SchedulePlanStatus
  pr_estimated_total_duration_ms :: "int option"
  pr_estimated_total_energy :: "pyfloat option"
  pr_items :: "SchedulePlanItemRead list"
  pr_created_at :: datetime

record SchedulePlanListItem =
  pl_id :: uuid
  pl_task_id :: uuid
  pl_strategy_name :: SchedulerStrategyName
  pl_status :: SchedulePlanStatus
  pl_estimated_total_duration_ms :: "int option"
  pl_estimated_total_energy :: "pyfloat option"
  pl_created_at :: datetime

definition plan_list_item :: "schedule_plan \<Rightarrow> SchedulePlanListItem" where
  "plan_list_item p =
     \<lparr>pl_id = sp_id p, pl_task_id = sp_task_id p, pl_strategy_name = sp_strategy_name p,
      pl_status = sp_status p,
      pl_estimated_total_duration_ms = sp_estimated_total_duration_ms p,
      pl_estimated_total_energy = map_option column_float (sp_estimated_total_energy p),
      pl_created_at = sp_created_at p\<rparr>"

record ScheduleComparisonResponse =
  cp_task_id :: uuid
  cp_items :: "ScheduleComparisonItem list"

record ExecutionStartResponse =
  xs_task_id :: uuid
  xs_schedule_plan_id :: uuid
  xs_status :: TaskStatus
  xs_execution_count :: int
  xs_execution_ids :: "uuid list"
  xs_queued_count :: int

record ExecutionResultResponse =
  xa_execution_id :: uuid
  xa_subtask_status :: SubtaskStatus
  xa_task_status :: TaskStatus
  xa_accepted :: bool

record ExecutionRecordRead =
  xd_id :: uuid
  xd_task_id :: uuid
  xd_subtask_id :: uuid
  xd_node_id :: uuid
  xd_plan_item_id :: "uuid option"
  xd_attempt :: int
  xd_status :: ExecutionStatus
  xd_started_at :: "datetime option"
  xd_finished_at :: "datetime option"
  xd_duration_ms :: "int option"
  xd_output_summary :: "string option"
  xd_failure_reason :: "string option"
  xd_celery_task_id :: "string option"
  xd_created_at :: datetime

definition execution_record_read :: "execution_record \<Rightarrow> ExecutionRecordRead" where
  "execution_record_read r =
     \<lparr>xd_id = er_id r, xd_task_id = er_task_id r, xd_subtask_id = er_subtask_id r,
      xd_node_id = er_node_id r, xd_plan_item_id = er_plan_item_id r, xd_attempt = er_attempt r,
      xd_status = er_status r, xd_started_at = er_started_at r, xd_finished_at = er_finished_at r,
      xd_duration_ms = er_duration_ms r, xd_output_summary = er_output_summary r,
      xd_failure_reason = er_failure_reason r, xd_celery_task_id = er_celery_task_id r,
      xd_created_at = er_created_at r\<rparr>"

record NodeRead =
  no_id :: uuid
  no_name :: string
  no_node_type :: NodeType
  no_status :: NodeStatus
  no_cpu_capacity :: pyfloat
  no_memory_capacity_mb :: int
  no_network_address :: "string option"
  no_description :: "string option"
  no_last_heartbeat_at :: "datetime option"
  no_created_at :: datetime

definition node_read :: "node \<Rightarrow> NodeRead" where
  "node_read n =
     \<lparr>no_id = nd_id n, no_name = nd_name n, no_node_type = nd_node_type n,
      no_status = nd_status n, no_cpu_capacity = column_float (nd_cpu_capacity n),
      no_memory_capacity_mb = nd_memory_capacity_mb n,
      no_network_address = nd_network_address n, no_description = nd_description n,
      no_last_heartbeat_at = nd_last_heartbeat_at n, no_created_at = nd_created_at n\<rparr>"

record NodeListItem =
  nl_id :: uuid
  nl_name :: string
  nl_node_type :: NodeType
  nl_status :: NodeStatus
  nl_cpu_capacity :: pyfloat
  nl_memory_capacity_mb :: int
  nl_last_heartbeat_at :: "datetime option"

definition node_list_item :: "node \<Rightarrow> NodeListItem" where
  "node_list_item n =
     \<lparr>nl_id = nd_id n, nl_name = nd_name n, nl_node_type = nd_node_type n,
      nl_status = nd_status n, nl_cpu_capacity = column_float (nd_cpu_capacity n),
      nl_memory_capacity_mb = nd_memory_capacity_mb n,
      nl_last_heartbeat_at = nd_last_heartbeat_at n\<rparr>"

record NodeStatusRecordRead =
  nt_id :: uuid
  nt_node_id :: uuid
  nt_battery_level :: "pyfloat option"
  nt_cpu_usage :: pyfloat
  nt_memory_usage :: pyfloat
  nt_network_quality :: "pyfloat option"
  nt_bandwidth_mbps :: "pyfloat option"
  nt_latitude :: "pyfloat option"
  nt_longitude :: "pyfloat option"
  nt_current_load :: "int option"
  nt_queue_length :: "int option"
  nt_reported_at :: datetime
  nt_created_at :: datetime

definition status_record_read :: "node_status_record \<Rightarrow> NodeStatusRecordRead" where
  "status_record_read r =
     \<lparr>nt_id = nr_id r, nt_node_id = nr_node_id r,
      nt_battery_level = map_option column_float (nr_battery_level r),
      nt_cpu_usage = column_float (nr_cpu_usage r),
      nt_memory_usage = column_float (nr_memory_usage r),
      nt_network_quality = map_option column_float (nr_network_quality r),
      nt_bandwidth_mbps = map_option column_float (nr_bandwidth_mbps r),
      nt_latitude = map_option column_float (nr_latitude r),
      nt_longitude = map_option column_float (nr_longitude r),
      nt_current_load = nr_current_load r, nt_queue_length = nr_queue_length r,
      nt_reported_at = nr_reported_at r, nt_created_at = nr_created_at r\<rparr>"

record NodeStatusReportResponse =
  nq_id :: uuid
  nq_node_id :: uuid
  nq_status :: NodeStatus
  nq_reported_at :: datetime
  nq_created_at :: datetime

record DeadLetterQueueSnapshotResponse =
  dq_queue_name :: string
  dq_enabled :: bool
  dq_available :: bool
  dq_messages :: int
  dq_messages_ready :: int
  dq_messages_unacknowledged :: int
  dq_consumers :: int

record DeadLetterQueueMessageRead =
  dm_payload :: "json option"
  dm_payload_encoding :: "string option"
  dm_exchange :: "string option"
  dm_routing_key :: "string option"
  dm_redelivered :: bool
  dm_message_count :: int
  dm_properties :: json_object
  dm_headers :: json_object

record DeadLetterQueueMessageListResponse =
  dn_queue_name :: string
  dn_enabled :: bool
  dn_available :: bool
  dn_items :: "DeadLetterQueueMessageRead list"
  dn_error_message :: "string option"

text \<open>The query parameters \<open>limit\<close> and \<open>truncate\<close> of the message list.\<close>

definition valid_peek :: "int \<Rightarrow> int \<Rightarrow> bool" where
  "valid_peek limit trunc \<longleftrightarrow> 1 \<le> limit \<and> limit \<le> 100 \<and> 1 \<le> trunc \<and> trunc \<le> 100000"

record WorkerAlertRead =
  ar_id :: uuid
  ar_alert_type :: WorkerAlertType
  ar_severity :: AlertSeverity
  ar_worker_name :: "string option"
  ar_execution_id :: "uuid option"
  ar_celery_task_id :: "string option"
  ar_message :: string
  ar_details :: json_object
  ar_created_at :: datetime

definition worker_alert_read :: "worker_alert \<Rightarrow> WorkerAlertRead" where
  "worker_alert_read r =
     \<lparr>ar_id = wa_id r, ar_alert_type = wa_alert_type r, ar_severity = wa_severity r,
      ar_worker_name = wa_worker_name r, ar_execution_id = wa_execution_id r,
      ar_celery_task_id = wa_celery_task_id r, ar_message = wa_message r,
      ar_details = wa_details r, ar_created_at = wa_created_at r\<rparr>"

record HealthResponse =
  hl_status :: string
  hl_service :: string
  hl_version :: string

record ErrorDetail =
  ed_code :: string
  ed_message :: string
  ed_details :: "(string \<times> detail) list"
  ed_request_id :: "string option"

record ErrorResponse =
  ep_status_code :: int
  ep_error :: ErrorDetail

end
