(* ===== verification/Execution_Dispatcher.thy ===== *)
theory Execution_Dispatcher
  imports Execution_Service Config
begin

text \<open>
  \<open>app/services/execution_dispatcher.py\<close>: the started executions are sent to Celery, one
  message each. The broker is a parameter: a function from the message that
  \<open>execute_subtask.delay\<close> sends and the state of the outside world to the identifier of
  the Celery task, or the exception of the broker, and the new state.
\<close>

section \<open>Messages\<close>

record subtask_message =
  sm_execution_id :: uuid
  sm_result_status :: ExecutionStatus
  sm_duration_ms :: "int option"
  sm_output_summary :: "string option"
  sm_failure_reason :: "string option"

type_synonym 's broker = "subtask_message \<Rightarrow> 's \<Rightarrow> string result \<times> 's"

record ExecutionDispatchResult =
  di_execution_id :: uuid
  di_celery_task_id :: string

section \<open>The dispatcher\<close>

definition auto_enqueue_enabled :: "Settings \<Rightarrow> bool option \<Rightarrow> bool" where
  "auto_enqueue_enabled settings enabled =
     (case enabled of None \<Rightarrow> execution_auto_enqueue_enabled settings | Some b \<Rightarrow> b)"

fun enqueue_each ::
  "'s broker \<Rightarrow> (uuid \<Rightarrow> subtask_message) \<Rightarrow> uuid list \<Rightarrow> 's \<Rightarrow>
   ExecutionDispatchResult list result \<times> 's" where
  "enqueue_each delay msg [] = io_return []"
| "enqueue_each delay msg (i # ids) =
     io_bind (delay (msg i)) (\<lambda>celery_task_id.
     io_bind (enqueue_each delay msg ids) (\<lambda>rest.
     io_return (\<lparr>di_execution_id = i, di_celery_task_id = celery_task_id\<rparr> # rest)))"

definition enqueue_started_executions ::
  "'s broker \<Rightarrow> bool \<Rightarrow> uuid list \<Rightarrow> ExecutionStatus \<Rightarrow> int option \<Rightarrow> string option \<Rightarrow>
   string option \<Rightarrow> 's \<Rightarrow> ExecutionDispatchResult list result \<times> 's" where
  "enqueue_started_executions delay enabled execution_ids result_status duration_ms
     output_summary failure_reason =
     (if \<not> enabled then io_return []
      else enqueue_each delay (\<lambda>i. \<lparr>sm_execution_id = i, sm_result_status = result_status,
        sm_duration_ms = duration_ms, sm_output_summary = output_summary,
        sm_failure_reason = failure_reason\<rparr>) execution_ids)"

section \<open>What is sent\<close>

text \<open>
  A broker that keeps a log of its messages and answers with the identifiers of a given
  function: what reaches it is one message per execution, in order.
\<close>

definition logging_broker ::
  "(subtask_message \<Rightarrow> string result) \<Rightarrow> subtask_message list broker" where
  "logging_broker answer m sent = (answer m, sent @ [m])"

lemma enqueue_each_ids:
  "enqueue_each delay msg ids w = (Inr rs, w') \<Longrightarrow> map di_execution_id rs = ids"
  by (induction ids arbitrary: w rs) (auto simp: io_return_def result_simps)

lemma enqueue_each_log:
  assumes "enqueue_each (logging_broker answer) msg ids sent = (r, sent')"
  shows "\<exists>k \<le> length ids. sent' = sent @ map msg (take k ids) \<and>
    (\<forall>i \<in> set (take (k - 1) ids). \<exists>c. answer (msg i) = Inr c) \<and>
    (case r of Inl e \<Rightarrow> 0 < k \<and> answer (msg (ids ! (k - 1))) = Inl e
     | Inr rs \<Rightarrow> k = length ids \<and>
         (\<forall>x \<in> set rs. answer (msg (di_execution_id x)) = Inr (di_celery_task_id x)))"
  using assms
proof (induction ids arbitrary: sent r sent')
  case Nil
  then show ?case by (auto simp: io_return_def)
next
  case (Cons i ids)
  show ?case
  proof (cases "answer (msg i)")
    case (Inl e)
    with Cons.prems have "r = Inl e" "sent' = sent @ [msg i]"
      by (auto simp: io_bind_def logging_broker_def)
    with Inl show ?thesis by (intro exI [where x = 1]) simp
  next
    case (Inr c)
    obtain r1 sent1 where rest: "enqueue_each (logging_broker answer) msg ids (sent @ [msg i]) = (r1, sent1)"
      by fastforce
    from Cons.IH [OF this] obtain k where k: "k \<le> length ids"
      "sent1 = sent @ msg i # map msg (take k ids)"
      "\<forall>j \<in> set (take (k - 1) ids). \<exists>c. answer (msg j) = Inr c"
      "case r1 of Inl e \<Rightarrow> 0 < k \<and> answer (msg (ids ! (k - 1))) = Inl e
       | Inr rs \<Rightarrow> k = length ids \<and>
           (\<forall>x \<in> set rs. answer (msg (di_execution_id x)) = Inr (di_celery_task_id x))"
      by auto
    have "logging_broker answer (msg i) sent = (Inr c, sent @ [msg i])"
      by (simp add: logging_broker_def Inr)
    with Cons.prems rest have r: "sent' = sent1"
      "r = (case r1 of Inl e \<Rightarrow> Inl e
        | Inr rs \<Rightarrow> Inr (\<lparr>di_execution_id = i, di_celery_task_id = c\<rparr> # rs))"
      by (auto simp: io_bind_def io_return_def split: sum.splits)
    have "\<forall>j \<in> set (take (Suc k - 1) (i # ids)). \<exists>c. answer (msg j) = Inr c"
      using k(3) Inr by (cases k) auto
    with k Inr r show ?thesis
      by (intro exI [where x = "Suc k"]) (auto split: sum.splits simp: nth_Cons split: nat.splits)
  qed
qed

lemma enqueue_each_all:
  assumes "\<forall>i \<in> set ids. answer (msg i) = Inr (c i)"
  shows "enqueue_each (logging_broker answer) msg ids sent =
    (Inr (map (\<lambda>i. \<lparr>di_execution_id = i, di_celery_task_id = c i\<rparr>) ids), sent @ map msg ids)"
  using assms
  by (induction ids arbitrary: sent) (simp_all add: io_return_def io_bind_def logging_broker_def)

lemma enqueue_each_refused:
  assumes "k < length ids" and "\<forall>i \<in> set (take k ids). \<exists>c. answer (msg i) = Inr c"
    and "answer (msg (ids ! k)) = Inl e"
  shows "enqueue_each (logging_broker answer) msg ids sent =
    (Inl e, sent @ map msg (take (Suc k) ids))"
  using assms
proof (induction ids arbitrary: k sent)
  case (Cons i ids)
  then show ?case
    by (cases k) (auto simp: io_bind_def logging_broker_def)
qed simp

lemma enqueue_disabled:
  "enqueue_started_executions delay False ids s n out why w = (Inr [], w)"
  by (simp add: enqueue_started_executions_def io_return_def)

lemma enqueue_ids:
  assumes "enqueue_started_executions delay enabled ids s n out why w = (Inr rs, w')"
  shows "map di_execution_id rs = (if enabled then ids else [])"
  using assms
  by (auto simp: enqueue_started_executions_def io_return_def enqueue_each_ids split: if_splits)

end
