(* ===== verification/Monitoring_Service.thy ===== *)
theory Monitoring_Service
  imports Worker_Health Queue_Monitoring "HOL-Library.List_Lexorder" "HOL-Library.Char_ord"
begin

text \<open>
  \<open>app/repositories/monitoring_repository.py\<close> and \<open>app/services/monitoring_service.py\<close>: the
  counts of the database and their rendering in the Prometheus text format.
\<close>

section \<open>\<open>MonitoringRepository\<close>\<close>

record MonitoringSnapshot =
  ms_node_count :: int
  ms_task_count :: int
  ms_subtask_count :: int
  ms_schedule_plan_count :: int
  ms_execution_count :: int
  ms_execution_duration_sum_ms :: int
  ms_execution_duration_count :: int
  ms_nodes_by_type :: "(string \<times> int) list"
  ms_nodes_by_status :: "(string \<times> int) list"
  ms_tasks_by_status :: "(string \<times> int) list"
  ms_subtasks_by_status :: "(string \<times> int) list"
  ms_schedule_plans_by_status :: "(string \<times> int) list"
  ms_executions_by_status :: "(string \<times> int) list"

definition execution_duration_sum_ms :: "db \<Rightarrow> int" where
  "execution_duration_sum_ms d = sum_list (List.map_filter er_duration_ms (execution_records d))"

definition execution_duration_count :: "db \<Rightarrow> int" where
  "execution_duration_count d =
     int (length (filter (\<lambda>r. er_duration_ms r \<noteq> None) (execution_records d)))"

definition monitoring_snapshot :: "db \<Rightarrow> MonitoringSnapshot" where
  "monitoring_snapshot d =
     \<lparr>ms_node_count = int (length (nodes d)),
      ms_task_count = int (length (dag_tasks d)),
      ms_subtask_count = int (length (dag_subtasks d)),
      ms_schedule_plan_count = int (length (schedule_plans d)),
      ms_execution_count = int (length (execution_records d)),
      ms_execution_duration_sum_ms = execution_duration_sum_ms d,
      ms_execution_duration_count = execution_duration_count d,
      ms_nodes_by_type = group_count (\<lambda>n. node_type_value (nd_node_type n)) (nodes d),
      ms_nodes_by_status = group_count (\<lambda>n. node_status_value (nd_status n)) (nodes d),
      ms_tasks_by_status = group_count (\<lambda>t. task_status_value (dt_status t)) (dag_tasks d),
      ms_subtasks_by_status =
        group_count (\<lambda>s. subtask_status_value (ds_status s)) (dag_subtasks d),
      ms_schedule_plans_by_status =
        group_count (\<lambda>p. plan_status_value (sp_status p)) (schedule_plans d),
      ms_executions_by_status =
        group_count (\<lambda>r. execution_status_value (er_status r)) (execution_records d)\<rparr>"

section \<open>Label values\<close>

text \<open>\<open>s.replace(c, r)\<close> for a single character \<open>c\<close>\<close>

definition replace_char :: "char \<Rightarrow> string \<Rightarrow> string \<Rightarrow> string" where
  "replace_char c r s = concat (map (\<lambda>x. if x = c then r else [x]) s)"

text \<open>The three characters: backslash, newline and double quote.\<close>

definition escape_label_value :: "string \<Rightarrow> string" where
  "escape_label_value s =
     replace_char (CHR 0x22) [CHR 0x5C, CHR 0x22]
       (replace_char (CHR 0x0A) [CHR 0x5C, CHR ''n'']
         (replace_char (CHR 0x5C) [CHR 0x5C, CHR 0x5C] s))"

section \<open>Rendering\<close>

definition append_gauge :: "string \<Rightarrow> string \<Rightarrow> int \<Rightarrow> string list \<Rightarrow> string list" where
  "append_gauge name help_text v rendered =
     rendered @
       [''# HELP '' @ name @ '' '' @ help_text,
        ''# TYPE '' @ name @ '' gauge'',
        name @ '' '' @ int_text v]"

text \<open>\<open>sorted(values.items())\<close>: by key, since the keys of a dictionary are distinct.\<close>

definition append_labeled_gauge ::
  "string \<Rightarrow> string \<Rightarrow> string \<Rightarrow> (string \<times> int) list \<Rightarrow> string list \<Rightarrow> string list" where
  "append_labeled_gauge name help_text label_name counts rendered =
     rendered @
       [''# HELP '' @ name @ '' '' @ help_text,
        ''# TYPE '' @ name @ '' gauge''] @
       map (\<lambda>(label_value, count). name @ ''{'' @ label_name @ [CHR 0x3D, CHR 0x22] @
          escape_label_value label_value @ [CHR 0x22] @ ''} '' @ int_text count)
         (sort_key fst counts)"

text \<open>
  A dictionary comprehension over the queue snapshots, whose names are distinct
  (\<open>load_snapshots_names\<close>).
\<close>

definition by_queue ::
  "(QueueMonitoringSnapshot \<Rightarrow> int) \<Rightarrow> QueueMonitoringSnapshot list \<Rightarrow> (string \<times> int) list" where
  "by_queue f xs = map (\<lambda>x. (qm_queue_name x, f x)) xs"

definition bool_int :: "bool \<Rightarrow> int" where
  "bool_int b = (if b then 1 else 0)"

definition database_lines :: "MonitoringSnapshot \<Rightarrow> string list \<Rightarrow> string list" where
  "database_lines s rendered =
     fold (\<lambda>f acc. f acc)
       [append_gauge ''uav_dag_nodes_total'' ''Current number of registered nodes.'' (ms_node_count s),
        append_labeled_gauge ''uav_dag_nodes_by_type_total''
          ''Current number of registered nodes grouped by node type.'' ''node_type''
          (ms_nodes_by_type s),
        append_labeled_gauge ''uav_dag_nodes_by_status_total''
          ''Current number of registered nodes grouped by status.'' ''status''
          (ms_nodes_by_status s),
        append_gauge ''uav_dag_tasks_total'' ''Current number of DAG tasks.'' (ms_task_count s),
        append_labeled_gauge ''uav_dag_tasks_by_status_total''
          ''Current number of DAG tasks grouped by status.'' ''status'' (ms_tasks_by_status s),
        append_gauge ''uav_dag_subtasks_total'' ''Current number of DAG subtasks.''
          (ms_subtask_count s),
        append_labeled_gauge ''uav_dag_subtasks_by_status_total''
          ''Current number of DAG subtasks grouped by status.'' ''status''
          (ms_subtasks_by_status s),
        append_gauge ''uav_dag_schedule_plans_total'' ''Current number of schedule plans.''
          (ms_schedule_plan_count s),
        append_labeled_gauge ''uav_dag_schedule_plans_by_status_total''
          ''Current number of schedule plans grouped by status.'' ''status''
          (ms_schedule_plans_by_status s),
        append_gauge ''uav_dag_executions_total'' ''Current number of execution records.''
          (ms_execution_count s),
        append_labeled_gauge ''uav_dag_executions_by_status_total''
          ''Current number of execution records grouped by status.'' ''status''
          (ms_executions_by_status s),
        append_gauge ''uav_dag_execution_duration_ms_sum''
          ''Sum of recorded execution durations in milliseconds.''
          (ms_execution_duration_sum_ms s),
        append_gauge ''uav_dag_execution_duration_ms_count''
          ''Number of execution records that have duration values.''
          (ms_execution_duration_count s)] rendered"

definition settings_lines :: "Settings \<Rightarrow> string list \<Rightarrow> string list" where
  "settings_lines settings rendered =
     fold (\<lambda>f acc. f acc)
       [append_gauge ''uav_dag_worker_auto_enqueue_enabled''
          ''Whether API requests automatically enqueue execution records to Celery.''
          (bool_int (execution_auto_enqueue_enabled settings)),
        append_gauge ''uav_dag_worker_retry_max_retries''
          ''Configured maximum Celery retries for execution worker tasks.''
          (celery_execution_max_retries settings),
        append_gauge ''uav_dag_worker_retry_backoff_seconds''
          ''Configured base retry backoff for execution worker tasks.''
          (celery_execution_retry_backoff_seconds settings),
        append_gauge ''uav_dag_worker_retry_backoff_max_seconds''
          ''Configured maximum retry backoff for execution worker tasks.''
          (celery_execution_retry_backoff_max_seconds settings),
        append_gauge ''uav_dag_worker_heartbeat_timeout_seconds''
          ''Configured timeout for considering a worker heartbeat online.''
          (worker_heartbeat_timeout_seconds settings)] rendered"

definition worker_lines ::
  "WorkerHeartbeatSnapshot \<Rightarrow> int \<Rightarrow> (string \<times> int) list \<Rightarrow> string list \<Rightarrow> string list" where
  "worker_lines s latest alerts rendered =
     fold (\<lambda>f acc. f acc)
       [append_gauge ''uav_dag_workers_total''
          ''Current number of workers that have reported heartbeats.'' (hs_total_workers s),
        append_gauge ''uav_dag_workers_online''
          ''Current number of workers whose last heartbeat is within the timeout.''
          (hs_online_workers s),
        append_gauge ''uav_dag_worker_latest_seen_timestamp''
          ''Latest worker heartbeat timestamp in Unix seconds.'' latest,
        append_labeled_gauge ''uav_dag_workers_by_status_total''
          ''Current number of workers grouped by heartbeat status.'' ''status''
          (hs_workers_by_status s),
        append_labeled_gauge ''uav_dag_worker_alerts_total''
          ''Current number of worker alerts grouped by alert type.'' ''alert_type'' alerts] rendered"

definition queue_lines :: "QueueMonitoringSnapshot list \<Rightarrow> string list \<Rightarrow> string list" where
  "queue_lines xs rendered =
     fold (\<lambda>f acc. f acc)
       [append_labeled_gauge ''uav_dag_queue_monitor_enabled''
          ''Whether RabbitMQ queue monitoring is enabled.'' ''queue''
          (by_queue (\<lambda>x. bool_int (qm_enabled x)) xs),
        append_labeled_gauge ''uav_dag_queue_monitor_available''
          ''Whether RabbitMQ queue monitoring is currently reachable.'' ''queue''
          (by_queue (\<lambda>x. bool_int (qm_available x)) xs),
        append_labeled_gauge ''uav_dag_queue_messages''
          ''Current RabbitMQ messages in Celery queues.'' ''queue'' (by_queue qm_messages xs),
        append_labeled_gauge ''uav_dag_queue_messages_ready''
          ''Current RabbitMQ ready messages in Celery queues.'' ''queue''
          (by_queue qm_messages_ready xs),
        append_labeled_gauge ''uav_dag_queue_messages_unacknowledged''
          ''Current RabbitMQ unacknowledged messages in Celery queues.'' ''queue''
          (by_queue qm_messages_unacknowledged xs),
        append_labeled_gauge ''uav_dag_queue_consumers''
          ''Current RabbitMQ consumers attached to Celery queues.'' ''queue''
          (by_queue qm_consumers xs)] rendered"

text \<open>\<open>sep.join(xs)\<close>\<close>

fun join :: "string \<Rightarrow> string list \<Rightarrow> string" where
  "join sep [] = []"
| "join sep [x] = x"
| "join sep (x # y # ys) = x @ sep @ join sep (y # ys)"

definition metric_lines ::
  "Settings \<Rightarrow> datetime \<Rightarrow> QueueMonitoringSnapshot list \<Rightarrow> int \<Rightarrow> db \<Rightarrow> string list" where
  "metric_lines settings now queues latest d =
     queue_lines queues (worker_lines (heartbeat_snapshot settings now d) latest (alerts_by_type d)
       (settings_lines settings (database_lines (monitoring_snapshot d) [])))"

definition render_prometheus_metrics ::
  "'s transport \<Rightarrow> Settings \<Rightarrow> datetime \<Rightarrow> db \<Rightarrow> 's \<Rightarrow> string result \<times> 's" where
  "render_prometheus_metrics transport settings now d =
     io_bind (load_snapshots transport settings) (\<lambda>queues.
     io_bind (io_result (latest_seen_timestamp (heartbeat_snapshot settings now d))) (\<lambda>latest.
     io_return (join [CHR 0x0A] (metric_lines settings now queues latest d) @ [CHR 0x0A])))"

section \<open>Escaped label values\<close>

fun escape_char :: "char \<Rightarrow> string" where
  "escape_char c =
     (if c = CHR 0x5C then [CHR 0x5C, CHR 0x5C]
      else if c = CHR 0x0A then [CHR 0x5C, CHR ''n'']
      else if c = CHR 0x22 then [CHR 0x5C, CHR 0x22] else [c])"

declare escape_char.simps [simp del]

lemma replace_char_concat:
  "replace_char c r (concat (map f s)) = concat (map (\<lambda>x. replace_char c r (f x)) s)"
  by (induction s) (simp_all add: replace_char_def)

lemma escape_label_value_eq: "escape_label_value s = concat (map escape_char s)"
proof -
  have "replace_char (CHR 0x5C) [CHR 0x5C, CHR 0x5C] s =
      concat (map (\<lambda>x. if x = CHR 0x5C then [CHR 0x5C, CHR 0x5C] else [x]) s)"
    by (simp add: replace_char_def)
  then show ?thesis
    unfolding escape_label_value_def
    by (simp only: replace_char_concat)
      (intro arg_cong [where f = concat] map_cong, auto simp: replace_char_def escape_char.simps)
qed

text \<open>What a reader of the format does with the three escapes.\<close>

fun unescape :: "string \<Rightarrow> string" where
  "unescape [] = []"
| "unescape [c] = [c]"
| "unescape (c # x # cs) =
     (if c = CHR 0x5C
      then (if x = CHR ''n'' then CHR 0x0A else x) # unescape cs
      else c # unescape (x # cs))"

lemma unescape_plain: "c \<noteq> CHR 0x5C \<Longrightarrow> unescape (c # cs) = c # unescape cs"
  by (cases cs) simp_all

lemma unescape_escape: "unescape (escape_label_value s) = s"
  unfolding escape_label_value_eq
  by (induction s) (auto simp: escape_char.simps unescape_plain)

lemma escaped_chars:
  assumes "c \<in> set (escape_label_value s)"
  shows "c \<noteq> CHR 0x0A"
  using assms unfolding escape_label_value_eq by (auto simp: escape_char.simps split: if_splits)

section \<open>What the snapshot counts\<close>

text \<open>Every grouped gauge adds up to the total that is rendered next to it.\<close>

lemma snapshot_totals:
  "sum_list (map snd (ms_nodes_by_type (monitoring_snapshot d))) = ms_node_count (monitoring_snapshot d)"
  "sum_list (map snd (ms_nodes_by_status (monitoring_snapshot d))) = ms_node_count (monitoring_snapshot d)"
  "sum_list (map snd (ms_tasks_by_status (monitoring_snapshot d))) = ms_task_count (monitoring_snapshot d)"
  "sum_list (map snd (ms_subtasks_by_status (monitoring_snapshot d))) =
     ms_subtask_count (monitoring_snapshot d)"
  "sum_list (map snd (ms_schedule_plans_by_status (monitoring_snapshot d))) =
     ms_schedule_plan_count (monitoring_snapshot d)"
  "sum_list (map snd (ms_executions_by_status (monitoring_snapshot d))) =
     ms_execution_count (monitoring_snapshot d)"
  by (simp_all add: monitoring_snapshot_def group_count_total)

section \<open>The format is line based\<close>

definition one_line :: "string \<Rightarrow> bool" where
  "one_line s \<longleftrightarrow> CHR 0x0A \<notin> set s"

lemma one_line_append [simp]: "one_line (s @ t) \<longleftrightarrow> one_line s \<and> one_line t"
  by (auto simp: one_line_def)

lemma nat_text_line: "one_line (nat_text n)"
proof (induction n rule: nat_text.induct)
  case (1 n)
  have digit: "(char_of (48 + k) :: char) \<noteq> CHR 0x0A" if "k < 10" for k :: nat
  proof
    assume "(char_of (48 + k) :: char) = CHR 0x0A"
    then have "(48 + k) mod 256 = (of_char (CHR 0x0A) :: nat)" by (metis of_char_of)
    with that show False by simp
  qed
  show ?case
  proof (cases "n < 10")
    case True
    with digit [of n] show ?thesis by (subst nat_text.simps) (simp add: one_line_def)
  next
    case False
    with 1 digit [of "n mod 10"] show ?thesis by (subst nat_text.simps) (simp add: one_line_def)
  qed
qed

lemma int_text_line [simp]: "one_line (int_text n)"
  using nat_text_line by (simp add: int_text_def) (simp add: one_line_def)

lemma escape_line [simp]: "one_line (escape_label_value s)"
  using escaped_chars by (auto simp: one_line_def)

lemma append_gauge_lines:
  "list_all one_line rendered \<Longrightarrow> one_line name \<Longrightarrow> one_line help_text \<Longrightarrow>
     list_all one_line (append_gauge name help_text v rendered)"
  by (simp add: append_gauge_def)
    (simp add: one_line_def int_text_line [unfolded one_line_def])

lemma append_labeled_gauge_lines:
  "list_all one_line rendered \<Longrightarrow> one_line name \<Longrightarrow> one_line help_text \<Longrightarrow> one_line label_name \<Longrightarrow>
     list_all one_line (append_labeled_gauge name help_text label_name counts rendered)"
  by (auto simp: append_labeled_gauge_def list_all_iff) 
    (auto simp: one_line_def int_text_line [unfolded one_line_def] escape_line [unfolded one_line_def])

lemma database_lines_ok: "list_all one_line rendered \<Longrightarrow> list_all one_line (database_lines s rendered)"
  unfolding database_lines_def
  by simp (intro append_gauge_lines append_labeled_gauge_lines; simp add: one_line_def)

lemma settings_lines_ok: "list_all one_line rendered \<Longrightarrow> list_all one_line (settings_lines c rendered)"
  unfolding settings_lines_def
  by simp (intro append_gauge_lines append_labeled_gauge_lines; simp add: one_line_def)

lemma worker_lines_ok: "list_all one_line rendered \<Longrightarrow> list_all one_line (worker_lines s n a rendered)"
  unfolding worker_lines_def
  by simp (intro append_gauge_lines append_labeled_gauge_lines; simp add: one_line_def)

lemma queue_lines_ok: "list_all one_line rendered \<Longrightarrow> list_all one_line (queue_lines xs rendered)"
  unfolding queue_lines_def
  by simp (intro append_gauge_lines append_labeled_gauge_lines; simp add: one_line_def)

lemma metric_lines_ok: "list_all one_line (metric_lines settings now queues latest d)"
  unfolding metric_lines_def
  by (intro queue_lines_ok worker_lines_ok settings_lines_ok database_lines_ok) simp

section \<open>Reading the page back\<close>

text \<open>
  The reader of a label value in the exposition format: up to the first quote that no backslash
  precedes, with the escapes undone; and of a sample line \<open>name{label="value"} count\<close>, which
  gives the four texts.
\<close>

fun read_quoted :: "string \<Rightarrow> (string \<times> string) option" where
  "read_quoted [] = None"
| "read_quoted [c] = (if c = CHR 0x22 then Some ([], []) else None)"
| "read_quoted (c # x # cs) =
     (if c = CHR 0x22 then Some ([], x # cs)
      else if c = CHR 0x5C
      then map_option (apfst ((#) (if x = CHR ''n'' then CHR 0x0A else x))) (read_quoted cs)
      else map_option (apfst ((#) c)) (read_quoted (x # cs)))"

definition read_sample :: "string \<Rightarrow> (string \<times> string \<times> string \<times> string) option" where
  "read_sample line =
     (let name = takeWhile (\<lambda>c. c \<noteq> CHR 0x7B) line;
          body = drop (Suc (length name)) line;
          label = takeWhile (\<lambda>c. c \<noteq> CHR 0x3D) body;
          quoted = drop (length label) body in
      if take 2 quoted \<noteq> [CHR 0x3D, CHR 0x22] then None
      else
        (case read_quoted (drop 2 quoted) of
           None \<Rightarrow> None
         | Some (v, rest) \<Rightarrow>
             if take 2 rest = ''} '' then Some (name, label, v, drop 2 rest) else None))"

lemma read_quoted_end: "read_quoted (CHR 0x22 # rest) = Some ([], rest)"
  by (cases rest) simp_all

lemma read_quoted_plain:
  "c \<noteq> CHR 0x22 \<Longrightarrow> c \<noteq> CHR 0x5C \<Longrightarrow>
     read_quoted (c # cs) = map_option (apfst ((#) c)) (read_quoted cs)"
  by (cases cs) simp_all

text \<open>What is escaped and then quoted is read up to that quote, as it was.\<close>

lemma read_escaped: "read_quoted (escape_label_value s @ CHR 0x22 # rest) = Some (s, rest)"
  unfolding escape_label_value_eq
  by (induction s) (auto simp: escape_char.simps read_quoted_end read_quoted_plain)

definition sample_line :: "string \<Rightarrow> string \<Rightarrow> string \<times> int \<Rightarrow> string" where
  "sample_line name label_name x = name @ ''{'' @ label_name @ [CHR 0x3D, CHR 0x22] @
     escape_label_value (fst x) @ [CHR 0x22] @ ''} '' @ int_text (snd x)"

lemma append_labeled_gauge_samples:
  "append_labeled_gauge name help_text label_name counts rendered =
     rendered @ [''# HELP '' @ name @ '' '' @ help_text, ''# TYPE '' @ name @ '' gauge''] @
     map (sample_line name label_name) (sort_key fst counts)"
  by (auto simp: append_labeled_gauge_def sample_line_def)

lemma read_sample_line:
  assumes "CHR 0x7B \<notin> set name" and "CHR 0x3D \<notin> set label_name"
  shows "read_sample (sample_line name label_name (v, n)) = Some (name, label_name, v, int_text n)"
proof -
  have name: "takeWhile (\<lambda>c. c \<noteq> CHR 0x7B) (name @ CHR 0x7B # r) = name" for r
    using assms(1) by (subst takeWhile_append2) auto
  have label: "takeWhile (\<lambda>c. c \<noteq> CHR 0x3D) (label_name @ CHR 0x3D # r) = label_name" for r
    using assms(2) by (subst takeWhile_append2) auto
  show ?thesis
    by (simp add: sample_line_def read_sample_def name label read_escaped Let_def)
qed

lemma labeled_gauge_members:
  "set rendered \<subseteq> set (append_labeled_gauge name help_text label_name counts rendered)"
  "sample_line name label_name ` set counts \<subseteq>
     set (append_labeled_gauge name help_text label_name counts rendered)"
  by (auto simp: append_labeled_gauge_samples)

lemma queue_sample:
  assumes "x \<in> set queues"
  shows "sample_line ''uav_dag_queue_messages'' ''queue'' (qm_queue_name x, qm_messages x) \<in>
    set (metric_lines settings now queues latest d)"
proof -
  have "(qm_queue_name x, qm_messages x) \<in> set (by_queue qm_messages queues)"
    using assms by (simp add: by_queue_def)
  then show ?thesis
    unfolding metric_lines_def queue_lines_def
    by simp (intro subsetD [OF labeled_gauge_members(1)] subsetD [OF labeled_gauge_members(2)] imageI)
qed

end
