(* ===== verification/Api.thy ===== *)
theory Api
  imports Platform Schemas Execution_Dispatcher Monitoring_Service
begin

text \<open>
  The endpoints of \<open>app/api\<close> and the error handler of \<open>app/main.py\<close>. An endpoint takes
  the parsed request and the committed database and returns its response (or the
  exception) with the committed database it leaves. The routes are in \<open>Routing\<close>; parsing and
  the 422 and 500 answers are FastAPI's.
\<close>

section \<open>Transactions and errors\<close>

text \<open>
  A service call followed by \<open>db.commit()\<close> in a session of \<open>get_db\<close>: an exception rolls
  the session back.
\<close>

definition commit :: "('a \<times> db) result \<Rightarrow> db \<Rightarrow> 'a result \<times> db" where
  "commit r d = (case r of Inl e \<Rightarrow> (Inl e, d) | Inr (x, d') \<Rightarrow> (Inr x, d'))"

definition app_error_handler :: "string option \<Rightarrow> app_error \<Rightarrow> ErrorResponse" where
  "app_error_handler request_id exc =
     \<lparr>ep_status_code = status_code exc,
      ep_error = \<lparr>ed_code = code exc, ed_message = message exc, ed_details = details exc,
        ed_request_id = request_id\<rparr>\<rparr>"

section \<open>Reading rows into responses\<close>

definition task_to_read :: "db \<Rightarrow> dag_task \<Rightarrow> DagTaskRead" where
  "task_to_read d task =
     \<lparr>tr_id = dt_id task, tr_name = dt_name task, tr_status = dt_status task,
      tr_priority = dt_priority task, tr_deadline_at = dt_deadline_at task,
      tr_subtask_count = int (length (task_subtasks d (dt_id task))),
      tr_dependency_count = int (length (task_dependencies d (dt_id task))),
      tr_created_at = dt_created_at task\<rparr>"

definition dependency_read :: "(uuid \<Rightarrow> string option) \<Rightarrow> dag_dependency \<Rightarrow> DagDependencyRead result" where
  "dependency_read external_ids r =
     and_then (lookup_key external_ids (dd_predecessor_subtask_id r)) (\<lambda>p.
     and_then (lookup_key external_ids (dd_successor_subtask_id r)) (\<lambda>s.
     Inr \<lparr>de_from = p, de_to = s\<rparr>))"

definition task_to_detail :: "db \<Rightarrow> dag_task \<Rightarrow> DagTaskDetailRead result" where
  "task_to_detail d task =
     (let subtask_external_ids = dict_display (map (\<lambda>s. (ds_id s, ds_external_id s))
            (task_subtasks d (dt_id task))) in
      and_then (map_result (dependency_read subtask_external_ids)
        (task_dependencies d (dt_id task))) (\<lambda>dependencies.
      Inr \<lparr>td_id = dt_id task, td_name = dt_name task, td_status = dt_status task,
        td_priority = dt_priority task, td_deadline_at = dt_deadline_at task,
        td_subtasks = map subtask_read (task_subtasks d (dt_id task)),
        td_dependencies = dependencies, td_created_at = dt_created_at task\<rparr>))"

definition schedule_plan_to_read :: "db \<Rightarrow> schedule_plan \<Rightarrow> SchedulePlanRead" where
  "schedule_plan_to_read d plan =
     \<lparr>pr_id = sp_id plan, pr_task_id = sp_task_id plan,
      pr_strategy_name = sp_strategy_name plan, pr_status = sp_status plan,
      pr_estimated_total_duration_ms = sp_estimated_total_duration_ms plan,
      pr_estimated_total_energy = map_option column_float (sp_estimated_total_energy plan),
      pr_items = map plan_item_read (plan_items d (sp_id plan)),
      pr_created_at = sp_created_at plan\<rparr>"

definition list_response ::
  "('a \<Rightarrow> 'b) \<Rightarrow> int \<Rightarrow> int \<Rightarrow> ('a list \<times> int) result \<Rightarrow> 'b list_response result" where
  "list_response read page page_size r =
     and_then r (\<lambda>x. Inr \<lparr>lr_items = map read (fst x), lr_page = page, lr_page_size = page_size,
       lr_total = snd x\<rparr>)"

section \<open>Tasks\<close>

definition api_create_task ::
  "numeric \<Rightarrow> datetime \<Rightarrow> DagTaskCreate \<Rightarrow> db \<Rightarrow> DagTaskRead result \<times> db" where
  "api_create_task numeric now payload d =
     (case commit (create_task numeric now payload d) d of
        (Inl e, d') \<Rightarrow> (Inl e, d')
      | (Inr task, d') \<Rightarrow>
          (and_then (get_task d' (dt_id task)) (\<lambda>t. Inr (task_to_read d' t)), d'))"

definition api_list_tasks ::
  "TaskStatus option \<Rightarrow> int \<Rightarrow> int \<Rightarrow> db \<Rightarrow> DagTaskListItem list_response result" where
  "api_list_tasks status page page_size d =
     list_response task_list_item page page_size (list_tasks status page page_size d)"

definition api_get_task :: "uuid \<Rightarrow> db \<Rightarrow> DagTaskDetailRead result" where
  "api_get_task task_id d = and_then (get_task d task_id) (task_to_detail d)"

definition api_list_task_subtasks ::
  "uuid \<Rightarrow> SubtaskStatus option \<Rightarrow> int \<Rightarrow> int \<Rightarrow> db \<Rightarrow> DagSubtaskRead list_response result" where
  "api_list_task_subtasks task_id status page page_size d =
     list_response subtask_read page page_size (list_subtasks task_id status page page_size d)"

definition api_schedule_task ::
  "random \<Rightarrow> numeric \<Rightarrow> datetime \<Rightarrow> uuid \<Rightarrow> ScheduleRequest \<Rightarrow> db \<Rightarrow>
   SchedulePlanRead result \<times> db" where
  "api_schedule_task random numeric now task_id payload d =
     (case commit (generate_plan random numeric now task_id (sq_strategy_name payload)
             (Some (sq_options payload)) d) d of
        (Inl e, d') \<Rightarrow> (Inl e, d')
      | (Inr plan, d') \<Rightarrow> (Inr (schedule_plan_to_read d' plan), d'))"

definition api_list_task_schedules ::
  "uuid \<Rightarrow> int \<Rightarrow> int \<Rightarrow> db \<Rightarrow> SchedulePlanListItem list_response result" where
  "api_list_task_schedules task_id page page_size d =
     list_response plan_list_item page page_size (list_task_plans task_id page page_size d)"

definition api_compare_task_schedules ::
  "random \<Rightarrow> uuid \<Rightarrow> db \<Rightarrow> ScheduleComparisonResponse result" where
  "api_compare_task_schedules random task_id d =
     and_then (compare_strategies random task_id d) (\<lambda>items.
     Inr \<lparr>cp_task_id = task_id, cp_items = items\<rparr>)"

text \<open>
  Starting an execution takes two transactions with the dispatch between them: an exception
  of the broker, or of the second commit, leaves the first one in place.
\<close>

definition dispatch_started ::
  "'s broker \<Rightarrow> Settings \<Rightarrow> ExecutionStartRequest \<Rightarrow> uuid list \<Rightarrow> 's \<Rightarrow>
   ExecutionDispatchResult list result \<times> 's" where
  "dispatch_started delay settings payload execution_ids =
     (let simulation = sx_simulation payload in
      enqueue_started_executions delay (auto_enqueue_enabled settings None) execution_ids
        (case simulation of None \<Rightarrow> ExecutionStatus.SUCCESS | Some s \<Rightarrow> so_result_status s)
        (Option.bind simulation so_duration_ms) (Option.bind simulation so_output_summary)
        (Option.bind simulation so_failure_reason))"

definition api_execute_task ::
  "'s broker \<Rightarrow> Settings \<Rightarrow> datetime \<Rightarrow> uuid \<Rightarrow> ExecutionStartRequest \<Rightarrow> db \<Rightarrow> 's \<Rightarrow>
   (ExecutionStartResponse result \<times> db) \<times> 's" where
  "api_execute_task delay settings now task_id payload d w =
     (case commit (start_execution now task_id (sx_schedule_plan_id payload) d) d of
        (Inl e, d1) \<Rightarrow> ((Inl e, d1), w)
      | (Inr x, d1) \<Rightarrow>
          (case dispatch_started delay settings payload (es_execution_ids x) w of
             (Inl e, w') \<Rightarrow> ((Inl e, d1), w')
           | (Inr items, w') \<Rightarrow>
               (commit (and_then (record_celery_task_ids
                   (map (\<lambda>i. \<lparr>dr_execution_id = di_execution_id i,
                      dr_celery_task_id = di_celery_task_id i\<rparr>) items) d1) (\<lambda>d2.
                 Inr (\<lparr>xs_task_id = es_task_id x, xs_schedule_plan_id = es_schedule_plan_id x,
                   xs_status = es_status x, xs_execution_count = es_execution_count x,
                   xs_execution_ids = es_execution_ids x,
                   xs_queued_count = int (length items)\<rparr>, d2))) d1, w')))"

definition api_list_task_executions ::
  "uuid \<Rightarrow> ExecutionStatus option \<Rightarrow> int \<Rightarrow> int \<Rightarrow> db \<Rightarrow> ExecutionRecordRead list_response result" where
  "api_list_task_executions task_id status page page_size d =
     list_response execution_record_read page page_size (list_task_executions task_id status page page_size d)"

definition api_get_task_metrics :: "uuid \<Rightarrow> db \<Rightarrow> TaskMetricsRead result" where
  "api_get_task_metrics task_id d = get_task_metrics task_id d"

definition api_cancel_task ::
  "revoker \<Rightarrow> datetime \<Rightarrow> uuid \<Rightarrow> DagTaskCancelRequest \<Rightarrow> db \<Rightarrow> DagTaskCancelResponse result \<times> db" where
  "api_cancel_task revoker now task_id payload d =
     (case commit (and_then (cancel_task revoker now task_id (cx_reason payload) d)
             (\<lambda>d'. Inr ((), d'))) d of
        (Inl e, d') \<Rightarrow> (Inl e, d')
      | (Inr _, d') \<Rightarrow>
          (and_then (get_task d' task_id) (\<lambda>t. Inr \<lparr>cr_task_id = dt_id t, cr_status = dt_status t,
             cr_reason = dt_failure_reason t\<rparr>), d'))"

section \<open>Plans, executions, nodes, alerts and queues\<close>

definition api_get_schedule_plan :: "uuid \<Rightarrow> db \<Rightarrow> SchedulePlanRead result" where
  "api_get_schedule_plan plan_id d =
     and_then (get_schedule_plan d plan_id) (\<lambda>p. Inr (schedule_plan_to_read d p))"

definition api_report_execution_result ::
  "datetime \<Rightarrow> uuid \<Rightarrow> ExecutionResultRequest \<Rightarrow> db \<Rightarrow> ExecutionResultResponse result \<times> db" where
  "api_report_execution_result now execution_id payload d =
     (case commit (report_result now execution_id (rr_status payload) (rr_duration_ms payload)
             (rr_output_summary payload) (rr_failure_reason payload) d) d of
        (Inl e, d') \<Rightarrow> (Inl e, d')
      | (Inr r, d') \<Rightarrow> (Inr \<lparr>xa_execution_id = xr_execution_id r,
          xa_subtask_status = xr_subtask_status r, xa_task_status = xr_task_status r,
          xa_accepted = xr_accepted r\<rparr>, d'))"

definition api_create_node :: "numeric \<Rightarrow> datetime \<Rightarrow> NodeCreate \<Rightarrow> db \<Rightarrow> NodeRead result \<times> db" where
  "api_create_node numeric now payload d =
     (case commit (create_node numeric now payload d) d of
        (Inl e, d') \<Rightarrow> (Inl e, d')
      | (Inr node, d') \<Rightarrow> (Inr (node_read node), d'))"

definition api_list_nodes ::
  "NodeType option \<Rightarrow> NodeStatus option \<Rightarrow> int \<Rightarrow> int \<Rightarrow> db \<Rightarrow> NodeListItem list_response result" where
  "api_list_nodes node_type status page page_size d =
     list_response node_list_item page page_size (list_nodes node_type status page page_size d)"

definition api_get_node :: "uuid \<Rightarrow> db \<Rightarrow> NodeRead result" where
  "api_get_node node_id d = and_then (get_node d node_id) (\<lambda>n. Inr (node_read n))"

definition api_report_node_status ::
  "numeric \<Rightarrow> datetime \<Rightarrow> uuid \<Rightarrow> NodeStatusCreate \<Rightarrow> db \<Rightarrow>
   NodeStatusReportResponse result \<times> db" where
  "api_report_node_status numeric now node_id payload d =
     (case commit (report_status numeric now node_id payload d) d of
        (Inl e, d') \<Rightarrow> (Inl e, d')
      | (Inr r, d') \<Rightarrow>
          (and_then (get_node d' node_id) (\<lambda>n. Inr \<lparr>nq_id = nr_id r, nq_node_id = nr_node_id r,
             nq_status = nd_status n, nq_reported_at = nr_reported_at r,
             nq_created_at = nr_created_at r\<rparr>), d'))"

definition api_list_node_status_records ::
  "uuid \<Rightarrow> int \<Rightarrow> int \<Rightarrow> db \<Rightarrow> NodeStatusRecordRead list_response result" where
  "api_list_node_status_records node_id page page_size d =
     list_response status_record_read page page_size (list_status_records node_id page page_size d)"

definition api_list_worker_alerts ::
  "WorkerAlertType option \<Rightarrow> AlertSeverity option \<Rightarrow> int \<Rightarrow> int \<Rightarrow> db \<Rightarrow>
   WorkerAlertRead list_response result" where
  "api_list_worker_alerts alert_type severity page page_size d =
     list_response worker_alert_read page page_size (list_alerts alert_type severity d page page_size)"

definition api_dead_letter_queue_snapshot ::
  "'s transport \<Rightarrow> Settings \<Rightarrow> 's \<Rightarrow> DeadLetterQueueSnapshotResponse result \<times> 's" where
  "api_dead_letter_queue_snapshot transport settings =
     io_bind (get_dead_letter_queue_snapshot transport settings) (\<lambda>x.
     io_return \<lparr>dq_queue_name = qm_queue_name x, dq_enabled = qm_enabled x,
       dq_available = qm_available x, dq_messages = qm_messages x,
       dq_messages_ready = qm_messages_ready x,
       dq_messages_unacknowledged = qm_messages_unacknowledged x,
       dq_consumers = qm_consumers x\<rparr>)"

definition dead_letter_message_read :: "DeadLetterQueueMessage \<Rightarrow> DeadLetterQueueMessageRead" where
  "dead_letter_message_read item =
     \<lparr>dm_payload = dl_payload item, dm_payload_encoding = dl_payload_encoding item,
      dm_exchange = dl_exchange item, dm_routing_key = dl_routing_key item,
      dm_redelivered = dl_redelivered item, dm_message_count = dl_message_count item,
      dm_properties = dl_properties item, dm_headers = dl_headers item\<rparr>"

definition api_peek_dead_letter_queue_messages ::
  "(json \<Rightarrow> string) \<Rightarrow> 's transport \<Rightarrow> Settings \<Rightarrow> int \<Rightarrow> int \<Rightarrow> 's \<Rightarrow>
   DeadLetterQueueMessageListResponse result \<times> 's" where
  "api_peek_dead_letter_queue_messages py_str transport settings limit trunc =
     io_bind (peek_messages py_str transport settings limit trunc) (\<lambda>x.
     io_return \<lparr>dn_queue_name = dp_queue_name x, dn_enabled = dp_enabled x,
       dn_available = dp_available x, dn_items = map dead_letter_message_read (dp_items x),
       dn_error_message = dp_error_message x\<rparr>)"

section \<open>The metrics page, the health check and the verification script\<close>

text \<open>The page of \<open>/metrics\<close>: its content and media type.\<close>

definition prometheus_metrics ::
  "'s transport \<Rightarrow> Settings \<Rightarrow> datetime \<Rightarrow> db \<Rightarrow> 's \<Rightarrow> (string \<times> string) result \<times> 's" where
  "prometheus_metrics transport settings now d =
     io_bind (render_prometheus_metrics transport settings now d) (\<lambda>content.
     io_return (content, ''text/plain; version=0.0.4''))"

definition health_check :: "Settings \<Rightarrow> HealthResponse" where
  "health_check settings =
     \<lparr>hl_status = ''ok'', hl_service = app_name settings, hl_version = ''0.1.0''\<rparr>"

text \<open>
  \<open>main\<close> of \<open>scripts/verify_dlq_flow.py\<close>: what it prints (\<open>print_dumps\<close> is \<open>json.dumps\<close> with
  an indent) and its exit code.
\<close>

definition verification_report :: "DeadLetterFlowVerificationResult \<Rightarrow> json" where
  "verification_report r =
     JObj [(''probe_id'', JStr (vr_probe_id r)), (''probe_queue'', JStr (vr_probe_queue r)),
       (''probe_routing_key'', JStr (vr_probe_routing_key r)),
       (''main_queue_dead_letter_configured'', JBool (vr_main_queue_dead_letter_configured r)),
       (''published'', JBool (vr_published r)), (''rejected'', JBool (vr_rejected r)),
       (''found_in_dlq'', JBool (vr_found_in_dlq r)),
       (''dlq_message_count'', JInt (vr_dlq_message_count r)),
       (''error_message'', case vr_error_message r of None \<Rightarrow> JNull | Some m \<Rightarrow> JStr m)]"

definition exit_code :: "DeadLetterFlowVerificationResult \<Rightarrow> int" where
  "exit_code r =
     (if vr_main_queue_dead_letter_configured r \<and> vr_published r \<and> vr_rejected r \<and>
         vr_found_in_dlq r
      then 0 else 1)"

definition verify_dlq_flow_main ::
  "(json \<Rightarrow> string) \<Rightarrow> (json \<Rightarrow> string) \<Rightarrow> 's transport \<Rightarrow> 's clock \<Rightarrow> Settings \<Rightarrow> string \<Rightarrow> 's \<Rightarrow>
   ((string \<times> int) result \<times> 's) option" where
  "verify_dlq_flow_main print_dumps dumps transport clock settings uuid4 w =
     map_option (\<lambda>(r, w').
         (and_then r (\<lambda>x. Inr (print_dumps (verification_report x), exit_code x)), w'))
       (verify_probe_flow dumps transport clock settings uuid4 (Fin 10) (Fin (1 / 2)) w)"

section \<open>The details of a task can always be read\<close>

lemma stored_task:
  "schema_ok d \<Longrightarrow> t \<in> set (dag_tasks d) \<Longrightarrow> get_task d (dt_id t) = Inr t"
  using task_rows.get_iff [of d "dt_id t" t] schema_ok_distinct(1) [of d]
  by (simp add: get_task_def)

lemma get_task_stored: "get_task d i = Inr t \<Longrightarrow> t \<in> set (dag_tasks d) \<and> dt_id t = i"
  using task_rows.get_SomeD [of d i t] by (auto simp: get_task_def split: option.splits)

lemma external_ids_iff:
  assumes "schema_ok d"
  shows "dict_display (map (\<lambda>s. (ds_id s, ds_external_id s)) (task_subtasks d i)) k = Some x \<longleftrightarrow>
    (\<exists>s \<in> set (task_subtasks d i). ds_id s = k \<and> ds_external_id s = x)"
proof -
  have "distinct (map ds_id (task_subtasks d i))"
    using schema_ok_distinct(2) [OF assms] by (simp add: task_subtasks_def distinct_map_filter)
  then show ?thesis by (subst dict_display_iff) (auto simp: comp_def)
qed

lemma task_to_detail_total:
  assumes inv: "db_inv d" and t: "t \<in> set (dag_tasks d)"
  shows "\<exists>x. task_to_detail d t = Inr x"
proof -
  let ?m = "dict_display (map (\<lambda>s. (ds_id s, ds_external_id s)) (task_subtasks d (dt_id t)))"
  have known: "\<exists>x. ?m i = Some x" if "i \<in> dom (subtask_status d (dt_id t))" for i
  proof -
    from that obtain s where "row_get ds_id i (task_subtasks d (dt_id t)) = Some s"
      by (auto simp: subtask_status_def subtask_by_id_def)
    then have "s \<in> set (task_subtasks d (dt_id t))" "ds_id s = i" by (auto dest: row_get_SomeD)
    then show ?thesis using external_ids_iff [of d] inv by (auto simp: db_inv_def)
  qed
  have wf: "dependency_edges d (dt_id t) \<subseteq>
      dom (subtask_status d (dt_id t)) \<times> dom (subtask_status d (dt_id t))"
    using db_inv_flow [OF inv t] by (simp add: flow_inv_def flow_wf_def)
  have "\<exists>x. dependency_read ?m r = Inr x" if r: "r \<in> set (task_dependencies d (dt_id t))" for r
  proof -
    have "(dd_predecessor_subtask_id r, dd_successor_subtask_id r) \<in> dependency_edges d (dt_id t)"
      using r by (simp add: dependency_edges_def)
    with wf have "dd_predecessor_subtask_id r \<in> dom (subtask_status d (dt_id t))"
      "dd_successor_subtask_id r \<in> dom (subtask_status d (dt_id t))" by blast+
    from known [OF this(1)] known [OF this(2)] show ?thesis
      by (auto simp: dependency_read_def and_then_def lookup_key_def)
  qed
  then have "\<exists>ys. map_result (dependency_read ?m) rs = Inr ys"
    if "set rs \<subseteq> set (task_dependencies d (dt_id t))" for rs
    using that by (induction rs) (simp, fastforce simp: and_then_def)
  from this [OF subset_refl] show ?thesis by (auto simp: task_to_detail_def Let_def and_then_def)
qed

lemma api_get_task_total:
  assumes inv: "db_inv d"
  shows "(\<exists>x. api_get_task i d = Inr x) \<longleftrightarrow> i \<in> dt_id ` set (dag_tasks d)"
    and "i \<notin> dt_id ` set (dag_tasks d) \<Longrightarrow> api_get_task i d = Inl (task_not_found i)"
proof -
  show missing: "api_get_task i d = Inl (task_not_found i)" if "i \<notin> dt_id ` set (dag_tasks d)"
    using that row_get_None_iff [of dt_id i "dag_tasks d"]
    by (simp add: api_get_task_def get_task_def task_rows.get_rows and_then_def)
  have "\<exists>x. api_get_task (dt_id t) d = Inr x" if "t \<in> set (dag_tasks d)" for t
    using stored_task [of d t] task_to_detail_total [OF inv that] inv that
    by (simp add: api_get_task_def and_then_def db_inv_def)
  with missing show "(\<exists>x. api_get_task i d = Inr x) \<longleftrightarrow> i \<in> dt_id ` set (dag_tasks d)"
    by (metis Inr_Inl_False imageE)
qed

section \<open>What was created is what is read\<close>

text \<open>
  What the detail shows of a requested subtask: its fields, with the load and the sizes as the
  columns keep them.
\<close>

definition shows_subtask :: "numeric \<Rightarrow> DagTaskCreate \<Rightarrow> SubtaskCreate \<Rightarrow> DagSubtaskRead \<Rightarrow> bool" where
  "shows_subtask numeric data c x \<longleftrightarrow>
     sb_external_id x = sc_external_id c \<and> sb_name x = sc_name c \<and>
     sb_execution_constraint x = sc_execution_constraint c \<and>
     sb_status x = (if sc_external_id c \<in> dc_to ` set (tc_dependencies data)
       then SubtaskStatus.WAITING else SubtaskStatus.READY) \<and>
     sb_retry_count x = 0 \<and> sb_max_retries x = sc_max_retries c \<and>
     map_sum id column_float (numeric 12 2 (sc_compute_load c)) = Inr (sb_compute_load x) \<and>
     map_sum id column_float (numeric 12 2 (sc_input_data_size_mb c)) = Inr (sb_input_data_size_mb x) \<and>
     map_sum id column_float (numeric 12 2 (sc_output_data_size_mb c)) = Inr (sb_output_data_size_mb x)"

lemma created_subtasks_shown:
  assumes "created_subtasks task_id data subs" and "created_loads numeric data subs"
  shows "list_all2 (shows_subtask numeric data) (tc_subtasks data) (map subtask_read subs)"
proof -
  have len: "length subs = length (tc_subtasks data)"
    using assms(2) by (simp add: created_loads_def list_all2_lengthD)
  have eq: "g (subs ! k) = h (tc_subtasks data ! k)"
    if "k < length subs" "map g subs = map h (tc_subtasks data)" for k and g :: "dag_subtask \<Rightarrow> 'c" and h
    using arg_cong [OF that(2), of "\<lambda>xs. xs ! k"] that(1) len by simp
  have targets: "snd ` set (request_edges data) = dc_to ` set (tc_dependencies data)"
    by (force simp: request_edges_def)
  show ?thesis
    unfolding list_all2_conv_all_nth
  proof (intro conjI allI impI)
    show "length (tc_subtasks data) = length (map subtask_read subs)" by (simp add: len)
    fix k assume "k < length (tc_subtasks data)"
    then have k: "k < length subs" "subs ! k \<in> set subs" by (simp_all add: len)
    have "numeric 12 2 (sc_compute_load (tc_subtasks data ! k)) = Inr (ds_compute_load (subs ! k))"
      "numeric 12 2 (sc_input_data_size_mb (tc_subtasks data ! k)) = Inr (ds_input_data_size_mb (subs ! k))"
      "numeric 12 2 (sc_output_data_size_mb (tc_subtasks data ! k)) = Inr (ds_output_data_size_mb (subs ! k))"
      using assms(2) k(1) len by (simp_all add: created_loads_def list_all2_conv_all_nth)
    moreover have "ds_external_id (subs ! k) = sc_external_id (tc_subtasks data ! k)"
      "ds_name (subs ! k) = sc_name (tc_subtasks data ! k)"
      "ds_execution_constraint (subs ! k) = sc_execution_constraint (tc_subtasks data ! k)"
      "ds_max_retries (subs ! k) = sc_max_retries (tc_subtasks data ! k)"
      using assms(1) k(1) by (simp_all add: created_subtasks_def eq)
    moreover have "ds_retry_count (subs ! k) = 0"
      "ds_status (subs ! k) = (if ds_external_id (subs ! k) \<in> dc_to ` set (tc_dependencies data)
        then SubtaskStatus.WAITING else SubtaskStatus.READY)"
      using assms(1) k(2) unfolding created_subtasks_def targets by blast+
    ultimately show "shows_subtask numeric data (tc_subtasks data ! k) (map subtask_read subs ! k)"
      using k(1) by (simp add: shows_subtask_def subtask_read_def)
  qed
qed

lemma create_task_detail:
  assumes inv: "db_inv d" and run: "create_task numeric now data d = Inr (t, d')"
  shows "\<exists>x. api_get_task (dt_id t) d' = Inr x \<and> td_id x = dt_id t \<and> td_name x = tc_name data \<and>
    td_status x = TaskStatus.PENDING \<and> td_priority x = tc_priority data \<and>
    td_deadline_at x = tc_deadline_at data \<and> td_created_at x = now \<and>
    list_all2 (shows_subtask numeric data) (tc_subtasks data) (td_subtasks x) \<and>
    td_dependencies x = map (\<lambda>e. \<lparr>de_from = dc_from e, de_to = dc_to e\<rparr>) (tc_dependencies data)"
proof -
  obtain subs deps where t: "t = new_task now (next_uuid d) data"
    and subs: "created_subtasks (next_uuid d) data subs"
    and deps: "created_dependencies (next_uuid d) data
      (next_uuid d + 1 + length (tc_subtasks data)) subs deps"
    and loads: "created_loads numeric data subs" and ok: "schema_ok d'" and rows: "dag_tasks d' = dag_tasks d @ [t]"
      "dag_subtasks d' = dag_subtasks d @ subs" "dag_dependencies d' = dag_dependencies d @ deps"
    by (rule create_task_stored [OF inv run])
  have id: "dt_id t = next_uuid d" by (simp add: t new_task_def)
  note read = new_task_rows [OF inv subs deps rows(2,3), folded id]
  let ?m = "dict_display (map (\<lambda>s. (ds_id s, ds_external_id s)) subs)"
  have m: "?m (ds_id s) = Some (ds_external_id s)" if "s \<in> set subs" for s
    using that external_ids_iff [OF ok, of "dt_id t"] by (auto simp: read)
  have "list_all2 (\<lambda>e r. dependency_read ?m r = Inr \<lparr>de_from = fst e, de_to = snd e\<rparr>)
      (request_edges data) deps"
    using deps unfolding created_dependencies_def
    by (elim conjE) (erule list_all2_mono, auto simp: dependency_read_def and_then_def
        lookup_key_def m)
  then have "list_all2 (\<lambda>r x. dependency_read ?m r = Inr x) deps
      (map (\<lambda>e. \<lparr>de_from = fst e, de_to = snd e\<rparr>) (request_edges data))"
    by (simp add: list_all2_conv_all_nth)
  then have "map_result (dependency_read ?m) deps =
      Inr (map (\<lambda>e. \<lparr>de_from = dc_from e, de_to = dc_to e\<rparr>) (tc_dependencies data))"
    unfolding map_result_Inr_iff by (simp add: request_edges_def comp_def)
  moreover have "get_task d' (dt_id t) = Inr t" by (rule stored_task [OF ok]) (simp add: rows)
  ultimately show ?thesis
    using created_subtasks_shown [OF subs loads]
    by (simp add: api_get_task_def task_to_detail_def and_then_def read [unfolded id] t new_task_def)
qed

section \<open>Errors leave the database as it was\<close>

lemma commit_Inl: "commit r d = (Inl e, d') \<longleftrightarrow> r = Inl e \<and> d' = d"
  by (auto simp: commit_def split: sum.splits)

lemma commit_Inr: "commit r d = (Inr x, d') \<longleftrightarrow> r = Inr (x, d')"
  by (auto simp: commit_def split: sum.splits)

lemma api_create_task_error:
  assumes inv: "db_inv d" and "api_create_task numeric now payload d = (Inl e, d')"
  shows "d' = d"
proof (cases "create_task numeric now payload d")
  case (Inl e1)
  with assms(2) show ?thesis by (simp add: api_create_task_def commit_def)
next
  case (Inr y)
  then obtain t d1 where y: "create_task numeric now payload d = Inr (t, d1)" by (cases y) simp
  have "schema_ok d1 \<and> t \<in> set (dag_tasks d1)"
    by (rule create_task_stored [OF inv y]) simp
  with stored_task [of d1 t] y assms(2) show ?thesis
    by (auto simp: api_create_task_def commit_def and_then_def)
qed

lemma api_report_node_status_error:
  assumes inv: "db_inv d" and "api_report_node_status numeric now i payload d = (Inl e, d')"
  shows "d' = d"
proof (cases "report_status numeric now i payload d")
  case (Inl e1)
  with assms(2) show ?thesis by (simp add: api_report_node_status_def commit_def)
next
  case (Inr y)
  then obtain r d1 where y: "report_status numeric now i payload d = Inr (r, d1)" by (cases y) simp
  from y obtain n where n: "node_get_by_id d i = Some n"
    by (auto simp: report_status_def get_node_def result_simps split: option.splits)
  have "node_get_by_id d1 i \<noteq> None" using report_status_node(1) [OF y] by auto
  with y assms(2) show ?thesis
    by (auto simp: api_report_node_status_def commit_def get_node_def and_then_def)
qed

lemma api_cancel_task_error:
  assumes inv: "db_inv d" and "api_cancel_task revoker now i payload d = (Inl e, d')"
  shows "d' = d"
proof (cases "cancel_task revoker now i (cx_reason payload) d")
  case (Inl e1)
  with assms(2) show ?thesis by (simp add: api_cancel_task_def commit_def and_then_def)
next
  case (Inr d1)
  then obtain t where t: "t \<in> set (dag_tasks d)" "dt_id t = i"
    using get_task_stored [of d i] by (auto simp: cancel_task_def result_simps)
  from cancel_task_step [OF inv Inr] t obtain t1 where "t1 \<in> set (dag_tasks d1)" "dt_id t1 = i"
    "schema_ok d1" by (fastforce simp: db_step_def flows_follow_def db_inv_def)
  with stored_task [of d1 t1] Inr assms(2) show ?thesis
    by (auto simp: api_cancel_task_def commit_def and_then_def)
qed

end
