(* ===== verification/Worker.thy ===== *)
theory Worker
  imports Worker_Health Execution_Report
begin

text \<open>
  \<open>app/worker/tasks.py\<close>: the Celery task that runs an execution. The database it works on
  may change while it sleeps: \<open>sleep_fn\<close> is a parameter that returns the database as the
  others have left it. \<open>db_fault\<close> says which of the run's database accesses raise: the query of
  the \<open>k\<close>-th cancel check, or the transaction of the report. The polling loop works on floats and is a partial
  function; it is shown to end when the interval is not negligible against the total.
\<close>

section \<open>Retrying\<close>

definition is_retryable_worker_exception :: "exc \<Rightarrow> bool" where
  "is_retryable_worker_exception e =
     (case e of
        AppError _ \<Rightarrow> False
      | OperationalError _ \<Rightarrow> True
      | PoolTimeoutError _ \<Rightarrow> True
      | DBAPIError _ connection_invalidated _ \<Rightarrow> connection_invalidated
      | _ \<Rightarrow> False)"

definition calculate_retry_countdown :: "nat \<Rightarrow> int \<Rightarrow> int \<Rightarrow> int" where
  "calculate_retry_countdown retry_count base_seconds max_seconds =
     min (base_seconds * 2 ^ retry_count) max_seconds"

definition has_worker_retry_budget :: "nat \<Rightarrow> int \<Rightarrow> bool" where
  "has_worker_retry_budget retry_count max_retries = (int retry_count < max_retries)"

section \<open>Reports that never fail\<close>

text \<open>\<open>str(hostname or socket.gethostname())\<close>\<close>

definition resolve_worker_name :: "string option \<Rightarrow> string \<Rightarrow> string" where
  "resolve_worker_name hostname gethostname =
     (case hostname of None \<Rightarrow> gethostname | Some h \<Rightarrow> if h = [] then gethostname else h)"

definition report_worker_heartbeat ::
  "datetime \<Rightarrow> string \<Rightarrow> int \<Rightarrow> string \<Rightarrow> WorkerStatus \<Rightarrow> uuid option \<Rightarrow> db \<Rightarrow> db" where
  "report_worker_heartbeat now gethostname getpid worker_name status current_execution_id d =
     (case report_heartbeat now worker_name gethostname (Some getpid) status current_execution_id
             None d of
        Inl _ \<Rightarrow> d
      | Inr r \<Rightarrow> snd r)"

definition report_retry_exhausted_alert ::
  "datetime \<Rightarrow> uuid \<Rightarrow> string \<Rightarrow> string option \<Rightarrow> nat \<Rightarrow> int \<Rightarrow> exc \<Rightarrow> db \<Rightarrow> db" where
  "report_retry_exhausted_alert now execution_id worker_name celery_task_id retry_count max_retries
     e d =
     (case report_retry_exhausted now execution_id worker_name celery_task_id (int retry_count)
             max_retries e d of
        Inl _ \<Rightarrow> d
      | Inr d' \<Rightarrow> d')"

section \<open>Sleeping with cancel checks\<close>

datatype worker_query = CancelCheck nat | ReportTransaction

definition canceled_in_db :: "uuid \<Rightarrow> db \<Rightarrow> bool" where
  "canceled_in_db execution_id d =
     (case execution_get_by_id d execution_id of
        None \<Rightarrow> False
      | Some r \<Rightarrow> er_status r = ExecutionStatus.CANCELED)"

definition is_execution_canceled ::
  "(worker_query \<Rightarrow> exc option) \<Rightarrow> uuid \<Rightarrow> nat \<Rightarrow> db \<Rightarrow> bool result" where
  "is_execution_canceled db_fault execution_id k d =
     (case db_fault (CancelCheck k) of
        Some e \<Rightarrow> Inl e
      | None \<Rightarrow> Inr (canceled_in_db execution_id d))"

text \<open>The loop counts its checks; \<open>check k\<close> is what the \<open>k\<close>-th one answers or raises.\<close>

partial_function (option) cancel_loop ::
  "(nat \<Rightarrow> 's \<Rightarrow> bool result) \<Rightarrow> (pyfloat \<Rightarrow> 's \<Rightarrow> unit result \<times> 's) \<Rightarrow> pyfloat \<Rightarrow> pyfloat \<Rightarrow>
   nat \<Rightarrow> 's \<Rightarrow> (bool result \<times> 's) option" where
  "cancel_loop check sleep_fn interval_seconds remaining_seconds k w =
     (if \<not> f_less (lit 0) remaining_seconds then Some (check k w, w)
      else
        (case check k w of
           Inl e \<Rightarrow> Some (Inl e, w)
         | Inr canceled \<Rightarrow>
             if canceled then Some (Inr True, w)
             else
               (case sleep_fn (py_min interval_seconds remaining_seconds) w of
                  (r, w') \<Rightarrow>
                    (case r of
                       Inl e \<Rightarrow> Some (Inl e, w')
                     | Inr _ \<Rightarrow> cancel_loop check sleep_fn interval_seconds
                         (f_sub remaining_seconds (py_min interval_seconds remaining_seconds))
                         (Suc k) w'))))"

text \<open>The longest the worker sleeps between two checks.\<close>

definition poll_interval :: "pyfloat \<Rightarrow> pyfloat \<Rightarrow> pyfloat" where
  "poll_interval total_seconds check_interval_seconds =
     (if f_le check_interval_seconds (lit 0) then total_seconds else check_interval_seconds)"

definition sleep_with_cancel_checks ::
  "(nat \<Rightarrow> 's \<Rightarrow> bool result) \<Rightarrow> (pyfloat \<Rightarrow> 's \<Rightarrow> unit result \<times> 's) \<Rightarrow> pyfloat \<Rightarrow> pyfloat \<Rightarrow>
   's \<Rightarrow> (bool result \<times> 's) option" where
  "sleep_with_cancel_checks check sleep_fn total_seconds check_interval_seconds w =
     (if f_le total_seconds (lit 0) then Some (check 0 w, w)
      else
        let interval_seconds = poll_interval total_seconds check_interval_seconds in
        cancel_loop check sleep_fn interval_seconds total_seconds 0 w)"

section \<open>The task\<close>

record celery_request =
  cr_hostname :: "string option"
  cr_retries :: nat
  cr_id :: "string option"

datatype worker_outcome =
    Returned ExecutionResult
  | Raised exc
  | Retry int exc

definition worker_report ::
  "Settings \<Rightarrow> (worker_query \<Rightarrow> exc option) \<Rightarrow> datetime \<Rightarrow> uuid \<Rightarrow> string \<Rightarrow> int option \<Rightarrow> string option \<Rightarrow>
   string option \<Rightarrow> bool \<Rightarrow> db \<Rightarrow> (ExecutionResult \<times> db) result" where
  "worker_report settings db_fault now execution_id result_status duration_ms output_summary
     failure_reason execution_canceled d =
     and_then (if execution_canceled then Inr ExecutionStatus.CANCELED
       else execution_status_of_value result_status) (\<lambda>final_status.
     let effective_duration_ms = (case duration_ms of
           None \<Rightarrow> simulated_execution_duration_ms settings | Some n \<Rightarrow> n);
         effective_output_summary = (case output_summary of
           None \<Rightarrow> ''simulated execution completed by celery worker'' | Some s \<Rightarrow> s);
         effective_failure_reason = (case failure_reason of
           Some s \<Rightarrow> Some s
         | None \<Rightarrow> if execution_canceled
             then Some ''execution canceled before worker completion'' else None) in
     case db_fault ReportTransaction of
       Some e \<Rightarrow> Inl e
     | None \<Rightarrow> report_result now execution_id final_status (Some effective_duration_ms)
         (Some effective_output_summary) effective_failure_reason d)"

definition worker_failure ::
  "Settings \<Rightarrow> celery_request \<Rightarrow> datetime \<Rightarrow> uuid \<Rightarrow> string \<Rightarrow> exc \<Rightarrow> db \<Rightarrow> worker_outcome \<times> db" where
  "worker_failure settings request now execution_id worker_name e d =
     (if is_retryable_worker_exception e
      then
        let retry_count = cr_retries request; max_retries = celery_execution_max_retries settings in
        if \<not> has_worker_retry_budget retry_count max_retries
        then (Raised e, report_retry_exhausted_alert now execution_id worker_name (cr_id request)
               retry_count max_retries e d)
        else (Retry (calculate_retry_countdown retry_count
                (celery_execution_retry_backoff_seconds settings)
                (celery_execution_retry_backoff_max_seconds settings)) e, d)
      else (Raised e, d))"

text \<open>\<open>now k\<close> is the time at which the \<open>k\<close>-th transaction of the run looks at the clock.\<close>

definition execute_subtask ::
  "Settings \<Rightarrow> celery_request \<Rightarrow> string \<Rightarrow> int \<Rightarrow> (nat \<Rightarrow> datetime) \<Rightarrow>
   (pyfloat \<Rightarrow> db \<Rightarrow> unit result \<times> db) \<Rightarrow> (worker_query \<Rightarrow> exc option) \<Rightarrow> uuid \<Rightarrow> string \<Rightarrow>
   int option \<Rightarrow> string option \<Rightarrow> string option \<Rightarrow> db \<Rightarrow> (worker_outcome \<times> db) option" where
  "execute_subtask settings request gethostname getpid now sleep_fn db_fault execution_id
     result_status duration_ms output_summary failure_reason d =
     (let worker_name = resolve_worker_name (cr_hostname request) gethostname;
          d1 = report_worker_heartbeat (now 0) gethostname getpid worker_name WorkerStatus.BUSY
            (Some execution_id) d;
          online = report_worker_heartbeat (now 3) gethostname getpid worker_name
            WorkerStatus.ONLINE None in
      case sleep_with_cancel_checks (is_execution_canceled db_fault execution_id) sleep_fn
             (simulated_execution_sleep_seconds settings)
             (worker_cancel_check_interval_seconds settings) d1 of
        None \<Rightarrow> None
      | Some (slept, d2) \<Rightarrow>
          (case and_then slept (\<lambda>canceled. worker_report settings db_fault (now 1) execution_id
                  result_status duration_ms output_summary failure_reason canceled d2) of
             Inr (x, d3) \<Rightarrow> Some (Returned x, online d3)
           | Inl e \<Rightarrow>
               (case worker_failure settings request (now 2) execution_id worker_name e d2 of
                  (outcome, d3) \<Rightarrow> Some (outcome, online d3))))"

section \<open>The retry policy\<close>

lemma retry_countdown_bounds:
  assumes "0 \<le> base" and "base \<le> maximum"
  shows "base \<le> calculate_retry_countdown n base maximum"
    and "calculate_retry_countdown n base maximum \<le> maximum"
    and "calculate_retry_countdown n base maximum \<le> calculate_retry_countdown (Suc n) base maximum"
proof -
  have "base * 1 \<le> base * 2 ^ n" using assms(1) by (intro mult_left_mono) simp_all
  with assms(2) show "base \<le> calculate_retry_countdown n base maximum"
    by (simp add: calculate_retry_countdown_def)
  show "calculate_retry_countdown n base maximum \<le> maximum"
    by (simp add: calculate_retry_countdown_def)
  have "base * 2 ^ n \<le> base * 2 ^ Suc n" using assms(1) by (intro mult_left_mono) simp_all
  then show "calculate_retry_countdown n base maximum \<le>
      calculate_retry_countdown (Suc n) base maximum"
    by (simp add: calculate_retry_countdown_def min.coboundedI1)
qed

lemma worker_failure_retry:
  assumes "worker_failure settings request now i name e d = (Retry n e', d')"
  shows "e' = e" and "is_retryable_worker_exception e" and "d' = d"
    and "int (cr_retries request) < celery_execution_max_retries settings"
    and "n = calculate_retry_countdown (cr_retries request)
      (celery_execution_retry_backoff_seconds settings)
      (celery_execution_retry_backoff_max_seconds settings)"
  using assms
  by (auto simp: worker_failure_def Let_def has_worker_retry_budget_def split: if_splits)

section \<open>The loop ends\<close>

lemma round_double_error:
  assumes "0 < x"
  shows "round_double x \<le> x + 2 powi last_place x / 2"
proof -
  let ?u = "2 powi last_place x :: rat"
  have "of_int (round_half_even (x / ?u)) \<le> x / ?u + 1 / 2"
    using round_half_even_error [of "x / ?u"] by linarith
  then have "of_int (round_half_even (x / ?u)) * ?u \<le> (x / ?u + 1 / 2) * ?u"
    by (intro mult_right_mono) simp_all
  with assms show ?thesis by (simp add: round_double_def distrib_right)
qed

text \<open>A subtraction by at least the \<open>2 powi -52\<close>-th part makes at least half its progress.\<close>

lemma round_double_progress:
  assumes "0 < i" and "i < r" and "r \<le> i * 2 powi 52" and "2 powi (- 1074) \<le> i"
  shows "round_double (r - i) \<le> r - i / 2"
proof -
  let ?x = "r - i"
  have x: "0 < ?x" using assms by simp
  have "(2 :: rat) powi last_place ?x \<le> i"
  proof (cases "binade ?x - 52 \<le> - 1074")
    case True
    then show ?thesis using x assms(4) by (simp add: last_place_def)
  next
    case False
    then have "last_place ?x = binade ?x - 52" using x by (simp add: last_place_def)
    moreover have "2 powi binade ?x \<le> ?x" using binade_bounds [OF x] by simp
    then have "2 powi binade ?x / 2 powi 52 \<le> i"
      using assms(1,3) by (simp add: field_simps)
    ultimately show ?thesis by (simp add: power_int_diff)
  qed
  with round_double_error [OF x] show ?thesis by simp
qed

text \<open>The remaining time after a round, for an interval shorter than it.\<close>

lemma remaining_after:
  assumes i: "0 < i" "i < r" and r: "r \<le> i * 2 powi 52" and small: "2 powi (- 1074) \<le> i"
    and big: "r \<le> 2 powi 1000"
  shows "\<exists>r'. f_sub (Fin r) (Fin i) = Fin r' \<and> r' \<le> r - i / 2 \<and> r' \<le> 2 powi 1000"
proof -
  have "0 \<le> r - i" "r - i \<le> 2 powi 1000" using i big by simp_all
  then have "f_sub (Fin r) (Fin i) = Fin (round_double (r - i))"
    using fl_finite [of "r - i" 1000] by (simp add: f_sub_def)
  moreover have "round_double (r - i) \<le> r - i / 2"
    by (rule round_double_progress [OF i r small])
  ultimately show ?thesis using i(1) big by auto
qed

lemma cancel_loop_ends:
  assumes i: "0 < i" "2 powi (- 1074) \<le> i"
    and "r \<le> i * 2 powi 52" and "r \<le> 2 powi 1000"
  shows "\<exists>y. cancel_loop check sleep_fn (Fin i) (Fin r) k w = Some y"
  using assms(3,4)
proof (induction "nat \<lceil>2 * r / i\<rceil>" arbitrary: r k w rule: less_induct)
  case less
  show ?case
  proof (cases "0 < r")
    case False
    then show ?thesis by (subst cancel_loop.simps) simp
  next
    case pos: True
    have rest: "\<exists>y. cancel_loop check sleep_fn (Fin i)
        (f_sub (Fin r) (py_min (Fin i) (Fin r))) k' w' = Some y" for k' w'
    proof (cases "i < r")
      case True
      from remaining_after [OF i(1) True less.prems(1) i(2) less.prems(2)] obtain r' where
        r': "f_sub (Fin r) (Fin i) = Fin r'" "r' \<le> r - i / 2" "r' \<le> 2 powi 1000" by blast
      have "2 * r' / i \<le> (2 * r - i) / i" using r'(2) i(1) by (intro divide_right_mono) simp_all
      then have "2 * r' / i \<le> 2 * r / i - 1" using i(1) by (simp add: diff_divide_distrib)
      moreover have "0 < 2 * r / i" using pos i(1) by simp
      ultimately have "nat \<lceil>2 * r' / i\<rceil> < nat \<lceil>2 * r / i\<rceil>" by linarith
      moreover have "r' \<le> i * 2 powi 52" using r'(2) less.prems(1) i(1) by simp
      ultimately have "\<exists>y. cancel_loop check sleep_fn (Fin i) (Fin r') k' w' = Some y"
        using less.hyps r'(3) by blast
      with True r'(1) show ?thesis by (simp add: py_min_def)
    next
      case False
      then have "py_min (Fin i) (Fin r) = Fin r" by (auto simp: py_min_def)
      then have "f_sub (Fin r) (py_min (Fin i) (Fin r)) = Fin 0" by (simp add: f_sub_def)
      moreover have "\<exists>y. cancel_loop check sleep_fn (Fin i) (Fin 0) k' w' = Some y"
        by (subst cancel_loop.simps) (simp add: lit_def)
      ultimately show ?thesis by simp
    qed
    show ?thesis
      by (subst cancel_loop.simps) (use rest in \<open>auto split: prod.splits sum.splits\<close>)
  qed
qed

text \<open>
  A finite sleep whose interval is not below the \<open>2 powi -52\<close>-th part of it always
  returns, whatever the checks and the other transactions do.
\<close>

lemma sleep_with_cancel_checks_ends:
  assumes "check_interval \<le> 0 \<or> secs \<le> check_interval * 2 powi 52 \<and> 2 powi (- 1074) \<le> check_interval"
    and "2 powi (- 1074) \<le> secs \<or> secs \<le> 0" and "secs \<le> 2 powi 1000"
  shows "\<exists>y. sleep_with_cancel_checks check sleep_fn (Fin secs) (Fin check_interval) w = Some y"
proof (cases "secs \<le> 0")
  case True
  then show ?thesis
    by (auto simp: sleep_with_cancel_checks_def lit_def f_le_def f_eq_def)
next
  case False
  have own: "secs \<le> secs * 2 powi 52" using False by simp
  from False have "\<not> f_le (Fin secs) (lit 0)" by (auto simp: lit_def f_le_def f_eq_def)
  moreover have "f_le (Fin check_interval) (lit 0) \<longleftrightarrow> check_interval \<le> 0"
    by (auto simp: lit_def f_le_def f_eq_def)
  ultimately show ?thesis
    using assms False own cancel_loop_ends [of secs secs] cancel_loop_ends [of check_interval secs]
    by (auto simp: sleep_with_cancel_checks_def poll_interval_def Let_def)
qed

section \<open>What the answer means\<close>

text \<open>
  A sequence of checks that say no, each followed by a sleep that does not raise, from the
  \<open>k\<close>-th check on.
\<close>

inductive polls ::
  "(nat \<Rightarrow> 's \<Rightarrow> bool result) \<Rightarrow> (pyfloat \<Rightarrow> 's \<Rightarrow> unit result \<times> 's) \<Rightarrow> nat \<Rightarrow> 's \<Rightarrow>
   pyfloat list \<Rightarrow> 's \<Rightarrow> bool"
  for check sleep_fn where
  polls_done: "polls check sleep_fn k w [] w"
| polls_slept: "check k w = Inr False \<Longrightarrow> sleep_fn x w = (Inr (), w1) \<Longrightarrow>
    polls check sleep_fn (Suc k) w1 xs w' \<Longrightarrow> polls check sleep_fn k w (x # xs) w'"

lemma f_less_asym: "f_less a b \<Longrightarrow> \<not> f_less b a"
  by (cases a; cases b) auto

text \<open>
  The loop stops at the first check that says yes, never sleeps longer than the interval
  between two checks, and otherwise sleeps until nothing remains.
\<close>

lemma cancel_loop_polls:
  assumes "cancel_loop check sleep_fn i r k w = Some y"
  shows "\<forall>b w'. y = (Inr b, w') \<longrightarrow> (\<exists>xs. polls check sleep_fn k w xs w' \<and>
    check (k + length xs) w' = Inr b \<and> (\<forall>x \<in> set xs. \<not> f_less i x) \<and>
    (\<not> b \<longrightarrow> \<not> f_less (lit 0) (foldl f_sub r xs)))"
  using assms
proof (rule cancel_loop.raw_induct [rotated, where P = "\<lambda>check sleep_fn i r k w y.
    \<forall>b w'. y = (Inr b, w') \<longrightarrow> (\<exists>xs. polls check sleep_fn k w xs w' \<and>
      check (k + length xs) w' = Inr b \<and> (\<forall>x \<in> set xs. \<not> f_less i x) \<and>
      (\<not> b \<longrightarrow> \<not> f_less (lit 0) (foldl f_sub r xs)))"])
  fix loop :: "(nat \<Rightarrow> 'a \<Rightarrow> bool result) \<Rightarrow> (pyfloat \<Rightarrow> 'a \<Rightarrow> unit result \<times> 'a) \<Rightarrow> pyfloat \<Rightarrow>
      pyfloat \<Rightarrow> nat \<Rightarrow> 'a \<Rightarrow> (bool result \<times> 'a) option"
    and check sleep_fn i r k w y
  let ?x = "py_min i r"
  assume IH: "\<And>check sleep_fn i r k w y. loop check sleep_fn i r k w = Some y \<Longrightarrow>
      \<forall>b w'. y = (Inr b, w') \<longrightarrow> (\<exists>xs. polls check sleep_fn k w xs w' \<and>
        check (k + length xs) w' = Inr b \<and> (\<forall>x \<in> set xs. \<not> f_less i x) \<and>
        (\<not> b \<longrightarrow> \<not> f_less (lit 0) (foldl f_sub r xs)))"
    and run: "(if \<not> f_less (lit 0) r then Some (check k w, w)
      else case check k w of Inl e \<Rightarrow> Some (Inl e, w)
        | Inr canceled \<Rightarrow> if canceled then Some (Inr True, w)
          else case sleep_fn ?x w of (s, w') \<Rightarrow>
            (case s of Inl e \<Rightarrow> Some (Inl e, w') | Inr u \<Rightarrow>
              loop check sleep_fn i (f_sub r ?x) (Suc k) w')) = Some y"
  have short: "\<not> f_less i ?x" by (auto simp: py_min_def dest: f_less_asym)
  show "\<forall>b w'. y = (Inr b, w') \<longrightarrow> (\<exists>xs. polls check sleep_fn k w xs w' \<and>
      check (k + length xs) w' = Inr b \<and> (\<forall>x \<in> set xs. \<not> f_less i x) \<and>
      (\<not> b \<longrightarrow> \<not> f_less (lit 0) (foldl f_sub r xs)))"
  proof (intro allI impI)
    fix b w' assume y: "y = (Inr b, w')"
    show "\<exists>xs. polls check sleep_fn k w xs w' \<and>
      check (k + length xs) w' = Inr b \<and> (\<forall>x \<in> set xs. \<not> f_less i x) \<and>
      (\<not> b \<longrightarrow> \<not> f_less (lit 0) (foldl f_sub r xs))"
    proof (cases "f_less (lit 0) r \<and> check k w = Inr False")
      case False
      with run y show ?thesis
        by (intro exI [of _ "[]"]) (auto intro: polls_done split: if_splits sum.splits)
    next
      case True
      with run y obtain w1 where w1: "sleep_fn ?x w = (Inr (), w1)"
        "loop check sleep_fn i (f_sub r ?x) (Suc k) w1 = Some (Inr b, w')"
        by (auto split: prod.splits sum.splits)
      from IH [OF w1(2)] obtain xs where xs: "polls check sleep_fn (Suc k) w1 xs w'"
        "check (Suc k + length xs) w' = Inr b" "\<forall>x \<in> set xs. \<not> f_less i x"
        "\<not> b \<longrightarrow> \<not> f_less (lit 0) (foldl f_sub (f_sub r ?x) xs)" by blast
      with True w1(1) short show ?thesis
        by (intro exI [of _ "?x # xs"]) (auto intro: polls_slept)
    qed
  qed
qed

lemma sleep_polls:
  assumes "sleep_with_cancel_checks check sleep_fn secs interval w = Some (Inr b, w')"
  shows "\<exists>xs. polls check sleep_fn 0 w xs w' \<and> check (length xs) w' = Inr b \<and>
    (\<forall>x \<in> set xs. \<not> f_less (poll_interval secs interval) x) \<and>
    (\<not> b \<longrightarrow> \<not> f_less (lit 0) (foldl f_sub secs xs))"
proof (cases "f_le secs (lit 0)")
  case True
  then have "\<not> f_less (lit 0) secs" by (auto simp: f_le_def f_eq_def dest: f_less_asym)
  with True assms show ?thesis
    by (intro exI [of _ "[]"]) (auto simp: sleep_with_cancel_checks_def intro: polls_done)
next
  case False
  with assms cancel_loop_polls [of check sleep_fn _ secs 0 w "(Inr b, w')"] show ?thesis
    by (auto simp: sleep_with_cancel_checks_def Let_def)
qed

text \<open>What the other transactions keep, the sleep keeps.\<close>

lemma cancel_loop_keeps:
  assumes "cancel_loop check sleep_fn i r k w = Some y" and "I w"
    and "\<And>x w. I w \<Longrightarrow> I (snd (sleep_fn x w))"
  shows "I (snd y)"
proof -
  have "I w \<longrightarrow> (\<forall>x w. I w \<longrightarrow> I (snd (sleep_fn x w))) \<longrightarrow> I (snd y)"
    using assms(1)
    by (rule cancel_loop.raw_induct [rotated, where P = "\<lambda>check sleep_fn i r k w y.
        I w \<longrightarrow> (\<forall>x w. I w \<longrightarrow> I (snd (sleep_fn x w))) \<longrightarrow> I (snd y)"])
      (auto split: if_splits prod.splits sum.splits, (metis snd_conv)+)
  with assms(2,3) show ?thesis by blast
qed

lemma sleep_keeps:
  assumes "sleep_with_cancel_checks check sleep_fn secs interval w = Some (b, w')" and "I w"
    and "\<And>x w. I w \<Longrightarrow> I (snd (sleep_fn x w))"
  shows "I w'"
  using assms(1) cancel_loop_keeps [of check sleep_fn _ secs 0 w "(b, w')" I] assms(2,3)
  by (auto simp: sleep_with_cancel_checks_def Let_def split: if_splits)

section \<open>What the task keeps\<close>

text \<open>
  A property of the database that the reports of the worker and the other transactions
  keep, the run of the task keeps.
\<close>

lemma worker_report_result:
  assumes "worker_report settings fault now i status duration summary reason c d = Inr (x, d')"
    and "opt_all (\<lambda>n. 0 \<le> n) duration" and "0 \<le> simulated_execution_duration_ms settings"
  obtains v n out why where "0 \<le> n" and "c \<Longrightarrow> v = ExecutionStatus.CANCELED"
    and "report_result now i v (Some n) (Some out) why d = Inr (x, d')"
  using assms
  by (cases duration) (auto simp: worker_report_def Let_def result_simps opt_all_def
      split: option.splits if_splits)

lemma execute_subtask_keeps:
  assumes run: "execute_subtask settings request host pid now sleep_fn fault i status duration
      summary reason d = Some (outcome, d')"
    and start: "I d"
    and others: "\<And>x d. I d \<Longrightarrow> I (snd (sleep_fn x d))"
    and heartbeat: "\<And>now name v current d. I d \<Longrightarrow>
      I (report_worker_heartbeat now host pid name v current d)"
    and alert: "\<And>now name e d. I d \<Longrightarrow> I (report_retry_exhausted_alert now i name (cr_id request)
      (cr_retries request) (celery_execution_max_retries settings) e d)"
    and report: "\<And>now v n out why x d d'. I d \<Longrightarrow> 0 \<le> n \<Longrightarrow>
      report_result now i v (Some n) (Some out) why d = Inr (x, d') \<Longrightarrow> I d'"
    and duration: "opt_all (\<lambda>n. 0 \<le> n) duration" "0 \<le> simulated_execution_duration_ms settings"
  shows "I d'"
proof -
  let ?name = "resolve_worker_name (cr_hostname request) host"
  let ?d1 = "report_worker_heartbeat (now 0) host pid ?name WorkerStatus.BUSY (Some i) d"
  from run obtain slept d2 where
    slept: "sleep_with_cancel_checks (is_execution_canceled fault i) sleep_fn
      (simulated_execution_sleep_seconds settings) (worker_cancel_check_interval_seconds settings)
      ?d1 = Some (slept, d2)"
    by (auto simp: execute_subtask_def Let_def split: option.splits)
  have d2: "I d2" by (rule sleep_keeps [where I = I, OF slept heartbeat [OF start] others])
  let ?r = "and_then slept (\<lambda>canceled. worker_report settings fault (now 1) i status duration
    summary reason canceled d2)"
  show ?thesis
  proof (cases ?r)
    case (Inl e)
    obtain o3 d3 where f: "worker_failure settings request (now 2) i ?name e d2 = (o3, d3)"
      by fastforce
    then have "I d3"
      using d2 alert by (auto simp: worker_failure_def Let_def split: if_splits)
    with f run slept Inl heartbeat show ?thesis by (auto simp: execute_subtask_def Let_def)
  next
    case (Inr y)
    obtain x d3 where y: "y = (x, d3)" by fastforce
    with Inr obtain c where "worker_report settings fault (now 1) i status duration
        summary reason c d2 = Inr (x, d3)" by (auto simp: result_simps)
    then have "I d3" using report [OF d2] duration by (auto elim!: worker_report_result)
    with y run slept Inr heartbeat show ?thesis by (auto simp: execute_subtask_def Let_def)
  qed
qed

section \<open>What a run delivers\<close>

definition no_fault :: "worker_query \<Rightarrow> exc option" where
  "no_fault q = None"

lemma canceled_record:
  "canceled_in_db i d \<Longrightarrow>
     \<exists>r. execution_get_by_id d i = Some r \<and> er_status r = ExecutionStatus.CANCELED"
  by (auto simp: canceled_in_db_def split: option.splits)

lemma worker_report_not_running:
  assumes inv: "db_inv d" and r: "execution_get_by_id d i = Some r" "er_status r \<noteq> ExecutionStatus.RUNNING"
    and c: "c \<or> execution_status_of_value status = Inr v"
  shows "\<exists>x. worker_report settings no_fault now i status duration summary reason c d = Inr (x, d) \<and>
    \<not> xr_accepted x"
proof -
  from r have "r \<in> set (execution_records d)" using execution_rows.get_SomeD by blast
  from the_record_subtask [OF inv this] obtain s t where
    "get_subtask_row d (er_subtask_id r) = Some s" "task_get_by_id d (er_task_id r) = Some t"
    by metis
  with r c show ?thesis
    by (cases c) (simp_all add: worker_report_def no_fault_def Let_def report_result_def
        execution_result_def and_then_def)
qed

lemma execute_subtask_reported:
  assumes slept: "sleep_with_cancel_checks (is_execution_canceled fault i) sleep_fn
      (simulated_execution_sleep_seconds settings) (worker_cancel_check_interval_seconds settings)
      (report_worker_heartbeat (now 0) host pid
        (resolve_worker_name (cr_hostname request) host) WorkerStatus.BUSY (Some i) d) =
      Some (Inr c, d2)"
    and "worker_report settings fault (now 1) i status duration summary reason c d2 = Inr (x, d3)"
  shows "execute_subtask settings request host pid now sleep_fn fault i status duration summary reason d =
    Some (Returned x, report_worker_heartbeat (now 3) host pid
      (resolve_worker_name (cr_hostname request) host) WorkerStatus.ONLINE None d3)"
  using assms by (simp add: execute_subtask_def Let_def and_then_def)

text \<open>
  When the last check before the report sees the execution canceled, the report is refused
  as a duplicate and the run changes nothing but the worker's heartbeat.
\<close>

lemma execute_subtask_canceled:
  assumes run: "execute_subtask settings request host pid now sleep_fn no_fault i status duration
      summary reason d = Some (outcome, d')"
    and slept: "sleep_with_cancel_checks (is_execution_canceled no_fault i) sleep_fn
      (simulated_execution_sleep_seconds settings) (worker_cancel_check_interval_seconds settings)
      (report_worker_heartbeat (now 0) host pid
        (resolve_worker_name (cr_hostname request) host) WorkerStatus.BUSY (Some i) d) =
      Some (Inr True, d2)"
    and inv: "db_inv d2"
  shows "\<exists>x. outcome = Returned x \<and> \<not> xr_accepted x \<and>
    d' = report_worker_heartbeat (now 3) host pid (resolve_worker_name (cr_hostname request) host)
      WorkerStatus.ONLINE None d2"
proof -
  from sleep_polls [OF slept] have "canceled_in_db i d2"
    by (auto simp: is_execution_canceled_def no_fault_def)
  then obtain r where "execution_get_by_id d2 i = Some r" "er_status r \<noteq> ExecutionStatus.RUNNING"
    by (auto dest: canceled_record)
  from worker_report_not_running [OF inv this, of True] obtain x where
    "worker_report settings no_fault (now 1) i status duration summary reason True d2 = Inr (x, d2)"
    "\<not> xr_accepted x" by blast
  with execute_subtask_reported [OF slept this(1)] run show ?thesis by simp
qed

end
