(* ===== verification/Api_Runs.thy ===== *)
theory Api_Runs
  imports Api Worker
begin

text \<open>
  What the endpoints and the worker do to the database is a run of the platform. Starting
  an execution is the one request that takes two transactions: when the broker fails
  between them, its answer is an error and the executions are running all the same.
\<close>

section \<open>Runs\<close>

lemma run_refl [simp]: "platform_run d d"
  by (simp add: platform_run_def)

lemma run_step: "platform_step d d' \<Longrightarrow> platform_run d d'"
  by (simp add: platform_run_def)

lemma run_trans: "platform_run d d1 \<Longrightarrow> platform_run d1 d2 \<Longrightarrow> platform_run d d2"
  unfolding platform_run_def by (rule rtranclp_trans)

lemmas step_runs =
  platform_step.create_task [THEN run_step] platform_step.generate_plan [THEN run_step]
  platform_step.start_execution [THEN run_step] platform_step.record_celery_task_ids [THEN run_step]
  platform_step.report_result [THEN run_step] platform_step.cancel_task [THEN run_step]
  platform_step.create_node [THEN run_step] platform_step.report_status [THEN run_step]
  platform_step.report_heartbeat [THEN run_step] platform_step.report_retry_exhausted [THEN run_step]

lemma commit_run:
  "(\<And>x d'. r = Inr (x, d') \<Longrightarrow> platform_run d d') \<Longrightarrow> platform_run d (snd (commit r d))"
  by (auto simp: commit_def split: sum.splits)

section \<open>Endpoints\<close>

lemma api_create_task_run: "platform_run d (snd (api_create_task numeric now payload d))"
  by (auto simp: api_create_task_def commit_def intro: step_runs split: sum.splits)

lemma api_schedule_task_run:
  "platform_run d (snd (api_schedule_task random numeric now task_id payload d))"
  by (auto simp: api_schedule_task_def commit_def intro: step_runs split: sum.splits)

lemma api_report_execution_result_run:
  "valid_result_request payload \<Longrightarrow>
     platform_run d (snd (api_report_execution_result now execution_id payload d))"
  by (auto simp: api_report_execution_result_def valid_result_request_def commit_def
      intro: step_runs split: sum.splits)

lemma api_cancel_task_run: "platform_run d (snd (api_cancel_task revoker now task_id payload d))"
  by (auto simp: api_cancel_task_def commit_def and_then_def intro: step_runs split: sum.splits)

lemma api_create_node_run: "platform_run d (snd (api_create_node numeric now payload d))"
  by (auto simp: api_create_node_def commit_def intro: step_runs split: sum.splits)

lemma api_report_node_status_run:
  "platform_run d (snd (api_report_node_status numeric now node_id payload d))"
  by (auto simp: api_report_node_status_def commit_def intro: step_runs split: sum.splits)

lemma api_execute_task_run:
  "platform_run d (snd (fst (api_execute_task delay settings now task_id payload d w)))"
proof (cases "start_execution now task_id (sx_schedule_plan_id payload) d")
  case (Inl e)
  then show ?thesis by (simp add: api_execute_task_def commit_def)
next
  case (Inr y)
  then obtain x d1 where y: "start_execution now task_id (sx_schedule_plan_id payload) d = Inr (x, d1)"
    by (cases y) simp
  then have first: "platform_run d d1" by (rule step_runs)
  obtain r w1 where sent: "dispatch_started delay settings payload (es_execution_ids x) w = (r, w1)"
    by fastforce
  show ?thesis
  proof (cases r)
    case (Inl e)
    with first y sent show ?thesis by (simp add: api_execute_task_def commit_def)
  next
    case (Inr items)
    have "platform_run d1 (snd (commit (and_then (record_celery_task_ids rs d1) (\<lambda>d2. Inr (v, d2))) d1))"
      for rs and v :: ExecutionStartResponse
      by (rule commit_run) (auto simp: result_simps intro: step_runs)
    from run_trans [OF first this] y sent Inr show ?thesis
      by (simp add: api_execute_task_def commit_def [of "Inr (x, d1)"])
  qed
qed

section \<open>Starting an execution\<close>

lemma started_ids:
  assumes "db_inv d" and "start_execution now task_id plan_id d = Inr (x, d')"
  shows "es_status x = TaskStatus.RUNNING" and "es_execution_count x = int (length (es_execution_ids x))"
    and "es_execution_ids x \<noteq> []" and "es_task_id x = task_id"
    and "es_schedule_plan_id x = plan_id"
    and "es_execution_ids x = map er_id (started_records now task_id d (plan_items d plan_id))"
proof -
  have ok: "schema_ok d" using assms(1) by (simp add: db_inv_def)
  have go: "startable task_id plan_id d" by (rule start_execution_db [OF assms])
  then have items: "plan_items d plan_id \<noteq> []" by (simp add: startable_def)
  let ?n = "length (plan_items d plan_id)"
  have x: "x = \<lparr>es_task_id = task_id, es_schedule_plan_id = plan_id, es_status = TaskStatus.RUNNING,
      es_execution_count = int ?n, es_execution_ids = [next_uuid d..<next_uuid d + ?n]\<rparr>"
    using assms(2) unfolding start_execution_eq [OF ok go] and_then_Inr_iff
    by (auto simp only: sum.inject prod.inject)
  from items show "es_status x = TaskStatus.RUNNING" "es_execution_ids x \<noteq> []"
    "es_execution_count x = int (length (es_execution_ids x))"
    "es_task_id x = task_id" "es_schedule_plan_id x = plan_id"
    by (simp_all add: x)
  show "es_execution_ids x = map er_id (started_records now task_id d (plan_items d plan_id))"
    by (simp add: x started_records_ids del: upt_Suc)
qed

lemma api_execute_task_answer:
  assumes inv: "db_inv d"
    and run: "api_execute_task delay settings now task_id payload d w = ((Inr x, d'), w')"
  shows "startable task_id (sx_schedule_plan_id payload) d" and "xs_status x = TaskStatus.RUNNING"
    and "xs_execution_count x = int (length (xs_execution_ids x))" and "xs_execution_ids x \<noteq> []"
    and "xs_queued_count x =
      (if execution_auto_enqueue_enabled settings then xs_execution_count x else 0)"
proof -
  from run obtain r d1 items where
    start: "start_execution now task_id (sx_schedule_plan_id payload) d = Inr (r, d1)"
    and sent: "dispatch_started delay settings payload (es_execution_ids r) w = (Inr items, w')"
    and x: "x = \<lparr>xs_task_id = es_task_id r, xs_schedule_plan_id = es_schedule_plan_id r,
      xs_status = es_status r, xs_execution_count = es_execution_count r,
      xs_execution_ids = es_execution_ids r, xs_queued_count = int (length items)\<rparr>"
    by (auto simp: api_execute_task_def commit_Inl commit_Inr result_simps
        split: prod.splits sum.splits)
  show "startable task_id (sx_schedule_plan_id payload) d" by (rule start_execution_db [OF inv start])
  note ids = started_ids [OF inv start]
  from ids x show "xs_status x = TaskStatus.RUNNING"
    "xs_execution_count x = int (length (xs_execution_ids x))" "xs_execution_ids x \<noteq> []" by simp_all
  from sent have "map di_execution_id items =
      (if execution_auto_enqueue_enabled settings then es_execution_ids r else [])"
    by (auto simp: dispatch_started_def auto_enqueue_enabled_def Let_def dest!: enqueue_ids)
  from arg_cong [where f = length, OF this] ids x show "xs_queued_count x =
      (if execution_auto_enqueue_enabled settings then xs_execution_count x else 0)"
    by simp
qed

text \<open>
  What the request asks of the broker and of the database: a message per started execution,
  with the simulated outcome of the request, and the identifiers the broker gave.
\<close>

definition new_execution_ids :: "uuid \<Rightarrow> db \<Rightarrow> uuid list" where
  "new_execution_ids plan_id d = [next_uuid d..<next_uuid d + length (plan_items d plan_id)]"

definition message_of :: "ExecutionStartRequest \<Rightarrow> uuid \<Rightarrow> subtask_message" where
  "message_of payload i =
     (case sx_simulation payload of
        None \<Rightarrow> \<lparr>sm_execution_id = i, sm_result_status = ExecutionStatus.SUCCESS,
          sm_duration_ms = None, sm_output_summary = None, sm_failure_reason = None\<rparr>
      | Some s \<Rightarrow> \<lparr>sm_execution_id = i, sm_result_status = so_result_status s,
          sm_duration_ms = so_duration_ms s, sm_output_summary = so_output_summary s,
          sm_failure_reason = so_failure_reason s\<rparr>)"

definition start_response :: "uuid \<Rightarrow> uuid \<Rightarrow> uuid list \<Rightarrow> nat \<Rightarrow> ExecutionStartResponse" where
  "start_response task_id plan_id ids queued =
     \<lparr>xs_task_id = task_id, xs_schedule_plan_id = plan_id, xs_status = TaskStatus.RUNNING,
       xs_execution_count = int (length ids), xs_execution_ids = ids, xs_queued_count = int queued\<rparr>"

definition queued_db :: "uuid list \<Rightarrow> (uuid \<Rightarrow> string) \<Rightarrow> db \<Rightarrow> db" where
  "queued_db ids c d = d\<lparr>execution_records := map (\<lambda>r. if er_id r \<in> set ids
     then r\<lparr>er_celery_task_id := Some (c (er_id r))\<rparr> else r) (execution_records d)\<rparr>"

lemma set_celery_as_map:
  "set_celery_task_id i c d = d\<lparr>execution_records := map (\<lambda>r. if er_id r = i
     then r\<lparr>er_celery_task_id := Some c\<rparr> else r) (execution_records d)\<rparr>"
proof (cases "execution_get_by_id d i")
  case None
  then have "\<forall>r \<in> set (execution_records d). er_id r \<noteq> i"
    by (auto simp: execution_get_by_id_def row_get_None_iff)
  then have "map (\<lambda>r. if er_id r = i then r\<lparr>er_celery_task_id := Some c\<rparr> else r)
      (execution_records d) = execution_records d"
    by (intro map_idI) simp
  with None show ?thesis by (simp add: set_celery_task_id_def)
qed (simp add: set_celery_task_id_def upd_execution_def row_upd_as_map)

lemma recorded_ids:
  "fold (\<lambda>x. set_celery_task_id (dr_execution_id x) (dr_celery_task_id x))
     (map (\<lambda>i. \<lparr>dr_execution_id = i, dr_celery_task_id = c i\<rparr>) ids) d = queued_db ids c d"
  by (induction ids arbitrary: d)
    (auto simp: queued_db_def set_celery_as_map comp_def intro!: arg_cong [where f = "\<lambda>xs. execution_records_update (\<lambda>_. xs) _"])

lemma queued_schema_ok:
  assumes "schema_ok d"
  shows "schema_ok (queued_db ids c d)"
  by (rule schema_ok_map [OF assms, where g = "\<lambda>t. t" and f = "\<lambda>s. s" and h = "\<lambda>p. p"
        and k = "\<lambda>r. if er_id r \<in> set ids then r\<lparr>er_celery_task_id := Some (c (er_id r))\<rparr> else r"])
    (use assms in \<open>auto simp: queued_db_def record_keys_def schema_ok_def dag_subtasks_ok_def
      execution_records_ok_def list_all_iff\<close>)

lemma dispatch_started_eq:
  "dispatch_started delay settings payload ids =
     (if execution_auto_enqueue_enabled settings then enqueue_each delay (message_of payload) ids
      else io_return [])"
  by (cases "sx_simulation payload")
    (simp_all add: dispatch_started_def auto_enqueue_enabled_def enqueue_started_executions_def
      message_of_def [abs_def])

text \<open>The request as a function of what the broker makes of its messages.\<close>

lemma api_execute_task_refused:
  assumes "db_inv d" and "\<not> startable task_id (sx_schedule_plan_id payload) d"
  shows "\<exists>e. api_execute_task delay settings now task_id payload d w = ((Inl e, d), w)"
proof -
  from start_execution_succeeds [OF assms(1)] assms(2) obtain e where
    "start_execution now task_id (sx_schedule_plan_id payload) d = Inl e"
    by (metis obj_sumE prod.exhaust)
  then show ?thesis by (simp add: api_execute_task_def commit_def)
qed

lemma api_execute_task_started:
  fixes payload
  defines "plan \<equiv> sx_schedule_plan_id payload"
  assumes inv: "db_inv d" and go: "startable task_id plan d"
    and sent: "dispatch_started delay settings payload (new_execution_ids plan d) w = (r, w')"
  shows "r = Inl e \<Longrightarrow> api_execute_task delay settings now task_id payload d w =
      ((Inl e, start_db now task_id plan d), w')"
    and "r = Inr (map (\<lambda>i. \<lparr>di_execution_id = i, di_celery_task_id = c i\<rparr>) ids) \<Longrightarrow>
      api_execute_task delay settings now task_id payload d w =
      ((Inr (start_response task_id plan (new_execution_ids plan d) (length ids)),
        queued_db ids c (start_db now task_id plan d)), w')"
proof -
  let ?d = "start_db now task_id plan d"
  have start: "start_execution now task_id plan d = Inr (\<lparr>es_task_id = task_id,
      es_schedule_plan_id = plan, es_status = TaskStatus.RUNNING,
      es_execution_count = int (length (new_execution_ids plan d)),
      es_execution_ids = new_execution_ids plan d\<rparr>, ?d)"
    using start_execution_eq [OF _ go] start_schema_ok [OF inv go] inv
    by (simp add: db_inv_def db_flush_def new_execution_ids_def)
  then show "r = Inl e \<Longrightarrow> api_execute_task delay settings now task_id payload d w = ((Inl e, ?d), w')"
    using sent by (simp add: api_execute_task_def commit_def plan_def)
  have "record_celery_task_ids (map (\<lambda>i. \<lparr>dr_execution_id = i, dr_celery_task_id = c i\<rparr>) ids) ?d =
      Inr (queued_db ids c ?d)"
    using queued_schema_ok [OF start_schema_ok [OF inv go]]
    by (simp add: record_celery_task_ids_def recorded_ids db_flush_def)
  with start sent show "r = Inr (map (\<lambda>i. \<lparr>di_execution_id = i, di_celery_task_id = c i\<rparr>) ids) \<Longrightarrow>
      api_execute_task delay settings now task_id payload d w =
      ((Inr (start_response task_id plan (new_execution_ids plan d) (length ids)),
        queued_db ids c ?d), w')"
    by (simp add: api_execute_task_def commit_def plan_def start_response_def comp_def)
qed

text \<open>Whatever the broker answers: the answer, the committed database and the messages sent.\<close>

lemma api_execute_task_exactly:
  fixes payload d
  defines "plan \<equiv> sx_schedule_plan_id payload"
  defines "ids \<equiv> new_execution_ids plan d"
  assumes inv: "db_inv d" and go: "startable task_id plan d"
  shows "\<not> execution_auto_enqueue_enabled settings \<Longrightarrow>
      api_execute_task (logging_broker answer) settings now task_id payload d sent =
      ((Inr (start_response task_id plan ids 0), start_db now task_id plan d), sent)"
    and "execution_auto_enqueue_enabled settings \<Longrightarrow>
      \<forall>i \<in> set ids. answer (message_of payload i) = Inr (c i) \<Longrightarrow>
      api_execute_task (logging_broker answer) settings now task_id payload d sent =
      ((Inr (start_response task_id plan ids (length ids)),
        queued_db ids c (start_db now task_id plan d)), sent @ map (message_of payload) ids)"
    and "execution_auto_enqueue_enabled settings \<Longrightarrow> k < length ids \<Longrightarrow>
      \<forall>i \<in> set (take k ids). \<exists>x. answer (message_of payload i) = Inr x \<Longrightarrow>
      answer (message_of payload (ids ! k)) = Inl e \<Longrightarrow>
      api_execute_task (logging_broker answer) settings now task_id payload d sent =
      ((Inl e, start_db now task_id plan d), sent @ map (message_of payload) (take (Suc k) ids))"
proof -
  note started = api_execute_task_started [OF inv, where payload = payload, folded plan_def, folded ids_def, OF go]
  show "api_execute_task (logging_broker answer) settings now task_id payload d sent =
      ((Inr (start_response task_id plan ids 0), start_db now task_id plan d), sent)"
    if off: "\<not> execution_auto_enqueue_enabled settings"
  proof -
    have "dispatch_started (logging_broker answer) settings payload ids sent =
        (Inr (map (\<lambda>i. \<lparr>di_execution_id = i, di_celery_task_id = c i\<rparr>) []), sent)"
      using off by (simp add: dispatch_started_eq io_return_def)
    from started(2) [OF this refl, of now] show ?thesis by (simp add: queued_db_def)
  qed
  show "execution_auto_enqueue_enabled settings \<Longrightarrow>
      \<forall>i \<in> set ids. answer (message_of payload i) = Inr (c i) \<Longrightarrow>
      api_execute_task (logging_broker answer) settings now task_id payload d sent =
      ((Inr (start_response task_id plan ids (length ids)),
        queued_db ids c (start_db now task_id plan d)), sent @ map (message_of payload) ids)"
    by (rule started(2) [where ids = ids and c = c, OF _ refl])
      (simp add: dispatch_started_eq enqueue_each_all)
  show "execution_auto_enqueue_enabled settings \<Longrightarrow> k < length ids \<Longrightarrow>
      \<forall>i \<in> set (take k ids). \<exists>x. answer (message_of payload i) = Inr x \<Longrightarrow>
      answer (message_of payload (ids ! k)) = Inl e \<Longrightarrow>
      api_execute_task (logging_broker answer) settings now task_id payload d sent =
      ((Inl e, start_db now task_id plan d), sent @ map (message_of payload) (take (Suc k) ids))"
    by (rule started(1) [OF _ refl]) (simp add: dispatch_started_eq enqueue_each_refused)
qed

text \<open>
  A broker that refuses the first message leaves every execution of the plan running
  without a Celery task.
\<close>

lemma api_execute_task_broker_fails:
  assumes inv: "db_inv d" and go: "startable task_id (sx_schedule_plan_id payload) d"
    and enabled: "execution_auto_enqueue_enabled settings"
    and down: "\<And>m. delay m w = (Inl e, w')"
  shows "api_execute_task delay settings now task_id payload d w =
      ((Inl e, start_db now task_id (sx_schedule_plan_id payload) d), w')"
    and "\<exists>r \<in> set (execution_records (start_db now task_id (sx_schedule_plan_id payload) d)).
      r \<notin> set (execution_records d) \<and> er_task_id r = task_id \<and>
      er_status r = ExecutionStatus.RUNNING \<and> er_celery_task_id r = None"
proof -
  let ?plan = "sx_schedule_plan_id payload"
  from go start_execution_succeeds [OF inv] obtain x d1 where
    start: "start_execution now task_id ?plan d = Inr (x, d1)" by blast
  have d1: "d1 = start_db now task_id ?plan d" by (rule start_execution_db [OF inv start])
  note ids = started_ids [OF inv start]
  from ids(3) obtain i rest where "es_execution_ids x = i # rest" by (auto simp: neq_Nil_conv)
  with down enabled have "dispatch_started delay settings payload (es_execution_ids x) w = (Inl e, w')"
    by (simp add: dispatch_started_def auto_enqueue_enabled_def Let_def
        enqueue_started_executions_def io_bind_def)
  with start d1 show "api_execute_task delay settings now task_id payload d w =
      ((Inl e, start_db now task_id ?plan d), w')"
    by (simp add: api_execute_task_def commit_def)
  obtain item items where items: "plan_items d ?plan = item # items"
    using go by (cases "plan_items d ?plan") (simp_all add: startable_def)
  let ?r = "new_execution_record now task_id item (the (get_subtask_row d (pi_subtask_id item)))
    (next_uuid d)"
  have id: "er_id ?r = next_uuid d" by (simp add: new_execution_record_def)
  have "?r \<in> set (execution_records (start_db now task_id ?plan d))"
    by (simp add: start_db_def Let_def items started_records_def upt_conv_Cons del: upt_Suc)
  moreover have "?r \<notin> set (execution_records d)"
  proof
    assume "?r \<in> set (execution_records d)"
    then have "er_id ?r < next_uuid d"
      using inv unfolding db_inv_def ids_used_def by blast
    with id show False by simp
  qed
  ultimately show "\<exists>r \<in> set (execution_records (start_db now task_id ?plan d)).
      r \<notin> set (execution_records d) \<and> er_task_id r = task_id \<and>
      er_status r = ExecutionStatus.RUNNING \<and> er_celery_task_id r = None"
    by (intro bexI [where x = ?r]) (simp_all add: new_execution_record_def)
qed

section \<open>The worker\<close>

lemma report_worker_heartbeat_run:
  "platform_run d (report_worker_heartbeat now host pid name v current d)"
  by (auto simp: report_worker_heartbeat_def intro: step_runs split: sum.splits)

lemma report_retry_exhausted_alert_run:
  "platform_run d (report_retry_exhausted_alert now i name celery n m e d)"
  by (auto simp: report_retry_exhausted_alert_def intro: step_runs split: sum.splits)

lemma execute_subtask_run:
  assumes "execute_subtask settings request host pid now sleep_fn fault i status duration summary
      reason d = Some (outcome, d')"
    and "\<And>x w. platform_run w (snd (sleep_fn x w))"
    and "opt_all (\<lambda>n. 0 \<le> n) duration" and "0 \<le> simulated_execution_duration_ms settings"
  shows "platform_run d d'"
proof (rule execute_subtask_keeps [where I = "platform_run d", OF assms(1)])
  show "platform_run d d2" if "platform_run d d1" "0 \<le> n"
    "report_result t i v (Some n) (Some out) why d1 = Inr (x, d2)" for t v n out why x d1 d2
    using that by (meson run_trans step_runs(5) opt_all_simps(2))
qed (use assms in \<open>auto intro: run_trans report_worker_heartbeat_run
    report_retry_exhausted_alert_run\<close>)

end
