(* ===== verification/Example_Run.thy ===== *)
theory Example_Run
  imports Api_Runs
begin

text \<open>
  A concrete run of the platform, from the empty database to a finished task: one drone,
  a task of two subtasks in sequence with a retry allowed on the first. The properties
  are applied to its states.
\<close>

section \<open>The requests\<close>

text \<open>Columns that keep every value.\<close>

definition exact :: numeric where
  "exact p s x = Inr x"

definition first_draw :: random where
  "first_draw seed drawn n = 0"

definition drone :: NodeCreate where
  "drone = \<lparr>nc_name = ''uav'', nc_node_type = NodeType.UAV, nc_cpu_capacity = Fin 1,
     nc_memory_capacity_mb = 512, nc_network_address = None, nc_description = None\<rparr>"

definition step_request :: "string \<Rightarrow> int \<Rightarrow> SubtaskCreate" where
  "step_request name retries =
     \<lparr>sc_external_id = name, sc_name = name, sc_compute_load = Fin 1,
      sc_input_data_size_mb = Fin 0, sc_output_data_size_mb = Fin 0,
      sc_execution_constraint = SubtaskExecutionConstraint.OFFLOADABLE,
      sc_max_retries = retries, sc_metadata = []\<rparr>"

definition survey :: DagTaskCreate where
  "survey = \<lparr>tc_name = ''survey'', tc_priority = 0, tc_deadline_at = None,
     tc_submitted_by = None, tc_subtasks = [step_request ''a'' 1, step_request ''b'' 0],
     tc_dependencies = [\<lparr>dc_from = ''a'', dc_to = ''b''\<rparr>], tc_metadata = []\<rparr>"

definition weightless :: json_object where
  "weightless = [(''energy_cost_weight'', JInt 0)]"

section \<open>The states\<close>

definition greedy_plan :: SchedulePlan where
  "greedy_plan =
     \<lparr>gp_strategy_name = SchedulerStrategyName.GREEDY,
      gp_items = [\<lparr>si_subtask_id = 2, si_subtask_external_id = ''a'', si_assigned_node_id = 0,
        si_assigned_node_name = ''uav'', si_assigned_node_type = NodeType.UAV,
        si_estimated_compute_duration_ms = 1000, si_estimated_transfer_duration_ms = Millis 0,
        si_estimated_energy = Fin 2,
        si_decision_reason = ''selected by lowest estimated cost (compute=1000ms, transfer=0ms)''\<rparr>],
      gp_estimated_total_duration_ms = PInt 1000, gp_estimated_total_energy = Fin 2\<rparr>"

definition drone_row :: node where
  "drone_row = \<lparr>nd_id = 0, nd_name = ''uav'', nd_node_type = NodeType.UAV,
     nd_status = NodeStatus.ONLINE, nd_cpu_capacity = Fin 1, nd_memory_capacity_mb = 512,
     nd_network_address = None, nd_description = None, nd_last_heartbeat_at = None,
     nd_created_at = 1\<rparr>"

definition survey_row :: "TaskStatus \<Rightarrow> dag_task" where
  "survey_row status = \<lparr>dt_id = 1, dt_name = ''survey'', dt_status = status, dt_priority = 0,
     dt_deadline_at = None, dt_submitted_by = None, dt_failure_reason = None, dt_metadata = [],
     dt_created_at = 2, dt_scheduled_at = None, dt_started_at = None, dt_finished_at = None\<rparr>"

definition step_row :: "uuid \<Rightarrow> string \<Rightarrow> int \<Rightarrow> SubtaskStatus \<Rightarrow> dag_subtask" where
  "step_row i name retries status = \<lparr>ds_id = i, ds_task_id = 1, ds_external_id = name,
     ds_name = name, ds_status = status,
     ds_execution_constraint = SubtaskExecutionConstraint.OFFLOADABLE,
     ds_compute_load = Fin 1, ds_input_data_size_mb = Fin 0, ds_output_data_size_mb = Fin 0,
     ds_max_retries = retries, ds_retry_count = 0, ds_failure_reason = None, ds_metadata = [],
     ds_created_at = 2, ds_started_at = None, ds_finished_at = None\<rparr>"

definition created_db :: db where
  "created_db = empty_db\<lparr>next_uuid := 5, dag_tasks := [survey_row TaskStatus.PENDING],
     dag_subtasks := [step_row 2 ''a'' 1 SubtaskStatus.READY, step_row 3 ''b'' 0 SubtaskStatus.WAITING],
     dag_dependencies := [\<lparr>dd_id = 4, dd_task_id = 1, dd_predecessor_subtask_id = 2,
       dd_successor_subtask_id = 3, dd_created_at = 2\<rparr>],
     nodes := [drone_row]\<rparr>"

definition survey_plan :: "SchedulePlanStatus \<Rightarrow> schedule_plan" where
  "survey_plan status = \<lparr>sp_id = 5, sp_task_id = 1, sp_strategy_name = SchedulerStrategyName.GREEDY,
     sp_status = status, sp_estimated_total_duration_ms = Some 1000,
     sp_estimated_total_energy = Some (Fin 2), sp_options = weightless, sp_created_at = 3,
     sp_applied_at = None\<rparr>"

definition survey_item :: schedule_plan_item where
  "survey_item = \<lparr>pi_id = 6, pi_plan_id = 5, pi_subtask_id = 2, pi_assigned_node_id = 0,
     pi_estimated_compute_duration_ms = Some 1000, pi_estimated_transfer_duration_ms = Some 0,
     pi_estimated_energy = Some (Fin 2),
     pi_decision_reason = Some ''selected by lowest estimated cost (compute=1000ms, transfer=0ms)'',
     pi_created_at = 3\<rparr>"

definition planned_db :: db where
  "planned_db = created_db\<lparr>next_uuid := 7,
     dag_tasks := [(survey_row TaskStatus.SCHEDULED)\<lparr>dt_scheduled_at := Some 3\<rparr>],
     schedule_plans := [survey_plan SchedulePlanStatus.GENERATED],
     schedule_plan_items := [survey_item]\<rparr>"

definition survey_record :: execution_record where
  "survey_record = \<lparr>er_id = 7, er_task_id = 1, er_subtask_id = 2, er_node_id = 0,
     er_plan_item_id = Some 6, er_attempt = 1, er_status = ExecutionStatus.RUNNING,
     er_started_at = Some 4, er_finished_at = None, er_duration_ms = None,
     er_output_summary = None, er_failure_reason = None, er_celery_task_id = None,
     er_created_at = 4\<rparr>"

definition started_db :: db where
  "started_db = planned_db\<lparr>next_uuid := 8,
     dag_tasks := [(survey_row TaskStatus.RUNNING)\<lparr>dt_scheduled_at := Some 3,
       dt_started_at := Some 4\<rparr>],
     dag_subtasks := [(step_row 2 ''a'' 1 SubtaskStatus.RUNNING)\<lparr>ds_started_at := Some 4\<rparr>,
       step_row 3 ''b'' 0 SubtaskStatus.WAITING],
     schedule_plans := [(survey_plan SchedulePlanStatus.APPLIED)\<lparr>sp_applied_at := Some 4\<rparr>],
     execution_records := [survey_record]\<rparr>"

section \<open>The run\<close>

lemmas row_defs = drone_row_def survey_row_def step_row_def survey_plan_def survey_item_def
  survey_record_def

lemma created_db_ok: "schema_ok created_db"
  by (simp add: schema_ok_def table_ok_defs created_db_def empty_db_def row_defs f_le_def f_eq_def)

lemma node_created:
  "create_node exact 1 drone empty_db = Inr (drone_row, empty_db\<lparr>next_uuid := 1, nodes := [drone_row]\<rparr>)"
  by (simp add: create_node_def node_create_def node_get_by_name_def node_get_by_id_def empty_db_def
      drone_def new_node_def store_node_def fits_defs exact_def and_then_def drone_row_def db_flush_def
      schema_ok_def table_ok_defs Let_def row_get_def)

lemma survey_valid: "validate_dag [''a'', ''b''] [(''a'', ''b'')] = Inr ()"
  by (simp add: validate_dag_accepts acyclic_def trancl_insert)

lemma task_created:
  "create_task exact 2 survey (empty_db\<lparr>next_uuid := 1, nodes := [drone_row]\<rparr>) =
     Inr (survey_row TaskStatus.PENDING, created_db)"
  by (simp add: create_task_def survey_def step_request_def survey_valid Let_def
      except_value_error_def and_then_def task_create_def store_task_def store_subtask_def fits_defs
      exact_def
      new_subtask_def new_task_def new_dependency_def lookup_key_def task_subtasks_def db_flush_def
      upt_conv_Cons created_db_def row_defs empty_db_def schema_ok_def table_ok_defs f_le_def
      f_eq_def)

text \<open>What the greedy strategy sees of the drone, and how it estimates a subtask of load 1 there.\<close>

definition drone_snapshot :: NodeSnapshot where
  "drone_snapshot = \<lparr>ns_id = 0, ns_name = ''uav'', ns_node_type = NodeType.UAV,
     ns_status = NodeStatus.ONLINE, ns_cpu_capacity = Fin 1, ns_memory_capacity_mb = 512,
     ns_cpu_usage_percent = Fin 0, ns_memory_usage_percent = Fin 0, ns_battery_level = None,
     ns_bandwidth_mbps = None, ns_current_load = None, ns_queue_length = None\<rparr>"

lemma drone_seen:
  "nodes d = [drone_row] \<Longrightarrow> node_status_records d = [] \<Longrightarrow> load_node_snapshots d = [drone_snapshot]"
  by (simp add: load_node_snapshots_def node_list_by_status_def drone_row_def node_snapshot_def
      get_latest_status_record_def Let_def order_desc_def drone_snapshot_def)

lemma drone_estimate:
  "ss_compute_load s = Fin 1 \<Longrightarrow> estimate_candidate s drone_snapshot (Fin 0) =
     Inr \<lparr>ce_node = drone_snapshot, ce_compute_duration_ms = 1000,
       ce_transfer_duration_ms = Millis 0, ce_energy = Fin 2, ce_score = Fin 1000\<rparr>"
  by (simp add: drone_snapshot_def estimate_candidate_def compute_duration_ms_for_def usage_ratio_def
      py_min_def py_max_def and_then_def fl_numeral lit_def Let_def f_sub_def
      transfer_duration_ms_for_def estimate_energy_def int_true_div_def round_half_even_def
      float_of_int_def)

lemma weight_zero:
  "float_option (Some weightless) ''energy_cost_weight'' default_energy_cost_weight = Inr (Fin 0)"
  by (simp add: float_option_def weightless_def float_of_int_def)

lemma shown_numbers: "int_text 1000 = ''1000''" "int_text 0 = ''0''"
  by (simp_all add: int_text_def nat_text.simps char_of_def bit_0)

definition greedy_item_on_drone :: "SchedulableSubtask \<Rightarrow> SchedulePlanItem" where
  "greedy_item_on_drone s = \<lparr>si_subtask_id = ss_id s, si_subtask_external_id = ss_external_id s,
     si_assigned_node_id = 0, si_assigned_node_name = ''uav'', si_assigned_node_type = NodeType.UAV,
     si_estimated_compute_duration_ms = 1000, si_estimated_transfer_duration_ms = Millis 0,
     si_estimated_energy = Fin 2,
     si_decision_reason = ''selected by lowest estimated cost (compute=1000ms, transfer=0ms)''\<rparr>"

lemma drone_online: "ns_status drone_snapshot = NodeStatus.ONLINE"
  by (simp add: drone_snapshot_def)

lemma greedy_registered: "get_strategy first_draw ''greedy'' = Inr greedy_generate_plan"
  by (simp add: get_strategy_def strategies_def strategy_name_of_value_def enum_of_value_def
      strategy_names_def except_value_error_def and_then_def)

lemma greedy_on_drone:
  assumes "ss_compute_load s = Fin 1"
    and "ss_execution_constraint s = SubtaskExecutionConstraint.OFFLOADABLE"
  shows "greedy_item [drone_snapshot] (Fin 0) s = Inr (greedy_item_on_drone s)"
  unfolding greedy_item_def greedy_select_best_candidate_def
  using assms drone_estimate [OF assms(1)]
  by (simp add: finite_candidates_def node_matches_constraint_def and_then_def
      plan_item_def shown_numbers greedy_item_on_drone_def drone_snapshot_def round_half_even_def
      fl_numeral)

lemma plan_generated:
  "generate_plan first_draw exact 3 1 ''greedy'' (Some weightless) created_db =
     Inr (survey_plan SchedulePlanStatus.GENERATED, planned_db)"
proof -
  have ready: "build_schedulable_subtasks created_db 1 = [\<lparr>ss_id = 2, ss_external_id = ''a'',
      ss_compute_load = Fin 1, ss_input_data_size_mb = Fin 0, ss_output_data_size_mb = Fin 0,
      ss_execution_constraint = SubtaskExecutionConstraint.OFFLOADABLE\<rparr>]"
    by (simp add: build_schedulable_subtasks_def task_subtasks_def created_db_def step_row_def
        schedulable_subtask_def)
  have plan: "greedy_generate_plan (build_schedulable_subtasks created_db 1)
      (load_node_snapshots created_db) (Some weightless) = Inr greedy_plan"
    unfolding ready
    by (simp add: drone_seen created_db_def empty_db_def greedy_generate_plan_def weight_zero Let_def
        and_then_def greedy_on_drone greedy_item_on_drone_def assemble_plan_def total_duration_def
        total_energy_def round_half_even_def fl_numeral greedy_plan_def drone_online)
  have pending: "dt_status (survey_row TaskStatus.PENDING) = TaskStatus.PENDING"
    by (simp add: survey_row_def)
  have task: "get_task created_db 1 = Inr (survey_row TaskStatus.PENDING)"
    by (simp add: get_task_def task_get_by_id_def created_db_def survey_row_def row_get_Cons)
  have persisted: "persist_plan exact 3 (survey_row TaskStatus.PENDING) greedy_plan
      (Some weightless) created_db = Inr (survey_plan SchedulePlanStatus.GENERATED, planned_db)"
    by (simp add: greedy_plan_def persist_plan_def Let_def created_db_def empty_db_def row_defs upt_conv_Cons
        new_plan_item_def and_then_def upd_task_def row_upd_def schedule_create_def store_plan_def
        exact_def option_result_def new_plan_def store_plan_item_def db_flush_def schema_ok_def
        table_ok_defs f_le_def f_eq_def schedule_get_by_id_def row_get_Cons planned_db_def)
  show ?thesis
    unfolding generate_plan_def greedy_registered plan task and_then_simps
    by (simp add: except_scheduling_error_def persisted ensure_task_can_schedule_def
        ensure_task_transition_eq pending)
qed

lemma planned_items: "plan_items planned_db 5 = [survey_item]"
  by (simp add: plan_items_def planned_db_def survey_item_def)

lemma planned_startable: "startable 1 5 planned_db"
  by (simp add: startable_def plan_items_def task_get_by_id_def schedule_get_by_id_def
      get_subtask_row_def planned_db_def created_db_def row_defs row_get_Cons)

lemma started_db_eq: "start_db 4 1 5 planned_db = started_db"
  by (simp add: start_db_def Let_def plan_items_def started_db_def planned_db_def created_db_def
      empty_db_def started_row_def started_records_def new_execution_record_def
      get_subtask_row_def row_get_Cons row_defs or_else_def)

text \<open>The drone, the task, the plan and its start are four steps.\<close>

lemma created_reachable: "platform_reachable created_db"
  by (intro platform_reachable.step [OF platform_reachable.step [OF platform_reachable.empty
      platform_step.create_node [OF node_created]] platform_step.create_task [OF task_created]])

lemma planned_reachable: "platform_reachable planned_db"
  by (rule platform_reachable.step [OF created_reachable platform_step.generate_plan [OF plan_generated]])

lemma execution_started:
  "start_execution 4 1 5 planned_db = Inr (\<lparr>es_task_id = 1, es_schedule_plan_id = 5,
     es_status = TaskStatus.RUNNING, es_execution_count = 1, es_execution_ids = [7]\<rparr>, started_db)"
proof -
  have inv: "db_inv planned_db" by (rule platform_reachable_inv [OF planned_reachable])
  from planned_startable start_execution_succeeds [OF inv] obtain x d' where
    run: "start_execution 4 1 5 planned_db = Inr (x, d')" by blast
  have "d' = started_db" using start_execution_db [OF inv run] started_db_eq by simp
  moreover from started_ids [OF inv run] have "x = \<lparr>es_task_id = 1, es_schedule_plan_id = 5,
     es_status = TaskStatus.RUNNING, es_execution_count = 1, es_execution_ids = [7]\<rparr>"
    by (cases x) (simp add: plan_items_def survey_item_def started_records_ids planned_db_def)
  ultimately show ?thesis using run by (simp only:)
qed

lemma started_reachable: "platform_reachable started_db"
  by (rule platform_reachable.step [OF planned_reachable platform_step.start_execution [OF execution_started]])

lemmas example_inv = created_reachable [THEN platform_reachable_inv]
  planned_reachable [THEN platform_reachable_inv] started_reachable [THEN platform_reachable_inv]

end
