(* ===== verification/Example_Reports.thy ===== *)
theory Example_Reports
  imports Example_Run
begin

text \<open>
  The example run continued: the first step of the survey succeeds, is retried, or the task
  is canceled; and a second task of two independent subtasks, both running, one of which
  fails for good.
\<close>

section \<open>Success, retry and cancellation\<close>

definition succeeded_db :: db where
  "succeeded_db = started_db\<lparr>
     dag_subtasks := [(step_row 2 ''a'' 1 SubtaskStatus.SUCCESS)\<lparr>ds_started_at := Some 4,
       ds_finished_at := Some 5\<rparr>, step_row 3 ''b'' 0 SubtaskStatus.READY],
     execution_records := [finish_record 5 ExecutionStatus.SUCCESS (Some 1000) None None survey_record]\<rparr>"

definition retried_db :: db where
  "retried_db = started_db\<lparr>
     dag_subtasks := [(step_row 2 ''a'' 1 SubtaskStatus.READY)\<lparr>ds_retry_count := 1,
       ds_failure_reason := Some ''lost''\<rparr>, step_row 3 ''b'' 0 SubtaskStatus.WAITING],
     execution_records := [finish_record 5 ExecutionStatus.FAILED None None (Some ''lost'') survey_record]\<rparr>"

lemma started_rows:
  "execution_get_by_id started_db 7 = Some survey_record"
  "get_subtask_row started_db 2 =
     Some ((step_row 2 ''a'' 1 SubtaskStatus.RUNNING)\<lparr>ds_started_at := Some 4\<rparr>)"
  "task_get_by_id started_db 1 = Some ((survey_row TaskStatus.RUNNING)\<lparr>dt_scheduled_at := Some 3,
       dt_started_at := Some 4\<rparr>)"
  by (simp_all add: execution_get_by_id_def get_subtask_row_def task_get_by_id_def started_db_def
      row_get_Cons row_defs)

text \<open>The rows around the running execution of the survey.\<close>

lemma survey_record_rows:
  "execution_get_by_id started_db 7 = Some survey_record"
  "er_status survey_record = ExecutionStatus.RUNNING"
  "get_subtask_row started_db (er_subtask_id survey_record) = Some (hd (dag_subtasks started_db))"
  "task_get_by_id started_db (er_task_id survey_record) = Some (hd (dag_tasks started_db))"
  using started_rows by (simp_all add: started_db_def survey_record_def)

lemma survey_record_sel:
  "er_subtask_id survey_record = 2"
  "ds_retry_count (hd (dag_subtasks started_db)) = 0" "ds_max_retries (hd (dag_subtasks started_db)) = 1"
  "dt_status (hd (dag_tasks started_db)) = TaskStatus.RUNNING"
  by (simp_all add: started_db_def survey_record_def row_defs)

lemma schema_ok_started: "schema_ok started_db"
  using example_inv by (simp add: db_inv_def)

lemmas report_defs = report_result_def report_success_def report_failure_def Let_def
  upd_execution_def upd_subtask_def upd_task_def row_upd_def unlock_successors_def
  unlock_successor_def lookup_key_def subtask_by_id_def all_succeeded.simps predecessor_ids_def
  all_subtasks_succeeded_def task_subtasks_def task_dependencies_def get_task_def
  execution_result_def execution_get_by_id_def get_subtask_row_def task_get_by_id_def row_get_Cons
  finish_record_def and_then_def

lemma moves_allowed:
  "status \<noteq> ExecutionStatus.RUNNING \<Longrightarrow>
     ensure_execution_can_finish ExecutionStatus.RUNNING status i = Inr ()"
  "move_subtask_to_terminal SubtaskStatus.RUNNING SubtaskStatus.SUCCESS i = Inr ()"
  "move_subtask_to_terminal SubtaskStatus.RUNNING SubtaskStatus.FAILED i = Inr ()"
  "move_subtask_to_retry_ready SubtaskStatus.RUNNING i = Inr ()"
  "move_task_to_terminal TaskStatus.RUNNING TaskStatus.FAILED i = Inr ()"
  "ensure_transition_allowed (subtask_status_value SubtaskStatus.WAITING)
     (subtask_status_value SubtaskStatus.READY) = Inr ()"
  by (cases status) (simp_all add: result_simps)

lemma success_reported:
  "report_result 5 7 ExecutionStatus.SUCCESS (Some 1000) None None started_db =
     Inr (\<lparr>xr_execution_id = 7, xr_subtask_status = SubtaskStatus.SUCCESS,
       xr_task_status = TaskStatus.RUNNING, xr_accepted = True\<rparr>, succeeded_db)"
  by (simp add: report_defs moves_allowed succeeded_db_def started_db_def planned_db_def created_db_def empty_db_def row_defs
    db_flush_def schema_ok_def table_ok_defs f_le_def f_eq_def)

lemma succeeded_reachable: "platform_reachable succeeded_db"
  by (rule platform_reachable.step [OF started_reachable
        platform_step.report_result [OF _ success_reported]]) simp

lemma retry_reported:
  "report_result 5 7 ExecutionStatus.FAILED None None (Some ''lost'') started_db =
     Inr (\<lparr>xr_execution_id = 7, xr_subtask_status = SubtaskStatus.READY,
       xr_task_status = TaskStatus.RUNNING, xr_accepted = True\<rparr>, retried_db)"
  by (simp add: report_defs moves_allowed can_retry_subtask_def retried_db_def started_db_def
      planned_db_def created_db_def empty_db_def row_defs db_flush_def schema_ok_def table_ok_defs
      f_le_def f_eq_def)

lemma retried_reachable: "platform_reachable retried_db"
  by (rule platform_reachable.step [OF started_reachable
        platform_step.report_result [OF _ retry_reported]]) simp

text \<open>The survey canceled while its first step runs.\<close>

definition revoked :: "string \<Rightarrow> string + bool" where
  "revoked i = Inr True"

lemma survey_cancelable: "\<exists>d'. cancel_task revoker now 1 reason started_db = Inr d'"
  using cancel_task_succeeds [OF example_inv(3), of revoker now 1 reason] started_rows(3) by (simp add: survey_row_def)

section \<open>Two subtasks at once\<close>

definition pair :: DagTaskCreate where
  "pair = \<lparr>tc_name = ''survey'', tc_priority = 0, tc_deadline_at = None, tc_submitted_by = None,
     tc_subtasks = [step_request ''a'' 0, step_request ''b'' 0], tc_dependencies = [],
     tc_metadata = []\<rparr>"

definition pair_created :: db where
  "pair_created = empty_db\<lparr>next_uuid := 4, dag_tasks := [survey_row TaskStatus.PENDING],
     dag_subtasks := [step_row 2 ''a'' 0 SubtaskStatus.READY, step_row 3 ''b'' 0 SubtaskStatus.READY],
     nodes := [drone_row]\<rparr>"

definition pair_plan :: "SchedulePlanStatus \<Rightarrow> schedule_plan" where
  "pair_plan status = \<lparr>sp_id = 4, sp_task_id = 1, sp_strategy_name = SchedulerStrategyName.GREEDY,
     sp_status = status, sp_estimated_total_duration_ms = Some 2000,
     sp_estimated_total_energy = Some (Fin 4), sp_options = weightless, sp_created_at = 3,
     sp_applied_at = None\<rparr>"

definition pair_item :: "uuid \<Rightarrow> uuid \<Rightarrow> schedule_plan_item" where
  "pair_item i s = survey_item\<lparr>pi_id := i, pi_plan_id := 4, pi_subtask_id := s\<rparr>"

definition pair_planned :: db where
  "pair_planned = pair_created\<lparr>next_uuid := 7,
     dag_tasks := [(survey_row TaskStatus.SCHEDULED)\<lparr>dt_scheduled_at := Some 3\<rparr>],
     schedule_plans := [pair_plan SchedulePlanStatus.GENERATED],
     schedule_plan_items := [pair_item 5 2, pair_item 6 3]\<rparr>"

definition pair_started :: db where
  "pair_started = start_db 4 1 4 pair_planned"

lemma pair_valid: "validate_dag [''a'', ''b''] [] = Inr ()"
  by (simp add: validate_dag_accepts acyclic_def)

lemma pair_task_created:
  "create_task exact 2 pair (empty_db\<lparr>next_uuid := 1, nodes := [drone_row]\<rparr>) =
     Inr (survey_row TaskStatus.PENDING, pair_created)"
  by (simp add: create_task_def pair_def step_request_def pair_valid Let_def
      except_value_error_def and_then_def task_create_def store_task_def store_subtask_def fits_defs
      exact_def
      new_subtask_def new_task_def task_subtasks_def db_flush_def upt_conv_Cons pair_created_def
      row_defs empty_db_def schema_ok_def table_ok_defs f_le_def f_eq_def)

lemma pair_plan_generated:
  "generate_plan first_draw exact 3 1 ''greedy'' (Some weightless) pair_created =
     Inr (pair_plan SchedulePlanStatus.GENERATED, pair_planned)"
proof -
  let ?s = "\<lambda>i x. \<lparr>ss_id = i, ss_external_id = x, ss_compute_load = Fin 1,
      ss_input_data_size_mb = Fin 0, ss_output_data_size_mb = Fin 0,
      ss_execution_constraint = SubtaskExecutionConstraint.OFFLOADABLE\<rparr>"
  let ?plan = "\<lparr>gp_strategy_name = SchedulerStrategyName.GREEDY,
      gp_items = [greedy_item_on_drone (?s 2 ''a''), greedy_item_on_drone (?s 3 ''b'')],
      gp_estimated_total_duration_ms = PInt 2000, gp_estimated_total_energy = Fin 4\<rparr>"
  have ready: "build_schedulable_subtasks pair_created 1 = [?s 2 ''a'', ?s 3 ''b'']"
    by (simp add: build_schedulable_subtasks_def task_subtasks_def pair_created_def step_row_def
        schedulable_subtask_def)
  have plan: "greedy_generate_plan (build_schedulable_subtasks pair_created 1)
      (load_node_snapshots pair_created) (Some weightless) = Inr ?plan"
    unfolding ready
    by (simp add: drone_seen pair_created_def empty_db_def greedy_generate_plan_def weight_zero Let_def
        and_then_def greedy_on_drone greedy_item_on_drone_def assemble_plan_def total_duration_def
        total_energy_def round_half_even_def fl_numeral greedy_plan_def drone_online)
  have pending: "dt_status (survey_row TaskStatus.PENDING) = TaskStatus.PENDING"
    by (simp add: survey_row_def)
  have task: "get_task pair_created 1 = Inr (survey_row TaskStatus.PENDING)"
    by (simp add: get_task_def task_get_by_id_def pair_created_def survey_row_def row_get_Cons)
  have persisted: "persist_plan exact 3 (survey_row TaskStatus.PENDING) ?plan
      (Some weightless) pair_created = Inr (pair_plan SchedulePlanStatus.GENERATED, pair_planned)"
    by (simp add: greedy_item_on_drone_def persist_plan_def Let_def pair_created_def empty_db_def row_defs
        upt_conv_Cons new_plan_item_def and_then_def upd_task_def row_upd_def schedule_create_def
        store_plan_def exact_def option_result_def new_plan_def store_plan_item_def db_flush_def
        schema_ok_def table_ok_defs f_le_def f_eq_def schedule_get_by_id_def row_get_Cons
        pair_planned_def pair_plan_def pair_item_def)
  show ?thesis
    unfolding generate_plan_def greedy_registered plan task and_then_simps
    by (simp add: except_scheduling_error_def persisted ensure_task_can_schedule_def
        ensure_task_transition_eq pending)
qed

lemma pair_reachable: "platform_reachable pair_planned"
  by (intro platform_reachable.step [OF platform_reachable.step [OF platform_reachable.step
      [OF platform_reachable.empty platform_step.create_node [OF node_created]]
      platform_step.create_task [OF pair_task_created]]
      platform_step.generate_plan [OF pair_plan_generated]])

lemma pair_startable: "startable 1 4 pair_planned"
  by (simp add: startable_def plan_items_def task_get_by_id_def schedule_get_by_id_def
      get_subtask_row_def pair_planned_def pair_created_def pair_plan_def pair_item_def row_defs
      row_get_Cons)

definition pair_record :: "uuid \<Rightarrow> uuid \<Rightarrow> uuid \<Rightarrow> execution_record" where
  "pair_record i s k = survey_record\<lparr>er_id := i, er_subtask_id := s, er_plan_item_id := Some k\<rparr>"

definition pair_rows :: "SubtaskStatus \<Rightarrow> dag_subtask list" where
  "pair_rows status = [(step_row 2 ''a'' 0 status)\<lparr>ds_started_at := Some 4\<rparr>,
     (step_row 3 ''b'' 0 SubtaskStatus.RUNNING)\<lparr>ds_started_at := Some 4\<rparr>]"

lemma pair_started_eq:
  "pair_started = pair_planned\<lparr>next_uuid := 9,
     dag_tasks := [(survey_row TaskStatus.RUNNING)\<lparr>dt_scheduled_at := Some 3, dt_started_at := Some 4\<rparr>],
     dag_subtasks := pair_rows SubtaskStatus.RUNNING,
     schedule_plans := [(pair_plan SchedulePlanStatus.APPLIED)\<lparr>sp_applied_at := Some 4\<rparr>],
     execution_records := [pair_record 7 2 5, pair_record 8 3 6]\<rparr>"
  by (simp add: pair_started_def start_db_def Let_def plan_items_def pair_planned_def
      pair_created_def pair_plan_def pair_item_def pair_rows_def pair_record_def empty_db_def
      started_row_def started_records_def new_execution_record_def get_subtask_row_def row_get_Cons
      row_defs or_else_def)

lemma pair_started_reachable: "platform_reachable pair_started"
proof -
  have inv: "db_inv pair_planned" by (rule platform_reachable_inv [OF pair_reachable])
  from pair_startable start_execution_succeeds [OF inv] obtain x d' where
    run: "start_execution 4 1 4 pair_planned = Inr (x, d')" by blast
  with start_execution_db [OF inv run] have "d' = pair_started" by (simp add: pair_started_def)
  with run show ?thesis
    by (blast intro: platform_reachable.step [OF pair_reachable] platform_step.start_execution)
qed

definition pair_failed :: db where
  "pair_failed = pair_started\<lparr>
     dag_tasks := [(survey_row TaskStatus.FAILED)\<lparr>dt_scheduled_at := Some 3, dt_started_at := Some 4,
       dt_failure_reason := Some ''lost'', dt_finished_at := Some 5\<rparr>],
     dag_subtasks := [(step_row 2 ''a'' 0 SubtaskStatus.FAILED)\<lparr>ds_started_at := Some 4,
         ds_finished_at := Some 5, ds_failure_reason := Some ''lost''\<rparr>,
       (step_row 3 ''b'' 0 SubtaskStatus.RUNNING)\<lparr>ds_started_at := Some 4\<rparr>],
     execution_records := [finish_record 5 ExecutionStatus.FAILED None None (Some ''lost'')
       (pair_record 7 2 5), pair_record 8 3 6]\<rparr>"

lemma failure_reported:
  "report_result 5 7 ExecutionStatus.FAILED None None (Some ''lost'') pair_started =
     Inr (\<lparr>xr_execution_id = 7, xr_subtask_status = SubtaskStatus.FAILED,
       xr_task_status = TaskStatus.FAILED, xr_accepted = True\<rparr>, pair_failed)"
  by (simp add: pair_failed_def pair_started_eq report_defs moves_allowed can_retry_subtask_def
      pair_planned_def pair_created_def pair_plan_def pair_item_def pair_rows_def pair_record_def
      empty_db_def row_defs db_flush_def schema_ok_def table_ok_defs f_le_def f_eq_def)

lemma pair_failed_reachable: "platform_reachable pair_failed"
  by (rule platform_reachable.step [OF pair_started_reachable
        platform_step.report_result [OF _ failure_reported]]) simp

lemma pair_failed_rows:
  "execution_get_by_id pair_failed 8 = Some (pair_record 8 3 6)"
  "get_subtask_row pair_failed 3 =
     Some ((step_row 3 ''b'' 0 SubtaskStatus.RUNNING)\<lparr>ds_started_at := Some 4\<rparr>)"
  "task_get_by_id pair_failed 1 = Some ((survey_row TaskStatus.FAILED)\<lparr>dt_scheduled_at := Some 3,
     dt_started_at := Some 4, dt_failure_reason := Some ''lost'', dt_finished_at := Some 5\<rparr>)"
  by (simp_all add: execution_get_by_id_def get_subtask_row_def task_get_by_id_def pair_failed_def
      pair_record_def row_get_Cons row_defs finish_record_def)

end
