(* ===== verification/Report_Outcomes.thy ===== *)
theory Report_Outcomes
  imports Execution_Report
begin

text \<open>
  What \<open>report_result\<close> answers for a running execution and where it leaves the task, one
  lemma per outcome: success, retry, failure.
\<close>

section \<open>The outcomes of a report\<close>

text \<open>What every accepted report has done.\<close>

definition reported ::
  "datetime \<Rightarrow> execution_record \<Rightarrow> ExecutionStatus \<Rightarrow> int option \<Rightarrow> string option \<Rightarrow>
   string option \<Rightarrow> flow \<Rightarrow> ExecutionResult \<Rightarrow> db \<Rightarrow> bool"
where
  "reported now r status duration summary reason f x d' \<longleftrightarrow>
     (\<exists>t'. task_get_by_id d' (er_task_id r) = Some t' \<and> task_flow d' t' = f \<and>
        execution_get_by_id d' (er_id r) =
          Some (finish_record now status duration summary reason r) \<and>
        f_subtasks f (er_subtask_id r) = Some (xr_subtask_status x) \<and>
        f_task f = xr_task_status x \<and> xr_execution_id x = er_id r \<and> xr_accepted x)"

lemma report_outcome:
  assumes inv: "db_inv d" and get: "execution_get_by_id d i = Some r"
    and run: "er_status r = ExecutionStatus.RUNNING" "status \<noteq> ExecutionStatus.RUNNING"
    and rows: "get_subtask_row d (er_subtask_id r) = Some s"
      "task_get_by_id d (er_task_id r) = Some t"
    and branch: "\<exists>d'. report_branch now status reason s t
        (finished_db i now status duration summary reason d) = Inr d' \<and> db_step d d' \<and>
      execution_records d' = execution_records (finished_db i now status duration summary reason d) \<and>
      (\<forall>t'. task_get_by_id d' (dt_id t) = Some t' \<longrightarrow> task_flow d' t' = f) \<and> Q d'"
  shows "\<exists>x d'. report_result now i status duration summary reason d = Inr (x, d') \<and>
    reported now r status duration summary reason f x d' \<and> Q d'"
proof -
  have r: "r \<in> set (execution_records d)" "er_id r = i"
    using execution_rows.get_SomeD [OF get] by simp_all
  have t: "dt_id t = er_task_id r" using rows(2) by (simp add: task_rows.get_SomeD)
  have s: "ds_id s = er_subtask_id r" using rows(1) by (simp add: subtask_rows.get_SomeD)
  from the_record_subtask [OF inv r(1)] rows have own: "ds_task_id s = er_task_id r"
    by (metis option.inject record_agrees_def)
  from branch obtain d' where d': "report_branch now status reason s t
      (finished_db i now status duration summary reason d) = Inr d'" "db_inv d'" "Q d'"
    and recs: "execution_records d' = map (finished_record i now status duration summary reason)
      (execution_records d)"
    and flow: "\<And>t'. task_get_by_id d' (dt_id t) = Some t' \<Longrightarrow> task_flow d' t' = f"
    by (auto simp: db_step_def finished_db_def)
  from report_accepted [OF inv get run rows d'(1,2) recs] obtain x s' t' where
    run': "report_result now i status duration summary reason d = Inr (x, d')"
    and rows': "get_subtask_row d' (ds_id s) = Some s'" "task_get_by_id d' (dt_id t) = Some t'"
    and x: "x = \<lparr>xr_execution_id = i, xr_subtask_status = ds_status s',
      xr_task_status = dt_status t', xr_accepted = True\<rparr>" by blast
  let ?q = "finished_record i now status duration summary reason r"
  have q: "?q = finish_record now status duration summary reason r" using r(2) by (simp add: finished_record_def)
  have "?q \<in> set (execution_records d')" using r recs by simp
  then have got: "execution_get_by_id d' i = Some (finish_record now status duration summary reason r)"
    using execution_rows.get_iff [OF db_inv_distinct(4) [OF d'(2)]] r(2)
    by (simp add: q finish_record_def)
  obtain s2 where s2: "record_agrees ?q s2" "get_subtask_row d' (er_subtask_id ?q) = Some s2"
    by (rule the_record_subtask [OF d'(2) \<open>?q \<in> _\<close>])
  moreover have "er_subtask_id ?q = ds_id s" by (simp add: q finish_record_def s)
  ultimately have "record_agrees ?q s'" using rows'(1) by simp
  then have "ds_task_id s' = er_task_id r" "s' \<in> set (dag_subtasks d')" "ds_id s' = ds_id s"
    using subtask_rows.get_SomeD [OF rows'(1)]
    by (simp_all add: record_agrees_def q finish_record_def)
  then have "subtask_status d' (er_task_id r) (er_subtask_id r) = Some (ds_status s')"
    using subtask_status_iff [OF db_inv_distinct(2) [OF d'(2)]] s by metis
  then have "reported now r status duration summary reason f x d'"
    using flow [OF rows'(2)] rows'(2) got task_rows.get_SomeD [OF rows'(2)] task_flow_sel(1,2) [of d' t']
    unfolding reported_def r(2) t x by simp
  with run' d'(3) show ?thesis by blast
qed

lemma report_success_outcome:
  assumes inv: "db_inv d" and get: "execution_get_by_id d i = Some r"
    and run: "er_status r = ExecutionStatus.RUNNING"
    and duration: "opt_all (\<lambda>n. 0 \<le> n) duration"
    and rows: "get_subtask_row d (er_subtask_id r) = Some s"
      "task_get_by_id d (er_task_id r) = Some t"
  shows "\<exists>x d'. report_result now i ExecutionStatus.SUCCESS duration summary reason d = Inr (x, d') \<and>
    reported now r ExecutionStatus.SUCCESS duration summary reason
      (flow_success (er_subtask_id r) (task_flow d t)) x d'"
proof -
  have "ds_id s = er_subtask_id r" using rows(1) by (simp add: subtask_rows.get_SomeD)
  with report_outcome [OF inv get run _ rows, where Q = "\<lambda>_. True"]
    report_success_step [OF inv get run duration rows]
  show ?thesis by simp
qed

lemma report_retry_outcome:
  assumes inv: "db_inv d" and get: "execution_get_by_id d i = Some r"
    and run: "er_status r = ExecutionStatus.RUNNING"
    and duration: "opt_all (\<lambda>n. 0 \<le> n) duration"
    and rows: "get_subtask_row d (er_subtask_id r) = Some s"
      "task_get_by_id d (er_task_id r) = Some t"
    and retry: "status = ExecutionStatus.FAILED \<or> status = ExecutionStatus.TIMEOUT"
      "ds_retry_count s < ds_max_retries s"
  shows "\<exists>x d'. report_result now i status duration summary reason d = Inr (x, d') \<and>
    reported now r status duration summary reason
      ((task_flow d t)\<lparr>f_subtasks :=
        (f_subtasks (task_flow d t))(er_subtask_id r \<mapsto> SubtaskStatus.READY)\<rparr>) x d' \<and>
    (\<forall>s'. get_subtask_row d' (er_subtask_id r) = Some s' \<longrightarrow>
      ds_retry_count s' = ds_retry_count s + 1)"
proof -
  have s: "ds_id s = er_subtask_id r" using rows(1) by (simp add: subtask_rows.get_SomeD)
  have "can_retry_subtask status (ds_retry_count s) (ds_max_retries s)"
    and "status \<noteq> ExecutionStatus.RUNNING"
    using retry by (auto simp: can_retry_subtask_def)
  from report_outcome [OF inv get run this(2) rows report_retry_step [OF inv get run duration rows this(1)]]
  show ?thesis unfolding s .
qed

lemma report_failure_outcome:
  assumes inv: "db_inv d" and get: "execution_get_by_id d i = Some r"
    and run: "er_status r = ExecutionStatus.RUNNING"
    and duration: "opt_all (\<lambda>n. 0 \<le> n) duration"
    and rows: "get_subtask_row d (er_subtask_id r) = Some s"
      "task_get_by_id d (er_task_id r) = Some t"
    and status: "status \<noteq> ExecutionStatus.RUNNING" "status \<noteq> ExecutionStatus.SUCCESS"
    and final: "status = ExecutionStatus.CANCELED \<or> ds_max_retries s \<le> ds_retry_count s"
    and live: "dt_status t = TaskStatus.RUNNING"
  shows "\<exists>x d'. report_result now i status duration summary reason d = Inr (x, d') \<and>
    reported now r status duration summary reason
      ((task_flow d t)\<lparr>f_task := TaskStatus.FAILED, f_subtasks :=
        (f_subtasks (task_flow d t))(er_subtask_id r \<mapsto> SubtaskStatus.FAILED)\<rparr>) x d'"
proof -
  have s: "ds_id s = er_subtask_id r" using rows(1) by (simp add: subtask_rows.get_SomeD)
  have "\<not> can_retry_subtask status (ds_retry_count s) (ds_max_retries s)"
    using final by (auto simp: can_retry_subtask_def)
  from report_fail_step [OF inv get run status duration rows this live] s
    report_outcome [OF inv get run status(1) rows, where Q = "\<lambda>_. True"]
  show ?thesis by simp
qed

text \<open>A report on an execution that is already over changes nothing.\<close>

lemma report_duplicate:
  assumes inv: "db_inv d" and get: "execution_get_by_id d i = Some r"
    and over: "er_status r \<noteq> ExecutionStatus.RUNNING"
    and rows: "get_subtask_row d (er_subtask_id r) = Some s"
      "task_get_by_id d (er_task_id r) = Some t"
  shows "report_result now i status duration summary reason d =
    Inr (\<lparr>xr_execution_id = i, xr_subtask_status = ds_status s, xr_task_status = dt_status t,
      xr_accepted = False\<rparr>, d)"
  using assms execution_rows.get_SomeD [OF get]
  by (simp add: report_result_def execution_result_def)

text \<open>When a report on a running execution is refused, in terms of the statuses alone.\<close>

lemma report_result_accepts:
  assumes inv: "db_inv d" and get: "execution_get_by_id d i = Some r"
    and run: "er_status r = ExecutionStatus.RUNNING"
    and duration: "opt_all (\<lambda>n. 0 \<le> n) duration"
    and rows: "get_subtask_row d (er_subtask_id r) = Some s"
      "task_get_by_id d (er_task_id r) = Some t"
  shows "(\<exists>x d'. report_result now i status duration summary reason d = Inr (x, d')) \<longleftrightarrow>
    status = ExecutionStatus.SUCCESS \<or>
    (status = ExecutionStatus.FAILED \<or> status = ExecutionStatus.TIMEOUT) \<and>
      ds_retry_count s < ds_max_retries s \<or>
    status \<noteq> ExecutionStatus.RUNNING \<and> dt_status t = TaskStatus.RUNNING"
proof -
  have r: "r \<in> set (execution_records d)" using execution_rows.get_SomeD [OF get] by simp
  from the_record_subtask [OF inv r] rows(2) have t: "t \<in> set (dag_tasks d)" "dt_id t = er_task_id r"
    by (metis option.inject)+
  have running: "dt_status t = TaskStatus.RUNNING \<or> dt_status t = TaskStatus.FAILED"
    by (rule running_task [OF inv r run t])
  consider "status = ExecutionStatus.SUCCESS" | "status = ExecutionStatus.RUNNING"
    | "status = ExecutionStatus.FAILED \<or> status = ExecutionStatus.TIMEOUT" "ds_retry_count s < ds_max_retries s"
    | "status \<noteq> ExecutionStatus.RUNNING" "status \<noteq> ExecutionStatus.SUCCESS"
      "status = ExecutionStatus.CANCELED \<or> ds_max_retries s \<le> ds_retry_count s"
    by (cases status) fastforce+
  then show ?thesis
  proof cases
    case 1
    then show ?thesis using report_success_outcome [OF inv get run duration rows] by blast
  next
    case 2
    then show ?thesis
      using get run execution_rows.get_SomeD [OF get]
      by (auto simp: report_result_def result_simps)
  next
    case 3
    then show ?thesis using report_retry_outcome [OF inv get run duration rows 3] by blast
  next
    case 4
    then have no: "\<not> can_retry_subtask status (ds_retry_count s) (ds_max_retries s)"
      by (auto simp: can_retry_subtask_def)
    show ?thesis
    proof (cases "dt_status t = TaskStatus.RUNNING")
      case True
      with 4 report_failure_outcome [OF inv get run duration rows 4 True] show ?thesis by blast
    next
      case False
      with running have "dt_status t = TaskStatus.FAILED" by blast
      from report_fail_refused [OF inv get run 4(1,2) rows no this] False 4 show ?thesis by auto
    qed
  qed
qed

end
