(* ===== verification/Lifecycle_Properties.thy ===== *)
theory Lifecycle_Properties
  imports Example_Reports Report_Outcomes
begin

text \<open>
  What holds of the committed database whatever sequence of transactions led to it, with
  the states of the example run as instances: the invariant, the safety of dependencies, the
  agreement of the statuses of tasks, subtasks and executions, progress, and what a run
  never undoes.
\<close>

section \<open>From the invariant to the rows\<close>

lemma subtask_status_row:
  assumes "db_inv d" and "s \<in> set (dag_subtasks d)"
  shows "subtask_status d (ds_task_id s) (ds_id s) = Some (ds_status s)"
  using assms db_inv_distinct(2) subtask_status_iff by metis

lemma dependency_row_ends:
  assumes inv: "db_inv d" and r: "r \<in> set (dag_dependencies d)"
    and s: "s \<in> set (dag_subtasks d)"
    and e: "ds_id s \<in> {dd_predecessor_subtask_id r, dd_successor_subtask_id r}"
  shows "ds_task_id s = dd_task_id r"
proof -
  from inv r obtain t where t: "t \<in> set (dag_tasks d)" "dt_id t = dd_task_id r"
    by (auto simp: db_inv_def schema_ok_def dag_dependencies_ok_def list_all_iff)
  have "(dd_predecessor_subtask_id r, dd_successor_subtask_id r) \<in> dependency_edges d (dd_task_id r)"
    using r by (auto simp: dependency_edges_def task_dependencies_def)
  moreover have "dependency_edges d (dd_task_id r) \<subseteq>
      dom (subtask_status d (dd_task_id r)) \<times> dom (subtask_status d (dd_task_id r))"
    using db_inv_flow [OF inv t(1)] t(2) by (simp add: flow_inv_def flow_wf_def)
  ultimately have "ds_id s \<in> dom (subtask_status d (dd_task_id r))" using e by auto
  then obtain u where "u \<in> set (dag_subtasks d)" "ds_task_id u = dd_task_id r" "ds_id u = ds_id s"
    using subtask_status_iff [OF db_inv_distinct(2) [OF inv]] by blast
  with the_subtask_row [OF db_inv_distinct(2) [OF inv]] s show ?thesis by metis
qed

text \<open>The statuses of the subtasks of a task, as the range of its flow.\<close>

lemma ran_subtask_status:
  assumes "db_inv d"
  shows "ran (subtask_status d i) = ds_status ` set (task_subtasks d i)"
  using subtask_status_iff [OF db_inv_distinct(2) [OF assms]]
  by (auto simp: ran_def task_subtasks_mem) blast

lemma task_has_subtasks:
  assumes "db_inv d" and "t \<in> set (dag_tasks d)"
  shows "set (task_subtasks d (dt_id t)) \<noteq> {}"
proof -
  from db_inv_flow [OF assms] have "dom (subtask_status d (dt_id t)) \<noteq> {}"
    by (simp add: flow_inv_def flow_wf_def)
  then obtain i v where "subtask_status d (dt_id t) i = Some v" by (rule dom_nonempty_obtain)
  then have "v \<in> ran (subtask_status d (dt_id t))" by (rule ranI)
  with ran_subtask_status [OF assms(1)] show ?thesis by auto
qed

text \<open>At most as many records as attempts.\<close>

lemma distinct_attempts:
  assumes "distinct (map attempt rows)" and "\<forall>r \<in> set rows. 1 \<le> attempt r \<and> attempt r \<le> (n :: int)"
  shows "int (length rows) \<le> max 0 n"
proof -
  have "length rows = card (set (map attempt rows))" using distinct_card [OF assms(1)] by simp
  also have "\<dots> \<le> card {1..n}" by (rule card_mono) (use assms(2) in auto)
  finally show ?thesis by simp
qed

lemma subtask_attempts:
  assumes inv: "db_inv d" and s: "s \<in> set (dag_subtasks d)"
  shows "distinct (map er_attempt (filter (\<lambda>r. er_subtask_id r = ds_id s) (execution_records d)))"
    and "\<forall>r \<in> set (filter (\<lambda>r. er_subtask_id r = ds_id s) (execution_records d)).
      1 \<le> er_attempt r \<and> er_attempt r \<le> ds_max_retries s + 1"
proof -
  have ok: "execution_records_ok (dag_tasks d) (dag_subtasks d) (nodes d) (schedule_plan_items d)
      (execution_records d)" using inv by (simp add: db_inv_def schema_ok_def)
  then have pairs: "distinct (map (\<lambda>r. (er_subtask_id r, er_attempt r)) (execution_records d))"
    unfolding execution_records_ok_def by blast
  then have "distinct (map (\<lambda>r. (er_subtask_id r, er_attempt r))
      (filter (\<lambda>r. er_subtask_id r = ds_id s) (execution_records d)))" by (rule distinct_map_filter)
  then show "distinct (map er_attempt (filter (\<lambda>r. er_subtask_id r = ds_id s) (execution_records d)))"
    by (auto simp: distinct_map inj_on_def)
  show "\<forall>r \<in> set (filter (\<lambda>r. er_subtask_id r = ds_id s) (execution_records d)).
      1 \<le> er_attempt r \<and> er_attempt r \<le> ds_max_retries s + 1"
  proof
    fix r
    assume "r \<in> set (filter (\<lambda>r. er_subtask_id r = ds_id s) (execution_records d))"
    then have r: "r \<in> set (execution_records d)" "er_subtask_id r = ds_id s" by auto
    from r(1) inv obtain u where u: "u \<in> set (dag_subtasks d)" "record_agrees r u"
      unfolding db_inv_def executions_agree_def by blast
    then have "ds_id u = ds_id s" using r(2) by (simp add: record_agrees_def)
    with the_subtask_row [OF db_inv_distinct(2) [OF inv] u(1) s] have "u = s" by blast
    moreover have "ds_retry_count s \<le> ds_max_retries s"
      using inv s unfolding db_inv_def retries_bounded_def by blast
    moreover have "1 \<le> er_attempt r"
      using ok r(1) unfolding execution_records_ok_def list_all_iff by blast
    ultimately show "1 \<le> er_attempt r \<and> er_attempt r \<le> ds_max_retries s + 1"
      using u(2) by (simp add: record_agrees_def)
  qed
qed

section \<open>Reachable states\<close>

text \<open>
  C3: whatever transactions the services have committed, the database satisfies the
  constraints of its schema and the invariant of the platform: every task is in a state its
  flow can reach, execution records agree with the subtasks they run, running subtasks have
  a running record, retries stay within their bound, plan items belong to the task of their
  plan, and no identifier is used before it is drawn.
\<close>

theorem reachable_databases_consistent: "platform_reachable d \<Longrightarrow> db_inv d"
  by (rule platform_reachable_inv)

theorem reachable_databases_consistent_witness: "db_inv pair_failed"
  by (rule reachable_databases_consistent [OF pair_failed_reachable])

text \<open>
  C2: the services refine the flow of a task: a committed transaction of any service leaves
  each task where it is or takes it one step of the abstract flow (a plan stored, a plan
  started, an execution that succeeds, is retried or fails, a cancellation).
\<close>

theorem transactions_refine_flow:
  assumes "platform_reachable d" and "platform_step d d'" and "t \<in> set (dag_tasks d)"
  shows "\<exists>t' \<in> set (dag_tasks d'). dt_id t' = dt_id t \<and>
    (task_flow d' t' = task_flow d t \<or> flow_step (task_flow d t) (task_flow d' t'))"
  using platform_step_follows [OF assms(2) platform_reachable_inv [OF assms(1)]] assms(3)
  unfolding db_step_def flows_follow_def by blast

theorem transactions_refine_flow_witness:
  "\<exists>t' \<in> set (dag_tasks planned_db). dt_id t' = 1 \<and>
     (task_flow planned_db t' = task_flow created_db (survey_row TaskStatus.PENDING) \<or>
      flow_step (task_flow created_db (survey_row TaskStatus.PENDING)) (task_flow planned_db t'))"
proof -
  have "survey_row TaskStatus.PENDING \<in> set (dag_tasks created_db)" by (simp add: created_db_def)
  from transactions_refine_flow [OF created_reachable platform_step.generate_plan
      [OF plan_generated] this] show ?thesis by (simp add: survey_row_def)
qed

text \<open>
  C1: a subtask is never past waiting before its predecessors are done: whenever a subtask
  is ready, running, successful or failed, every subtask it depends on has succeeded.
\<close>

theorem dependency_safety:
  assumes "platform_reachable d" and "r \<in> set (dag_dependencies d)"
    and "p \<in> set (dag_subtasks d)" and "ds_id p = dd_predecessor_subtask_id r"
    and "s \<in> set (dag_subtasks d)" and "ds_id s = dd_successor_subtask_id r"
    and "ds_status s \<notin> {SubtaskStatus.WAITING, SubtaskStatus.CANCELED}"
  shows "ds_status p = SubtaskStatus.SUCCESS"
proof -
  have inv: "db_inv d" by (rule platform_reachable_inv [OF assms(1)])
  then obtain t where t: "t \<in> set (dag_tasks d)" "dt_id t = dd_task_id r"
    using assms(2) by (auto simp: db_inv_def schema_ok_def dag_dependencies_ok_def list_all_iff)
  have "(ds_id p, ds_id s) \<in> f_deps (task_flow d t)"
    using assms(2,4,6) t(2) by (auto simp: dependency_edges_def task_dependencies_def)
  moreover have "deps_safe (task_flow d t)"
    using db_inv_flow [OF inv t(1)] by (simp add: flow_inv_def)
  moreover have "subtask_status d (dt_id t) (ds_id p) = Some (ds_status p)"
    "subtask_status d (dt_id t) (ds_id s) = Some (ds_status s)"
    using subtask_status_row [OF inv] dependency_row_ends [OF inv assms(2)] assms(3-6) t(2)
    by (metis insertCI)+
  ultimately show ?thesis using assms(7) by (fastforce simp: deps_safe_def succeeded_def)
qed

theorem dependency_safety_witness:
  "ds_status (hd (dag_subtasks succeeded_db)) = SubtaskStatus.SUCCESS"
  by (rule dependency_safety [OF succeeded_reachable, where r = "hd (dag_dependencies succeeded_db)"
        and s = "dag_subtasks succeeded_db ! 1"])
    (simp_all add: succeeded_db_def started_db_def planned_db_def created_db_def step_row_def)

text \<open>
  C4: the status of a task and the statuses of its subtasks always agree: a task is SUCCESS
  exactly when all its subtasks are, FAILED exactly when one has failed, CANCELED exactly when
  one is canceled, and a subtask runs only under a task that is running or has failed.
\<close>

theorem task_status_coherent:
  assumes "platform_reachable d" and "t \<in> set (dag_tasks d)"
  shows "(dt_status t = TaskStatus.SUCCESS \<longleftrightarrow>
        (\<forall>s \<in> set (task_subtasks d (dt_id t)). ds_status s = SubtaskStatus.SUCCESS)) \<and>
    (dt_status t = TaskStatus.FAILED \<longleftrightarrow>
        (\<exists>s \<in> set (task_subtasks d (dt_id t)). ds_status s = SubtaskStatus.FAILED)) \<and>
    (dt_status t = TaskStatus.CANCELED \<longleftrightarrow>
        (\<exists>s \<in> set (task_subtasks d (dt_id t)). ds_status s = SubtaskStatus.CANCELED)) \<and>
    ((\<exists>s \<in> set (task_subtasks d (dt_id t)). ds_status s = SubtaskStatus.RUNNING) \<longrightarrow>
        dt_status t \<in> {TaskStatus.RUNNING, TaskStatus.FAILED})"
proof -
  have inv: "db_inv d" by (rule platform_reachable_inv [OF assms(1)])
  have "task_coherent (task_flow d t)"
    using db_inv_flow [OF inv assms(2)] by (simp add: flow_inv_def)
  moreover have "ran (f_subtasks (task_flow d t)) = ds_status ` set (task_subtasks d (dt_id t))"
    using ran_subtask_status [OF inv] by simp
  moreover from task_has_subtasks [OF inv assms(2)] obtain u where
    u: "u \<in> set (task_subtasks d (dt_id t))" by (metis all_not_in_conv)
  ultimately show ?thesis
    by (cases "dt_status t"; auto simp: task_coherent_def image_subset_iff image_iff;
        use u in \<open>force dest: bspec [OF _ u]\<close>)
qed

theorem task_status_coherent_witness:
  "\<exists>s \<in> set (task_subtasks pair_failed 1). ds_status s = SubtaskStatus.FAILED"
proof -
  have t: "hd (dag_tasks pair_failed) \<in> set (dag_tasks pair_failed)"
    "dt_status (hd (dag_tasks pair_failed)) = TaskStatus.FAILED"
    "dt_id (hd (dag_tasks pair_failed)) = 1"
    by (simp_all add: pair_failed_def survey_row_def)
  from task_status_coherent [OF pair_failed_reachable t(1)] show ?thesis
    unfolding t by simp
qed

text \<open>
  C7: a running execution is the only one of its subtask, the subtask is running, and the
  attempt it counts is one more than the retries made; conversely each running subtask has
  such an execution.
\<close>

theorem running_executions_agree:
  assumes "platform_reachable d" and "s \<in> set (dag_subtasks d)"
  shows "ds_status s = SubtaskStatus.RUNNING \<longleftrightarrow>
    (\<exists>!r. r \<in> set (execution_records d) \<and> er_subtask_id r = ds_id s \<and>
       er_status r = ExecutionStatus.RUNNING \<and> er_task_id r = ds_task_id s \<and>
       er_attempt r = ds_retry_count s + 1)"
    (is "?l \<longleftrightarrow> ?r")
proof -
  have inv: "db_inv d" by (rule platform_reachable_inv [OF assms(1)])
  have agrees: "record_agrees r s" if "r \<in> set (execution_records d)" "er_subtask_id r = ds_id s" for r
  proof -
    from inv that(1) obtain u where u: "u \<in> set (dag_subtasks d)" "record_agrees r u"
      unfolding db_inv_def executions_agree_def by blast
    with that(2) the_subtask_row [OF db_inv_distinct(2) [OF inv] u(1) assms(2)] show ?thesis
      by (simp add: record_agrees_def)
  qed
  show ?thesis
  proof
    assume ?l
    with inv assms(2) obtain r where r: "r \<in> set (execution_records d)" "er_subtask_id r = ds_id s"
      "er_status r = ExecutionStatus.RUNNING"
      unfolding db_inv_def running_recorded_def by blast
    show ?r
    proof (rule ex1I [of _ r])
      show "r \<in> set (execution_records d) \<and> er_subtask_id r = ds_id s \<and>
          er_status r = ExecutionStatus.RUNNING \<and> er_task_id r = ds_task_id s \<and>
          er_attempt r = ds_retry_count s + 1"
        using r agrees [OF r(1,2)] by (simp add: record_agrees_def)
      show "q = r" if "q \<in> set (execution_records d) \<and> er_subtask_id q = ds_id s \<and>
          er_status q = ExecutionStatus.RUNNING \<and> er_task_id q = ds_task_id s \<and>
          er_attempt q = ds_retry_count s + 1" for q
        using only_running_record [OF inv r(1,3), of q] that r(2) by simp
    qed
  next
    assume ?r
    then show ?l using agrees by (auto simp: record_agrees_def)
  qed
qed

theorem running_executions_agree_witness:
  "\<exists>!r. r \<in> set (execution_records pair_failed) \<and> er_subtask_id r = 3 \<and>
     er_status r = ExecutionStatus.RUNNING \<and> er_task_id r = 1 \<and> er_attempt r = 1"
proof -
  have s: "dag_subtasks pair_failed ! 1 \<in> set (dag_subtasks pair_failed)"
    "ds_status (dag_subtasks pair_failed ! 1) = SubtaskStatus.RUNNING"
    "ds_id (dag_subtasks pair_failed ! 1) = 3" "ds_task_id (dag_subtasks pair_failed ! 1) = 1"
    "ds_retry_count (dag_subtasks pair_failed ! 1) = 0"
    by (simp_all add: pair_failed_def step_row_def)
  from running_executions_agree [OF pair_failed_reachable s(1)] show ?thesis unfolding s by simp
qed

text \<open>
  C8: retries are bounded: a subtask is never executed more than \<open>max_retries + 1\<close> times, and
  the attempts of its executions are distinct numbers between 1 and that bound.
\<close>

theorem executions_bounded:
  assumes "platform_reachable d" and "s \<in> set (dag_subtasks d)"
  shows "int (length (filter (\<lambda>r. er_subtask_id r = ds_id s) (execution_records d))) \<le>
      ds_max_retries s + 1 \<and>
    distinct (map er_attempt (filter (\<lambda>r. er_subtask_id r = ds_id s) (execution_records d))) \<and>
    (\<forall>r \<in> set (execution_records d). er_subtask_id r = ds_id s \<longrightarrow>
       1 \<le> er_attempt r \<and> er_attempt r \<le> ds_max_retries s + 1)"
proof -
  have inv: "db_inv d" by (rule platform_reachable_inv [OF assms(1)])
  have "0 \<le> ds_max_retries s"
    using inv assms(2) unfolding db_inv_def retries_bounded_def by force
  with distinct_attempts [OF subtask_attempts [OF inv assms(2)]] subtask_attempts [OF inv assms(2)]
  show ?thesis by simp
qed

theorem executions_bounded_witness:
  "int (length (filter (\<lambda>r. er_subtask_id r = 2) (execution_records retried_db))) \<le> 1 + 1"
proof -
  have s: "hd (dag_subtasks retried_db) \<in> set (dag_subtasks retried_db)"
    "ds_id (hd (dag_subtasks retried_db)) = 2" "ds_max_retries (hd (dag_subtasks retried_db)) = 1"
    by (simp_all add: retried_db_def step_row_def)
  from executions_bounded [OF retried_reachable s(1)] show ?thesis unfolding s by (rule conjunct1)
qed

text \<open>
  C6: progress: as long as a task is pending, scheduled or running, it has a subtask that is
  ready to be planned or running under an execution; no task waits for ever on its own
  dependencies.
\<close>

theorem live_task_progress:
  assumes "platform_reachable d" and "t \<in> set (dag_tasks d)"
    and "dt_status t \<in> {TaskStatus.PENDING, TaskStatus.SCHEDULED, TaskStatus.RUNNING}"
  shows "\<exists>s \<in> set (task_subtasks d (dt_id t)). ds_status s = SubtaskStatus.READY \<or>
    ds_status s = SubtaskStatus.RUNNING \<and> (\<exists>r \<in> set (execution_records d).
      er_subtask_id r = ds_id s \<and> er_status r = ExecutionStatus.RUNNING)"
proof -
  have inv: "db_inv d" by (rule platform_reachable_inv [OF assms(1)])
  from inv_progress [OF db_inv_flow [OF inv assms(2)]] assms(3) obtain i where
    "subtask_status d (dt_id t) i \<in> {Some SubtaskStatus.READY, Some SubtaskStatus.RUNNING}" by auto
  then obtain s where "s \<in> set (dag_subtasks d)" "ds_task_id s = dt_id t"
    "ds_status s = SubtaskStatus.READY \<or> ds_status s = SubtaskStatus.RUNNING"
    using subtask_status_iff [OF db_inv_distinct(2) [OF inv]] by auto
  moreover have "running_recorded d" using inv by (simp add: db_inv_def)
  ultimately show ?thesis
    unfolding running_recorded_def task_subtasks_mem Bex_def by blast
qed

theorem live_task_progress_witness:
  "\<exists>s \<in> set (task_subtasks retried_db 1). ds_status s = SubtaskStatus.READY \<or>
     ds_status s = SubtaskStatus.RUNNING \<and> (\<exists>r \<in> set (execution_records retried_db).
       er_subtask_id r = ds_id s \<and> er_status r = ExecutionStatus.RUNNING)"
proof -
  have t: "hd (dag_tasks retried_db) \<in> set (dag_tasks retried_db)"
    "dt_status (hd (dag_tasks retried_db)) = TaskStatus.RUNNING"
    "dt_id (hd (dag_tasks retried_db)) = 1"
    by (simp_all add: retried_db_def started_db_def survey_row_def)
  from live_task_progress [OF retried_reachable t(1)] show ?thesis unfolding t by simp
qed

section \<open>What a run never undoes\<close>

text \<open>
  C5: a finished task stays finished: once a task is SUCCESS, FAILED or CANCELED, no
  sequence of transactions, late results included, changes its status.
\<close>

theorem finished_tasks_stay:
  assumes "platform_reachable d" and "platform_run d d'" and "task_get_by_id d i = Some t"
    and "dt_status t \<in> {TaskStatus.SUCCESS, TaskStatus.FAILED, TaskStatus.CANCELED}"
  shows "\<exists>t'. task_get_by_id d' i = Some t' \<and> dt_status t' = dt_status t"
proof -
  from assms(3) have t: "t \<in> set (dag_tasks d)" "dt_id t = i" by (simp_all add: task_rows.get_SomeD)
  let ?P = "\<lambda>f. f_task f = dt_status t"
  have "\<exists>t' \<in> set (dag_tasks d'). dt_id t' = dt_id t \<and> ?P (task_flow d' t')"
  proof (rule run_keeps_flow [OF assms(1,2) t(1)])
    show "?P g" if "flow_inv f" "flow_step f g" "?P f" for f g
      using step_terminal [OF that(2,1)] that(3) assms(4) by simp
  qed simp
  then obtain t' where "t' \<in> set (dag_tasks d')" "dt_id t' = i" "dt_status t' = dt_status t"
    using t(2) by auto
  moreover have "distinct (map dt_id (dag_tasks d'))"
    by (rule db_inv_distinct [OF platform_reachable_inv [OF run_reachable [OF assms(2,1)]]])
  ultimately show ?thesis using task_rows.get_iff by metis
qed

theorem finished_tasks_stay_witness:
  "\<exists>x d' t'. report_result 6 8 ExecutionStatus.SUCCESS None None None pair_failed = Inr (x, d') \<and>
     task_get_by_id d' 1 = Some t' \<and> dt_status t' = TaskStatus.FAILED"
proof -
  let ?r = "pair_record 8 3 6" and ?t = "hd (dag_tasks pair_failed)"
  have r: "er_status ?r = ExecutionStatus.RUNNING" "er_subtask_id ?r = 3" "er_task_id ?r = 1"
    by (simp_all add: pair_record_def survey_record_def)
  have t: "task_get_by_id pair_failed 1 = Some ?t" "dt_status ?t = TaskStatus.FAILED"
    using pair_failed_rows(3) by (simp_all add: pair_failed_def survey_row_def)
  have rows: "get_subtask_row pair_failed (er_subtask_id ?r) =
      Some ((step_row 3 ''b'' 0 SubtaskStatus.RUNNING)\<lparr>ds_started_at := Some 4\<rparr>)"
    "task_get_by_id pair_failed (er_task_id ?r) = Some ?t"
    unfolding r using pair_failed_rows(2) t(1) by simp_all
  have fin: "dt_status ?t \<in> {TaskStatus.SUCCESS, TaskStatus.FAILED, TaskStatus.CANCELED}"
    using t(2) by simp
  have ok: "opt_all (\<lambda>n. 0 \<le> n) None" by simp
  from report_success_outcome [OF platform_reachable_inv [OF pair_failed_reachable]
      pair_failed_rows(1) r(1) ok rows, of 6 None None]
  obtain x d' where run: "report_result 6 8 ExecutionStatus.SUCCESS None None None pair_failed = Inr (x, d')"
    by blast
  from finished_tasks_stay [OF pair_failed_reachable run_step [OF platform_step.report_result [OF ok run]]
      t(1) fin] run show ?thesis unfolding t(2) by blast
qed

text \<open>
  C9: work done is never lost: a subtask that has succeeded is successful in every later
  state, whether its task goes on, fails or is canceled.
\<close>

theorem succeeded_subtasks_stay:
  assumes "platform_reachable d" and "platform_run d d'" and "s \<in> set (dag_subtasks d)"
    and "ds_status s = SubtaskStatus.SUCCESS"
  shows "\<exists>s' \<in> set (dag_subtasks d'). ds_id s' = ds_id s \<and> ds_task_id s' = ds_task_id s \<and>
    ds_status s' = SubtaskStatus.SUCCESS"
proof -
  have inv: "db_inv d" by (rule platform_reachable_inv [OF assms(1)])
  then obtain t where t: "t \<in> set (dag_tasks d)" "dt_id t = ds_task_id s"
    using assms(3) by (auto simp: db_inv_def schema_ok_def dag_subtasks_ok_def list_all_iff)
  let ?P = "\<lambda>f. succeeded (f_subtasks f) (ds_id s)"
  have "\<exists>t' \<in> set (dag_tasks d'). dt_id t' = dt_id t \<and> ?P (task_flow d' t')"
  proof (rule run_keeps_flow [OF assms(1,2) t(1)])
    show "?P (task_flow d t)"
      using subtask_status_row [OF inv assms(3)] assms(4) t(2) by (simp add: succeeded_def)
  qed (rule step_succeeded)
  then have "subtask_status d' (ds_task_id s) (ds_id s) = Some SubtaskStatus.SUCCESS"
    using t(2) by (auto simp: succeeded_def)
  moreover have "distinct (map ds_id (dag_subtasks d'))"
    by (rule db_inv_distinct [OF platform_reachable_inv [OF run_reachable [OF assms(2,1)]]])
  ultimately show ?thesis using subtask_status_iff by metis
qed

theorem succeeded_subtasks_stay_witness:
  "\<exists>d'. cancel_task revoked 6 1 None succeeded_db = Inr d' \<and>
     (\<exists>s' \<in> set (dag_subtasks d'). ds_id s' = 2 \<and> ds_task_id s' = 1 \<and>
        ds_status s' = SubtaskStatus.SUCCESS)"
proof -
  have "task_get_by_id succeeded_db 1 = Some (hd (dag_tasks succeeded_db))"
    "dt_status (hd (dag_tasks succeeded_db)) = TaskStatus.RUNNING"
    by (simp_all add: task_get_by_id_def succeeded_db_def started_db_def survey_row_def row_get_Cons)
  with cancel_task_succeeds [OF platform_reachable_inv [OF succeeded_reachable], of revoked 6 1 None]
  obtain d' where d': "cancel_task revoked 6 1 None succeeded_db = Inr d'" by auto
  have s: "hd (dag_subtasks succeeded_db) \<in> set (dag_subtasks succeeded_db)"
    "ds_status (hd (dag_subtasks succeeded_db)) = SubtaskStatus.SUCCESS"
    "ds_id (hd (dag_subtasks succeeded_db)) = 2" "ds_task_id (hd (dag_subtasks succeeded_db)) = 1"
    by (simp_all add: succeeded_db_def step_row_def)
  from succeeded_subtasks_stay [OF succeeded_reachable run_step [OF platform_step.cancel_task [OF d']]
      s(1,2)] d' show ?thesis unfolding s by blast
qed

end
