(* ===== verification/Task_Accept.thy ===== *)
theory Task_Accept
  imports Task_Create
begin

text \<open>
  Which requests \<open>TaskService.create_task\<close> accepts: exactly those whose graph is valid,
  whose edges are distinct and whose values the columns can hold. The
  graph check lets a repeated edge through, which the unique constraint then refuses.
\<close>

section \<open>Which requests succeed\<close>

text \<open>What the columns and the constraints of \<open>dag_subtasks\<close> ask of a requested subtask.\<close>

definition storable :: "numeric \<Rightarrow> SubtaskCreate \<Rightarrow> bool" where
  "storable numeric s \<longleftrightarrow>
     (\<exists>c i j. numeric 12 2 (sc_compute_load s) = Inr c \<and>
        numeric 12 2 (sc_input_data_size_mb s) = Inr i \<and>
        numeric 12 2 (sc_output_data_size_mb s) = Inr j \<and>
        f_less (Fin 0) c \<and> f_le (Fin 0) i \<and> f_le (Fin 0) j) \<and>
     0 \<le> sc_max_retries s \<and> sc_max_retries s < 2 ^ 31 \<and>
     fits_string 64 (sc_external_id s) \<and> fits_string 128 (sc_name s) \<and>
     fits_json (JObj (sc_metadata s))"

text \<open>What those of \<open>dag_tasks\<close> ask of the rest of the request.\<close>

definition task_storable :: "DagTaskCreate \<Rightarrow> bool" where
  "task_storable data \<longleftrightarrow> 0 \<le> tc_priority data \<and> tc_priority data < 2 ^ 31 \<and>
     fits_string 128 (tc_name data) \<and> opt_all (fits_string 128) (tc_submitted_by data) \<and>
     fits_json (JObj (tc_metadata data))"

lemma task_storable_iff:
  "task_storable data \<longleftrightarrow> task_fits (new_task now i data) \<and> 0 \<le> tc_priority data"
  by (auto simp: task_storable_def task_fits_def new_task_def fits_integer_def)

definition row_storable :: "dag_subtask \<Rightarrow> bool" where
  "row_storable r \<longleftrightarrow> f_less (Fin 0) (ds_compute_load r) \<and> f_le (Fin 0) (ds_input_data_size_mb r) \<and>
     f_le (Fin 0) (ds_output_data_size_mb r) \<and> 0 \<le> ds_max_retries r \<and> 0 \<le> ds_retry_count r"

lemma storable_iff:
  "storable numeric s \<longleftrightarrow>
     (\<exists>r. store_subtask numeric (new_subtask now t ids i s) = Inr r \<and> row_storable r)"
  by (auto simp: storable_def row_storable_def store_subtask_def subtask_fits_def fits_integer_def
      new_subtask_def result_simps simp del: fits_json.simps split: if_splits)

lemma stored_storable:
  "map_result (store_subtask numeric) (map2 (new_subtask now t ids) ks ss) = Inr rows \<Longrightarrow>
     length ks = length ss \<Longrightarrow>
     list_all row_storable rows \<longleftrightarrow> list_all (storable numeric) ss"
proof (induction ss arbitrary: ks rows)
  case (Cons s ss)
  then obtain k ks' where ks: "ks = k # ks'" by (cases ks) simp_all
  with Cons.prems obtain r rs where r: "store_subtask numeric (new_subtask now t ids k s) = Inr r"
    "map_result (store_subtask numeric) (map2 (new_subtask now t ids) ks' ss) = Inr rs"
    "rows = r # rs" by (auto simp: result_simps)
  moreover have "row_storable r \<longleftrightarrow> storable numeric s"
    using r(1) storable_iff [of numeric s now t ids k] by auto
  ultimately show ?case using Cons.IH [OF r(2)] Cons.prems(2) ks by simp
qed simp

lemma storable_stored:
  "list_all (storable numeric) ss \<Longrightarrow> length ks = length ss \<Longrightarrow>
     \<exists>rows. map_result (store_subtask numeric) (map2 (new_subtask now t ids) ks ss) = Inr rows"
proof (induction ss arbitrary: ks)
  case (Cons s ss)
  then obtain k ks' where ks: "ks = k # ks'" by (cases ks) simp_all
  from Cons.prems(1) obtain r where "store_subtask numeric (new_subtask now t ids k s) = Inr r"
    using storable_iff [of numeric s now t ids k] by auto
  moreover from Cons ks obtain rs where
    "map_result (store_subtask numeric) (map2 (new_subtask now t ids) ks' ss) = Inr rs" by fastforce
  ultimately show ?case by (simp add: ks and_then_def)
qed simp

lemma schema_ok_add_task:
  assumes inv: "db_inv d" and t: "dt_id t = next_uuid d"
    and subs: "created_subtasks (next_uuid d) data subs"
    and ext: "distinct (map sc_external_id (tc_subtasks data))"
  shows "schema_ok (d\<lparr>next_uuid := n, dag_tasks := dag_tasks d @ [t], dag_subtasks := dag_subtasks d @ subs\<rparr>)
    \<longleftrightarrow> 0 \<le> dt_priority t \<and> list_all row_storable subs"
proof -
  have ok: "schema_ok d" using inv by (simp add: db_inv_def)
  note fresh = old_rows_fresh [OF inv]
  have old: "ds_id s < next_uuid d" if "s \<in> set (dag_subtasks d)" for s
    using inv that by (auto simp: db_inv_def ids_used_def)
  have ids: "map ds_id subs = [next_uuid d + 1..<next_uuid d + 1 + length (tc_subtasks data)]"
    and own: "\<And>s. s \<in> set subs \<Longrightarrow> ds_task_id s = next_uuid d"
    and names: "distinct (map ds_external_id subs)"
    using subs ext unfolding created_subtasks_def by simp_all
  have new: "next_uuid d < ds_id s" if "s \<in> set subs" for s
  proof -
    from that have "ds_id s \<in> set (map ds_id subs)" by simp
    then show ?thesis unfolding ids by (auto simp del: upt_Suc)
  qed
  have "distinct (map ds_id subs)" unfolding ids by simp
  then have sd: "distinct (map ds_id (dag_subtasks d @ subs))"
    using ok old new by (fastforce simp: schema_ok_def dag_subtasks_ok_def)
  have "distinct (map (\<lambda>r. (ds_task_id r, ds_external_id r)) subs)"
    using names own by (auto simp: distinct_map inj_on_def)
  then have se: "distinct (map (\<lambda>r. (ds_task_id r, ds_external_id r)) (dag_subtasks d @ subs))"
    using ok own fresh(1) by (fastforce simp: schema_ok_def dag_subtasks_ok_def)
  have td: "distinct (map dt_id (dag_tasks d @ [t]))"
    using ok fresh(3) t by (auto simp: schema_ok_def dag_tasks_ok_def)
  have "dag_tasks_ok (dag_tasks d @ [t]) \<longleftrightarrow> 0 \<le> dt_priority t"
    using ok td by (auto simp: schema_ok_def dag_tasks_ok_def)
  moreover have "dag_subtasks_ok (dag_tasks d @ [t]) (dag_subtasks d @ subs) \<longleftrightarrow>
      list_all row_storable subs"
    using ok sd se own t
    by (auto simp: schema_ok_def dag_subtasks_ok_def list_all_iff row_storable_def)
  moreover have "dag_dependencies_ok (dag_tasks d @ [t]) (dag_subtasks d @ subs) (dag_dependencies d)"
    using ok by (auto simp: schema_ok_def dag_dependencies_ok_def list_all_iff)
  moreover have "schedule_plans_ok (dag_tasks d @ [t]) (schedule_plans d)"
    using ok by (auto simp: schema_ok_def schedule_plans_ok_def list_all_iff)
  moreover have "schedule_plan_items_ok (schedule_plans d) (dag_subtasks d @ subs) (nodes d)
      (schedule_plan_items d)"
    using ok by (auto simp: schema_ok_def schedule_plan_items_ok_def list_all_iff)
  moreover have "execution_records_ok (dag_tasks d @ [t]) (dag_subtasks d @ subs) (nodes d)
      (schedule_plan_items d) (execution_records d)"
    using ok by (auto simp: schema_ok_def execution_records_ok_def list_all_iff)
  moreover have "execution_revoke_events_ok (dag_tasks d @ [t]) (execution_records d)
      (execution_revoke_events d)"
    using ok by (auto simp: schema_ok_def execution_revoke_events_ok_def list_all_iff)
  ultimately show ?thesis
    using ok by (simp add: schema_ok_def)
qed

lemma schema_ok_add_dependencies:
  assumes inv: "db_inv d" and ok: "schema_ok d1"
    and d1: "dag_dependencies d1 = dag_dependencies d" "dag_subtasks d1 = dag_subtasks d @ subs"
      "next_uuid d \<in> set (map dt_id (dag_tasks d1))"
    and subs: "created_subtasks (next_uuid d) data subs"
    and valid: "validate_dag (map sc_external_id (tc_subtasks data)) (request_edges data) = Inr ()"
    and deps: "created_dependencies (next_uuid d) data k subs deps" and k: "next_uuid d \<le> k"
  shows "schema_ok (d1\<lparr>dag_dependencies := dag_dependencies d1 @ deps, next_uuid := n\<rparr>)
    \<longleftrightarrow> distinct (request_edges data)"
proof -
  let ?e = "\<lambda>r. (dd_predecessor_subtask_id r, dd_successor_subtask_id r)"
  have names: "distinct (map ds_external_id subs)" "set (map ds_external_id subs) =
      set (map sc_external_id (tc_subtasks data))" and ids: "distinct (map ds_id subs)"
    using subs valid unfolding created_subtasks_def validate_dag_accepts by (simp_all del: upt_Suc)
  have edges: "set (request_edges data) \<subseteq> ds_external_id ` set subs \<times> ds_external_id ` set subs"
    "acyclic (set (request_edges data))"
    using valid names(2) unfolding validate_dag_accepts by simp_all
  obtain m where m: "\<And>s. s \<in> set subs \<Longrightarrow> m (ds_external_id s) = ds_id s"
  proof
    let ?m = "\<lambda>x. the (dict_display (map (\<lambda>s. (ds_external_id s, ds_id s)) subs) x)"
    show "?m (ds_external_id s) = ds_id s" if "s \<in> set subs" for s
    proof -
      have "dict_display (map (\<lambda>s. (ds_external_id s, ds_id s)) subs) (ds_external_id s) =
          Some (ds_id s)"
        by (subst dict_display_iff) (use names that in \<open>auto simp: comp_def\<close>)
      then show ?thesis by simp
    qed
  qed
  have inj: "inj_on m (ds_external_id ` set subs)"
  proof (rule inj_onI)
    fix x y
    assume "x \<in> ds_external_id ` set subs" "y \<in> ds_external_id ` set subs" and eq: "m x = m y"
    then obtain s u where su: "s \<in> set subs" "u \<in> set subs" "x = ds_external_id s"
      "y = ds_external_id u" by blast
    with eq m have "ds_id s = ds_id u" by simp
    with su ids have "s = u" by (auto simp: distinct_map dest: inj_onD)
    with su show "x = y" by simp
  qed
  have rows: "list_all2 (\<lambda>e r. ?e r = map_prod m m e) (request_edges data) deps"
    using deps unfolding created_dependencies_def
    by (elim conjE) (erule list_all2_mono, auto simp flip: m)
  then have es: "map ?e deps = map (map_prod m m) (request_edges data)"
    by (induction) simp_all
  have inj2: "inj_on (map_prod m m) (set (request_edges data))"
    by (rule inj_on_subset [OF map_prod_inj_on [OF inj inj] edges(1)])
  have own: "\<And>r. r \<in> set deps \<Longrightarrow> dd_task_id r = next_uuid d"
    and dids: "map dd_id deps = [k..<k + length (tc_dependencies data)]"
    using deps by (simp_all add: created_dependencies_def)
  have triple: "distinct (map (\<lambda>r. (dd_task_id r, dd_predecessor_subtask_id r,
      dd_successor_subtask_id r)) deps) \<longleftrightarrow> distinct (request_edges data)"
  proof -
    have "distinct (map (\<lambda>r. (dd_task_id r, dd_predecessor_subtask_id r,
        dd_successor_subtask_id r)) deps) \<longleftrightarrow> distinct (map ?e deps)"
      using own by (auto simp: distinct_map inj_on_def)
    also have "\<dots> \<longleftrightarrow> distinct (request_edges data)"
      unfolding es using inj2 by (simp add: distinct_map)
    finally show ?thesis .
  qed
  have oldt: "\<And>r. r \<in> set (dag_dependencies d) \<Longrightarrow> dd_task_id r < next_uuid d"
    using old_rows_fresh(2) [OF inv] by blast
  have oldi: "\<And>r. r \<in> set (dag_dependencies d) \<Longrightarrow> dd_id r < k"
  proof -
    fix r assume "r \<in> set (dag_dependencies d)"
    then have "dd_id r < next_uuid d" using inv unfolding db_inv_def ids_used_def by blast
    with k show "dd_id r < k" by simp
  qed
  have "set (map dd_id deps) \<inter> dd_id ` set (dag_dependencies d) = {}"
    unfolding dids using oldi by fastforce
  then have di: "distinct (map dd_id (dag_dependencies d @ deps))"
    using ok d1 dids by (auto simp: schema_ok_def dag_dependencies_ok_def simp del: upt_Suc)
  have ends: "dd_predecessor_subtask_id r \<in> ds_id ` set subs \<and> dd_successor_subtask_id r \<in> ds_id ` set subs
      \<and> dd_predecessor_subtask_id r \<noteq> dd_successor_subtask_id r" if "r \<in> set deps" for r
  proof -
    from that have "?e r \<in> map_prod m m ` set (request_edges data)"
      using arg_cong [where f = set, OF es] by auto
    then obtain p s where ps: "(p, s) \<in> set (request_edges data)" "?e r = (m p, m s)" by auto
    with edges(1) have mem: "p \<in> ds_external_id ` set subs" "s \<in> ds_external_id ` set subs" by auto
    have "p \<noteq> s" using ps(1) edges(2) by (auto simp: acyclic_def)
    with inj mem have "m p \<noteq> m s" by (auto dest: inj_onD)
    with ps(2) mem m show ?thesis by auto
  qed
  have "dag_dependencies_ok (dag_tasks d1) (dag_subtasks d1) (dag_dependencies d1 @ deps) \<longleftrightarrow>
      distinct (request_edges data)"
  proof -
    have old: "list_all (\<lambda>r. dd_task_id r \<in> set (map dt_id (dag_tasks d1)) \<and>
        dd_predecessor_subtask_id r \<in> set (map ds_id (dag_subtasks d1)) \<and>
        dd_successor_subtask_id r \<in> set (map ds_id (dag_subtasks d1)) \<and>
        dd_predecessor_subtask_id r \<noteq> dd_successor_subtask_id r) (dag_dependencies d)"
      and tr: "distinct (map (\<lambda>r. (dd_task_id r, dd_predecessor_subtask_id r,
        dd_successor_subtask_id r)) (dag_dependencies d))"
      using ok unfolding schema_ok_def dag_dependencies_ok_def d1(1) by blast+
    have new: "list_all (\<lambda>r. dd_task_id r \<in> set (map dt_id (dag_tasks d1)) \<and>
        dd_predecessor_subtask_id r \<in> set (map ds_id (dag_subtasks d1)) \<and>
        dd_successor_subtask_id r \<in> set (map ds_id (dag_subtasks d1)) \<and>
        dd_predecessor_subtask_id r \<noteq> dd_successor_subtask_id r) deps"
      unfolding list_all_iff using own ends d1(3) by (auto simp: d1(2))
    have "distinct (map (\<lambda>r. (dd_task_id r, dd_predecessor_subtask_id r,
        dd_successor_subtask_id r)) (dag_dependencies d @ deps)) \<longleftrightarrow> distinct (request_edges data)"
    proof -
      have "(\<lambda>r. (dd_task_id r, dd_predecessor_subtask_id r, dd_successor_subtask_id r)) `
          set (dag_dependencies d) \<inter>
        (\<lambda>r. (dd_task_id r, dd_predecessor_subtask_id r, dd_successor_subtask_id r)) ` set deps = {}"
        using oldt own by fastforce
      with tr triple show ?thesis by simp
    qed
    with di old new show ?thesis
      unfolding dag_dependencies_ok_def d1(1) by simp
  qed
  then show ?thesis using ok by (simp add: schema_ok_def)
qed

lemma dependencies_total:
  assumes "distinct (map ds_external_id subs)"
    and "set edges \<subseteq> ds_external_id ` set subs \<times> ds_external_id ` set subs"
  shows "length ks = length edges \<Longrightarrow> \<exists>rows. map_result (new_dependency now t
    (dict_display (map (\<lambda>s. (ds_external_id s, ds_id s)) subs))) (zip ks edges) = Inr rows"
  using assms(2)
proof (induction edges arbitrary: ks)
  case (Cons e edges)
  let ?m = "dict_display (map (\<lambda>s. (ds_external_id s, ds_id s)) subs)"
  from Cons.prems(1) obtain k ks' where ks: "ks = k # ks'" by (cases ks) simp_all
  have m: "\<exists>i. ?m x = Some i" if x: "x \<in> ds_external_id ` set subs" for x
  proof -
    from x obtain s where s: "s \<in> set subs" "x = ds_external_id s" by blast
    have "?m x = Some (ds_id s)"
      by (subst dict_display_iff) (use s assms(1) in \<open>auto simp: comp_def\<close>)
    then show ?thesis by blast
  qed
  have "fst e \<in> ds_external_id ` set subs" "snd e \<in> ds_external_id ` set subs"
    using Cons.prems(2) by auto
  from m [OF this(1)] m [OF this(2)] obtain r where "new_dependency now t ?m (k, e) = Inr r"
    by (auto simp: new_dependency_def lookup_key_def)
  moreover from Cons.IH [of ks'] Cons.prems ks obtain rows where
    "map_result (new_dependency now t ?m) (zip ks' edges) = Inr rows" by auto
  ultimately show ?case by (simp add: ks)
qed simp

text \<open>An acceptable request comes down to the constraints on the new dependencies.\<close>

lemma create_task_last:
  assumes inv: "db_inv d"
    and valid: "validate_dag (map sc_external_id (tc_subtasks data)) (request_edges data) = Inr ()"
    and nums: "list_all (storable numeric) (tc_subtasks data)" and task: "task_storable data"
  shows "\<exists>t d2. create_task numeric now data d = and_then (db_flush d2) (\<lambda>d'. Inr (t, d')) \<and>
    (schema_ok d2 \<longleftrightarrow> distinct (request_edges data))"
proof -
  let ?T = "next_uuid d" and ?n = "length (tc_subtasks data)"
  let ?t = "new_task now ?T data"
  from storable_stored [OF nums, of "[?T + 1..<?T + 1 + ?n]" now ?T "map snd (request_edges data)"]
  obtain subs where subs: "map_result (store_subtask numeric)
      (map2 (new_subtask now ?T (map snd (request_edges data))) [?T + 1..<?T + 1 + ?n]
        (tc_subtasks data)) = Inr subs" by (auto simp del: upt_Suc)
  from subs have created: "created_subtasks ?T data subs" by (rule created_subtasks_stored)
  have ext: "distinct (map sc_external_id (tc_subtasks data))"
    using valid by (simp add: validate_dag_accepts)
  let ?d1 = "d\<lparr>next_uuid := ?T + 1 + ?n, dag_tasks := dag_tasks d @ [?t],
    dag_subtasks := dag_subtasks d @ subs\<rparr>"
  have "list_all row_storable subs" using stored_storable [OF subs] nums by (simp del: upt_Suc)
  then have ok1: "schema_ok ?d1"
    using schema_ok_add_task [OF inv _ created ext, of ?t "?T + 1 + ?n"] task
    unfolding task_storable_iff [of _ now ?T] by (simp add: new_task_def)
  have create: "task_create numeric ?t (map2 (new_subtask now ?T (map snd (request_edges data)))
      [?T + 1..<?T + 1 + ?n] (tc_subtasks data)) (d\<lparr>next_uuid := ?T + 1 + ?n\<rparr>) = Inr ?d1"
    using ok1 task unfolding task_create_def subs task_storable_iff [of _ now ?T]
    by (simp add: db_flush_def store_task_def)
  have "ds_task_id s = ?T" if "s \<in> set subs" for s
    using created that unfolding created_subtasks_def by blast
  then have own: "task_subtasks ?d1 ?T = subs"
    using old_rows_fresh(1) [OF inv] by (fastforce simp: task_subtasks_def filter_empty_conv)
  have names: "map ds_external_id subs = map sc_external_id (tc_subtasks data)"
    using created by (simp add: created_subtasks_def)
  then have "set (map ds_external_id subs) = set (map sc_external_id (tc_subtasks data))" by simp
  then have "set (request_edges data) \<subseteq> ds_external_id ` set subs \<times> ds_external_id ` set subs"
    using valid by (simp add: validate_dag_accepts)
  from dependencies_total [OF _ this, of "[next_uuid ?d1..<next_uuid ?d1 + length (request_edges data)]"
      now ?T] names ext
  obtain deps where deps: "map_result (new_dependency now ?T
      (dict_display (map (\<lambda>s. (ds_external_id s, ds_id s)) subs)))
      (zip [next_uuid ?d1..<next_uuid ?d1 + length (request_edges data)] (request_edges data)) =
      Inr deps" by (auto simp del: upt_Suc)
  let ?d2 = "?d1\<lparr>dag_dependencies := dag_dependencies ?d1 @ deps,
    next_uuid := next_uuid ?d1 + length (request_edges data)\<rparr>"
  have "create_task numeric now data d = and_then (db_flush ?d2) (\<lambda>d'. Inr (?t, d'))"
    unfolding create_task_def Let_def request_edges_def [symmetric] valid except_value_error_simps
      and_then_simps create own deps ..
  moreover have "created_dependencies ?T data (next_uuid ?d1) subs deps"
    by (rule created_dependencies_stored [OF _ deps]) (simp add: names ext)
  from schema_ok_add_dependencies [OF inv ok1 _ _ _ created valid this]
  have "schema_ok ?d2 \<longleftrightarrow> distinct (request_edges data)" by (simp add: new_task_def)
  ultimately show ?thesis by blast
qed

lemma create_task_succeeds:
  assumes inv: "db_inv d"
  shows "(\<exists>t d'. create_task numeric now data d = Inr (t, d')) \<longleftrightarrow>
    validate_dag (map sc_external_id (tc_subtasks data)) (request_edges data) = Inr () \<and>
    distinct (request_edges data) \<and> list_all (storable numeric) (tc_subtasks data) \<and>
    task_storable data"
    (is "?run \<longleftrightarrow> ?ok")
proof
  assume ?ok
  with create_task_last [OF inv, of data numeric now] obtain t d2 where
    "create_task numeric now data d = and_then (db_flush d2) (\<lambda>d'. Inr (t, d'))" "schema_ok d2"
    by blast
  then show ?run by (auto simp: db_flush_def)
next
  assume ?run
  then obtain t d' where run: "create_task numeric now data d = Inr (t, d')" by blast
  from create_task_stored [OF inv this]
  have valid: "validate_dag (map sc_external_id (tc_subtasks data)) (request_edges data) = Inr ()"
    by blast
  let ?T = "next_uuid d" and ?n = "length (tc_subtasks data)"
  from run obtain d1 where "task_create numeric (new_task now ?T data)
      (map2 (new_subtask now ?T (map snd (request_edges data))) [?T + 1..<?T + 1 + ?n]
        (tc_subtasks data)) (d\<lparr>next_uuid := ?T + 1 + ?n\<rparr>) = Inr d1"
    unfolding create_task_def Let_def request_edges_def [symmetric] and_then_Inr_iff by blast
  then obtain subs where subs: "map_result (store_subtask numeric)
      (map2 (new_subtask now ?T (map snd (request_edges data))) [?T + 1..<?T + 1 + ?n]
        (tc_subtasks data)) = Inr subs"
    and ok1: "schema_ok (d\<lparr>next_uuid := ?T + 1 + ?n, dag_tasks := dag_tasks d @ [new_task now ?T data],
      dag_subtasks := dag_subtasks d @ subs\<rparr>)"
    and fits: "task_fits (new_task now ?T data)"
    unfolding task_create_def and_then_Inr_iff db_flush_Inr_iff store_task_Inr_iff by auto
  have ext: "distinct (map sc_external_id (tc_subtasks data))"
    using valid by (simp add: validate_dag_accepts)
  from schema_ok_add_task [OF inv _ created_subtasks_stored [OF subs] ext] ok1
  have nums: "list_all (storable numeric) (tc_subtasks data)" "task_storable data"
    using stored_storable [OF subs] fits unfolding task_storable_iff [of _ now ?T]
    by (simp_all add: new_task_def del: upt_Suc)
  from create_task_last [OF inv valid nums, of now] obtain t' d2 where
    "create_task numeric now data d = and_then (db_flush d2) (\<lambda>d'. Inr (t', d'))"
    and iff: "schema_ok d2 \<longleftrightarrow> distinct (request_edges data)" by blast
  with run have "schema_ok d2" by (auto simp: db_flush_def split: if_splits)
  with iff valid nums show ?ok by blast
qed

text \<open>A repeated edge passes the validation and is refused by the database.\<close>

lemma create_task_duplicate_edge:
  assumes "db_inv d"
    and "validate_dag (map sc_external_id (tc_subtasks data)) (request_edges data) = Inr ()"
    and "list_all (storable numeric) (tc_subtasks data)" and "task_storable data"
    and "\<not> distinct (request_edges data)"
  shows "create_task numeric now data d = Inl IntegrityError"
  using create_task_last [OF assms(1-4), of now] assms(5) by (auto simp: db_flush_def)

end
