(* ===== verification/Service_Properties.thy ===== *)
theory Service_Properties
  imports Lifecycle_Properties Report_Outcomes Task_Accept
begin

text \<open>
  What each operation of the task, scheduling and execution services does: when it succeeds,
  what it stores, and where it leaves the task; each property is applied to a state of the
  example runs.
\<close>

section \<open>Execution results\<close>

text \<open>
  C10: a successful result is always accepted: the execution is closed as SUCCESS, exactly the
  waiting subtasks that depend on the finished one and whose predecessors have now all
  succeeded become ready, and the task becomes SUCCESS exactly when no subtask is left; the
  answer reports these statuses.
\<close>

theorem successful_result_advances_task:
  assumes "db_inv d" and "execution_get_by_id d i = Some r"
    and "er_status r = ExecutionStatus.RUNNING" and "opt_all (\<lambda>n. 0 \<le> n) duration"
    and "get_subtask_row d (er_subtask_id r) = Some s" "task_get_by_id d (er_task_id r) = Some t"
  shows "\<exists>x d'. report_result now i ExecutionStatus.SUCCESS duration summary reason d = Inr (x, d') \<and>
    reported now r ExecutionStatus.SUCCESS duration summary reason
      (flow_success (er_subtask_id r) (task_flow d t)) x d'"
  by (rule report_success_outcome [OF assms])

theorem successful_result_advances_task_witness:
  "\<exists>x d'. report_result 5 7 ExecutionStatus.SUCCESS (Some 3) None None started_db = Inr (x, d') \<and>
     reported 5 survey_record ExecutionStatus.SUCCESS (Some 3) None None
       (flow_success 2 (task_flow started_db (hd (dag_tasks started_db)))) x d'"
proof -
  have "opt_all (\<lambda>n. 0 \<le> n) (Some (3 :: int))" by simp
  from successful_result_advances_task [OF example_inv(3) survey_record_rows(1,2) this survey_record_rows(3,4)]
  show ?thesis unfolding survey_record_sel .
qed

text \<open>
  C11: what a result other than success does. While the subtask has retries left, a failed or
  timed-out result closes the execution and makes the subtask ready again with one more retry
  counted, and nothing else of the task changes. A result that cannot be retried (canceled, or
  failed with no retries left) fails the subtask and the running task.
\<close>

theorem failed_result_outcome:
  assumes "db_inv d" and "execution_get_by_id d i = Some r"
    and "er_status r = ExecutionStatus.RUNNING" and "opt_all (\<lambda>n. 0 \<le> n) duration"
    and "get_subtask_row d (er_subtask_id r) = Some s" "task_get_by_id d (er_task_id r) = Some t"
    and "status \<noteq> ExecutionStatus.RUNNING" "status \<noteq> ExecutionStatus.SUCCESS"
  shows "(status \<noteq> ExecutionStatus.CANCELED \<and> ds_retry_count s < ds_max_retries s \<longrightarrow>
     (\<exists>x d'. report_result now i status duration summary reason d = Inr (x, d') \<and>
       reported now r status duration summary reason
         ((task_flow d t)\<lparr>f_subtasks :=
           (f_subtasks (task_flow d t))(er_subtask_id r \<mapsto> SubtaskStatus.READY)\<rparr>) x d' \<and>
       (\<forall>s'. get_subtask_row d' (er_subtask_id r) = Some s' \<longrightarrow>
         ds_retry_count s' = ds_retry_count s + 1))) \<and>
   ((status = ExecutionStatus.CANCELED \<or> ds_max_retries s \<le> ds_retry_count s) \<and>
      dt_status t = TaskStatus.RUNNING \<longrightarrow>
     (\<exists>x d'. report_result now i status duration summary reason d = Inr (x, d') \<and>
       reported now r status duration summary reason
         ((task_flow d t)\<lparr>f_task := TaskStatus.FAILED, f_subtasks :=
           (f_subtasks (task_flow d t))(er_subtask_id r \<mapsto> SubtaskStatus.FAILED)\<rparr>) x d'))"
proof (intro conjI impI)
  assume "status \<noteq> ExecutionStatus.CANCELED \<and> ds_retry_count s < ds_max_retries s"
  with assms(7,8) have "status = ExecutionStatus.FAILED \<or> status = ExecutionStatus.TIMEOUT"
    "ds_retry_count s < ds_max_retries s" by (cases status; simp)+
  then show "\<exists>x d'. report_result now i status duration summary reason d = Inr (x, d') \<and>
       reported now r status duration summary reason
         ((task_flow d t)\<lparr>f_subtasks :=
           (f_subtasks (task_flow d t))(er_subtask_id r \<mapsto> SubtaskStatus.READY)\<rparr>) x d' \<and>
       (\<forall>s'. get_subtask_row d' (er_subtask_id r) = Some s' \<longrightarrow>
         ds_retry_count s' = ds_retry_count s + 1)"
    by (rule report_retry_outcome [OF assms(1-6)])
next
  assume "(status = ExecutionStatus.CANCELED \<or> ds_max_retries s \<le> ds_retry_count s) \<and>
      dt_status t = TaskStatus.RUNNING"
  then show "\<exists>x d'. report_result now i status duration summary reason d = Inr (x, d') \<and>
       reported now r status duration summary reason
         ((task_flow d t)\<lparr>f_task := TaskStatus.FAILED, f_subtasks :=
           (f_subtasks (task_flow d t))(er_subtask_id r \<mapsto> SubtaskStatus.FAILED)\<rparr>) x d'"
    by (intro report_failure_outcome [OF assms]) simp_all
qed

theorem failed_result_outcome_witness:
  "(\<exists>x d'. report_result 5 7 ExecutionStatus.TIMEOUT None None None started_db = Inr (x, d') \<and>
     reported 5 survey_record ExecutionStatus.TIMEOUT None None None
      ((task_flow started_db (hd (dag_tasks started_db)))\<lparr>f_subtasks :=
        (f_subtasks (task_flow started_db (hd (dag_tasks started_db))))(2 \<mapsto> SubtaskStatus.READY)\<rparr>) x d' \<and>
     (\<forall>s'. get_subtask_row d' 2 = Some s' \<longrightarrow> ds_retry_count s' = 0 + 1)) \<and>
   (\<exists>x d'. report_result 5 7 ExecutionStatus.CANCELED None None None started_db = Inr (x, d') \<and>
     reported 5 survey_record ExecutionStatus.CANCELED None None None
       ((task_flow started_db (hd (dag_tasks started_db)))\<lparr>f_task := TaskStatus.FAILED,
         f_subtasks := (f_subtasks (task_flow started_db (hd (dag_tasks started_db))))
           (2 \<mapsto> SubtaskStatus.FAILED)\<rparr>) x d')"
proof -
  have facts: "opt_all (\<lambda>n. 0 \<le> n) None" "(0 :: int) < 1"
    "ExecutionStatus.TIMEOUT \<noteq> ExecutionStatus.RUNNING" "ExecutionStatus.TIMEOUT \<noteq> ExecutionStatus.SUCCESS"
    "ExecutionStatus.CANCELED \<noteq> ExecutionStatus.RUNNING" "ExecutionStatus.CANCELED \<noteq> ExecutionStatus.SUCCESS"
    "ExecutionStatus.TIMEOUT \<noteq> ExecutionStatus.CANCELED" by simp_all
  note outcome = failed_result_outcome [OF example_inv(3) survey_record_rows(1,2) facts(1)
      survey_record_rows(3,4), where now = 5 and summary = None and reason = None]
  note retry = outcome [OF facts(3,4), THEN conjunct1, unfolded survey_record_sel]
    and failed = outcome [OF facts(5,6), THEN conjunct2, unfolded survey_record_sel]
  show ?thesis
    by (intro conjI retry [THEN mp] failed [THEN mp] disjI1 refl facts(2,7))
qed

text \<open>
  C12: exactly which results are accepted. Of a running execution: success always, a failure or
  time-out with retries left always, any other terminal status only while the task is running;
  when another subtask has already failed the task, a second permanent failure is answered with
  a state conflict, and its execution stays RUNNING. A repeated or late report, on an execution
  that is no longer running, is answered as not accepted with the current statuses, and the
  database is unchanged.
\<close>

theorem accepted_results:
  assumes "db_inv d" and "execution_get_by_id d i = Some r"
    and "get_subtask_row d (er_subtask_id r) = Some s" "task_get_by_id d (er_task_id r) = Some t"
  shows "(er_status r = ExecutionStatus.RUNNING \<and> opt_all (\<lambda>n. 0 \<le> n) duration \<longrightarrow>
     ((\<exists>x d'. report_result now i status duration summary reason d = Inr (x, d')) \<longleftrightarrow>
       status = ExecutionStatus.SUCCESS \<or>
       (status = ExecutionStatus.FAILED \<or> status = ExecutionStatus.TIMEOUT) \<and>
         ds_retry_count s < ds_max_retries s \<or>
       status \<noteq> ExecutionStatus.RUNNING \<and> dt_status t = TaskStatus.RUNNING)) \<and>
   (er_status r \<noteq> ExecutionStatus.RUNNING \<longrightarrow>
     report_result now i status duration summary reason d =
       Inr (\<lparr>xr_execution_id = i, xr_subtask_status = ds_status s, xr_task_status = dt_status t,
         xr_accepted = False\<rparr>, d))"
proof (intro conjI impI)
  assume running: "er_status r = ExecutionStatus.RUNNING \<and> opt_all (\<lambda>n. 0 \<le> n) duration"
  show "(\<exists>x d'. report_result now i status duration summary reason d = Inr (x, d')) \<longleftrightarrow>
       status = ExecutionStatus.SUCCESS \<or>
       (status = ExecutionStatus.FAILED \<or> status = ExecutionStatus.TIMEOUT) \<and>
         ds_retry_count s < ds_max_retries s \<or>
       status \<noteq> ExecutionStatus.RUNNING \<and> dt_status t = TaskStatus.RUNNING"
    by (rule report_result_accepts [OF assms(1,2) _ _ assms(3,4)]) (use running in simp_all)
next
  assume "er_status r \<noteq> ExecutionStatus.RUNNING"
  from report_duplicate [OF assms(1,2) this assms(3,4)]
  show "report_result now i status duration summary reason d =
       Inr (\<lparr>xr_execution_id = i, xr_subtask_status = ds_status s, xr_task_status = dt_status t,
         xr_accepted = False\<rparr>, d)" .
qed

theorem accepted_results_witness:
  "\<not> (\<exists>x d'. report_result 6 8 ExecutionStatus.FAILED None None None pair_failed = Inr (x, d')) \<and>
   report_result 9 7 ExecutionStatus.FAILED None None None succeeded_db =
     Inr (\<lparr>xr_execution_id = 7, xr_subtask_status = SubtaskStatus.SUCCESS,
       xr_task_status = TaskStatus.RUNNING, xr_accepted = False\<rparr>, succeeded_db)"
proof
  let ?r = "pair_record 8 3 6"
  have r: "er_status ?r = ExecutionStatus.RUNNING" "er_subtask_id ?r = 3" "er_task_id ?r = 1"
    by (simp_all add: pair_record_def survey_record_def)
  have rows: "get_subtask_row pair_failed (er_subtask_id ?r) =
      Some ((step_row 3 ''b'' 0 SubtaskStatus.RUNNING)\<lparr>ds_started_at := Some 4\<rparr>)"
    "task_get_by_id pair_failed (er_task_id ?r) = Some (hd (dag_tasks pair_failed))"
    unfolding r using pair_failed_rows by (simp_all add: pair_failed_def)
  from accepted_results [OF platform_reachable_inv [OF pair_failed_reachable] pair_failed_rows(1)
      rows, where status = ExecutionStatus.FAILED and duration = None and now = 6] r(1)
  show "\<not> (\<exists>x d'. report_result 6 8 ExecutionStatus.FAILED None None None pair_failed = Inr (x, d'))"
    by (simp add: step_row_def survey_row_def pair_failed_def)
next
  let ?r = "hd (execution_records succeeded_db)" and ?s = "hd (dag_subtasks succeeded_db)"
    and ?t = "hd (dag_tasks succeeded_db)"
  have rows: "execution_get_by_id succeeded_db 7 = Some ?r" "er_status ?r \<noteq> ExecutionStatus.RUNNING"
    "get_subtask_row succeeded_db (er_subtask_id ?r) = Some ?s"
    "task_get_by_id succeeded_db (er_task_id ?r) = Some ?t"
    "ds_status ?s = SubtaskStatus.SUCCESS" "dt_status ?t = TaskStatus.RUNNING"
    by (simp_all add: execution_get_by_id_def get_subtask_row_def task_get_by_id_def succeeded_db_def
        started_db_def row_get_Cons row_defs finish_record_def)
  from accepted_results [OF platform_reachable_inv [OF succeeded_reachable] rows(1,3,4),
      where status = ExecutionStatus.FAILED and now = 9] rows(2)
  show "report_result 9 7 ExecutionStatus.FAILED None None None succeeded_db =
     Inr (\<lparr>xr_execution_id = 7, xr_subtask_status = SubtaskStatus.SUCCESS,
       xr_task_status = TaskStatus.RUNNING, xr_accepted = False\<rparr>, succeeded_db)"
    unfolding rows by simp
qed

section \<open>Planning and starting\<close>

text \<open>
  C13: starting a plan is all or nothing: it succeeds exactly when the task is scheduled or
  running, the plan is an unused plan of that task with at least one item, and every item's
  subtask is still ready; then the plan is APPLIED, the task RUNNING, and there is one new
  running execution per item, in the order of the items.
\<close>

theorem start_execution_exactly:
  assumes "db_inv d"
  shows "start_execution now task_id plan_id d = Inr (x, d') \<longleftrightarrow>
    startable task_id plan_id d \<and> d' = start_db now task_id plan_id d \<and>
    x = \<lparr>es_task_id = task_id, es_schedule_plan_id = plan_id, es_status = TaskStatus.RUNNING,
         es_execution_count = int (length (plan_items d plan_id)),
         es_execution_ids = [next_uuid d..<next_uuid d + length (plan_items d plan_id)]\<rparr>"
proof -
  have ok: "schema_ok d" using assms by (simp add: db_inv_def)
  show ?thesis
  proof (cases "startable task_id plan_id d")
    case True
    have "schema_ok (start_db now task_id plan_id d)" by (rule start_schema_ok [OF assms True])
    then show ?thesis
      using start_execution_eq [OF ok True, of now] True by (auto simp: db_flush_def)
  next
    case False
    then show ?thesis using start_execution_startable [OF ok, of now task_id plan_id x d'] by blast
  qed
qed

theorem start_execution_exactly_witness:
  "start_execution 4 1 5 planned_db = Inr (\<lparr>es_task_id = 1, es_schedule_plan_id = 5,
     es_status = TaskStatus.RUNNING, es_execution_count = int (length (plan_items planned_db 5)),
     es_execution_ids = [next_uuid planned_db..<next_uuid planned_db + length (plan_items planned_db 5)]\<rparr>,
     start_db 4 1 5 planned_db)"
  using start_execution_exactly [OF example_inv(2)] planned_startable by blast

lemma generated_plan_startable:
  assumes inv: "db_inv d"
    and run: "generate_plan random numeric now task_id strategy_name options d = Inr (p, d')"
  shows "map pi_subtask_id (plan_items d' (sp_id p)) = map ds_id
      (filter (\<lambda>s. ds_status s = SubtaskStatus.READY) (task_subtasks d task_id))"
    and "startable task_id (sp_id p) d'"
proof -
  from generate_plan_step [OF inv run] have inv': "db_inv d'" by (simp add: db_step_def)
  from generate_plan_stored [OF run] obtain task generated row rows where
    task: "task_get_by_id d task_id = Some task" "dt_id task = task_id"
      "dt_status task \<in> {TaskStatus.PENDING, TaskStatus.RUNNING}"
    and ready: "map si_subtask_id (gp_items generated) = map ds_id
      (filter (\<lambda>s. ds_status s = SubtaskStatus.READY) (task_subtasks d task_id))"
      "gp_items generated \<noteq> []"
    and stored: "stored_plan d task generated row rows" and p: "p = row"
    and d': "d' = d\<lparr>next_uuid := next_uuid d + 1 + length (gp_items generated),
      dag_tasks := map (scheduled_task now task) (dag_tasks d),
      schedule_plans := schedule_plans d @ [row],
      schedule_plan_items := schedule_plan_items d @ rows\<rparr>" .
  have "pi_plan_id i \<noteq> next_uuid d" if "i \<in> set (schedule_plan_items d)" for i
  proof -
    from inv that obtain q where "q \<in> set (schedule_plans d)" "pi_plan_id i = sp_id q"
      unfolding db_inv_def plans_agree_def by blast
    moreover from this(1) inv have "sp_id q < next_uuid d" unfolding db_inv_def ids_used_def by blast
    ultimately show ?thesis by simp
  qed
  then have items: "plan_items d' (sp_id p) = rows"
    using stored p by (auto simp: plan_items_def d' stored_plan_def filter_empty_conv)
  with ready stored show covers: "map pi_subtask_id (plan_items d' (sp_id p)) = map ds_id
      (filter (\<lambda>s. ds_status s = SubtaskStatus.READY) (task_subtasks d task_id))"
    by (simp add: stored_plan_def)
  have plan: "schedule_get_by_id d' (sp_id p) = Some row"
    using plan_rows.get_iff [OF db_inv_distinct(3) [OF inv']] p by (simp add: d')
  have "task_get_by_id d' task_id = map_option (scheduled_task now task) (task_get_by_id d task_id)"
    by (rule task_get_map) (simp_all add: d')
  moreover have "dt_status (scheduled_task now task task) \<in> {TaskStatus.SCHEDULED, TaskStatus.RUNNING}"
    using task(3) by (auto simp: scheduled_task_def)
  moreover have "plan_items d' (sp_id p) \<noteq> []"
    using covers ready by force
  moreover have "\<exists>s. get_subtask_row d' (pi_subtask_id i) = Some s \<and> ds_status s = SubtaskStatus.READY"
    if i: "i \<in> set (plan_items d' (sp_id p))" for i
  proof -
    from i have "pi_subtask_id i \<in> set (map pi_subtask_id (plan_items d' (sp_id p)))" by simp
    then obtain s where s: "s \<in> set (dag_subtasks d)" "ds_id s = pi_subtask_id i"
      "ds_status s = SubtaskStatus.READY" unfolding covers by (auto simp: task_subtasks_def)
    then have "get_subtask_row d' (pi_subtask_id i) = Some s"
      using get_subtask_row_iff [OF db_inv_distinct(2) [OF inv']] by (simp add: d')
    with s show ?thesis by blast
  qed
  ultimately show "startable task_id (sp_id p) d'"
    using plan stored task by (auto simp: startable_def stored_plan_def)
qed

text \<open>
  C14: a plan covers what can be done: a generated plan assigns each ready subtask of the task,
  and no other, to one online node, and it can be started at once.
\<close>

theorem generated_plans_cover_and_start:
  assumes "db_inv d"
    and "generate_plan random numeric now task_id strategy_name options d = Inr (p, d')"
  shows "map pi_subtask_id (plan_items d' (sp_id p)) = map ds_id
      (filter (\<lambda>s. ds_status s = SubtaskStatus.READY) (task_subtasks d task_id)) \<and>
    (\<exists>x d2. start_execution later task_id (sp_id p) d' = Inr (x, d2))"
  using generated_plan_startable [OF assms] generate_plan_step [OF assms]
    start_execution_succeeds [of d' later task_id "sp_id p"] by (simp add: db_step_def)

theorem generated_plans_cover_and_start_witness:
  "\<exists>x d2. start_execution 4 1 5 planned_db = Inr (x, d2)"
proof -
  have p: "sp_id (survey_plan SchedulePlanStatus.GENERATED) = 5" by (simp add: survey_plan_def)
  from generated_plans_cover_and_start [OF example_inv(1) plan_generated, of 4]
  show ?thesis unfolding p by (rule conjunct2)
qed

lemma started_plan_blocks:
  assumes inv: "db_inv d" and go: "startable task_id plan_id d"
    and i: "i \<in> set (plan_items d plan_id)" and j: "j \<in> set (plan_items d other)"
    and same: "pi_subtask_id j = pi_subtask_id i"
  shows "\<not> startable task_id' other (start_db now task_id plan_id d)"
proof
  let ?d = "start_db now task_id plan_id d"
  assume again: "startable task_id' other ?d"
  have inv': "db_inv ?d" using start_db_step [OF inv go] by (simp add: db_step_def)
  from startable_items [OF inv go i] obtain s where s: "s \<in> set (dag_subtasks d)"
    "ds_id s = pi_subtask_id i" "ds_task_id s = task_id" by blast
  have "j \<in> set (plan_items ?d other)" using j by (simp add: plan_items_def start_db_def Let_def)
  from startable_items [OF inv' again this] obtain u where u: "u \<in> set (dag_subtasks ?d)"
    "ds_id u = pi_subtask_id i" "ds_task_id u = task_id'" "ds_status u = SubtaskStatus.READY"
    using same by auto
  from u(1) obtain s' where s': "s' \<in> set (dag_subtasks d)"
    "u = started_row now (pi_subtask_id ` set (plan_items d plan_id)) s'"
    by (auto simp: start_db_def Let_def)
  then have "ds_id s' \<in> pi_subtask_id ` set (plan_items d plan_id)"
    using u(2) i by (auto simp: started_row_def split: if_splits)
  with s' u(4) show False by (simp add: started_row_def)
qed

text \<open>
  C15: no subtask is started twice: once a plan is started, no other plan that holds one of its
  subtasks can be started until that subtask is ready again.
\<close>

theorem started_subtasks_not_restarted:
  assumes "db_inv d" and "start_execution now task_id plan_id d = Inr (x, d')"
    and "i \<in> set (plan_items d plan_id)" and "j \<in> set (plan_items d other)"
    and "pi_subtask_id j = pi_subtask_id i"
  shows "\<not> (\<exists>y d2. start_execution later task_id' other d' = Inr (y, d2))"
proof -
  note go = start_execution_db [OF assms(1,2)]
  have "db_inv d'" using start_db_step [OF assms(1) go(1)] go(2) by (simp add: db_step_def)
  from start_execution_succeeds [OF this] started_plan_blocks [OF assms(1) go(1) assms(3-5)] go(2)
  show ?thesis by simp
qed

theorem started_subtasks_not_restarted_witness:
  "\<not> (\<exists>y d2. start_execution 5 1 5 started_db = Inr (y, d2))"
proof -
  have "survey_item \<in> set (plan_items planned_db 5)" using planned_items by simp
  from started_subtasks_not_restarted [OF example_inv(2) execution_started this this refl]
  show ?thesis .
qed

text \<open>
  C16: the loop that releases successors, which updates rows while it reads them, computes the
  declarative answer in one pass: it never raises on a stored graph, and a subtask becomes
  ready exactly when it depends on the finished subtask, waits, and all its predecessors have
  succeeded.
\<close>

theorem unlocking_is_declarative:
  assumes "distinct (map ds_id (dag_subtasks d))"
    and "dependency_edges d t \<subseteq> dom (subtask_status d t) \<times> dom (subtask_status d t)"
  shows "\<exists>d'. unlock_successors t c d = Inr d' \<and> d' = d\<lparr>dag_subtasks := dag_subtasks d'\<rparr> \<and>
    subtask_status d' t = unlock (dependency_edges d t) c (subtask_status d t)"
  unfolding unlock_successors_eq [OF assms]
  using unlocked_status [OF assms(1), of t c] by (simp add: unlocked_db_def)

theorem unlocking_is_declarative_witness:
  "\<exists>d'. unlock_successors 1 2 started_db = Inr d' \<and> d' = started_db\<lparr>dag_subtasks := dag_subtasks d'\<rparr> \<and>
    subtask_status d' 1 = unlock (dependency_edges started_db 1) 2 (subtask_status started_db 1)"
proof (rule unlocking_is_declarative)
  show "distinct (map ds_id (dag_subtasks started_db))" by (rule db_inv_distinct [OF example_inv(3)])
  have t: "hd (dag_tasks started_db) \<in> set (dag_tasks started_db)" "dt_id (hd (dag_tasks started_db)) = 1"
    by (simp_all add: started_db_def survey_row_def)
  from db_inv_flow [OF example_inv(3) t(1)] show
    "dependency_edges started_db 1 \<subseteq> dom (subtask_status started_db 1) \<times> dom (subtask_status started_db 1)"
    unfolding flow_inv_def flow_wf_def task_flow_sel t by blast
qed

section \<open>Cancellation\<close>

lemma cancel_task_leaves:
  assumes "db_inv d" and eff: "cancel_task revoker now i reason d = Inr d'"
  shows "dag_subtasks d' = map (canceled_row i reason now) (dag_subtasks d) \<and>
    execution_records d' = map (canceled_record i reason now) (execution_records d) \<and>
    (\<exists>t'. task_get_by_id d' i = Some t' \<and> dt_status t' = TaskStatus.CANCELED \<and>
       dt_failure_reason t' = reason) \<and>
    (\<forall>j. j \<noteq> i \<longrightarrow> task_get_by_id d' j = task_get_by_id d j) \<and>
    (\<exists>events. execution_revoke_events d' = execution_revoke_events d @ events \<and>
       map re_execution_id events =
         map er_id (filter (\<lambda>r. er_celery_task_id r \<noteq> None) (list_running_by_task d i))) \<and>
    (\<forall>r \<in> set (execution_records d'). er_task_id r = i \<longrightarrow> er_status r \<noteq> ExecutionStatus.RUNNING)"
proof -
  note dist = db_inv_distinct [OF assms(1)]
  obtain t events k where
    t: "task_get_by_id d i = Some t"
    and d': "d' = d\<lparr>dag_tasks := row_upd dt_id i (\<lambda>t. t\<lparr>dt_status := TaskStatus.CANCELED,
        dt_failure_reason := reason, dt_finished_at := or_else (dt_finished_at t) now\<rparr>) (dag_tasks d),
      dag_subtasks := map (canceled_row i reason now) (dag_subtasks d),
      execution_records := map (canceled_record i reason now) (execution_records d),
      execution_revoke_events := execution_revoke_events d @ events,
      next_uuid := next_uuid d + k\<rparr>"
    and events: "map re_execution_id events =
      map er_id (filter (\<lambda>r. er_celery_task_id r \<noteq> None) (list_running_by_task d i))" 
    by (rule cancel_task_effect [OF eff dist(2,4)]) (rule that)
  let ?f = "\<lambda>t. t\<lparr>dt_status := TaskStatus.CANCELED,
        dt_failure_reason := reason, dt_finished_at := or_else (dt_finished_at t) now\<rparr>"
  have "task_get_by_id d' j = (if j = i then map_option ?f (task_get_by_id d j) else task_get_by_id d j)" for j
    using task_rows.get_upd [of ?f i d j] by (simp add: d' task_get_by_id_def upd_task_def)
  moreover have "er_status (canceled_record i reason now r) \<noteq> ExecutionStatus.RUNNING"
    if "er_task_id (canceled_record i reason now r) = i" for r
    using that by (auto simp: canceled_record_def cancel_record_def split: if_splits)
  ultimately show ?thesis
    using t events by (intro conjI) (simp_all add: d' or_else_def, blast?)
qed

text \<open>
  C17: cancellation is accepted exactly for a task that exists and is not over, whatever the
  revocation of its Celery tasks answers. A canceled task leaves nothing behind: the task is
  CANCELED with the reason given, each of its subtasks that was not over and each of its
  running executions is CANCELED, one revocation is recorded for each running execution known
  to Celery, and no row of another task is touched.
\<close>

theorem cancellation:
  assumes "db_inv d"
  shows "((\<exists>d'. cancel_task revoker now i reason d = Inr d') \<longleftrightarrow>
      (\<exists>t. task_get_by_id d i = Some t \<and>
         dt_status t \<in> {TaskStatus.PENDING, TaskStatus.SCHEDULED, TaskStatus.RUNNING})) \<and>
    (\<forall>d'. cancel_task revoker now i reason d = Inr d' \<longrightarrow>
      dag_subtasks d' = map (canceled_row i reason now) (dag_subtasks d) \<and>
      execution_records d' = map (canceled_record i reason now) (execution_records d) \<and>
      (\<exists>t'. task_get_by_id d' i = Some t' \<and> dt_status t' = TaskStatus.CANCELED \<and>
         dt_failure_reason t' = reason) \<and>
      (\<forall>j. j \<noteq> i \<longrightarrow> task_get_by_id d' j = task_get_by_id d j) \<and>
      (\<exists>events. execution_revoke_events d' = execution_revoke_events d @ events \<and>
         map re_execution_id events =
           map er_id (filter (\<lambda>r. er_celery_task_id r \<noteq> None) (list_running_by_task d i))) \<and>
      (\<forall>r \<in> set (execution_records d'). er_task_id r = i \<longrightarrow> er_status r \<noteq> ExecutionStatus.RUNNING))"
  using cancel_task_succeeds [OF assms] cancel_task_leaves [OF assms] by blast

theorem cancellation_witness:
  "\<not> (\<exists>d'. cancel_task revoked 6 1 None pair_failed = Inr d') \<and>
   (\<exists>d'. cancel_task revoked 6 1 (Some ''storm'') started_db = Inr d' \<and>
     execution_records d' = map (canceled_record 1 (Some ''storm'') 6) (execution_records started_db))"
proof
  have "dt_status (hd (dag_tasks pair_failed)) = TaskStatus.FAILED"
    "task_get_by_id pair_failed 1 = Some (hd (dag_tasks pair_failed))"
    using pair_failed_rows(3) by (simp_all add: pair_failed_def survey_row_def)
  then show "\<not> (\<exists>d'. cancel_task revoked 6 1 None pair_failed = Inr d')"
    using cancellation [OF platform_reachable_inv [OF pair_failed_reachable],
      THEN conjunct1, of revoked 6 1 None] by auto
next
  obtain d' where d': "cancel_task revoked 6 1 (Some ''storm'') started_db = Inr d'"
    using survey_cancelable by blast
  with cancellation [OF example_inv(3), THEN conjunct2, rule_format, OF d', THEN conjunct2, THEN conjunct1]
  show "\<exists>d'. cancel_task revoked 6 1 (Some ''storm'') started_db = Inr d' \<and>
     execution_records d' = map (canceled_record 1 (Some ''storm'') 6) (execution_records started_db)"
    by blast
qed

section \<open>Creating tasks\<close>

text \<open>
  C18: exactly which requests create a task: those whose graph is valid, whose dependencies are
  distinct, and whose values the columns can hold: loads and sizes that still satisfy the
  constraints after rounding, a priority and retry limits between 0 and \<open>2 ^ 31 - 1\<close>, texts within
  the lengths of their columns and without \<open>NUL\<close>, metadata without \<open>NaN\<close> or infinity. Every other
  request raises and stores nothing.
\<close>

theorem create_task_exactly:
  assumes "db_inv d"
  shows "(\<exists>t d'. create_task numeric now data d = Inr (t, d')) \<longleftrightarrow>
    validate_dag (map sc_external_id (tc_subtasks data)) (request_edges data) = Inr () \<and>
    distinct (request_edges data) \<and> list_all (storable numeric) (tc_subtasks data) \<and>
    task_storable data"
  by (rule create_task_succeeds [OF assms])

theorem create_task_exactly_witness:
  "\<exists>t d'. create_task exact 9 survey started_db = Inr (t, d')"
proof -
  have "validate_dag (map sc_external_id (tc_subtasks survey)) (request_edges survey) = Inr ()"
    using survey_valid by (simp add: survey_def step_request_def request_edges_def)
  moreover have "distinct (request_edges survey)" "task_storable survey"
    "list_all (storable exact) (tc_subtasks survey)"
    by (simp_all add: survey_def step_request_def request_edges_def storable_def task_storable_def exact_def
        f_le_def f_eq_def fits_defs)
  ultimately show ?thesis using create_task_exactly [OF example_inv(3), of exact 9 survey] by blast
qed

end
