(* ===== verification/Worker_Runs.thy ===== *)
theory Worker_Runs
  imports Api_Runs Report_Outcomes
begin

text \<open>
  What a run of \<open>execute_subtask\<close> delivers when its own queries and sleeps do not raise: how
  it waits, and what its report does to the execution the worker finds when it has waited.
\<close>

section \<open>Waiting\<close>

lemma cancel_loop_quiet:
  assumes "cancel_loop check sleep_fn i r k w = Some y"
    and "\<And>k w. \<exists>b. check k w = Inr b" and "\<And>x w. fst (sleep_fn x w) = Inr ()"
  shows "\<exists>b. fst y = Inr b"
proof -
  have "(\<forall>k w. \<exists>b. check k w = Inr b) \<longrightarrow> (\<forall>x w. fst (sleep_fn x w) = Inr ()) \<longrightarrow> (\<exists>b. fst y = Inr b)"
    using assms(1)
    by (rule cancel_loop.raw_induct [rotated, where P = "\<lambda>check sleep_fn i r k w y.
        (\<forall>k w. \<exists>b. check k w = Inr b) \<longrightarrow> (\<forall>x w. fst (sleep_fn x w) = Inr ()) \<longrightarrow>
        (\<exists>b. fst y = Inr b)"])
      (auto split: if_splits prod.splits sum.splits, (metis fst_conv sum.distinct(1))+)
  with assms(2,3) show ?thesis by blast
qed

lemma sleep_quiet:
  assumes "sleep_with_cancel_checks check sleep_fn secs interval w = Some y"
    and "\<And>k w. \<exists>b. check k w = Inr b" and "\<And>x w. fst (sleep_fn x w) = Inr ()"
  shows "\<exists>b. fst y = Inr b"
proof (cases "f_le secs (lit 0)")
  case True
  with assms(1,2) show ?thesis by (auto simp: sleep_with_cancel_checks_def)
next
  case False
  with assms(1) show ?thesis
    by (intro cancel_loop_quiet [OF _ assms(2,3)]) (auto simp: sleep_with_cancel_checks_def Let_def)
qed

lemma no_fault_check: "is_execution_canceled no_fault i k d = Inr (canceled_in_db i d)"
  by (simp add: is_execution_canceled_def no_fault_def)

definition status_in :: "db \<Rightarrow> uuid \<Rightarrow> ExecutionStatus option" where
  "status_in d i = map_option er_status (execution_get_by_id d i)"

lemma canceled_status: "canceled_in_db i d \<longleftrightarrow> status_in d i = Some ExecutionStatus.CANCELED"
  by (simp add: canceled_in_db_def status_in_def split: option.splits)

lemma check_status:
  "is_execution_canceled no_fault i = (\<lambda>k d. Inr (status_in d i = Some ExecutionStatus.CANCELED))"
  by (intro ext) (simp add: no_fault_check canceled_status)

lemma heartbeat_records:
  "execution_records (report_worker_heartbeat now host pid name v current d) = execution_records d"
proof -
  have "execution_records d' = execution_records d"
    if "report_heartbeat now name host (Some pid) v current None d = Inr (h, d')" for h d'
    using that by (auto simp: report_heartbeat_def upsert_heartbeat_def Let_def result_simps
        split: option.splits)
  then show ?thesis by (auto simp: report_worker_heartbeat_def split: sum.splits)
qed

lemma heartbeat_execution:
  "execution_get_by_id (report_worker_heartbeat now host pid name v current d) i =
     execution_get_by_id d i"
  by (simp add: execution_get_by_id_def heartbeat_records)

section \<open>Reporting\<close>

definition reported_duration :: "Settings \<Rightarrow> int option \<Rightarrow> int" where
  "reported_duration settings duration =
     (case duration of None \<Rightarrow> simulated_execution_duration_ms settings | Some n \<Rightarrow> n)"

definition reported_summary :: "string option \<Rightarrow> string" where
  "reported_summary summary =
     (case summary of None \<Rightarrow> ''simulated execution completed by celery worker'' | Some s \<Rightarrow> s)"

lemma success_value: "execution_status_of_value ''SUCCESS'' = Inr ExecutionStatus.SUCCESS"
  using execution_status_roundtrip [of ExecutionStatus.SUCCESS]
  by (simp only: execution_status_value.simps)

text \<open>The execution the worker finds after waiting decides what its success does.\<close>

lemma worker_reports_success:
  assumes inv: "db_inv d" and get: "execution_get_by_id d i = Some r"
    and run: "er_status r = ExecutionStatus.RUNNING"
    and duration: "opt_all (\<lambda>n. 0 \<le> n) duration" "0 \<le> simulated_execution_duration_ms settings"
  shows "\<exists>t x d'. task_get_by_id d (er_task_id r) = Some t \<and>
    worker_report settings no_fault now i ''SUCCESS'' duration summary reason False d = Inr (x, d') \<and>
    reported now r ExecutionStatus.SUCCESS (Some (reported_duration settings duration))
      (Some (reported_summary summary)) reason (flow_success (er_subtask_id r) (task_flow d t)) x d'"
proof -
  from get have "r \<in> set (execution_records d)" using execution_rows.get_SomeD by blast
  from the_record_subtask [OF inv this] obtain s t where
    s: "get_subtask_row d (er_subtask_id r) = Some s" and t: "task_get_by_id d (er_task_id r) = Some t"
    by metis
  have n: "opt_all (\<lambda>n. 0 \<le> n) (Some (reported_duration settings duration))"
    using duration by (cases duration) (simp_all add: reported_duration_def)
  have "worker_report settings no_fault now i ''SUCCESS'' duration summary reason False d =
      report_result now i ExecutionStatus.SUCCESS (Some (reported_duration settings duration))
        (Some (reported_summary summary)) reason d"
    by (cases reason) (simp_all add: worker_report_def success_value no_fault_def Let_def and_then_def
        reported_duration_def reported_summary_def)
  with report_success_outcome [OF inv get run n s t] t show ?thesis by simp
qed

lemma worker_report_unknown:
  assumes "execution_get_by_id d i = None"
  shows "\<exists>e. worker_report settings no_fault now i ''SUCCESS'' duration summary reason False d =
    Inl (AppError e)"
  using assms
  by (simp add: worker_report_def success_value no_fault_def Let_def report_result_def execution_not_found_def
      and_then_def)

lemma execute_subtask_raised:
  assumes "sleep_with_cancel_checks (is_execution_canceled fault i) sleep_fn
      (simulated_execution_sleep_seconds settings) (worker_cancel_check_interval_seconds settings)
      (report_worker_heartbeat (now 0) host pid
        (resolve_worker_name (cr_hostname request) host) WorkerStatus.BUSY (Some i) d) =
      Some (Inr c, d2)"
    and "worker_report settings fault (now 1) i status duration summary reason c d2 = Inl (AppError e)"
  shows "execute_subtask settings request host pid now sleep_fn fault i status duration summary reason d =
    Some (Raised (AppError e), report_worker_heartbeat (now 3) host pid
      (resolve_worker_name (cr_hostname request) host) WorkerStatus.ONLINE None d2)"
  using assms by (simp add: execute_subtask_def Let_def and_then_def worker_failure_def
      is_retryable_worker_exception_def)

section \<open>A run\<close>

lemma worker_slept:
  assumes run: "execute_subtask settings request host pid now sleep_fn no_fault i status duration
      summary reason d = Some (outcome, d')"
    and sleeps: "\<And>x w. \<exists>w'. sleep_fn x w = (Inr (), w') \<and> platform_run w w'"
    and reach: "platform_reachable d"
  shows "\<exists>c d2. sleep_with_cancel_checks (is_execution_canceled no_fault i) sleep_fn
      (simulated_execution_sleep_seconds settings) (worker_cancel_check_interval_seconds settings)
      (report_worker_heartbeat (now 0) host pid (resolve_worker_name (cr_hostname request) host)
        WorkerStatus.BUSY (Some i) d) = Some (Inr c, d2) \<and> db_inv d2"
proof -
  let ?d1 = "report_worker_heartbeat (now 0) host pid (resolve_worker_name (cr_hostname request) host)
    WorkerStatus.BUSY (Some i) d"
  from run obtain slept d2 where
    slept: "sleep_with_cancel_checks (is_execution_canceled no_fault i) sleep_fn
      (simulated_execution_sleep_seconds settings) (worker_cancel_check_interval_seconds settings)
      ?d1 = Some (slept, d2)"
    by (auto simp: execute_subtask_def Let_def split: option.splits)
  have sleep: "fst (sleep_fn x w) = Inr ()" "platform_run w (snd (sleep_fn x w))" for x w
    using sleeps [of x w] by auto
  from sleep_quiet [OF slept _ sleep(1)] obtain c where "slept = Inr c"
    by (auto simp: no_fault_check)
  moreover have "platform_reachable d2"
    by (rule sleep_keeps [where I = platform_reachable, OF slept
          run_reachable [OF report_worker_heartbeat_run reach]]) (rule run_reachable [OF sleep(2)])
  ultimately show ?thesis using slept platform_reachable_inv by blast
qed

lemma worker_outcome_of:
  assumes slept: "sleep_with_cancel_checks (is_execution_canceled no_fault i) sleep_fn
      (simulated_execution_sleep_seconds settings) (worker_cancel_check_interval_seconds settings)
      (report_worker_heartbeat (now 0) host pid (resolve_worker_name (cr_hostname request) host)
        WorkerStatus.BUSY (Some i) d) = Some (Inr (canceled_in_db i d2), d2)"
    and inv: "db_inv d2"
    and duration: "opt_all (\<lambda>n. 0 \<le> n) duration" "0 \<le> simulated_execution_duration_ms settings"
    and run: "execute_subtask settings request host pid now sleep_fn no_fault i ''SUCCESS'' duration
      summary reason d = Some (outcome, d')"
  shows "\<exists>d3. d' = report_worker_heartbeat (now 3) host pid
      (resolve_worker_name (cr_hostname request) host) WorkerStatus.ONLINE None d3 \<and>
    (case execution_get_by_id d2 i of
       None \<Rightarrow> (\<exists>e. outcome = Raised (AppError e)) \<and> d3 = d2
     | Some r \<Rightarrow> (\<exists>x. outcome = Returned x \<and>
         (if er_status r = ExecutionStatus.RUNNING
          then \<exists>t. task_get_by_id d2 (er_task_id r) = Some t \<and>
            reported (now 1) r ExecutionStatus.SUCCESS (Some (reported_duration settings duration))
              (Some (reported_summary summary)) reason
              (flow_success (er_subtask_id r) (task_flow d2 t)) x d3
          else \<not> xr_accepted x \<and> d3 = d2)))"
proof (cases "execution_get_by_id d2 i")
  case None
  then have "\<not> canceled_in_db i d2" by (simp add: canceled_in_db_def)
  from worker_report_unknown [OF None] obtain e where
    "worker_report settings no_fault (now 1) i ''SUCCESS'' duration summary reason
      (canceled_in_db i d2) d2 = Inl (AppError e)" using \<open>\<not> canceled_in_db i d2\<close> by metis
  with execute_subtask_raised [where now = now and d = d and i = i, OF slept this] run None
  show ?thesis by simp
next
  case (Some r)
  show ?thesis
  proof (cases "er_status r = ExecutionStatus.RUNNING")
    case True
    then have "\<not> canceled_in_db i d2" by (simp add: canceled_in_db_def Some)
    from worker_reports_success [OF inv Some True duration] obtain t x d3 where
      t: "task_get_by_id d2 (er_task_id r) = Some t"
      and x: "reported (now 1) r ExecutionStatus.SUCCESS (Some (reported_duration settings duration))
        (Some (reported_summary summary)) reason (flow_success (er_subtask_id r) (task_flow d2 t)) x d3"
      and rep: "worker_report settings no_fault (now 1) i ''SUCCESS'' duration summary reason
        (canceled_in_db i d2) d2 = Inr (x, d3)" using \<open>\<not> canceled_in_db i d2\<close> by metis
    have "outcome = Returned x" "d' = report_worker_heartbeat (now 3) host pid
        (resolve_worker_name (cr_hostname request) host) WorkerStatus.ONLINE None d3"
      using execute_subtask_reported [where now = now and d = d and i = i, OF slept rep] run by simp_all
    with Some True t x show ?thesis by auto
  next
    case False
    from worker_report_not_running [OF inv Some False, where c = "canceled_in_db i d2" and
        status = "''SUCCESS''" and v = ExecutionStatus.SUCCESS] success_value obtain x where
      "worker_report settings no_fault (now 1) i ''SUCCESS'' duration summary reason
        (canceled_in_db i d2) d2 = Inr (x, d2)" "\<not> xr_accepted x" by blast
    with execute_subtask_reported [where now = now and d = d and i = i, OF slept this(1)] run
      Some False show ?thesis by simp
  qed
qed

end
