(* ===== verification/Interface_Properties.thy ===== *)
theory Interface_Properties
  imports Service_Properties Worker_Runs "HOL-Library.Multiset"
begin

text \<open>
  What a client of the API and the Celery worker can rely on: what was sent is read back, a
  refused request changes nothing, a start request does exactly what the broker lets it, the
  listings are complete, and a worker delivers the result of the execution it was given.
\<close>

section \<open>Requests\<close>

text \<open>
  C21: a created task reads back as it was requested: the detail of the new task, served from
  the rows, has the name, priority and deadline of the request and, in whatever order, one
  subtask for each requested one with its fields, its load and sizes as the columns keep them
  and the status its dependencies give it, and each dependency by the external identifiers the
  client used.
\<close>

theorem created_task_reads_back:
  assumes "db_inv d" and "create_task numeric now data d = Inr (t, d')"
  shows "\<exists>x. api_get_task (dt_id t) d' = Inr x \<and> td_id x = dt_id t \<and> td_name x = tc_name data \<and>
    td_status x = TaskStatus.PENDING \<and> td_priority x = tc_priority data \<and>
    td_deadline_at x = tc_deadline_at data \<and> td_created_at x = now \<and>
    rel_mset (shows_subtask numeric data) (mset (tc_subtasks data)) (mset (td_subtasks x)) \<and>
    mset (td_dependencies x) =
      mset (map (\<lambda>e. \<lparr>de_from = dc_from e, de_to = dc_to e\<rparr>) (tc_dependencies data))"
  using create_task_detail [OF assms] unfolding rel_mset_def by fastforce

theorem created_task_reads_back_witness:
  "\<exists>x. api_get_task 1 created_db = Inr x \<and> td_name x = ''survey'' \<and> size (mset (td_subtasks x)) = 2 \<and>
     mset (td_dependencies x) = {#\<lparr>de_from = ''a'', de_to = ''b''\<rparr>#}"
proof -
  have inv: "db_inv (empty_db\<lparr>next_uuid := 1, nodes := [drone_row]\<rparr>)"
    by (rule platform_reachable_inv [OF platform_reachable.step [OF platform_reachable.empty
        platform_step.create_node [OF node_created]]])
  have t: "dt_id (survey_row TaskStatus.PENDING) = 1" by (simp add: survey_row_def)
  from created_task_reads_back [OF inv task_created] obtain x where x: "api_get_task 1 created_db = Inr x"
    "td_name x = ''survey''" "mset (td_dependencies x) = {#\<lparr>de_from = ''a'', de_to = ''b''\<rparr>#}"
    and rel: "rel_mset (shows_subtask exact survey) (mset (tc_subtasks survey)) (mset (td_subtasks x))"
    unfolding t by (auto simp: survey_def)
  from rel have "size (mset (tc_subtasks survey)) = size (mset (td_subtasks x))"
    by (rule rel_mset_size)
  with x show ?thesis by (auto simp: survey_def)
qed

text \<open>
  C23: an error answer means nothing happened: when creating a task, canceling it or reporting
  the status of a node is answered with an error, the committed database is the one before
  the request, although these endpoints read again after they commit.
\<close>

theorem errors_change_nothing:
  assumes "db_inv d"
  shows "(fst (api_create_task numeric now payload d) = Inl e \<longrightarrow>
      snd (api_create_task numeric now payload d) = d) \<and>
    (fst (api_cancel_task revoker now i reason d) = Inl e \<longrightarrow>
      snd (api_cancel_task revoker now i reason d) = d) \<and>
    (fst (api_report_node_status numeric now i status d) = Inl e \<longrightarrow>
      snd (api_report_node_status numeric now i status d) = d)"
  using api_create_task_error [OF assms] api_cancel_task_error [OF assms]
    api_report_node_status_error [OF assms] by (metis prod.collapse)

theorem errors_change_nothing_witness:
  "snd (api_cancel_task revoked 6 1 \<lparr>cx_reason = None\<rparr> pair_failed) = pair_failed"
proof -
  let ?x = "api_cancel_task revoked 6 1 \<lparr>cx_reason = None\<rparr> pair_failed"
  note inv = platform_reachable_inv [OF pair_failed_reachable]
  have "\<nexists>d'. cancel_task revoked 6 1 None pair_failed = Inr d'"
    using cancel_task_succeeds [OF inv, of revoked 6 1 None] pair_failed_rows(3)
    by (simp add: survey_row_def)
  then obtain e where "cancel_task revoked 6 1 None pair_failed = Inl e"
    by (cases "cancel_task revoked 6 1 None pair_failed") auto
  then have "fst ?x = Inl e" by (simp add: api_cancel_task_def commit_def)
  with errors_change_nothing [OF inv] show ?thesis by blast
qed

text \<open>
  C22: what a request to start an execution does, whatever the broker answers. It is refused and
  nothing is sent or stored unless the plan can be started. Otherwise the start is stored first.
  With enqueuing off it is answered with no queued execution and nothing is sent. With it on,
  the executions' messages are sent in order; when the broker takes them all, each new execution
  also carries the Celery identifier of its own message and no other row changes; when the broker
  refuses one, no later message is sent, no identifier is stored, and the answer is its error.
\<close>

theorem execute_request_exactly:
  assumes "db_inv d"
  shows "(\<not> startable task_id (sx_schedule_plan_id payload) d \<longrightarrow>
      (\<exists>e. api_execute_task (logging_broker answer) settings now task_id payload d sent =
        ((Inl e, d), sent))) \<and>
    (startable task_id (sx_schedule_plan_id payload) d \<and> \<not> execution_auto_enqueue_enabled settings \<longrightarrow>
      api_execute_task (logging_broker answer) settings now task_id payload d sent =
        ((Inr (start_response task_id (sx_schedule_plan_id payload)
            (new_execution_ids (sx_schedule_plan_id payload) d) 0),
          start_db now task_id (sx_schedule_plan_id payload) d), sent)) \<and>
    (startable task_id (sx_schedule_plan_id payload) d \<and> execution_auto_enqueue_enabled settings \<and>
      (\<forall>i \<in> set (new_execution_ids (sx_schedule_plan_id payload) d).
        answer (message_of payload i) = Inr (c i)) \<longrightarrow>
      api_execute_task (logging_broker answer) settings now task_id payload d sent =
        ((Inr (start_response task_id (sx_schedule_plan_id payload)
            (new_execution_ids (sx_schedule_plan_id payload) d)
            (length (new_execution_ids (sx_schedule_plan_id payload) d))),
          queued_db (new_execution_ids (sx_schedule_plan_id payload) d) c
            (start_db now task_id (sx_schedule_plan_id payload) d)),
         sent @ map (message_of payload) (new_execution_ids (sx_schedule_plan_id payload) d))) \<and>
    (\<forall>k < length (new_execution_ids (sx_schedule_plan_id payload) d). \<forall>e.
      startable task_id (sx_schedule_plan_id payload) d \<and> execution_auto_enqueue_enabled settings \<and>
      (\<forall>i \<in> set (take k (new_execution_ids (sx_schedule_plan_id payload) d)).
        \<exists>x. answer (message_of payload i) = Inr x) \<and>
      answer (message_of payload (new_execution_ids (sx_schedule_plan_id payload) d ! k)) = Inl e \<longrightarrow>
      api_execute_task (logging_broker answer) settings now task_id payload d sent =
        ((Inl e, start_db now task_id (sx_schedule_plan_id payload) d),
         sent @ map (message_of payload)
           (take (Suc k) (new_execution_ids (sx_schedule_plan_id payload) d))))"
  by (intro conjI allI impI; (elim conjE)?;
      (rule api_execute_task_refused [OF assms] | rule api_execute_task_exactly [OF assms]))
    assumption+

theorem execute_request_exactly_witness:
  "startable 1 5 planned_db \<and>
   api_execute_task (logging_broker (\<lambda>m. Inr ''c7'')) (default_settings\<lparr>execution_auto_enqueue_enabled := True\<rparr>)
     4 1 \<lparr>sx_schedule_plan_id = 5, sx_simulation = None\<rparr> planned_db [] =
   ((Inr (start_response 1 5 [7] 1), queued_db [7] (\<lambda>i. ''c7'') started_db),
    [message_of \<lparr>sx_schedule_plan_id = 5, sx_simulation = None\<rparr> 7])"
proof -
  let ?p = "\<lparr>sx_schedule_plan_id = 5, sx_simulation = None\<rparr>"
  let ?s = "default_settings\<lparr>execution_auto_enqueue_enabled := True\<rparr>"
  have plan: "sx_schedule_plan_id ?p = 5" by simp
  have ids: "new_execution_ids 5 planned_db = [7]"
    unfolding new_execution_ids_def planned_items by (simp add: planned_db_def)
  from execute_request_exactly [OF example_inv(2), of 1 ?p "\<lambda>m. Inr ''c7''" ?s 4 "[]" "\<lambda>i. ''c7''",
      THEN conjunct2, THEN conjunct2, THEN conjunct1]
  show ?thesis unfolding plan ids started_db_eq using planned_startable by simp
qed

text \<open>
  The order by creation time alone fixes the list only when the times differ: then any list of
  the selected rows that is sorted newest first is the one the query returns.
\<close>

lemma order_desc_unique:
  assumes "mset ts = mset xs" and "sorted_wrt (\<lambda>a b. key b \<le> key a) ts" and "distinct (map key xs)"
  shows "order_desc key xs = ts"
proof -
  let ?k = "\<lambda>r. - key r"
  have set: "set ts = set xs" using assms(1) by (rule mset_eq_setD)
  have "distinct (map key ts)"
    using assms(1,3) by (metis mset_map mset_eq_imp_distinct_iff)
  then have dist: "distinct (map ?k ts)" "distinct (map ?k (order_desc key xs))"
    using assms(3) by (simp_all add: order_desc_def distinct_map inj_on_def) (metis)?
  have "sorted (map ?k ts)" using assms(2) by (simp add: sorted_map)
  moreover have "sorted (map ?k (order_desc key xs))" by (simp add: order_desc_def)
  ultimately have "map ?k (order_desc key xs) = map ?k ts"
    using dist set by (intro sorted_distinct_set_unique) simp_all
  moreover have "inj_on ?k (set (order_desc key xs) \<union> set ts)"
    using dist(2) set by (simp add: distinct_map)
  ultimately show ?thesis by (simp add: inj_on_map_eq_map)
qed

text \<open>
  C29: listing is complete: of tasks created at different times, reading the pages of the task
  list one after the other from an unchanged database, at any page size the API accepts, gives
  each task of the wanted status exactly once, newest first; each page carries the full count.
  (Tasks created at the same time have no order in the query, and no such promise is made.)
\<close>

theorem task_pages_complete:
  assumes "valid_page 1 page_size"
    and "mset ts = mset (filter (\<lambda>t. matches status (dt_status t)) (dag_tasks d))"
    and "distinct (map dt_created_at ts)" and "sorted_wrt (\<lambda>a b. dt_created_at b \<le> dt_created_at a) ts"
    and "int (length ts) \<le> int n * page_size"
  shows "concat (map (\<lambda>k. case api_list_tasks status (int k + 1) page_size d of
        Inl e \<Rightarrow> [] | Inr p \<Rightarrow> map tl_id (lr_items p)) [0..<n]) = map dt_id ts \<and>
    (\<forall>page. 1 \<le> page \<longrightarrow> (\<exists>p. api_list_tasks status page page_size d = Inr p \<and>
      int (length (lr_items p)) \<le> page_size \<and> lr_total p = int (length ts)))"
proof
  let ?sel = "order_desc dt_created_at (filter (\<lambda>t. matches status (dt_status t)) (dag_tasks d))"
  have size: "0 \<le> page_size" using assms(1) by (simp add: valid_page_def)
  have "distinct (map dt_created_at (filter (\<lambda>t. matches status (dt_status t)) (dag_tasks d)))"
    using assms(2,3) by (metis mset_map mset_eq_imp_distinct_iff)
  from order_desc_unique [OF assms(2,4) this] have sel: "?sel = ts" .
  have len: "length (filter (\<lambda>t. matches status (dt_status t)) (dag_tasks d)) = length ts"
    using mset_eq_length [OF assms(2)] by simp
  have one: "(case api_list_tasks status page page_size d of
        Inl e \<Rightarrow> [] | Inr p \<Rightarrow> map tl_id (lr_items p)) =
      map dt_id (case repo_list_tasks status d page page_size of Inl e \<Rightarrow> [] | Inr p \<Rightarrow> fst p)" for page
    by (cases "repo_list_tasks status d page page_size")
      (simp_all add: api_list_tasks_def list_tasks_def list_response_def task_list_item_def comp_def)
  have "concat (map (\<lambda>k. map dt_id (f k)) ks) = map dt_id (concat (map f ks))"
    for f :: "nat \<Rightarrow> dag_task list" and ks by (induction ks) simp_all
  then show "concat (map (\<lambda>k. case api_list_tasks status (int k + 1) page_size d of
        Inl e \<Rightarrow> [] | Inr p \<Rightarrow> map tl_id (lr_items p)) [0..<n]) = map dt_id ts"
    unfolding one using task_pages.pages_cover [OF size] assms(5) len sel by simp
  show "\<forall>page. 1 \<le> page \<longrightarrow> (\<exists>p. api_list_tasks status page page_size d = Inr p \<and>
      int (length (lr_items p)) \<le> page_size \<and> lr_total p = int (length ts))"
    using task_pages.query_page [of _ page_size status d] size len
    by (auto simp: api_list_tasks_def list_tasks_def list_response_def)
qed

text \<open>Three tasks created at three times, listed two to a page.\<close>

definition three_tasks :: db where
  "three_tasks = empty_db\<lparr>dag_tasks :=
     map (\<lambda>(i, m). (survey_row TaskStatus.PENDING)\<lparr>dt_id := i, dt_created_at := m\<rparr>)
       [(1, 4), (2, 9), (3, 6)]\<rparr>"

theorem task_pages_complete_witness:
  "concat (map (\<lambda>k. case api_list_tasks None (int k + 1) 2 three_tasks of
      Inl e \<Rightarrow> [] | Inr p \<Rightarrow> map tl_id (lr_items p)) [0..<2]) = [2, 3, 1]"
proof -
  let ?t = "\<lambda>i m. (survey_row TaskStatus.PENDING)\<lparr>dt_id := i, dt_created_at := m\<rparr>"
  let ?ts = "[?t 2 9, ?t 3 6, ?t 1 4]"
  have "valid_page 1 2" by (simp add: valid_page_def)
  moreover have "mset ?ts = mset (filter (\<lambda>t. matches None (dt_status t)) (dag_tasks three_tasks))"
    by (simp add: three_tasks_def matches_def)
  ultimately show ?thesis
    using task_pages_complete [of 2 ?ts None three_tasks 2] by simp
qed

section \<open>The broker and the worker\<close>

text \<open>
  C24: a start is committed before its executions are queued: when the broker fails, the
  request is answered with the broker's error, but the plan stays applied and its executions
  stay RUNNING without a Celery task that would ever finish them.
\<close>

theorem broker_failure_leaves_running:
  assumes "db_inv d" and "startable task_id (sx_schedule_plan_id payload) d"
    and "execution_auto_enqueue_enabled settings" and "\<And>m. delay m w = (Inl e, w')"
  shows "api_execute_task delay settings now task_id payload d w =
      ((Inl e, start_db now task_id (sx_schedule_plan_id payload) d), w') \<and>
    (\<exists>r \<in> set (execution_records (start_db now task_id (sx_schedule_plan_id payload) d)).
      r \<notin> set (execution_records d) \<and> er_task_id r = task_id \<and>
      er_status r = ExecutionStatus.RUNNING \<and> er_celery_task_id r = None)"
  using api_execute_task_broker_fails [where delay = delay and w = w and e = e and w' = w',
      OF assms(1-3)] assms(4) by blast

theorem broker_failure_leaves_running_witness:
  "fst (api_execute_task (\<lambda>m w. (Inl (OSError ''refused''), w))
     (default_settings\<lparr>execution_auto_enqueue_enabled := True\<rparr>) 4 1
     \<lparr>sx_schedule_plan_id = 5, sx_simulation = None\<rparr> planned_db ()) =
   (Inl (OSError ''refused''), start_db 4 1 5 planned_db)"
proof -
  let ?p = "\<lparr>sx_schedule_plan_id = 5, sx_simulation = None\<rparr>"
    and ?delay = "\<lambda>(m :: subtask_message) (w :: unit). (Inl (OSError ''refused'') :: string result, w)"
  have plan: "sx_schedule_plan_id ?p = 5" by simp
  from broker_failure_leaves_running [OF example_inv(2), of 1 ?p
      "default_settings\<lparr>execution_auto_enqueue_enabled := True\<rparr>" ?delay "()" "OSError ''refused''"
      "()" 4, THEN conjunct1]
  show ?thesis unfolding plan using planned_startable by simp
qed

text \<open>A broker that refuses the message of execution 8.\<close>

definition start_message :: "uuid \<Rightarrow> subtask_message" where
  "start_message i = \<lparr>sm_execution_id = i, sm_result_status = ExecutionStatus.SUCCESS,
     sm_duration_ms = None, sm_output_summary = None, sm_failure_reason = None\<rparr>"

definition refuse_second :: "subtask_message \<Rightarrow> string result" where
  "refuse_second m = (if sm_execution_id m = 8 then Inl (OSError ''refused'') else Inr ''celery-id'')"

text \<open>
  C25: executions are queued in order and only once: the messages a broker has received after
  enqueuing are those of an initial part of the executions, in their order; it stops at the
  first message the broker refuses, and otherwise each execution is paired with the
  identifier the broker gave for its own message.
\<close>

theorem enqueue_order:
  assumes "enqueue_each (logging_broker answer) msg ids sent = (r, sent')"
  shows "\<exists>k \<le> length ids. sent' = sent @ map msg (take k ids) \<and>
    (\<forall>i \<in> set (take (k - 1) ids). \<exists>c. answer (msg i) = Inr c) \<and>
    (case r of Inl e \<Rightarrow> 0 < k \<and> answer (msg (ids ! (k - 1))) = Inl e
     | Inr rs \<Rightarrow> k = length ids \<and> map di_execution_id rs = ids \<and>
         (\<forall>x \<in> set rs. answer (msg (di_execution_id x)) = Inr (di_celery_task_id x)))"
  using enqueue_each_log [OF assms] assms
  by (cases r) (auto dest: enqueue_each_ids)

theorem enqueue_order_witness:
  "\<exists>k \<le> length [7, 8, 9 :: uuid].
     [start_message 7, start_message 8] = [] @ map start_message (take k [7, 8, 9]) \<and>
     refuse_second (start_message ([7, 8, 9] ! (k - 1))) = Inl (OSError ''refused'')"
proof -
  have "enqueue_each (logging_broker refuse_second) start_message [7, 8, 9] [] =
      (Inl (OSError ''refused''), [start_message 7, start_message 8])"
    by (simp add: io_bind_def logging_broker_def refuse_second_def start_message_def)
  from enqueue_order [OF this] show ?thesis by auto
qed

text \<open>
  C26: a worker that simulates a success delivers it. When its queries and sleeps do not raise,
  the run checks the execution before every sleep and after the last one, stops at the first
  check that finds it canceled, never sleeps longer than the check interval, and otherwise has
  slept for the whole simulated time. What it then finds decides: an execution that is still
  running is closed as SUCCESS with the duration and summary of the worker, and its task
  advances as the success of that subtask requires; one that is over, be it canceled meanwhile,
  is left as it is and the report is not accepted; an unknown one is an error and changes
  nothing. The last heartbeat is ONLINE with no execution.
\<close>

theorem worker_delivers_success:
  assumes "execute_subtask settings request host pid now sleep_fn no_fault i ''SUCCESS'' duration
      summary reason d = Some (outcome, d')"
    and "\<And>x w. \<exists>w'. sleep_fn x w = (Inr (), w') \<and> platform_run w w'"
    and "opt_all (\<lambda>n. 0 \<le> n) duration" and "0 \<le> simulated_execution_duration_ms settings"
    and "platform_reachable d"
  shows "\<exists>name naps d2 d3. name = resolve_worker_name (cr_hostname request) host \<and>
    polls (\<lambda>k w. Inr (status_in w i = Some ExecutionStatus.CANCELED)) sleep_fn 0
      (report_worker_heartbeat (now 0) host pid name WorkerStatus.BUSY (Some i) d) naps d2 \<and>
    (\<forall>x \<in> set naps. \<not> f_less
      (if f_le (worker_cancel_check_interval_seconds settings) (lit 0)
       then simulated_execution_sleep_seconds settings
       else worker_cancel_check_interval_seconds settings) x) \<and>
    (status_in d2 i \<noteq> Some ExecutionStatus.CANCELED \<longrightarrow>
      \<not> f_less (lit 0) (foldl f_sub (simulated_execution_sleep_seconds settings) naps)) \<and>
    d' = report_worker_heartbeat (now 3) host pid name WorkerStatus.ONLINE None d3 \<and>
    (case execution_get_by_id d2 i of
       None \<Rightarrow> (\<exists>e. outcome = Raised (AppError e)) \<and> d3 = d2
     | Some r \<Rightarrow> (\<exists>x. outcome = Returned x \<and>
         (if er_status r = ExecutionStatus.RUNNING
          then \<exists>t. task_get_by_id d2 (er_task_id r) = Some t \<and>
            reported (now 1) r ExecutionStatus.SUCCESS (Some (reported_duration settings duration))
              (Some (reported_summary summary)) reason
              (flow_success (er_subtask_id r) (task_flow d2 t)) x d3
          else \<not> xr_accepted x \<and> d3 = d2)))"
proof -
  let ?name = "resolve_worker_name (cr_hostname request) host"
  let ?d1 = "report_worker_heartbeat (now 0) host pid ?name WorkerStatus.BUSY (Some i) d"
  let ?check = "is_execution_canceled no_fault i"
  let ?secs = "simulated_execution_sleep_seconds settings"
  let ?interval = "worker_cancel_check_interval_seconds settings"
  from worker_slept [OF assms(1,2,5)] obtain c d2 where
    slept: "sleep_with_cancel_checks ?check sleep_fn ?secs ?interval ?d1 = Some (Inr c, d2)"
    and inv: "db_inv d2" by blast
  from sleep_polls [OF slept] obtain naps where
    naps: "polls ?check sleep_fn 0 ?d1 naps d2" "c = canceled_in_db i d2"
    "\<forall>x \<in> set naps. \<not> f_less (poll_interval ?secs ?interval) x"
    "\<not> c \<longrightarrow> \<not> f_less (lit 0) (foldl f_sub ?secs naps)"
    by (auto simp: no_fault_check)
  show ?thesis
    using worker_outcome_of [OF slept [unfolded naps(2)] inv assms(3,4,1)] naps
    unfolding check_status canceled_status poll_interval_def by blast
qed

text \<open>How long the polling loop runs.\<close>

lemma execute_subtask_slept:
  assumes "sleep_with_cancel_checks (is_execution_canceled fault i) sleep_fn
    (simulated_execution_sleep_seconds settings) (worker_cancel_check_interval_seconds settings)
    (report_worker_heartbeat (now 0) host pid (resolve_worker_name (cr_hostname request) host)
      WorkerStatus.BUSY (Some i) d) = Some (slept, d2)"
  shows "\<exists>outcome d'. execute_subtask settings request host pid now sleep_fn fault i status duration
    summary reason d = Some (outcome, d')"
  unfolding execute_subtask_def Let_def assms by (auto split: sum.splits prod.splits)

lemma execute_subtask_ends:
  assumes "simulated_execution_sleep_seconds settings = Fin secs"
    and "worker_cancel_check_interval_seconds settings = Fin interval"
    and "interval \<le> 0 \<or> secs \<le> interval * 2 powi 52 \<and> 2 powi (- 1074) \<le> interval"
    and "2 powi (- 1074) \<le> secs \<or> secs \<le> 0" and "secs \<le> 2 powi 1000"
  shows "\<exists>outcome d'. execute_subtask settings request host pid now sleep_fn fault i status duration
    summary reason d = Some (outcome, d')"
proof -
  let ?d = "report_worker_heartbeat (now 0) host pid (resolve_worker_name (cr_hostname request) host)
    WorkerStatus.BUSY (Some i) d"
  from sleep_with_cancel_checks_ends [OF assms(3-5), of "is_execution_canceled fault i" sleep_fn ?d]
  obtain slept d2 where "sleep_with_cancel_checks (is_execution_canceled fault i) sleep_fn
      (Fin secs) (Fin interval) ?d = Some (slept, d2)" by (metis prod.collapse)
  then show ?thesis by (intro execute_subtask_slept) (simp only: assms(1,2))
qed

text \<open>
  C27: a worker run always ends, and so always sends its last heartbeat: with a non-positive
  check interval, or one that is not absurdly smaller than the sleep, the polling loop stops
  although it subtracts floats, and the task returns, raises or asks for a retry.
\<close>

theorem worker_run_ends:
  assumes "simulated_execution_sleep_seconds settings = Fin secs"
    and "worker_cancel_check_interval_seconds settings = Fin interval"
    and "interval \<le> 0 \<or> secs \<le> interval * 2 powi 52 \<and> 2 powi (- 1074) \<le> interval"
    and "2 powi (- 1074) \<le> secs \<or> secs \<le> 0" and "secs \<le> 2 powi 1000"
  shows "\<exists>outcome d'. execute_subtask settings request host pid now sleep_fn fault i status duration
    summary reason d = Some (outcome, d')"
  by (rule execute_subtask_ends [OF assms])

text \<open>A worker with a ten second sleep, checked every second, and a sleep that changes nothing.\<close>

definition sleepy_settings :: Settings where
  "sleepy_settings = default_settings\<lparr>simulated_execution_sleep_seconds := Fin 10,
     worker_cancel_check_interval_seconds := Fin 1\<rparr>"

definition sleepy_request :: celery_request where
  "sleepy_request = \<lparr>cr_hostname = None, cr_retries = 1, cr_id = Some ''c1''\<rparr>"

definition quiet_sleep :: "pyfloat \<Rightarrow> db \<Rightarrow> unit result \<times> db" where
  "quiet_sleep x w = (Inr (), w)"

lemma sleepy_sel:
  "simulated_execution_sleep_seconds sleepy_settings = Fin 10"
  "worker_cancel_check_interval_seconds sleepy_settings = Fin 1"
  "simulated_execution_duration_ms sleepy_settings = 100"
  by (simp_all add: sleepy_settings_def default_settings_def)

lemma sleepy_powers: "(10 :: rat) \<le> 1 * 2 powi 52" "(2 :: rat) powi (- 1074) \<le> 1"
  "(2 :: rat) powi (- 1074) \<le> 10" "(10 :: rat) \<le> 2 powi 1000"
proof -
  show tiny: "(2 :: rat) powi (- 1074) \<le> 1" by (simp add: power_int_minus power_int_def power_le_one)
  then show "(2 :: rat) powi (- 1074) \<le> 10" by simp
qed (simp_all add: power_int_def)

lemma sleepy_run_ends:
  "\<exists>outcome d'. execute_subtask sleepy_settings sleepy_request ''host'' 1 int quiet_sleep no_fault 7
     ''SUCCESS'' None None None d = Some (outcome, d')"
  by (rule execute_subtask_ends [OF sleepy_sel(1,2)]) (use sleepy_powers in simp_all)

theorem worker_run_ends_witness:
  "\<exists>outcome d'. execute_subtask sleepy_settings sleepy_request ''host'' 1 int quiet_sleep no_fault 7
     ''SUCCESS'' None None None started_db = Some (outcome, d')"
  by (rule worker_run_ends [OF sleepy_sel(1,2)]) (use sleepy_powers in simp_all)

lemma quiet_polls: "polls check quiet_sleep k w naps w' \<Longrightarrow> w' = w"
  by (induction rule: polls.induct) (simp_all add: quiet_sleep_def)

theorem worker_delivers_success_witness:
  "\<exists>x d'. execute_subtask sleepy_settings sleepy_request ''host'' 1 int quiet_sleep no_fault 7
     ''SUCCESS'' None None None started_db = Some (Returned x, d') \<and> xr_accepted x \<and>
     xr_subtask_status x = SubtaskStatus.SUCCESS"
proof -
  obtain outcome d' where run: "execute_subtask sleepy_settings sleepy_request ''host'' 1 int
      quiet_sleep no_fault 7 ''SUCCESS'' None None None started_db = Some (outcome, d')"
    using sleepy_run_ends by blast
  let ?d1 = "report_worker_heartbeat (int 0) ''host'' 1
      (resolve_worker_name (cr_hostname sleepy_request) ''host'') WorkerStatus.BUSY (Some 7) started_db"
  have quiet: "\<exists>w'. quiet_sleep x w = (Inr (), w') \<and> platform_run w w'" for x w
    by (simp add: quiet_sleep_def)
  have found: "execution_get_by_id ?d1 7 = Some survey_record"
    using survey_record_rows(1) by (simp add: heartbeat_execution)
  from worker_delivers_success [OF run quiet _ _ started_reachable] sleepy_sel(3) quiet_polls found
    survey_record_rows(2) obtain x t d3 where "outcome = Returned x"
    "reported (int 1) survey_record ExecutionStatus.SUCCESS (Some (reported_duration sleepy_settings None))
      (Some (reported_summary None)) None (flow_success (er_subtask_id survey_record) (task_flow ?d1 t)) x d3"
    by fastforce
  with run show ?thesis by (auto simp: reported_def flow_success_def unlock_def ready_after_def split: if_splits)
qed

text \<open>
  A cancellation and the worker that carries the canceled execution: the late report is
  answered as not accepted (\<open>execute_subtask_canceled\<close>).
\<close>

lemma canceled_execution_run:
  "\<exists>d x d'. cancel_task revoked 6 1 None started_db = Inr d \<and>
     execute_subtask default_settings sleepy_request ''host'' 1 int quiet_sleep no_fault 7
       ''SUCCESS'' None None None d = Some (Returned x, d') \<and> \<not> xr_accepted x"
proof -
  obtain d where d: "cancel_task revoked 6 1 None started_db = Inr d"
    using survey_cancelable by blast
  then have reach: "platform_reachable d"
    by (rule platform_reachable.step [OF started_reachable platform_step.cancel_task])
  have "execution_records d = map (canceled_record 1 None 6) (execution_records started_db)"
    using cancel_task_effect [OF d db_inv_distinct(2,4) [OF example_inv(3)]] by force
  then have "execution_get_by_id d 7 = Some (canceled_record 1 None 6 survey_record)"
    by (simp add: execution_get_by_id_def started_db_def canceled_record_def cancel_record_def
        row_get_Cons survey_record_def)
  then have "canceled_in_db 7 d"
    by (simp add: canceled_in_db_def canceled_record_def cancel_record_def survey_record_def)
  let ?d = "report_worker_heartbeat (int 0) ''host'' 1
      (resolve_worker_name (cr_hostname sleepy_request) ''host'') WorkerStatus.BUSY (Some 7) d"
  have slept: "sleep_with_cancel_checks (is_execution_canceled no_fault 7) quiet_sleep
      (simulated_execution_sleep_seconds default_settings)
      (worker_cancel_check_interval_seconds default_settings) ?d = Some (Inr True, ?d)"
    using \<open>canceled_in_db 7 d\<close>
    by (simp add: sleep_with_cancel_checks_def default_settings_def no_fault_check canceled_in_db_def
        heartbeat_execution f_le_def f_eq_def lit_def fl_numeral)
  then obtain outcome d' where run: "execute_subtask default_settings sleepy_request ''host'' 1 int
      quiet_sleep no_fault 7 ''SUCCESS'' None None None d = Some (outcome, d')"
    using execute_subtask_slept [where now = int] by blast
  have "db_inv ?d"
    by (rule platform_reachable_inv [OF run_reachable [OF report_worker_heartbeat_run reach]])
  from execute_subtask_canceled [OF run slept this] d run show ?thesis by blast
qed

text \<open>
  C28: a worker retries only what can succeed later, and not for ever: when a run asks for a
  retry, the error was one the worker considers transient, the budget of retries was not used
  up, nothing was written, and the waiting time lies between the configured base and maximum;
  it never shrinks from one attempt to the next.
\<close>

theorem worker_retry_policy:
  assumes "0 \<le> celery_execution_retry_backoff_seconds settings"
    and "celery_execution_retry_backoff_seconds settings \<le>
      celery_execution_retry_backoff_max_seconds settings"
    and "worker_failure settings request now i name e d = (Retry n e', d')"
  shows "e' = e \<and> is_retryable_worker_exception e \<and> d' = d \<and>
    int (cr_retries request) < celery_execution_max_retries settings \<and>
    celery_execution_retry_backoff_seconds settings \<le> n \<and>
    n \<le> celery_execution_retry_backoff_max_seconds settings \<and>
    n \<le> calculate_retry_countdown (Suc (cr_retries request))
      (celery_execution_retry_backoff_seconds settings)
      (celery_execution_retry_backoff_max_seconds settings)"
  using worker_failure_retry [OF assms(3)] retry_countdown_bounds [OF assms(1,2)] by simp

theorem worker_retry_policy_witness:
  "(5 :: int) \<le> 10 \<and> (10 :: int) \<le> 60 \<and> worker_failure default_settings sleepy_request 0 7 ''w''
     (OperationalError ''gone'') started_db = (Retry 10 (OperationalError ''gone''), started_db)"
proof -
  have b: "celery_execution_retry_backoff_seconds default_settings = 5"
    "celery_execution_retry_backoff_max_seconds default_settings = 60"
    by (simp_all add: default_settings_def)
  have run: "worker_failure default_settings sleepy_request 0 7 ''w'' (OperationalError ''gone'')
      started_db = (Retry 10 (OperationalError ''gone''), started_db)"
    by (simp add: worker_failure_def is_retryable_worker_exception_def has_worker_retry_budget_def
        calculate_retry_countdown_def default_settings_def sleepy_request_def)
  from worker_retry_policy [OF _ _ run] run show ?thesis unfolding b by simp
qed

end
