(* ===== verification/Component_Properties.thy ===== *)
theory Component_Properties
  imports Interface_Properties State_Machine Dag Metrics_Service Dead_Letter Monitoring_Service
begin

text \<open>
  What the scheduling strategies, the metrics, the monitoring and the dead-letter checks
  compute.
\<close>

section \<open>Scheduling strategies\<close>

text \<open>
  C34: whatever strategy is asked for, a plan it makes covers the subtasks it was given, in
  their order and once each; each is assigned to an online node of the snapshots that meets
  its execution constraint, with that node's own name and type, and the total duration of
  the plan is the sum over its items.
\<close>

theorem strategies_plan_validly:
  assumes "get_strategy random strategy_name = Inr strategy"
    and "strategy subtasks snapshots options = Inr plan"
  shows "subtasks \<noteq> [] \<and> map si_subtask_id (gp_items plan) = map ss_id subtasks \<and>
    strategy_name = strategy_name_value (gp_strategy_name plan) \<and>
    list_all2 (\<lambda>s i. \<exists>n \<in> set snapshots. si_assigned_node_id i = ns_id n \<and>
      si_assigned_node_name i = ns_name n \<and> si_assigned_node_type i = ns_node_type n \<and>
      ns_status n = NodeStatus.ONLINE \<and> node_matches_constraint s n) subtasks (gp_items plan) \<and>
    total_duration (gp_items plan) = Inr (gp_estimated_total_duration_ms plan)"
proof -
  from get_strategy_cases [OF assms(1)] obtain name where
    name: "strategy_name = strategy_name_value name" "(name, strategy) \<in> set (strategies random)" .
  then have strat: "scheduler_strategy name strategy" by (blast intro: strategies_contract)
  from scheduler_strategy.plans [OF strat assms(2)] obtain w where
    ne: "subtasks \<noteq> []" and ok: "plan_ok name subtasks snapshots w plan" by blast
  then have items: "list_all2 (item_ok snapshots w) subtasks (gp_items plan)"
    and total: "total_duration (gp_items plan) = Inr (gp_estimated_total_duration_ms plan)"
    and same: "gp_strategy_name plan = name" by (simp_all add: plan_ok_def)
  have "list_all2 (\<lambda>s i. \<exists>n \<in> set snapshots. si_assigned_node_id i = ns_id n \<and>
      si_assigned_node_name i = ns_name n \<and> si_assigned_node_type i = ns_node_type n \<and>
      ns_status n = NodeStatus.ONLINE \<and> node_matches_constraint s n) subtasks (gp_items plan)"
    by (rule list_all2_mono [OF items]) (rule item_ok_fields(3))
  with ne total same name(1) scheduler_strategy.plan_subtask_ids [OF strat assms(2)]
  show ?thesis by blast
qed

theorem strategies_plan_validly_witness:
  "map si_subtask_id (gp_items greedy_plan) = [2]"
proof -
  let ?s = "\<lparr>ss_id = 2, ss_external_id = ''a'', ss_compute_load = Fin 1,
      ss_input_data_size_mb = Fin 0, ss_output_data_size_mb = Fin 0,
      ss_execution_constraint = SubtaskExecutionConstraint.OFFLOADABLE\<rparr>"
  have "greedy_generate_plan [?s] [drone_snapshot] (Some weightless) = Inr greedy_plan"
    by (simp add: greedy_generate_plan_def weight_zero Let_def and_then_def greedy_on_drone
        greedy_item_on_drone_def assemble_plan_def total_duration_def total_energy_def
        round_half_even_def fl_numeral greedy_plan_def drone_online)
  from strategies_plan_validly [OF greedy_registered this] show ?thesis by simp
qed

definition candidate_node :: "SchedulableSubtask \<Rightarrow> NodeSnapshot \<Rightarrow> bool" where
  "candidate_node s n \<longleftrightarrow> f_less (lit 0) (ns_cpu_capacity n) \<and> node_matches_constraint s n"

text \<open>
  C35: the greedy strategy chooses a cheapest node: its candidate is the estimate of an
  candidate_node s node, and no candidate_node s node with a finite score has a smaller score, or the same
  score with a shorter queue, a lower load or an earlier name.
\<close>

theorem greedy_choice_is_cheapest:
  assumes "greedy_select_best_candidate s snapshots w = Inr c"
  shows "(\<exists>n \<in> set snapshots. candidate_node s n \<and> estimate_candidate s n w = Inr c \<and> isfinite (ce_score c)) \<and>
    (\<forall>n \<in> set snapshots. \<forall>x. candidate_node s n \<and> estimate_candidate s n w = Inr x \<and>
       isfinite (ce_score x) \<longrightarrow> \<not> greedy_key x < greedy_key c)"
proof -
  let ?ns = "filter (candidate_node s) snapshots"
  from assms obtain cs where cs: "finite_candidates s ?ns w = Inr cs"
    and best: "min_by greedy_key cs = Inr c"
    by (auto simp: greedy_select_best_candidate_def result_simps candidate_node_def [abs_def] split: if_splits)
  from cs obtain all where all: "list_all2 (\<lambda>n x. estimate_candidate s n w = Inr x) ?ns all"
    and cs': "cs = filter (\<lambda>c. isfinite (ce_score c)) all"
    by (auto simp: finite_candidates_def result_simps map_result_Inr_iff)
  have finite: "\<forall>x \<in> set cs. isfinite (ce_score x)" using cs' by simp
  note least = greedy_min.min_by_least [OF best finite]
  have "\<exists>n \<in> set ?ns. estimate_candidate s n w = Inr c"
    using finite_candidates_mem [OF cs least(1)] by blast
  moreover have "x \<in> set cs" if "n \<in> set ?ns" "estimate_candidate s n w = Inr x"
    "isfinite (ce_score x)" for n x
  proof -
    from that(1) obtain j where "j < length ?ns" "n = ?ns ! j" unfolding in_set_conv_nth by blast
    with all that(2) have "j < length all" "all ! j = x"
      by (auto simp: list_all2_conv_all_nth)
    then have "x \<in> set all" by auto
    then show ?thesis using that(3) cs' by simp
  qed
  ultimately show ?thesis using least finite by auto
qed

theorem greedy_choice_is_cheapest_witness:
  "\<exists>n \<in> set [drone_snapshot]. (f_less (lit 0) (ns_cpu_capacity n) \<and>
     node_matches_constraint \<lparr>ss_id = 2, ss_external_id = ''a'', ss_compute_load = Fin 1,
      ss_input_data_size_mb = Fin 0, ss_output_data_size_mb = Fin 0,
      ss_execution_constraint = SubtaskExecutionConstraint.OFFLOADABLE\<rparr> n) \<and>
     estimate_candidate \<lparr>ss_id = 2, ss_external_id = ''a'', ss_compute_load = Fin 1,
      ss_input_data_size_mb = Fin 0, ss_output_data_size_mb = Fin 0,
      ss_execution_constraint = SubtaskExecutionConstraint.OFFLOADABLE\<rparr> n (Fin 0) =
       Inr \<lparr>ce_node = drone_snapshot, ce_compute_duration_ms = 1000,
         ce_transfer_duration_ms = Millis 0, ce_energy = Fin 2, ce_score = Fin 1000\<rparr> \<and>
     isfinite (Fin 1000)"
proof -
  let ?s = "\<lparr>ss_id = 2, ss_external_id = ''a'', ss_compute_load = Fin 1,
      ss_input_data_size_mb = Fin 0, ss_output_data_size_mb = Fin 0,
      ss_execution_constraint = SubtaskExecutionConstraint.OFFLOADABLE\<rparr>"
  let ?c = "\<lparr>ce_node = drone_snapshot, ce_compute_duration_ms = 1000,
         ce_transfer_duration_ms = Millis 0, ce_energy = Fin 2, ce_score = Fin 1000\<rparr>"
  have load: "ss_compute_load ?s = Fin 1" by simp
  have "greedy_select_best_candidate ?s [drone_snapshot] (Fin 0) = Inr ?c"
    unfolding greedy_select_best_candidate_def finite_candidates_def
    using drone_estimate [OF load]
    by (simp add: node_matches_constraint_def and_then_def drone_snapshot_def)
  from greedy_choice_is_cheapest [OF this, THEN conjunct1] show ?thesis by (simp add: candidate_node_def)
qed

text \<open>
  C36: in the range of loads and capacities the schemas of the platform are used with, the
  estimated compute time is finite and exact up to the rounding of double precision, never
  negative, and it grows with the load and with the utilisation of the node and shrinks with
  its capacity, in spite of the rounding at each step.
\<close>

theorem compute_estimate_monotone:
  assumes "ss_compute_load s = Fin l" and "0 \<le> l" and "l \<le> l'" and "l' \<le> 2 powi 40"
    and "ss_compute_load s' = Fin l'"
    and "ns_cpu_capacity n = Fin c" and "ns_cpu_capacity n' = Fin c'"
    and "1 / 128 \<le> c'" and "c' \<le> c" and "c \<le> 2 powi 30"
    and "ns_cpu_usage_percent n = Fin u" and "ns_cpu_usage_percent n' = Fin u'" and "u \<le> u'"
  shows "\<exists>k k'. compute_duration_ms_for s n = Inr k \<and> compute_duration_ms_for s' n' = Inr k' \<and>
    0 \<le> k \<and> k \<le> k'"
proof -
  have "compute_duration_ms_for s n = Inr (compute_exact l c u)"
    by (rule compute_duration_exact) (use assms in simp_all)
  moreover have "compute_duration_ms_for s' n' = Inr (compute_exact l' c' u')"
    by (rule compute_duration_exact) (use assms in simp_all)
  moreover have "0 \<le> compute_exact l c u" by (rule compute_exact_nonneg) (use assms in simp_all)
  moreover have "compute_exact l c u \<le> compute_exact l' c' u'"
    by (rule compute_exact_mono) (use assms in simp_all)
  ultimately show ?thesis by blast
qed

theorem compute_estimate_monotone_witness:
  "\<exists>k k'. compute_duration_ms_for \<lparr>ss_id = 2, ss_external_id = ''a'', ss_compute_load = Fin 1,
      ss_input_data_size_mb = Fin 0, ss_output_data_size_mb = Fin 0,
      ss_execution_constraint = SubtaskExecutionConstraint.OFFLOADABLE\<rparr> drone_snapshot = Inr k \<and>
    compute_duration_ms_for \<lparr>ss_id = 2, ss_external_id = ''a'', ss_compute_load = Fin 3,
      ss_input_data_size_mb = Fin 0, ss_output_data_size_mb = Fin 0,
      ss_execution_constraint = SubtaskExecutionConstraint.OFFLOADABLE\<rparr>
      (drone_snapshot\<lparr>ns_cpu_usage_percent := Fin 50\<rparr>) = Inr k' \<and> 0 \<le> k \<and> k \<le> k'"
  by (rule compute_estimate_monotone [where l = 1 and l' = 3 and c = 1 and c' = 1 and u = 0 and u' = 50])
    (simp_all add: drone_snapshot_def power_int_def)

lemma offered_iff_online:
  assumes dist: "distinct (map nd_id (nodes d))" and n: "node_get_by_id d i = Some n"
  shows "i \<in> ns_id ` set (load_node_snapshots d) \<longleftrightarrow> nd_status n = NodeStatus.ONLINE"
proof -
  have "i \<in> ns_id ` set (load_node_snapshots d) \<longleftrightarrow>
      (\<exists>m \<in> set (nodes d). nd_id m = i \<and> nd_status m = NodeStatus.ONLINE)"
    by (auto simp: load_node_snapshots_def node_list_by_status_def node_snapshot_def Let_def
        order_desc_def order_asc_def image_iff)
  also have "\<dots> \<longleftrightarrow> nd_status n = NodeStatus.ONLINE"
    using n node_rows.get_iff [OF dist, of i] node_rows.get_SomeD [OF n] by fastforce
  finally show ?thesis .
qed

text \<open>
  C37: what a node reports decides whether the scheduler sees it: after an accepted status
  report the node is BUSY, and no longer offered to the strategies, exactly when its processor
  or memory use is at least 90 percent or its queue or load at least 10; otherwise it is
  ONLINE and offered, whatever its status was before.
\<close>

theorem report_decides_scheduling:
  assumes "db_inv d" and "report_status numeric now node_id report d = Inr (r, d')"
  shows "nr_node_id r = node_id \<and>
    (\<exists>n. node_get_by_id d node_id = Some n \<and> node_get_by_id d' node_id =
      Some (n\<lparr>nd_last_heartbeat_at := Some (ns_report_reported_at report), nd_status :=
        (if f_le (Fin 90) (ns_report_cpu_usage report) \<or> f_le (Fin 90) (ns_report_memory_usage report) \<or>
            (\<exists>n. ns_report_queue_length report = Some n \<and> 10 \<le> n) \<or>
            (\<exists>n. ns_report_current_load report = Some n \<and> 10 \<le> n)
          then NodeStatus.BUSY else NodeStatus.ONLINE)\<rparr>)) \<and>
    (\<forall>i. i \<noteq> node_id \<longrightarrow> node_get_by_id d' i = node_get_by_id d i) \<and>
    (node_id \<in> ns_id ` set (load_node_snapshots d') \<longleftrightarrow>
      \<not> (f_le (Fin 90) (ns_report_cpu_usage report) \<or> f_le (Fin 90) (ns_report_memory_usage report) \<or>
         (\<exists>n. ns_report_queue_length report = Some n \<and> 10 \<le> n) \<or>
         (\<exists>n. ns_report_current_load report = Some n \<and> 10 \<le> n)))"
proof -
  from report_status_node(1) [OF assms(2)] obtain n m where n: "node_get_by_id d node_id = Some n"
    and m: "node_get_by_id d' node_id = Some m" "nd_status m = resolve_node_status report"
    and row: "m = n\<lparr>nd_last_heartbeat_at := Some (ns_report_reported_at report),
      nd_status := resolve_node_status report\<rparr>" by auto
  have "schema_ok d'" using report_status_step [OF assms] by (simp add: db_step_def db_inv_def)
  from offered_iff_online [OF schema_ok_distinct(6) [OF this] m(1)]
  have offered: "node_id \<in> ns_id ` set (load_node_snapshots d') \<longleftrightarrow>
      resolve_node_status report \<noteq> NodeStatus.BUSY"
    unfolding m(2) by (simp add: resolve_node_status_def Let_def)
  show ?thesis
    unfolding offered unfolding m(1) row
    using report_status_node(2,3) [OF assms(2)] n
    by (simp add: resolve_node_status_busy resolve_node_status_if)
qed

text \<open>A report of an idle drone.\<close>

definition idle_report :: NodeStatusCreate where
  "idle_report = \<lparr>ns_report_battery_level = None, ns_report_cpu_usage = Fin 5,
     ns_report_memory_usage = Fin 5, ns_report_network_quality = None,
     ns_report_bandwidth_mbps = None, ns_report_latitude = None, ns_report_longitude = None,
     ns_report_current_load = Some 0, ns_report_queue_length = Some 0,
     ns_report_reported_at = 6\<rparr>"

theorem report_decides_scheduling_witness:
  "\<exists>r d'. report_status exact 7 0 idle_report created_db = Inr (r, d') \<and>
     0 \<in> ns_id ` set (load_node_snapshots d') \<and>
     map_option nd_status (node_get_by_id d' 0) = Some NodeStatus.ONLINE"
proof -
  obtain r d' where run: "report_status exact 7 0 idle_report created_db = Inr (r, d')"
    by (simp add: report_status_def get_node_def node_get_by_id_def created_db_def empty_db_def row_defs
        row_get_Cons Let_def new_status_record_def upd_node_def row_upd_def create_status_record_def
        store_status_record_def fits_defs idle_report_def exact_def option_result_def and_then_def db_flush_def
        schema_ok_def table_ok_defs f_le_def f_eq_def f_between_def)
  from report_decides_scheduling [OF example_inv(1) run] run show ?thesis
    by (auto simp: idle_report_def f_le_def f_eq_def)
qed

section \<open>Metrics and monitoring\<close>

text \<open>
  C38: the metrics of a task add up: its executions are the successful, the unsuccessful and
  the running ones, as well as the local and the offloaded ones, and the three rates are
  finite numbers between 0 and 1, also for a task without executions.
\<close>

theorem task_metrics_add_up:
  assumes "db_inv d" and "get_task_metrics task_id d = Inr m"
  shows "tm_success_execution_count m + tm_failed_execution_count m +
      tm_running_execution_count m = tm_execution_count m \<and>
    tm_local_execution_count m + tm_edge_execution_count m = tm_execution_count m \<and>
    (\<exists>x. tm_success_rate m = Fin x \<and> 0 \<le> x \<and> x \<le> 1) \<and>
    (\<exists>x. tm_failure_rate m = Fin x \<and> 0 \<le> x \<and> x \<le> 1) \<and>
    (\<exists>x. tm_offload_rate m = Fin x \<and> 0 \<le> x \<and> x \<le> 1)"
  using metrics_consistent [OF assms] by blast

theorem task_metrics_add_up_witness:
  "\<exists>m. get_task_metrics 1 started_db = Inr m \<and> tm_execution_count m = 1 \<and>
     tm_success_execution_count m + tm_failed_execution_count m + tm_running_execution_count m = 1"
proof -
  have one: "rate 1 1 = Inr (Fin 1)" "rate 0 1 = Inr (Fin 0)"
    by (simp_all add: rate_def int_true_div_def and_then_def float_of_int_def fl_numeral round_half_even_def)
  obtain m where m: "get_task_metrics 1 started_db = Inr m" "tm_execution_count m = 1"
    by (simp add: get_task_metrics_def get_task_def task_get_by_id_def started_db_def planned_db_def
        created_db_def row_get_Cons row_defs list_all_by_task_def order_asc_def count_if_def
        count_by_node_type_def get_count_def recorded_durations_def average_duration_def
        elapsed_ms_def one Let_def and_then_def)
  with task_metrics_add_up [OF example_inv(3) m(1)] show ?thesis by auto
qed

text \<open>
  C39: the exposition format is respected whatever names the data carries. Each of the lines of
  the metrics page is one line. A label value is recovered from its escaped form, and read in its
  quotes it ends where it was meant to: no quote, backslash or newline in it ends it early. So the
  sample lines of a labeled gauge read back as the name, the label, the value and the count of
  each entry, sorted by value, and every queue is on the page under its own name.
\<close>

theorem exposition_well_formed:
  "list_all one_line (metric_lines settings now queues latest d) \<and>
   unescape (escape_label_value s) = s \<and> one_line (escape_label_value s) \<and>
   (escape_label_value s = escape_label_value s' \<longleftrightarrow> s = s') \<and>
   read_quoted (escape_label_value s @ CHR 0x22 # rest) = Some (s, rest) \<and>
   (CHR 0x7B \<notin> set name \<and> CHR 0x3D \<notin> set label_name \<longrightarrow>
     map read_sample (drop 2 (append_labeled_gauge name help_text label_name counts [])) =
       map (\<lambda>(v, n). Some (name, label_name, v, int_text n)) (sort_key fst counts)) \<and>
   (\<forall>x \<in> set queues. Some (''uav_dag_queue_messages'', ''queue'', qm_queue_name x,
       int_text (qm_messages x)) \<in> read_sample ` set (metric_lines settings now queues latest d))"
proof (intro conjI impI ballI)
  show "list_all one_line (metric_lines settings now queues latest d)" by (rule metric_lines_ok)
  show "unescape (escape_label_value s) = s" by (rule unescape_escape)
  show "one_line (escape_label_value s)" by simp
  show "escape_label_value s = escape_label_value s' \<longleftrightarrow> s = s'" by (metis unescape_escape)
  show "read_quoted (escape_label_value s @ CHR 0x22 # rest) = Some (s, rest)" by (rule read_escaped)
  show "map read_sample (drop 2 (append_labeled_gauge name help_text label_name counts [])) =
      map (\<lambda>(v, n). Some (name, label_name, v, int_text n)) (sort_key fst counts)"
    if "CHR 0x7B \<notin> set name \<and> CHR 0x3D \<notin> set label_name"
    using that by (auto simp: append_labeled_gauge_samples read_sample_line)
  fix x assume "x \<in> set queues"
  from imageI [OF queue_sample [OF this], of read_sample]
  show "Some (''uav_dag_queue_messages'', ''queue'', qm_queue_name x, int_text (qm_messages x)) \<in>
      read_sample ` set (metric_lines settings now queues latest d)"
    by (simp add: read_sample_line)
qed

theorem exposition_well_formed_witness:
  "map read_sample (drop 2 (append_labeled_gauge ''m'' ''help'' ''queue'' [([CHR 0x22, CHR 0x5C], 3)] [])) =
     [Some (''m'', ''queue'', [CHR 0x22, CHR 0x5C], int_text 3)]"
  using exposition_well_formed [THEN conjunct2, THEN conjunct2, THEN conjunct2, THEN conjunct2,
      THEN conjunct2, THEN conjunct1, of "''m''" "''queue''" "''help''" "[([CHR 0x22, CHR 0x5C], 3)]"]
  by simp

section \<open>Dead letters\<close>

text \<open>A clock that ticks once per second for a hundred seconds, and a server that is down.\<close>

definition short_clock :: "nat clock" where
  "short_clock = \<lparr>monotonic = (\<lambda>w. Fin (of_nat (min w 100))),
     sleep = (\<lambda>x w. if w < 100 then (Inr (), Suc w) else (Inl (OSError ''interrupted''), w))\<rparr>"

definition dead_server :: "nat transport" where
  "dead_server r w = (Inl (OSError ''refused''), w)"

text \<open>
  C40: the end-to-end check of the dead-letter queue always ends, and never leaves its probe
  queue behind: however the management API answers or fails, as long as time passes while it
  sleeps, the check returns a result or raises, and the last thing it does is delete the queue
  it declared.
\<close>

theorem probe_check_ends_and_cleans:
  assumes "clock_advances transport clock poll t delta"
    and "\<And>w. \<exists>deadline. f_add (Fin (t w)) timeout_seconds = Fin deadline"
  shows "\<exists>r w1. verify_probe_flow dumps transport clock settings uuid4 timeout_seconds poll w =
    Some (r, snd (delete_probe_queue transport settings
      (celery_task_default_queue settings @ ''.probe.'' @ ''dlq-probe-'' @ uuid4) w1))"
proof -
  from verify_probe_flow_ends [OF assms, of dumps settings uuid4 w] obtain r w' where
    run: "verify_probe_flow dumps transport clock settings uuid4 timeout_seconds poll w = Some (r, w')"
    by blast
  with verify_probe_flow_deletes [OF run] show ?thesis by blast
qed

theorem probe_check_ends_and_cleans_witness:
  "\<exists>r w1. verify_probe_flow (\<lambda>j. '''') dead_server short_clock default_settings ''u'' (Fin 5) (Fin 1) 0 =
     Some (r, snd (delete_probe_queue dead_server default_settings
       (celery_task_default_queue default_settings @ ''.probe.'' @ ''dlq-probe-'' @ ''u'') w1))"
proof (rule probe_check_ends_and_cleans)
  show "clock_advances dead_server short_clock (Fin 1) (\<lambda>w. of_nat (min w 100)) 1"
    by (auto simp: clock_advances_def short_clock_def dead_server_def split: if_splits)
  show "\<exists>deadline. f_add (Fin (of_nat (min w 100))) (Fin 5) = Fin deadline" for w
  proof -
    have "(of_nat (min w 100) + 5 :: rat) = of_nat (min w 100 + 5)" by simp
    moreover have "min w 100 + 5 \<le> (2 :: nat) ^ 53" by simp
    ultimately show ?thesis using fl_of_nat [of "min w 100 + 5"] by simp
  qed
qed

end
