(* ===== verification/Celery_Topology.thy ===== *)
theory Celery_Topology
  imports Dead_Letter
begin

text \<open>
  \<open>app/worker/celery_app.py\<close>: the exchanges and queues the worker uses and the Celery
  configuration. \<open>Exchange\<close> and \<open>Queue\<close> are Kombu's; the model keeps the arguments the
  code gives them. Declaring an entity on a channel is a parameter.
\<close>

section \<open>Exchanges and queues\<close>

record exchange =
  ex_name :: string
  ex_type :: string
  ex_durable :: bool

record queue =
  qu_name :: string
  qu_exchange :: exchange
  qu_routing_key :: string
  qu_durable :: bool
  qu_arguments :: json_object

definition build_dead_letter_exchange :: "Settings \<Rightarrow> exchange" where
  "build_dead_letter_exchange settings =
     \<lparr>ex_name = celery_task_dead_letter_exchange settings, ex_type = ''direct'',
      ex_durable = True\<rparr>"

definition build_dead_letter_queue :: "Settings \<Rightarrow> queue" where
  "build_dead_letter_queue settings =
     \<lparr>qu_name = celery_task_dead_letter_queue settings,
      qu_exchange = build_dead_letter_exchange settings,
      qu_routing_key = celery_task_dead_letter_routing_key settings,
      qu_durable = True, qu_arguments = []\<rparr>"

definition build_execution_queue :: "Settings \<Rightarrow> queue" where
  "build_execution_queue settings =
     \<lparr>qu_name = celery_task_default_queue settings,
      qu_exchange = \<lparr>ex_name = celery_task_default_exchange settings, ex_type = ''direct'',
        ex_durable = True\<rparr>,
      qu_routing_key = celery_task_default_routing_key settings,
      qu_durable = True,
      qu_arguments =
        [(''x-dead-letter-exchange'', JStr (celery_task_dead_letter_exchange settings)),
         (''x-dead-letter-routing-key'', JStr (celery_task_dead_letter_routing_key settings))]\<rparr>"

section \<open>The configuration of the Celery application\<close>

record celery_conf =
  cc_accept_content :: "string list"
  cc_enable_utc :: bool
  cc_result_serializer :: string
  cc_task_acks_late :: bool
  cc_task_default_queue :: string
  cc_task_default_exchange :: string
  cc_task_default_exchange_type :: string
  cc_task_default_routing_key :: string
  cc_task_queues :: "queue list"
  cc_task_reject_on_worker_lost :: bool
  cc_task_serializer :: string
  cc_task_track_started :: bool
  cc_timezone :: string
  cc_worker_prefetch_multiplier :: int

definition conf_of :: "Settings \<Rightarrow> celery_conf" where
  "conf_of settings =
     \<lparr>cc_accept_content = [''json''], cc_enable_utc = True, cc_result_serializer = ''json'',
      cc_task_acks_late = True,
      cc_task_default_queue = celery_task_default_queue settings,
      cc_task_default_exchange = celery_task_default_exchange settings,
      cc_task_default_exchange_type = ''direct'',
      cc_task_default_routing_key = celery_task_default_routing_key settings,
      cc_task_queues = [build_execution_queue settings],
      cc_task_reject_on_worker_lost = True, cc_task_serializer = ''json'',
      cc_task_track_started = True, cc_timezone = ''UTC'', cc_worker_prefetch_multiplier = 1\<rparr>"

text \<open>The application object: its name, the broker and result store, and the modules with tasks.\<close>

record celery_app =
  ca_name :: string
  ca_broker :: string
  ca_backend :: string
  ca_include :: "string list"
  ca_conf :: celery_conf

definition celery_app_of :: "Settings \<Rightarrow> celery_app" where
  "celery_app_of settings =
     \<lparr>ca_name = ''uav_dag_offload_platform'', ca_broker = celery_broker_url settings,
      ca_backend = celery_result_backend settings, ca_include = [''app.worker.tasks''],
      ca_conf = conf_of settings\<rparr>"

section \<open>Declaring the dead-letter topology\<close>

datatype topology_entity = DeclareExchange exchange | DeclareQueue queue

type_synonym 's channel = "topology_entity \<Rightarrow> 's \<Rightarrow> unit result \<times> 's"

definition declare_dead_letter_topology :: "'s channel \<Rightarrow> Settings \<Rightarrow> 's \<Rightarrow> unit result \<times> 's" where
  "declare_dead_letter_topology channel settings =
     io_bind (channel (DeclareExchange (build_dead_letter_exchange settings))) (\<lambda>_.
     channel (DeclareQueue (build_dead_letter_queue settings)))"

text \<open>The handler of \<open>worker_ready\<close> only logs an exception.\<close>

definition declare_worker_dead_letter_topology :: "'s channel \<Rightarrow> Settings \<Rightarrow> 's \<Rightarrow> 's" where
  "declare_worker_dead_letter_topology channel settings w =
     snd (declare_dead_letter_topology channel settings w)"

section \<open>Consistency of the topology\<close>

text \<open>
  Where the broker sends a rejected message of a queue: the exchange and the routing key
  that the arguments of the queue name.
\<close>

definition dead_letter_target :: "queue \<Rightarrow> (string \<times> string) option" where
  "dead_letter_target q =
     (case (map_of (qu_arguments q) ''x-dead-letter-exchange'',
            map_of (qu_arguments q) ''x-dead-letter-routing-key'') of
        (Some (JStr e), Some (JStr k)) \<Rightarrow> Some (e, k)
      | _ \<Rightarrow> None)"

definition bound_to :: "queue \<Rightarrow> string \<times> string \<Rightarrow> bool" where
  "bound_to q t \<longleftrightarrow> ex_name (qu_exchange q) = fst t \<and> ex_type (qu_exchange q) = ''direct'' \<and>
     qu_routing_key q = snd t"

text \<open>What RabbitMQ reports of a declared queue, as far as the code reads it.\<close>

definition queue_detail :: "queue \<Rightarrow> json" where
  "queue_detail q = JObj [(''name'', JStr (qu_name q)), (''durable'', JBool (qu_durable q)),
     (''arguments'', JObj (qu_arguments q))]"

lemma dead_letter_target_execution:
  "dead_letter_target (build_execution_queue settings) =
     Some (celery_task_dead_letter_exchange settings, celery_task_dead_letter_routing_key settings)"
  by (simp add: dead_letter_target_def build_execution_queue_def)

lemma dead_letter_queue_bound:
  "dead_letter_target (build_execution_queue settings) = Some t \<Longrightarrow>
     bound_to (build_dead_letter_queue settings) t"
  by (auto simp: dead_letter_target_execution bound_to_def build_dead_letter_queue_def
      build_dead_letter_exchange_def)

text \<open>
  The check of the verifier answers yes on exactly the queues whose rejected messages go
  where the dead-letter queue of the worker is bound.
\<close>

lemma verifier_checks_target:
  assumes "\<And>r w. rq_url r = queue_url settings (celery_task_default_queue settings) \<Longrightarrow>
    transport r w = (Inr (queue_detail q), w)"
  shows "main_queue_has_dead_letter_config transport settings w =
    (Inr (dead_letter_target q =
       Some (celery_task_dead_letter_exchange settings, celery_task_dead_letter_routing_key settings)), w)"
proof -
  have "(map_of (qu_arguments q) ''x-dead-letter-exchange'' =
        Some (JStr (celery_task_dead_letter_exchange settings)) \<and>
      map_of (qu_arguments q) ''x-dead-letter-routing-key'' =
        Some (JStr (celery_task_dead_letter_routing_key settings))) \<longleftrightarrow>
    dead_letter_target q =
      Some (celery_task_dead_letter_exchange settings, celery_task_dead_letter_routing_key settings)"
    by (auto simp: dead_letter_target_def split: option.splits json.splits)
  then show ?thesis
    using assms
    by (simp add: main_queue_has_dead_letter_config_def request_json_def io_bind_def io_result_def
        queue_detail_def as_object_def)
qed

end
