(* ===== verification/Ddl.thy ===== *)
theory Ddl
  imports Models
begin

text \<open>
  The part of SQL that the migrations use: tables with their columns, constraints and indexes,
  rows, and the operations of \<open>alembic.op\<close> with the checks PostgreSQL makes on them. A
  database is \<^emph>\<open>consistent\<close> when its schema is well formed and its rows conform to it; every
  operation that succeeds keeps it so.
\<close>

section \<open>Values and rows\<close>

datatype sql_type =
    SaUuid
  | SaString nat
  | SaText
  | SaInteger
  | SaNumeric nat nat
  | SaBoolean
  | SaDateTime
  | SaJson

datatype sql_value =
    VNull
  | VUuid uuid
  | VStr string
  | VInt int
  | VNum pyfloat
  | VBool bool
  | VTime datetime
  | VJson json_object

type_synonym sql_row = "string \<Rightarrow> sql_value option"

text \<open>The kind of a value; lengths of strings and ranges of numbers are left out.\<close>

fun has_type :: "sql_value \<Rightarrow> sql_type \<Rightarrow> bool" where
  "has_type v SaUuid = (case v of VUuid _ \<Rightarrow> True | _ \<Rightarrow> False)"
| "has_type v (SaString _) = (case v of VStr _ \<Rightarrow> True | _ \<Rightarrow> False)"
| "has_type v SaText = (case v of VStr _ \<Rightarrow> True | _ \<Rightarrow> False)"
| "has_type v SaInteger = (case v of VInt _ \<Rightarrow> True | _ \<Rightarrow> False)"
| "has_type v (SaNumeric _ _) = (case v of VNum _ \<Rightarrow> True | _ \<Rightarrow> False)"
| "has_type v SaBoolean = (case v of VBool _ \<Rightarrow> True | _ \<Rightarrow> False)"
| "has_type v SaDateTime = (case v of VTime _ \<Rightarrow> True | _ \<Rightarrow> False)"
| "has_type v SaJson = (case v of VJson _ \<Rightarrow> True | _ \<Rightarrow> False)"

section \<open>Schemas\<close>

datatype server_default = FuncNow | Literal string

record sql_column =
  cl_name :: string
  cl_type :: sql_type
  cl_nullable :: bool
  cl_server_default :: "server_default option"

text \<open>The conditions of the \<open>CHECK\<close> constraints.\<close>

datatype sql_check =
    ColumnIn string "string list"
  | ColumnGreater string int
  | ColumnAtLeast string int
  | ColumnBetween string int int
  | ColumnIsNull string
  | ColumnsDiffer string string
  | CheckOr sql_check sql_check

datatype index_key = Key string | KeyDesc string

fun key_column :: "index_key \<Rightarrow> string" where
  "key_column (Key c) = c"
| "key_column (KeyDesc c) = c"

text \<open>
  A primary key of no columns is none. A foreign key is a column, the table it refers to,
  and the column there.
\<close>

record sql_table =
  tb_columns :: "sql_column list"
  tb_checks :: "(string \<times> sql_check) set"
  tb_primary_key :: "string list"
  tb_uniques :: "(string \<times> string list) list"
  tb_foreign_keys :: "(string \<times> string \<times> string) list"
  tb_indexes :: "(string \<times> index_key list) list"

record sql_database =
  sd_now :: datetime
  sd_tables :: "(string \<times> sql_table) list"
  sd_rows :: "string \<Rightarrow> sql_row list"

definition empty_database :: "datetime \<Rightarrow> sql_database" where
  "empty_database now = \<lparr>sd_now = now, sd_tables = [], sd_rows = (\<lambda>_. [])\<rparr>"

definition column_names :: "sql_table \<Rightarrow> string list" where
  "column_names t = map cl_name (tb_columns t)"

text \<open>Tables, and the indexes behind keys and unique constraints, share their names.\<close>

definition relations_of :: "string \<times> sql_table \<Rightarrow> string list" where
  "relations_of nt =
     (case nt of (n, t) \<Rightarrow>
        n # (n @ ''_pkey'') # map fst (tb_uniques t) @ map fst (tb_indexes t))"

definition relation_names :: "sql_database \<Rightarrow> string list" where
  "relation_names s = concat (map relations_of (sd_tables s))"

fun check_columns :: "sql_check \<Rightarrow> string list" where
  "check_columns (ColumnIn c _) = [c]"
| "check_columns (ColumnGreater c _) = [c]"
| "check_columns (ColumnAtLeast c _) = [c]"
| "check_columns (ColumnBetween c _ _) = [c]"
| "check_columns (ColumnIsNull c) = [c]"
| "check_columns (ColumnsDiffer c c') = [c, c']"
| "check_columns (CheckOr e e') = check_columns e @ check_columns e'"

section \<open>Evaluating a condition\<close>

text \<open>\<open>None\<close> is SQL's unknown; a \<open>CHECK\<close> is violated when its condition is false.\<close>

fun sql_number :: "sql_value option \<Rightarrow> pyfloat option" where
  "sql_number (Some (VInt n)) = Some (Fin (of_int n))"
| "sql_number (Some (VNum x)) = Some x"
| "sql_number _ = None"

definition sql_or :: "bool option \<Rightarrow> bool option \<Rightarrow> bool option" where
  "sql_or p q =
     (if p = Some True \<or> q = Some True then Some True
      else if p = Some False \<and> q = Some False then Some False else None)"

fun check_value :: "sql_row \<Rightarrow> sql_check \<Rightarrow> bool option" where
  "check_value r (ColumnIn c xs) = (case r c of Some (VStr s) \<Rightarrow> Some (s \<in> set xs) | _ \<Rightarrow> None)"
| "check_value r (ColumnGreater c n) = map_option (f_less (Fin (of_int n))) (sql_number (r c))"
| "check_value r (ColumnAtLeast c n) = map_option (f_le (Fin (of_int n))) (sql_number (r c))"
| "check_value r (ColumnBetween c m n) =
     map_option (\<lambda>x. f_le (Fin (of_int m)) x \<and> f_le x (Fin (of_int n))) (sql_number (r c))"
| "check_value r (ColumnIsNull c) = Some (r c = Some VNull)"
| "check_value r (ColumnsDiffer c c') =
     (if r c \<in> {None, Some VNull} \<or> r c' \<in> {None, Some VNull} then None else Some (r c \<noteq> r c'))"
| "check_value r (CheckOr e e') = sql_or (check_value r e) (check_value r e')"

lemma check_value_cong:
  "(\<And>c. c \<in> set (check_columns e) \<Longrightarrow> r c = r' c) \<Longrightarrow> check_value r e = check_value r' e"
  by (induction e) simp_all

section \<open>Consistency\<close>

fun column_ok :: "sql_column \<Rightarrow> sql_value option \<Rightarrow> bool" where
  "column_ok c None = False"
| "column_ok c (Some VNull) = cl_nullable c"
| "column_ok c (Some v) = has_type v (cl_type c)"

definition row_ok :: "sql_table \<Rightarrow> sql_row \<Rightarrow> bool" where
  "row_ok t r \<longleftrightarrow>
     dom r = set (column_names t) \<and>
     (\<forall>c \<in> set (tb_columns t). column_ok c (r (cl_name c))) \<and>
     (\<forall>(n, e) \<in> tb_checks t. check_value r e \<noteq> Some False)"

definition row_key :: "string list \<Rightarrow> sql_row \<Rightarrow> sql_value option list" where
  "row_key cs r = map r cs"

definition no_null :: "sql_value option list \<Rightarrow> bool" where
  "no_null k = list_all (\<lambda>v. v \<notin> {None, Some VNull}) k"

definition refers :: "(string \<Rightarrow> sql_row list) \<Rightarrow> string \<times> string \<times> string \<Rightarrow> sql_row \<Rightarrow> bool" where
  "refers rows fk r \<longleftrightarrow>
     (case fk of (c, t, c') \<Rightarrow> r c = Some VNull \<or> (\<exists>r' \<in> set (rows t). r' c' = r c))"

definition table_conforms :: "(string \<Rightarrow> sql_row list) \<Rightarrow> string \<Rightarrow> sql_table \<Rightarrow> bool" where
  "table_conforms rows n t \<longleftrightarrow>
     (\<forall>r \<in> set (rows n). row_ok t r) \<and>
     (tb_primary_key t \<noteq> [] \<longrightarrow> distinct (map (row_key (tb_primary_key t)) (rows n))) \<and>
     (\<forall>(u, cs) \<in> set (tb_uniques t). distinct (filter no_null (map (row_key cs) (rows n)))) \<and>
     (\<forall>fk \<in> set (tb_foreign_keys t). \<forall>r \<in> set (rows n). refers rows fk r)"

definition has_column :: "(string \<times> sql_table) list \<Rightarrow> string \<Rightarrow> string \<Rightarrow> bool" where
  "has_column ts n c \<longleftrightarrow>
     (case map_of ts n of None \<Rightarrow> False | Some t \<Rightarrow> c \<in> set (column_names t))"

definition table_well_formed :: "(string \<times> sql_table) list \<Rightarrow> sql_table \<Rightarrow> bool" where
  "table_well_formed ts t \<longleftrightarrow>
     distinct (column_names t) \<and>
     (\<forall>(n, e) \<in> tb_checks t. set (check_columns e) \<subseteq> set (column_names t)) \<and>
     set (tb_primary_key t) \<subseteq> set (column_names t) \<and>
     (\<forall>(n, cs) \<in> set (tb_uniques t). set cs \<subseteq> set (column_names t)) \<and>
     (\<forall>(n, ks) \<in> set (tb_indexes t). key_column ` set ks \<subseteq> set (column_names t)) \<and>
     (\<forall>(c, t', c') \<in> set (tb_foreign_keys t). c \<in> set (column_names t) \<and> has_column ts t' c')"

definition consistent :: "sql_database \<Rightarrow> bool" where
  "consistent s \<longleftrightarrow>
     distinct (map fst (sd_tables s)) \<and>
     (\<forall>(n, t) \<in> set (sd_tables s).
        table_well_formed (sd_tables s) t \<and> table_conforms (sd_rows s) n t) \<and>
     (\<forall>n. map_of (sd_tables s) n = None \<longrightarrow> sd_rows s n = [])"

section \<open>The operations\<close>

datatype ddl_error =
    DuplicateName string
  | UndefinedTable string
  | UndefinedColumn string
  | UndefinedObject string
  | CheckViolation string
  | NotNullViolation string
  | DependentObjects string

type_synonym ddl_op = "sql_database \<Rightarrow> ddl_error + sql_database"

definition put_table :: "string \<Rightarrow> sql_table \<Rightarrow> sql_database \<Rightarrow> sql_database" where
  "put_table n t s =
     s\<lparr>sd_tables := map (\<lambda>(m, t'). if m = n then (n, t) else (m, t')) (sd_tables s)\<rparr>"

definition with_table ::
  "string \<Rightarrow> (sql_table \<Rightarrow> ddl_error + sql_database) \<Rightarrow> sql_database \<Rightarrow> ddl_error + sql_database"
where
  "with_table n f s =
     (case map_of (sd_tables s) n of None \<Rightarrow> Inl (UndefinedTable n) | Some t \<Rightarrow> f t)"

definition create_table :: "string \<Rightarrow> sql_table \<Rightarrow> ddl_op" where
  "create_table n t s =
     (if list_ex (\<lambda>m. m \<in> set (relation_names s)) (relations_of (n, t)) then Inl (DuplicateName n)
      else if \<not> table_well_formed (sd_tables s @ [(n, t)]) t then Inl (UndefinedColumn n)
      else Inr (s\<lparr>sd_tables := sd_tables s @ [(n, t)], sd_rows := (sd_rows s)(n := [])\<rparr>))"

definition create_index :: "string \<Rightarrow> string \<Rightarrow> index_key list \<Rightarrow> ddl_op" where
  "create_index i n ks s =
     with_table n (\<lambda>t.
       if i \<in> set (relation_names s) then Inl (DuplicateName i)
       else if \<not> list_all (\<lambda>k. key_column k \<in> set (column_names t)) ks then Inl (UndefinedColumn n)
       else Inr (put_table n (t\<lparr>tb_indexes := tb_indexes t @ [(i, ks)]\<rparr>) s)) s"

definition drop_index :: "string \<Rightarrow> string \<Rightarrow> ddl_op" where
  "drop_index i n s =
     with_table n (\<lambda>t.
       if i \<notin> set (map fst (tb_indexes t)) then Inl (UndefinedObject i)
       else Inr (put_table n
         (t\<lparr>tb_indexes := filter (\<lambda>x. fst x \<noteq> i) (tb_indexes t)\<rparr>) s)) s"

text \<open>A table that another one refers to is not dropped.\<close>

definition referring :: "string \<Rightarrow> sql_database \<Rightarrow> string list" where
  "referring n s =
     map fst (filter (\<lambda>(m, t). m \<noteq> n \<and> list_ex (\<lambda>(c, t', c'). t' = n) (tb_foreign_keys t))
       (sd_tables s))"

definition drop_table :: "string \<Rightarrow> ddl_op" where
  "drop_table n s =
     with_table n (\<lambda>t.
       if referring n s \<noteq> [] then Inl (DependentObjects n)
       else Inr (s\<lparr>sd_tables := filter (\<lambda>x. fst x \<noteq> n) (sd_tables s),
         sd_rows := (sd_rows s)(n := [])\<rparr>)) s"

definition create_check_constraint :: "string \<Rightarrow> string \<Rightarrow> sql_check \<Rightarrow> ddl_op" where
  "create_check_constraint k n e s =
     with_table n (\<lambda>t.
       if k \<in> fst ` tb_checks t then Inl (DuplicateName k)
       else if \<not> set (check_columns e) \<subseteq> set (column_names t) then Inl (UndefinedColumn n)
       else if list_ex (\<lambda>r. check_value r e = Some False) (sd_rows s n) then Inl (CheckViolation k)
       else Inr (put_table n (t\<lparr>tb_checks := insert (k, e) (tb_checks t)\<rparr>) s)) s"

text \<open>\<open>op.drop_constraint\<close> with \<open>type_="check"\<close>\<close>

definition drop_check_constraint :: "string \<Rightarrow> string \<Rightarrow> ddl_op" where
  "drop_check_constraint k n s =
     with_table n (\<lambda>t.
       if k \<notin> fst ` tb_checks t then Inl (UndefinedObject k)
       else Inr (put_table n (t\<lparr>tb_checks := {x \<in> tb_checks t. fst x \<noteq> k}\<rparr>) s)) s"

text \<open>What the rows that are already there get in a new column.\<close>

definition default_value :: "sql_database \<Rightarrow> sql_column \<Rightarrow> sql_value" where
  "default_value s c =
     (case cl_server_default c of
        None \<Rightarrow> VNull
      | Some FuncNow \<Rightarrow> VTime (sd_now s)
      | Some (Literal x) \<Rightarrow> VStr x)"

definition add_column :: "string \<Rightarrow> sql_column \<Rightarrow> ddl_op" where
  "add_column n c s =
     with_table n (\<lambda>t.
       if cl_name c \<in> set (column_names t) then Inl (DuplicateName (cl_name c))
       else if sd_rows s n \<noteq> [] \<and> \<not> column_ok c (Some (default_value s c))
         then Inl (NotNullViolation (cl_name c))
       else Inr ((put_table n (t\<lparr>tb_columns := tb_columns t @ [c]\<rparr>) s)
         \<lparr>sd_rows := (sd_rows s)(n := map (\<lambda>r. r(cl_name c \<mapsto> default_value s c)) (sd_rows s n))\<rparr>)) s"

text \<open>\<open>op.alter_column\<close> with \<open>server_default=None\<close>\<close>

definition drop_server_default :: "string \<Rightarrow> string \<Rightarrow> ddl_op" where
  "drop_server_default n c s =
     with_table n (\<lambda>t.
       if c \<notin> set (column_names t) then Inl (UndefinedColumn c)
       else Inr (put_table n (t\<lparr>tb_columns :=
         map (\<lambda>x. if cl_name x = c then x\<lparr>cl_server_default := None\<rparr> else x) (tb_columns t)\<rparr>) s)) s"

text \<open>
  A column goes with the constraints and indexes of its table that mention it, unless another
  table refers to it.
\<close>

definition without_column :: "string \<Rightarrow> sql_table \<Rightarrow> sql_table" where
  "without_column c t =
     t\<lparr>tb_columns := filter (\<lambda>x. cl_name x \<noteq> c) (tb_columns t),
       tb_checks := {x \<in> tb_checks t. c \<notin> set (check_columns (snd x))},
       tb_primary_key := (if c \<in> set (tb_primary_key t) then [] else tb_primary_key t),
       tb_uniques := filter (\<lambda>x. c \<notin> set (snd x)) (tb_uniques t),
       tb_foreign_keys := filter (\<lambda>x. fst x \<noteq> c) (tb_foreign_keys t),
       tb_indexes := filter (\<lambda>x. c \<notin> key_column ` set (snd x)) (tb_indexes t)\<rparr>"

definition refers_to_column :: "string \<Rightarrow> string \<Rightarrow> string \<times> sql_table \<Rightarrow> bool" where
  "refers_to_column n c x = list_ex (\<lambda>fk. snd fk = (n, c)) (tb_foreign_keys (snd x))"

definition drop_column :: "string \<Rightarrow> string \<Rightarrow> ddl_op" where
  "drop_column n c s =
     with_table n (\<lambda>t.
       if c \<notin> set (column_names t) then Inl (UndefinedColumn c)
       else if list_ex (refers_to_column n c) (sd_tables s) then Inl (DependentObjects c)
       else Inr ((put_table n (without_column c t) s)
         \<lparr>sd_rows := (sd_rows s)(n := map (\<lambda>r. r(c := None)) (sd_rows s n))\<rparr>)) s"

text \<open>The statements of a migration, in one transaction.\<close>

fun run_ops :: "ddl_op list \<Rightarrow> ddl_op" where
  "run_ops [] s = Inr s"
| "run_ops (f # fs) s = (case f s of Inl e \<Rightarrow> Inl e | Inr s' \<Rightarrow> run_ops fs s')"

section \<open>Every operation keeps the database consistent\<close>

lemma map_of_put:
  "map_of (map (\<lambda>(m, t'). if m = n then (n, t) else (m, t')) ts) m =
     (if m = n then map_option (\<lambda>_. t) (map_of ts n) else map_of ts m)"
  by (induction ts) auto

lemma fst_put: "map fst (map (\<lambda>(m, t'). if m = n then (n, t) else (m, t')) ts) = map fst ts"
  by (induction ts) auto

lemma consistent_iff:
  "consistent s \<longleftrightarrow>
     distinct (map fst (sd_tables s)) \<and>
     (\<forall>n t. map_of (sd_tables s) n = Some t \<longrightarrow>
        table_well_formed (sd_tables s) t \<and> table_conforms (sd_rows s) n t) \<and>
     (\<forall>n. map_of (sd_tables s) n = None \<longrightarrow> sd_rows s n = [])"
  unfolding consistent_def by (auto intro: map_of_is_SomeI dest: map_of_SomeD)

lemma consistentD:
  assumes "consistent s" and "map_of (sd_tables s) n = Some t"
  shows "table_well_formed (sd_tables s) t" and "table_conforms (sd_rows s) n t"
  using assms by (auto simp: consistent_iff)

lemma has_column_put:
  "has_column (sd_tables (put_table n t s)) m c \<longleftrightarrow>
     (if m = n then map_of (sd_tables s) n \<noteq> None \<and> c \<in> set (column_names t)
      else has_column (sd_tables s) m c)"
  by (auto simp: has_column_def put_table_def map_of_put split: option.splits)

lemma table_well_formedD:
  assumes "table_well_formed ts t"
  shows "distinct (column_names t)" and "set (tb_primary_key t) \<subseteq> set (column_names t)"
    and "(k, e) \<in> tb_checks t \<Longrightarrow> set (check_columns e) \<subseteq> set (column_names t)"
    and "(u, cs) \<in> set (tb_uniques t) \<Longrightarrow> set cs \<subseteq> set (column_names t)"
    and "(i, ks) \<in> set (tb_indexes t) \<Longrightarrow> key_column ` set ks \<subseteq> set (column_names t)"
    and "(c, t', c') \<in> set (tb_foreign_keys t) \<Longrightarrow> c \<in> set (column_names t)"
    and "(c, t', c') \<in> set (tb_foreign_keys t) \<Longrightarrow> has_column ts t' c'"
  using assms unfolding table_well_formed_def
  by - (elim conjE; (assumption | (drule (1) bspec, simp)))+

lemma table_well_formedI:
  assumes "distinct (column_names t)" and "set (tb_primary_key t) \<subseteq> set (column_names t)"
    and "\<And>k e. (k, e) \<in> tb_checks t \<Longrightarrow> set (check_columns e) \<subseteq> set (column_names t)"
    and "\<And>u cs. (u, cs) \<in> set (tb_uniques t) \<Longrightarrow> set cs \<subseteq> set (column_names t)"
    and "\<And>i ks. (i, ks) \<in> set (tb_indexes t) \<Longrightarrow> key_column ` set ks \<subseteq> set (column_names t)"
    and "\<And>c t' c'. (c, t', c') \<in> set (tb_foreign_keys t) \<Longrightarrow>
      c \<in> set (column_names t) \<and> has_column ts t' c'"
  shows "table_well_formed ts t"
  unfolding table_well_formed_def
proof (intro conjI)
  show "\<forall>(k, e) \<in> tb_checks t. set (check_columns e) \<subseteq> set (column_names t)"
    using assms(3) by blast
  show "\<forall>(u, cs) \<in> set (tb_uniques t). set cs \<subseteq> set (column_names t)" using assms(4) by blast
  show "\<forall>(i, ks) \<in> set (tb_indexes t). key_column ` set ks \<subseteq> set (column_names t)"
    using assms(5) by blast
  show "\<forall>(c, t', c') \<in> set (tb_foreign_keys t). c \<in> set (column_names t) \<and> has_column ts t' c'"
    using assms(6) by blast
qed (rule assms)+

lemmas well_formed_fk = table_well_formedD(7)

text \<open>A table and its rows change; what other tables refer to stays.\<close>

lemma change_table:
  assumes con: "consistent s" and t: "map_of (sd_tables s) n = Some t"
    and keep: "\<And>m u c c'. map_of (sd_tables s) m = Some u \<Longrightarrow> m \<noteq> n \<Longrightarrow>
      (c, n, c') \<in> set (tb_foreign_keys u) \<Longrightarrow>
      c' \<in> set (column_names t') \<and> (\<forall>r \<in> set (sd_rows s n). g r c' = r c')"
    and wf: "table_well_formed (sd_tables (put_table n t' s)) t'"
    and conf: "table_conforms ((sd_rows s)(n := map g (sd_rows s n))) n t'"
  shows "consistent ((put_table n t' s)\<lparr>sd_rows := (sd_rows s)(n := map g (sd_rows s n))\<rparr>)"
proof -
  let ?s = "put_table n t' s" and ?rows = "(sd_rows s)(n := map g (sd_rows s n))"
  note old = consistentD [OF con]
  have "table_well_formed (sd_tables ?s) u \<and> table_conforms ?rows m u"
    if u: "map_of (sd_tables s) m = Some u" and "m \<noteq> n" for m u
  proof
    show "table_well_formed (sd_tables ?s) u"
      using old(1) [OF u] keep [OF u \<open>m \<noteq> n\<close>] t
      by (fastforce simp: table_well_formed_def has_column_put)
    have "refers ?rows fk r" if "fk \<in> set (tb_foreign_keys u)" "r \<in> set (sd_rows s m)" for fk r
    proof -
      obtain c k c' where fk: "fk = (c, k, c')" by (cases fk)
      have "refers (sd_rows s) fk r" using old(2) [OF u] that by (auto simp: table_conforms_def)
      then show ?thesis using keep [OF u \<open>m \<noteq> n\<close>] that(1) by (fastforce simp: fk refers_def)
    qed
    then show "table_conforms ?rows m u"
      using old(2) [OF u] \<open>m \<noteq> n\<close> by (simp add: table_conforms_def)
  qed
  then have "table_well_formed (sd_tables ?s) u \<and> table_conforms ?rows m u"
    if "map_of (sd_tables ?s) m = Some u" for m u
    using that wf conf t by (cases "m = n") (simp_all add: put_table_def map_of_put)
  moreover have "?rows m = []" if "map_of (sd_tables ?s) m = None" for m
    using that con t by (cases "m = n") (simp_all add: consistent_iff put_table_def map_of_put)
  moreover have "distinct (map fst (sd_tables ?s))"
    using con unfolding put_table_def by (simp add: fst_put consistent_iff del: map_map)
  ultimately show ?thesis unfolding consistent_iff by simp
qed

lemma put_table_consistent:
  assumes con: "consistent s" and t: "map_of (sd_tables s) n = Some t"
    and names: "column_names t' = column_names t"
    and wf: "table_well_formed (sd_tables s) t \<Longrightarrow> table_well_formed (sd_tables s) t'"
    and conf: "table_conforms (sd_rows s) n t \<Longrightarrow> table_conforms (sd_rows s) n t'"
  shows "consistent (put_table n t' s)"
proof -
  note old = consistentD [OF con]
  have same: "has_column (sd_tables (put_table n t' s)) = has_column (sd_tables s)"
    using t names by (intro ext) (auto simp: has_column_put, auto simp: has_column_def)
  have "consistent ((put_table n t' s)\<lparr>sd_rows := (sd_rows s)(n := map (\<lambda>r. r) (sd_rows s n))\<rparr>)"
  proof (rule change_table [OF con t])
    fix m u c c'
    assume "map_of (sd_tables s) m = Some u" "(c, n, c') \<in> set (tb_foreign_keys u)"
    then have "has_column (sd_tables s) n c'" by (rule well_formed_fk [OF old(1)])
    with t show "c' \<in> set (column_names t') \<and> (\<forall>r \<in> set (sd_rows s n). r c' = r c')"
      by (simp add: has_column_def names)
  next
    show "table_well_formed (sd_tables (put_table n t' s)) t'"
      using wf [OF old(1) [OF t]] by (simp add: table_well_formed_def same)
    show "table_conforms ((sd_rows s)(n := map (\<lambda>r. r) (sd_rows s n))) n t'"
      using conf [OF old(2) [OF t]] by (simp add: fun_upd_idem)
  qed
  then show ?thesis by (simp add: fun_upd_idem put_table_def)
qed

text \<open>The operations that only touch indexes, defaults and checks.\<close>

lemma create_index_consistent:
  assumes "consistent s" and "create_index i n ks s = Inr s'"
  shows "consistent s'"
proof -
  from assms(2) obtain t where t: "map_of (sd_tables s) n = Some t"
    and ks: "list_all (\<lambda>k. key_column k \<in> set (column_names t)) ks"
    and s': "s' = put_table n (t\<lparr>tb_indexes := tb_indexes t @ [(i, ks)]\<rparr>) s"
    by (auto simp: create_index_def with_table_def split: option.splits if_splits)
  show ?thesis
    unfolding s' by (rule put_table_consistent [OF assms(1) t]; use ks in
      \<open>auto simp: column_names_def table_well_formed_def table_conforms_def row_ok_def list_all_iff\<close>)
qed

lemma drop_index_consistent:
  assumes "consistent s" and "drop_index i n s = Inr s'"
  shows "consistent s'"
proof -
  from assms(2) obtain t where t: "map_of (sd_tables s) n = Some t"
    and s': "s' = put_table n (t\<lparr>tb_indexes := filter (\<lambda>x. fst x \<noteq> i) (tb_indexes t)\<rparr>) s"
    by (auto simp: drop_index_def with_table_def split: option.splits if_splits)
  show ?thesis
    unfolding s' by (rule put_table_consistent [OF assms(1) t])
      (auto simp: column_names_def table_well_formed_def table_conforms_def row_ok_def)
qed

lemma create_check_constraint_consistent:
  assumes "consistent s" and "create_check_constraint k n e s = Inr s'"
  shows "consistent s'"
proof -
  from assms(2) obtain t where t: "map_of (sd_tables s) n = Some t"
    and e: "set (check_columns e) \<subseteq> set (column_names t)"
      "\<forall>r \<in> set (sd_rows s n). check_value r e \<noteq> Some False"
    and s': "s' = put_table n (t\<lparr>tb_checks := insert (k, e) (tb_checks t)\<rparr>) s"
    by (auto simp: create_check_constraint_def with_table_def list_ex_iff
        split: option.splits if_splits)
  show ?thesis
    unfolding s' by (rule put_table_consistent [OF assms(1) t]; use e in
      \<open>auto simp: column_names_def table_well_formed_def table_conforms_def row_ok_def\<close>)
qed

lemma drop_check_constraint_consistent:
  assumes "consistent s" and "drop_check_constraint k n s = Inr s'"
  shows "consistent s'"
proof -
  from assms(2) obtain t where t: "map_of (sd_tables s) n = Some t"
    and s': "s' = put_table n (t\<lparr>tb_checks := {x \<in> tb_checks t. fst x \<noteq> k}\<rparr>) s"
    by (auto simp: drop_check_constraint_def with_table_def split: option.splits if_splits)
  show ?thesis
    unfolding s' by (rule put_table_consistent [OF assms(1) t])
      (auto simp: column_names_def table_well_formed_def table_conforms_def row_ok_def)
qed

lemma column_ok_default [simp]:
  "column_ok (c\<lparr>cl_server_default := x\<rparr>) v = column_ok c v"
  by (cases v; simp; rename_tac w; case_tac w; simp)

lemma drop_server_default_consistent:
  assumes "consistent s" and "drop_server_default n c s = Inr s'"
  shows "consistent s'"
proof -
  let ?cols = "\<lambda>t. map (\<lambda>x. if cl_name x = c then x\<lparr>cl_server_default := None\<rparr> else x) (tb_columns t)"
  from assms(2) obtain t where t: "map_of (sd_tables s) n = Some t"
    and s': "s' = put_table n (t\<lparr>tb_columns := ?cols t\<rparr>) s"
    by (auto simp: drop_server_default_def with_table_def split: option.splits if_splits)
  have names: "column_names (t\<lparr>tb_columns := ?cols t\<rparr>) = column_names t"
    by (auto simp: column_names_def)
  show ?thesis
    unfolding s' by (rule put_table_consistent [OF assms(1) t names])
      (auto simp: names table_well_formed_def table_conforms_def row_ok_def)
qed

text \<open>Creating and dropping a table.\<close>

lemma relation_names_fst: "n \<in> set (map fst (sd_tables s)) \<Longrightarrow> n \<in> set (relation_names s)"
  by (force simp: relation_names_def relations_of_def)

lemma table_well_formed_mono:
  assumes "table_well_formed ts t"
    and "\<And>m c c'. (c, m, c') \<in> set (tb_foreign_keys t) \<Longrightarrow> has_column ts m c' \<Longrightarrow> has_column ts' m c'"
  shows "table_well_formed ts' t"
  using assms by (force simp: table_well_formed_def)

lemma create_table_consistent:
  assumes con: "consistent s" and run: "create_table n t s = Inr s'"
  shows "consistent s'"
proof -
  let ?ts = "sd_tables s @ [(n, t)]"
  from run have fresh: "n \<notin> set (map fst (sd_tables s))" and wf: "table_well_formed ?ts t"
    and s': "s' = s\<lparr>sd_tables := ?ts, sd_rows := (sd_rows s)(n := [])\<rparr>"
    using relation_names_fst [of n s]
    by (auto simp: create_table_def relations_of_def split: if_splits)
  from fresh have none: "map_of (sd_tables s) n = None" by (simp add: map_of_eq_None_iff)
  with con have rows: "(sd_rows s)(n := []) = sd_rows s" by (auto simp: consistent_iff fun_upd_idem)
  have grow: "has_column ?ts m c" if "has_column (sd_tables s) m c" for m c
    using that by (auto simp: has_column_def map_add_def split: option.splits)
  have "table_well_formed ?ts u" if "map_of (sd_tables s) m = Some u" for m u
    by (rule table_well_formed_mono [OF consistentD(1) [OF con that] grow])
  moreover have "table_conforms (sd_rows s) n t"
    using con none by (simp add: consistent_iff table_conforms_def)
  ultimately show ?thesis
    using con fresh wf unfolding s' rows
    by (auto simp: consistent_iff map_add_def split: option.splits if_splits)
qed

lemma map_of_filter_fst: "map_of (filter (\<lambda>x. fst x \<noteq> n) ts) m = (if m = n then None else map_of ts m)"
  by (induction ts) auto

lemma drop_table_consistent:
  assumes con: "consistent s" and run: "drop_table n s = Inr s'"
  shows "consistent s'"
proof -
  let ?ts = "filter (\<lambda>x. fst x \<noteq> n) (sd_tables s)" and ?rows = "(sd_rows s)(n := [])"
  from run have ref: "referring n s = []"
    and s': "s' = s\<lparr>sd_tables := ?ts, sd_rows := ?rows\<rparr>"
    by (auto simp: drop_table_def with_table_def split: option.splits if_splits)
  note old = consistentD [OF con]
  have apart: "k \<noteq> n" if "map_of (sd_tables s) m = Some u" "m \<noteq> n" "(c, k, c') \<in> set (tb_foreign_keys u)"
    for m u c k c'
    using ref that by (fastforce simp: referring_def filter_empty_conv list_ex_iff dest: map_of_SomeD)
  have "table_well_formed ?ts u \<and> table_conforms ?rows m u"
    if u: "map_of (sd_tables s) m = Some u" and "m \<noteq> n" for m u
  proof
    show "table_well_formed ?ts u"
      by (rule table_well_formed_mono [OF old(1) [OF u]])
        (use apart [OF u \<open>m \<noteq> n\<close>] in \<open>auto simp: has_column_def map_of_filter_fst\<close>)
    have "refers ?rows fk r" if "fk \<in> set (tb_foreign_keys u)" "r \<in> set (sd_rows s m)" for fk r
    proof -
      obtain c k c' where fk: "fk = (c, k, c')" by (cases fk)
      have "refers (sd_rows s) fk r" using old(2) [OF u] that by (auto simp: table_conforms_def)
      then show ?thesis using apart [OF u \<open>m \<noteq> n\<close>] that(1) by (auto simp: fk refers_def)
    qed
    then show "table_conforms ?rows m u"
      using old(2) [OF u] \<open>m \<noteq> n\<close> by (simp add: table_conforms_def)
  qed
  moreover have "distinct (map fst ?ts)" using con by (simp add: consistent_iff distinct_map_filter)
  ultimately show ?thesis
    using con unfolding s' by (auto simp: consistent_iff map_of_filter_fst split: if_splits)
qed

text \<open>Adding and dropping a column.\<close>

lemma row_key_cong: "(\<And>c. c \<in> set cs \<Longrightarrow> f r c = r c) \<Longrightarrow> row_key cs (f r) = row_key cs r"
  by (simp add: row_key_def)

lemma refers_cong:
  assumes "\<And>r. r \<in> set (rows n) \<Longrightarrow> g r c = r c"
    and "t = n \<Longrightarrow> \<forall>r \<in> set (rows n). g r c' = r c'"
    and "r \<in> set (rows n)" and "refers rows (c, t, c') r"
  shows "refers (rows(n := map g (rows n))) (c, t, c') (g r)"
proof -
  from assms(4) consider "r c = Some VNull" | r' where "r' \<in> set (rows t)" "r' c' = r c"
    by (auto simp: refers_def)
  then show ?thesis
  proof cases
    case 1
    then show ?thesis by (simp add: refers_def assms(1) [OF assms(3)])
  next
    case (2 r')
    then show ?thesis
      using assms(1) [OF assms(3)] assms(2) by (cases "t = n") (auto simp: refers_def)
  qed
qed

lemma keys_cong:
  assumes "\<And>r c. r \<in> set rs \<Longrightarrow> c \<in> set cs \<Longrightarrow> g r c = r c"
  shows "map (row_key cs) (map g rs) = map (row_key cs) rs"
  using assms by (auto simp: row_key_def)

lemma table_conforms_map:
  assumes conf: "table_conforms rows n t"
    and row: "\<And>r. r \<in> set (rows n) \<Longrightarrow> row_ok t' (g r)"
    and pk: "tb_primary_key t' = [] \<or> tb_primary_key t' = tb_primary_key t"
    and un: "set (tb_uniques t') \<subseteq> set (tb_uniques t)"
    and same: "\<And>cs. cs = tb_primary_key t' \<or> cs \<in> snd ` set (tb_uniques t') \<Longrightarrow>
      map (row_key cs) (map g (rows n)) = map (row_key cs) (rows n)"
    and fk: "\<And>fk r. fk \<in> set (tb_foreign_keys t') \<Longrightarrow> r \<in> set (rows n) \<Longrightarrow>
      refers (rows(n := map g (rows n))) fk (g r)"
  shows "table_conforms (rows(n := map g (rows n))) n t'"
  unfolding table_conforms_def fun_upd_same
proof (intro conjI)
  show "\<forall>r \<in> set (map g (rows n)). row_ok t' r" using row by auto
  show "tb_primary_key t' \<noteq> [] \<longrightarrow> distinct (map (row_key (tb_primary_key t')) (map g (rows n)))"
    using conf pk same [of "tb_primary_key t'"] by (auto simp: table_conforms_def simp del: map_map)
  have "distinct (filter no_null (map (row_key cs) (map g (rows n))))"
    if "(u, cs) \<in> set (tb_uniques t')" for u cs
  proof -
    have "map (row_key cs) (map g (rows n)) = map (row_key cs) (rows n)"
      by (intro same disjI2 image_eqI [of _ _ "(u, cs)"]) (use that in simp_all)
    moreover have "distinct (filter no_null (map (row_key cs) (rows n)))"
      using conf un that by (auto simp: table_conforms_def)
    ultimately show ?thesis by (simp only:)
  qed
  then show "\<forall>(u, cs) \<in> set (tb_uniques t'). distinct (filter no_null (map (row_key cs) (map g (rows n))))"
    by blast
  show "\<forall>fk \<in> set (tb_foreign_keys t'). \<forall>r \<in> set (map g (rows n)). refers (rows(n := map g (rows n))) fk r"
    by (auto intro: fk simp del: fun_upd_apply)
qed

lemma add_column_consistent:
  assumes con: "consistent s" and run: "add_column n c s = Inr s'"
  shows "consistent s'"
proof -
  let ?g = "\<lambda>r. r(cl_name c \<mapsto> default_value s c)"
  from run obtain t where t: "map_of (sd_tables s) n = Some t"
    and new: "cl_name c \<notin> set (column_names t)"
    and ok: "sd_rows s n \<noteq> [] \<Longrightarrow> column_ok c (Some (default_value s c))"
    and s': "s' = (put_table n (t\<lparr>tb_columns := tb_columns t @ [c]\<rparr>) s)
      \<lparr>sd_rows := (sd_rows s)(n := map ?g (sd_rows s n))\<rparr>"
    by (auto simp: add_column_def with_table_def split: option.splits if_splits)
  let ?t = "t\<lparr>tb_columns := tb_columns t @ [c]\<rparr>"
  have wf: "table_well_formed (sd_tables s) t" and conf: "table_conforms (sd_rows s) n t"
    using con t by (auto simp: consistent_iff)
  have names: "column_names ?t = column_names t @ [cl_name c]" by (simp add: column_names_def)
  have same: "?g r x = r x" if "x \<in> set (column_names t)" for r x
    using that new by auto
  have row: "row_ok ?t (?g r)" if "r \<in> set (sd_rows s n)" for r
  proof -
    have r: "row_ok t r" using conf that by (simp add: table_conforms_def)
    have "check_value (?g r) e \<noteq> Some False" if "(k, e) \<in> tb_checks t" for k e
    proof -
      have "set (check_columns e) \<subseteq> set (column_names t)"
        using wf that by (auto simp: table_well_formed_def)
      then have "check_value (?g r) e = check_value r e"
        using same by (intro check_value_cong) blast
      then show ?thesis using r that by (auto simp: row_ok_def)
    qed
    moreover have "column_ok x (?g r (cl_name x))" if "x \<in> set (tb_columns t)" for x
      using r that same [of "cl_name x" r] by (simp add: row_ok_def column_names_def)
    moreover have "sd_rows s n \<noteq> []" using that by auto
    ultimately show ?thesis using r ok by (auto simp: row_ok_def names)
  qed
  show ?thesis
    unfolding s'
  proof (rule change_table [OF con t])
    fix m u d d'
    assume "map_of (sd_tables s) m = Some u" "(d, n, d') \<in> set (tb_foreign_keys u)"
    then have "has_column (sd_tables s) n d'" by (rule well_formed_fk [OF consistentD(1) [OF con]])
    then have "d' \<in> set (column_names t)" using t by (simp add: has_column_def)
    then show "d' \<in> set (column_names ?t) \<and> (\<forall>r \<in> set (sd_rows s n). ?g r d' = r d')"
      using same by (simp add: names)
  next
    have grow: "has_column (sd_tables (put_table n ?t s)) m d" if "has_column (sd_tables s) m d" for m d
      using that t by (auto simp: has_column_put names, auto simp: has_column_def)
    show "table_well_formed (sd_tables (put_table n ?t s)) ?t"
      using wf new grow by (fastforce simp: table_well_formed_def names)
  next
    have "refers ((sd_rows s)(n := map ?g (sd_rows s n))) fk (?g r)"
      if fk: "fk \<in> set (tb_foreign_keys t)" and r: "r \<in> set (sd_rows s n)" for fk r
    proof -
      obtain d k d' where eq: "fk = (d, k, d')" by (cases fk)
      with fk wf have "d \<in> set (column_names t)" "has_column (sd_tables s) k d'"
        by (auto simp: table_well_formed_def)
      moreover from this t have "k = n \<Longrightarrow> d' \<in> set (column_names t)" by (simp add: has_column_def)
      moreover have "refers (sd_rows s) (d, k, d') r"
        using conf fk r by (auto simp: table_conforms_def eq)
      ultimately show ?thesis unfolding eq using same r by (intro refers_cong) auto
    qed
    moreover have "map (row_key cs) (map ?g (sd_rows s n)) = map (row_key cs) (sd_rows s n)"
      if "cs = tb_primary_key ?t \<or> cs \<in> snd ` set (tb_uniques ?t)" for cs
    proof (intro keys_cong same)
      have "set cs \<subseteq> set (column_names t)"
        using that table_well_formedD(2) [OF wf] by (auto dest!: table_well_formedD(4) [OF wf])
      then show "d \<in> set (column_names t)" if "d \<in> set cs" for d using that by blast
    qed
    ultimately show "table_conforms ((sd_rows s)(n := map ?g (sd_rows s n))) n ?t"
      by (intro table_conforms_map [OF conf]) (simp_all add: row)
  qed
qed

lemma drop_column_consistent:
  assumes con: "consistent s" and run: "drop_column n c s = Inr s'"
  shows "consistent s'"
proof -
  let ?g = "\<lambda>r. r(c := None)"
  from run obtain t where t: "map_of (sd_tables s) n = Some t"
    and free: "\<And>m u d. (m, u) \<in> set (sd_tables s) \<Longrightarrow> (d, n, c) \<notin> set (tb_foreign_keys u)"
    and s': "s' = (put_table n (without_column c t) s)
      \<lparr>sd_rows := (sd_rows s)(n := map ?g (sd_rows s n))\<rparr>"
    by (fastforce simp: drop_column_def with_table_def list_ex_iff refers_to_column_def
        split: option.splits if_splits)
  let ?t = "without_column c t"
  note wf = consistentD(1) [OF con t] and conf = consistentD(2) [OF con t]
  have names: "set (column_names ?t) = set (column_names t) - {c}"
    by (auto simp: column_names_def without_column_def)
  have row: "row_ok ?t (?g r)" if "r \<in> set (sd_rows s n)" for r
  proof -
    have r: "row_ok t r" using conf that by (simp add: table_conforms_def)
    have "check_value (?g r) e = check_value r e" if "c \<notin> set (check_columns e)" for e
      using that by (intro check_value_cong) auto
    with r show ?thesis unfolding row_ok_def names by (force simp: without_column_def)
  qed
  show ?thesis
    unfolding s'
  proof (rule change_table [OF con t])
    fix m u d d'
    assume u: "map_of (sd_tables s) m = Some u" "(d, n, d') \<in> set (tb_foreign_keys u)"
    then have "has_column (sd_tables s) n d'" by (rule well_formed_fk [OF consistentD(1) [OF con]])
    moreover have "d' \<noteq> c" using free [OF map_of_SomeD [OF u(1)]] u(2) by auto
    ultimately show "d' \<in> set (column_names ?t) \<and> (\<forall>r \<in> set (sd_rows s n). ?g r d' = r d')"
      using t by (simp add: has_column_def names)
  next
    have keep: "has_column (sd_tables (put_table n ?t s)) m d"
      if "has_column (sd_tables s) m d" "m = n \<longrightarrow> d \<noteq> c" for m d
      using that t by (auto simp: has_column_put names, auto simp: has_column_def)
    show "table_well_formed (sd_tables (put_table n ?t s)) ?t"
    proof (rule table_well_formedI, unfold names)
      show "distinct (column_names ?t)"
        using table_well_formedD(1) [OF wf]
        by (simp add: column_names_def without_column_def distinct_map_filter)
      show "set (tb_primary_key ?t) \<subseteq> set (column_names t) - {c}"
        using table_well_formedD(2) [OF wf] by (auto simp: without_column_def)
      show "set (check_columns e) \<subseteq> set (column_names t) - {c}" if "(k, e) \<in> tb_checks ?t" for k e
        using table_well_formedD(3) [OF wf, of k e] that by (auto simp: without_column_def)
      show "set cs \<subseteq> set (column_names t) - {c}" if "(u, cs) \<in> set (tb_uniques ?t)" for u cs
        using table_well_formedD(4) [OF wf, of u cs] that by (auto simp: without_column_def)
      show "key_column ` set ks \<subseteq> set (column_names t) - {c}" if "(i, ks) \<in> set (tb_indexes ?t)" for i ks
        using table_well_formedD(5) [OF wf, of i ks] that by (auto simp: without_column_def)
      show "d \<in> set (column_names t) - {c} \<and> has_column (sd_tables (put_table n ?t s)) k d'"
        if "(d, k, d') \<in> set (tb_foreign_keys ?t)" for d k d'
      proof -
        have fk: "(d, k, d') \<in> set (tb_foreign_keys t)" and "d \<noteq> c"
          using that by (auto simp: without_column_def)
        moreover have "k = n \<longrightarrow> d' \<noteq> c" using free [OF map_of_SomeD [OF t]] fk by auto
        ultimately show ?thesis
          using table_well_formedD(6) [OF wf fk] keep [OF well_formed_fk [OF wf fk]] by simp
      qed
    qed
  next
    have "refers ((sd_rows s)(n := map ?g (sd_rows s n))) fk (?g r)"
      if fk: "fk \<in> set (tb_foreign_keys ?t)" and r: "r \<in> set (sd_rows s n)" for fk r
    proof -
      obtain d k d' where eq: "fk = (d, k, d')" by (cases fk)
      with fk have d: "d \<noteq> c" and mem: "(d, k, d') \<in> set (tb_foreign_keys t)"
        by (auto simp: without_column_def)
      moreover have "k = n \<Longrightarrow> d' \<noteq> c" using free [OF map_of_SomeD [OF t]] mem by auto
      moreover have "refers (sd_rows s) (d, k, d') r"
        using conf mem r by (auto simp: table_conforms_def)
      ultimately show ?thesis unfolding eq using r by (intro refers_cong) auto
    qed
    moreover have "map (row_key cs) (map ?g (sd_rows s n)) = map (row_key cs) (sd_rows s n)"
      if "cs = tb_primary_key ?t \<or> cs \<in> snd ` set (tb_uniques ?t)" for cs
      using that by (intro keys_cong) (auto simp: without_column_def split: if_splits)
    ultimately show "table_conforms ((sd_rows s)(n := map ?g (sd_rows s n))) n ?t"
      by (intro table_conforms_map [OF conf] row) (simp_all, auto simp: without_column_def)
  qed
qed

text \<open>So does a migration.\<close>

definition keeps_consistent :: "ddl_op \<Rightarrow> bool" where
  "keeps_consistent f \<longleftrightarrow> (\<forall>s s'. consistent s \<longrightarrow> f s = Inr s' \<longrightarrow> consistent s')"

lemma ops_keep_consistent [simp, intro]:
  "keeps_consistent (create_table n t)" "keeps_consistent (drop_table n)"
  "keeps_consistent (create_index i n ks)" "keeps_consistent (drop_index i n)"
  "keeps_consistent (create_check_constraint k n e)" "keeps_consistent (drop_check_constraint k n)"
  "keeps_consistent (add_column n c)" "keeps_consistent (drop_column n x)"
  "keeps_consistent (drop_server_default n x)"
  unfolding keeps_consistent_def
  by (blast intro: create_table_consistent drop_table_consistent create_index_consistent
      drop_index_consistent create_check_constraint_consistent drop_check_constraint_consistent
      add_column_consistent drop_column_consistent drop_server_default_consistent)+

lemma run_ops_consistent:
  "list_all keeps_consistent fs \<Longrightarrow> consistent s \<Longrightarrow> run_ops fs s = Inr s' \<Longrightarrow> consistent s'"
proof (induction fs arbitrary: s)
  case (Cons f fs)
  then obtain s1 where s1: "f s = Inr s1" and rest: "run_ops fs s1 = Inr s'"
    by (auto split: sum.splits)
  from Cons.prems s1 have "consistent s1" by (auto simp: keeps_consistent_def)
  with Cons.IH Cons.prems(1) rest show ?case by simp
qed simp

lemma consistent_empty: "consistent (empty_database now)"
  by (simp add: consistent_def empty_database_def)

end
