(* ===== verification/Migrations.thy ===== *)
theory Migrations
  imports Ddl
begin

text \<open>
  The migrations of \<open>alembic/versions\<close>: each \<open>upgrade\<close> and \<open>downgrade\<close> as the list of its
  operations, statement by statement, and the chain of revisions.
\<close>

text \<open>\<open>sa.Column\<close>, and a \<open>DateTime\<close> column with \<open>server_default=sa.func.now()\<close>\<close>

definition sa_column :: "string \<Rightarrow> sql_type \<Rightarrow> bool \<Rightarrow> sql_column" where
  "sa_column name ty nullable =
     \<lparr>cl_name = name, cl_type = ty, cl_nullable = nullable, cl_server_default = None\<rparr>"

definition now_column :: "string \<Rightarrow> sql_column" where
  "now_column name =
     \<lparr>cl_name = name, cl_type = SaDateTime, cl_nullable = False, cl_server_default = Some FuncNow\<rparr>"

section \<open>20260521-0001: create node tables\<close>

definition nodes_table :: sql_table where
  "nodes_table =
     \<lparr>tb_columns =
        [sa_column ''id'' SaUuid False, sa_column ''name'' (SaString 128) False,
         sa_column ''node_type'' (SaString 16) False, sa_column ''status'' (SaString 16) False,
         sa_column ''cpu_capacity'' (SaNumeric 10 2) False,
         sa_column ''memory_capacity_mb'' SaInteger False,
         sa_column ''network_address'' (SaString 255) True, sa_column ''description'' SaText True,
         sa_column ''last_heartbeat_at'' SaDateTime True, now_column ''created_at'',
         now_column ''updated_at''],
      tb_checks =
        {(''ck_nodes_node_type'', ColumnIn ''node_type'' [''UAV'', ''EDGE'']),
         (''ck_nodes_status'', ColumnIn ''status'' [''ONLINE'', ''BUSY'', ''OFFLINE'']),
         (''ck_nodes_cpu_capacity_positive'', ColumnGreater ''cpu_capacity'' 0),
         (''ck_nodes_memory_capacity_positive'', ColumnGreater ''memory_capacity_mb'' 0)},
      tb_primary_key = [''id''], tb_uniques = [(''uq_nodes_name'', [''name''])],
      tb_foreign_keys = [],
      tb_indexes = []\<rparr>"

definition node_status_records_table :: sql_table where
  "node_status_records_table =
     \<lparr>tb_columns =
        [sa_column ''id'' SaUuid False, sa_column ''node_id'' SaUuid False,
         sa_column ''battery_level'' (SaNumeric 5 2) True,
         sa_column ''cpu_usage'' (SaNumeric 5 2) False,
         sa_column ''memory_usage'' (SaNumeric 5 2) False,
         sa_column ''network_quality'' (SaNumeric 5 2) True,
         sa_column ''bandwidth_mbps'' (SaNumeric 10 2) True,
         sa_column ''latitude'' (SaNumeric 10 7) True,
         sa_column ''longitude'' (SaNumeric 10 7) True, sa_column ''current_load'' SaInteger True,
         sa_column ''queue_length'' SaInteger True, sa_column ''reported_at'' SaDateTime False,
         now_column ''created_at''],
      tb_checks =
        {(''ck_node_status_cpu_usage_range'', ColumnBetween ''cpu_usage'' 0 100),
         (''ck_node_status_memory_usage_range'', ColumnBetween ''memory_usage'' 0 100),
         (''ck_node_status_battery_range'', CheckOr (ColumnIsNull ''battery_level'')
             (ColumnBetween ''battery_level'' 0 100)),
         (''ck_node_status_network_quality_range'', CheckOr (ColumnIsNull ''network_quality'')
             (ColumnBetween ''network_quality'' 0 100)),
         (''ck_node_status_bandwidth_non_negative'', CheckOr (ColumnIsNull ''bandwidth_mbps'')
             (ColumnAtLeast ''bandwidth_mbps'' 0))},
      tb_primary_key = [''id''], tb_uniques = [],
      tb_foreign_keys =
        [(''node_id'', ''nodes'', ''id'')],
      tb_indexes = []\<rparr>"

definition upgrade_0001 :: "ddl_op list" where
  "upgrade_0001 =
     [create_table ''nodes'' nodes_table, create_index ''ix_nodes_name'' ''nodes'' [Key ''name''],
      create_index ''idx_nodes_type_status'' ''nodes'' [Key ''node_type'', Key ''status''],
      create_index ''idx_nodes_last_heartbeat'' ''nodes'' [Key ''last_heartbeat_at''],
      create_table ''node_status_records'' node_status_records_table,
      create_index ''ix_node_status_records_node_id'' ''node_status_records'' [Key ''node_id''],
      create_index ''idx_node_status_node_time'' ''node_status_records'' [Key ''node_id'',
          KeyDesc ''reported_at''],
      create_index ''idx_node_status_reported_at'' ''node_status_records'' [Key ''reported_at'']]"

definition downgrade_0001 :: "ddl_op list" where
  "downgrade_0001 =
     [drop_index ''idx_node_status_reported_at'' ''node_status_records'',
      drop_index ''idx_node_status_node_time'' ''node_status_records'',
      drop_index ''ix_node_status_records_node_id'' ''node_status_records'',
      drop_table ''node_status_records'', drop_index ''idx_nodes_last_heartbeat'' ''nodes'',
      drop_index ''idx_nodes_type_status'' ''nodes'', drop_index ''ix_nodes_name'' ''nodes'',
      drop_table ''nodes'']"

section \<open>20260524-0002: create dag task tables\<close>

definition dag_tasks_table :: sql_table where
  "dag_tasks_table =
     \<lparr>tb_columns =
        [sa_column ''id'' SaUuid False, sa_column ''name'' (SaString 128) False,
         sa_column ''status'' (SaString 16) False, sa_column ''priority'' SaInteger False,
         sa_column ''deadline_at'' SaDateTime True,
         sa_column ''submitted_by'' (SaString 128) True, sa_column ''failure_reason'' SaText True,
         sa_column ''metadata'' SaJson False, now_column ''created_at'',
         now_column ''updated_at'', sa_column ''scheduled_at'' SaDateTime True,
         sa_column ''started_at'' SaDateTime True, sa_column ''finished_at'' SaDateTime True],
      tb_checks =
        {(''ck_dag_tasks_status'', ColumnIn ''status'' [''PENDING'', ''SCHEDULED'', ''RUNNING'',
            ''SUCCESS'', ''FAILED'', ''CANCELED'']),
         (''ck_dag_tasks_priority_non_negative'', ColumnAtLeast ''priority'' 0)},
      tb_primary_key = [''id''], tb_uniques = [],
      tb_foreign_keys = [],
      tb_indexes = []\<rparr>"

definition dag_subtasks_table :: sql_table where
  "dag_subtasks_table =
     \<lparr>tb_columns =
        [sa_column ''id'' SaUuid False, sa_column ''task_id'' SaUuid False,
         sa_column ''external_id'' (SaString 64) False, sa_column ''name'' (SaString 128) False,
         sa_column ''status'' (SaString 16) False,
         sa_column ''compute_load'' (SaNumeric 12 2) False,
         sa_column ''input_data_size_mb'' (SaNumeric 12 2) False,
         sa_column ''output_data_size_mb'' (SaNumeric 12 2) False,
         sa_column ''max_retries'' SaInteger False, sa_column ''retry_count'' SaInteger False,
         sa_column ''failure_reason'' SaText True, sa_column ''metadata'' SaJson False,
         now_column ''created_at'', now_column ''updated_at'',
         sa_column ''started_at'' SaDateTime True, sa_column ''finished_at'' SaDateTime True],
      tb_checks =
        {(''ck_dag_subtasks_status'', ColumnIn ''status'' [''WAITING'', ''READY'',
            ''DISPATCHED'', ''RUNNING'', ''SUCCESS'', ''FAILED'', ''RETRYING'']),
         (''ck_dag_subtasks_compute_load_positive'', ColumnGreater ''compute_load'' 0),
         (''ck_dag_subtasks_input_non_negative'', ColumnAtLeast ''input_data_size_mb'' 0),
         (''ck_dag_subtasks_output_non_negative'', ColumnAtLeast ''output_data_size_mb'' 0),
         (''ck_dag_subtasks_max_retries_non_negative'', ColumnAtLeast ''max_retries'' 0),
         (''ck_dag_subtasks_retry_count_non_negative'', ColumnAtLeast ''retry_count'' 0)},
      tb_primary_key = [''id''], tb_uniques = [(''uq_dag_subtasks_task_external'', [''task_id'',
          ''external_id''])],
      tb_foreign_keys =
        [(''task_id'', ''dag_tasks'', ''id'')],
      tb_indexes = []\<rparr>"

definition dag_dependencies_table :: sql_table where
  "dag_dependencies_table =
     \<lparr>tb_columns =
        [sa_column ''id'' SaUuid False, sa_column ''task_id'' SaUuid False,
         sa_column ''predecessor_subtask_id'' SaUuid False,
         sa_column ''successor_subtask_id'' SaUuid False, now_column ''created_at''],
      tb_checks =
        {(''ck_dag_dependencies_not_self'',
            ColumnsDiffer ''predecessor_subtask_id'' ''successor_subtask_id'')},
      tb_primary_key = [''id''], tb_uniques = [(''uq_dag_dependencies_task_edge'', [''task_id'',
          ''predecessor_subtask_id'', ''successor_subtask_id''])],
      tb_foreign_keys =
        [(''predecessor_subtask_id'', ''dag_subtasks'', ''id''),
         (''successor_subtask_id'', ''dag_subtasks'', ''id''),
         (''task_id'', ''dag_tasks'', ''id'')],
      tb_indexes = []\<rparr>"

definition upgrade_0002 :: "ddl_op list" where
  "upgrade_0002 =
     [create_table ''dag_tasks'' dag_tasks_table,
      create_index ''idx_dag_tasks_status'' ''dag_tasks'' [Key ''status''],
      create_index ''idx_dag_tasks_created_at'' ''dag_tasks'' [KeyDesc ''created_at''],
      create_index ''idx_dag_tasks_priority_status'' ''dag_tasks'' [KeyDesc ''priority'',
          Key ''status''],
      create_table ''dag_subtasks'' dag_subtasks_table,
      create_index ''ix_dag_subtasks_task_id'' ''dag_subtasks'' [Key ''task_id''],
      create_index ''idx_dag_subtasks_task_status'' ''dag_subtasks'' [Key ''task_id'',
          Key ''status''],
      create_index ''idx_dag_subtasks_task_external'' ''dag_subtasks'' [Key ''task_id'',
          Key ''external_id''],
      create_table ''dag_dependencies'' dag_dependencies_table,
      create_index ''ix_dag_dependencies_task_id'' ''dag_dependencies'' [Key ''task_id''],
      create_index ''ix_dag_dependencies_predecessor_subtask_id'' ''dag_dependencies'' [Key ''predecessor_subtask_id''],
      create_index ''ix_dag_dependencies_successor_subtask_id'' ''dag_dependencies'' [Key ''successor_subtask_id''],
      create_index ''idx_dag_dependencies_task'' ''dag_dependencies'' [Key ''task_id''],
      create_index ''idx_dag_dependencies_predecessor'' ''dag_dependencies'' [Key ''predecessor_subtask_id''],
      create_index ''idx_dag_dependencies_successor'' ''dag_dependencies'' [Key ''successor_subtask_id'']]"

definition downgrade_0002 :: "ddl_op list" where
  "downgrade_0002 =
     [drop_index ''idx_dag_dependencies_successor'' ''dag_dependencies'',
      drop_index ''idx_dag_dependencies_predecessor'' ''dag_dependencies'',
      drop_index ''idx_dag_dependencies_task'' ''dag_dependencies'',
      drop_index ''ix_dag_dependencies_successor_subtask_id'' ''dag_dependencies'',
      drop_index ''ix_dag_dependencies_predecessor_subtask_id'' ''dag_dependencies'',
      drop_index ''ix_dag_dependencies_task_id'' ''dag_dependencies'',
      drop_table ''dag_dependencies'',
      drop_index ''idx_dag_subtasks_task_external'' ''dag_subtasks'',
      drop_index ''idx_dag_subtasks_task_status'' ''dag_subtasks'',
      drop_index ''ix_dag_subtasks_task_id'' ''dag_subtasks'', drop_table ''dag_subtasks'',
      drop_index ''idx_dag_tasks_priority_status'' ''dag_tasks'',
      drop_index ''idx_dag_tasks_created_at'' ''dag_tasks'',
      drop_index ''idx_dag_tasks_status'' ''dag_tasks'', drop_table ''dag_tasks'']"

section \<open>20260526-0003: add subtask execution constraint\<close>

definition upgrade_0003 :: "ddl_op list" where
  "upgrade_0003 =
     [add_column ''dag_subtasks'' ((sa_column ''execution_constraint''
          (SaString 16) False)\<lparr>cl_server_default := Some (Literal ''OFFLOADABLE'')\<rparr>),
      create_check_constraint ''ck_dag_subtasks_execution_constraint'' ''dag_subtasks''
          (ColumnIn ''execution_constraint'' [''OFFLOADABLE'', ''LOCAL_ONLY'', ''EDGE_ONLY'']),
      drop_server_default ''dag_subtasks'' ''execution_constraint'']"

definition downgrade_0003 :: "ddl_op list" where
  "downgrade_0003 =
     [drop_check_constraint ''ck_dag_subtasks_execution_constraint'' ''dag_subtasks'',
      drop_column ''dag_subtasks'' ''execution_constraint'']"

section \<open>20260531-0004: create schedule plan tables\<close>

definition schedule_plans_table :: sql_table where
  "schedule_plans_table =
     \<lparr>tb_columns =
        [sa_column ''id'' SaUuid False, sa_column ''task_id'' SaUuid False,
         sa_column ''strategy_name'' (SaString 64) False,
         sa_column ''status'' (SaString 16) False,
         sa_column ''estimated_total_duration_ms'' SaInteger True,
         sa_column ''estimated_total_energy'' (SaNumeric 14 4) True,
         sa_column ''options'' SaJson False, now_column ''created_at'',
         sa_column ''applied_at'' SaDateTime True],
      tb_checks =
        {(''ck_schedule_plans_strategy_name'', ColumnIn ''strategy_name'' [''local_only'',
            ''random_offload'', ''greedy'']),
         (''ck_schedule_plans_status'', ColumnIn ''status'' [''GENERATED'', ''APPLIED'',
             ''CANCELED'']),
         (''ck_schedule_plans_duration_non_negative'', CheckOr
             (ColumnIsNull ''estimated_total_duration_ms'')
                 (ColumnAtLeast ''estimated_total_duration_ms'' 0)),
         (''ck_schedule_plans_energy_non_negative'', CheckOr
             (ColumnIsNull ''estimated_total_energy'')
                 (ColumnAtLeast ''estimated_total_energy'' 0))},
      tb_primary_key = [''id''], tb_uniques = [],
      tb_foreign_keys =
        [(''task_id'', ''dag_tasks'', ''id'')],
      tb_indexes = []\<rparr>"

definition schedule_plan_items_table :: sql_table where
  "schedule_plan_items_table =
     \<lparr>tb_columns =
        [sa_column ''id'' SaUuid False, sa_column ''plan_id'' SaUuid False,
         sa_column ''subtask_id'' SaUuid False, sa_column ''assigned_node_id'' SaUuid False,
         sa_column ''estimated_compute_duration_ms'' SaInteger True,
         sa_column ''estimated_transfer_duration_ms'' SaInteger True,
         sa_column ''estimated_energy'' (SaNumeric 14 4) True,
         sa_column ''decision_reason'' SaText True, now_column ''created_at''],
      tb_checks =
        {(''ck_schedule_items_compute_duration_non_negative'', CheckOr
            (ColumnIsNull ''estimated_compute_duration_ms'')
                (ColumnAtLeast ''estimated_compute_duration_ms'' 0)),
         (''ck_schedule_items_transfer_duration_non_negative'', CheckOr
             (ColumnIsNull ''estimated_transfer_duration_ms'')
                 (ColumnAtLeast ''estimated_transfer_duration_ms'' 0)),
         (''ck_schedule_items_energy_non_negative'', CheckOr (ColumnIsNull ''estimated_energy'')
             (ColumnAtLeast ''estimated_energy'' 0))},
      tb_primary_key = [''id''], tb_uniques = [(''uq_schedule_items_plan_subtask'', [''plan_id'',
          ''subtask_id''])],
      tb_foreign_keys =
        [(''assigned_node_id'', ''nodes'', ''id''), (''plan_id'', ''schedule_plans'', ''id''),
         (''subtask_id'', ''dag_subtasks'', ''id'')],
      tb_indexes = []\<rparr>"

definition upgrade_0004 :: "ddl_op list" where
  "upgrade_0004 =
     [create_table ''schedule_plans'' schedule_plans_table,
      create_index ''ix_schedule_plans_task_id'' ''schedule_plans'' [Key ''task_id''],
      create_index ''idx_schedule_plans_task_created'' ''schedule_plans'' [Key ''task_id'',
          KeyDesc ''created_at''],
      create_index ''idx_schedule_plans_strategy'' ''schedule_plans'' [Key ''strategy_name''],
      create_table ''schedule_plan_items'' schedule_plan_items_table,
      create_index ''ix_schedule_plan_items_plan_id'' ''schedule_plan_items'' [Key ''plan_id''],
      create_index ''ix_schedule_plan_items_subtask_id'' ''schedule_plan_items'' [Key ''subtask_id''],
      create_index ''ix_schedule_plan_items_assigned_node_id'' ''schedule_plan_items'' [Key ''assigned_node_id''],
      create_index ''idx_schedule_items_plan'' ''schedule_plan_items'' [Key ''plan_id''],
      create_index ''idx_schedule_items_subtask'' ''schedule_plan_items'' [Key ''subtask_id''],
      create_index ''idx_schedule_items_node'' ''schedule_plan_items'' [Key ''assigned_node_id'']]"

definition downgrade_0004 :: "ddl_op list" where
  "downgrade_0004 =
     [drop_index ''idx_schedule_items_node'' ''schedule_plan_items'',
      drop_index ''idx_schedule_items_subtask'' ''schedule_plan_items'',
      drop_index ''idx_schedule_items_plan'' ''schedule_plan_items'',
      drop_index ''ix_schedule_plan_items_assigned_node_id'' ''schedule_plan_items'',
      drop_index ''ix_schedule_plan_items_subtask_id'' ''schedule_plan_items'',
      drop_index ''ix_schedule_plan_items_plan_id'' ''schedule_plan_items'',
      drop_table ''schedule_plan_items'',
      drop_index ''idx_schedule_plans_strategy'' ''schedule_plans'',
      drop_index ''idx_schedule_plans_task_created'' ''schedule_plans'',
      drop_index ''ix_schedule_plans_task_id'' ''schedule_plans'', drop_table ''schedule_plans'']"

section \<open>20260531-0005: create execution records\<close>

definition execution_records_table :: sql_table where
  "execution_records_table =
     \<lparr>tb_columns =
        [sa_column ''id'' SaUuid False, sa_column ''task_id'' SaUuid False,
         sa_column ''subtask_id'' SaUuid False, sa_column ''node_id'' SaUuid False,
         sa_column ''plan_item_id'' SaUuid True, sa_column ''attempt'' SaInteger False,
         sa_column ''status'' (SaString 16) False, sa_column ''started_at'' SaDateTime True,
         sa_column ''finished_at'' SaDateTime True, sa_column ''duration_ms'' SaInteger True,
         sa_column ''output_summary'' SaText True, sa_column ''failure_reason'' SaText True,
         now_column ''created_at'', now_column ''updated_at''],
      tb_checks =
        {(''ck_execution_records_attempt_positive'', ColumnAtLeast ''attempt'' 1),
         (''ck_execution_records_status'', ColumnIn ''status'' [''RUNNING'', ''SUCCESS'',
             ''FAILED'', ''TIMEOUT'', ''CANCELED'']),
         (''ck_execution_records_duration_non_negative'', CheckOr (ColumnIsNull ''duration_ms'')
             (ColumnAtLeast ''duration_ms'' 0))},
      tb_primary_key = [''id''], tb_uniques = [(''uq_execution_subtask_attempt'',
          [''subtask_id'', ''attempt''])],
      tb_foreign_keys =
        [(''node_id'', ''nodes'', ''id''), (''plan_item_id'', ''schedule_plan_items'', ''id''),
         (''subtask_id'', ''dag_subtasks'', ''id''), (''task_id'', ''dag_tasks'', ''id'')],
      tb_indexes = []\<rparr>"

definition upgrade_0005 :: "ddl_op list" where
  "upgrade_0005 =
     [create_table ''execution_records'' execution_records_table,
      create_index ''ix_execution_records_task_id'' ''execution_records'' [Key ''task_id''],
      create_index ''ix_execution_records_subtask_id'' ''execution_records'' [Key ''subtask_id''],
      create_index ''ix_execution_records_node_id'' ''execution_records'' [Key ''node_id''],
      create_index ''ix_execution_records_plan_item_id'' ''execution_records'' [Key ''plan_item_id''],
      create_index ''idx_execution_records_task'' ''execution_records'' [Key ''task_id''],
      create_index ''idx_execution_records_subtask'' ''execution_records'' [Key ''subtask_id''],
      create_index ''idx_execution_records_node'' ''execution_records'' [Key ''node_id''],
      create_index ''idx_execution_records_status'' ''execution_records'' [Key ''status'']]"

definition downgrade_0005 :: "ddl_op list" where
  "downgrade_0005 =
     [drop_index ''idx_execution_records_status'' ''execution_records'',
      drop_index ''idx_execution_records_node'' ''execution_records'',
      drop_index ''idx_execution_records_subtask'' ''execution_records'',
      drop_index ''idx_execution_records_task'' ''execution_records'',
      drop_index ''ix_execution_records_plan_item_id'' ''execution_records'',
      drop_index ''ix_execution_records_node_id'' ''execution_records'',
      drop_index ''ix_execution_records_subtask_id'' ''execution_records'',
      drop_index ''ix_execution_records_task_id'' ''execution_records'',
      drop_table ''execution_records'']"

section \<open>20260610-0006: add canceled subtask status\<close>

definition upgrade_0006 :: "ddl_op list" where
  "upgrade_0006 =
     [drop_check_constraint ''ck_dag_subtasks_status'' ''dag_subtasks'',
      create_check_constraint ''ck_dag_subtasks_status'' ''dag_subtasks''
          (ColumnIn ''status'' [''WAITING'', ''READY'', ''DISPATCHED'', ''RUNNING'', ''SUCCESS'',
              ''FAILED'', ''RETRYING'', ''CANCELED''])]"

definition downgrade_0006 :: "ddl_op list" where
  "downgrade_0006 =
     [drop_check_constraint ''ck_dag_subtasks_status'' ''dag_subtasks'',
      create_check_constraint ''ck_dag_subtasks_status'' ''dag_subtasks''
          (ColumnIn ''status'' [''WAITING'', ''READY'', ''DISPATCHED'', ''RUNNING'', ''SUCCESS'',
              ''FAILED'', ''RETRYING''])]"

section \<open>20260622-0007: create worker heartbeats\<close>

definition worker_heartbeats_table :: sql_table where
  "worker_heartbeats_table =
     \<lparr>tb_columns =
        [sa_column ''id'' SaUuid False, sa_column ''worker_name'' (SaString 128) False,
         sa_column ''hostname'' (SaString 128) False, sa_column ''process_id'' SaInteger True,
         sa_column ''status'' (SaString 16) False, sa_column ''current_execution_id'' SaUuid True,
         sa_column ''last_seen_at'' SaDateTime False, now_column ''created_at'',
         now_column ''updated_at''],
      tb_checks =
        {(''ck_worker_heartbeats_status'', ColumnIn ''status'' [''ONLINE'', ''BUSY''])},
      tb_primary_key = [''id''], tb_uniques = [(''uq_worker_heartbeats_worker_name'',
          [''worker_name''])],
      tb_foreign_keys = [],
      tb_indexes = []\<rparr>"

definition upgrade_0007 :: "ddl_op list" where
  "upgrade_0007 =
     [create_table ''worker_heartbeats'' worker_heartbeats_table,
      create_index ''idx_worker_heartbeats_status'' ''worker_heartbeats'' [Key ''status''],
      create_index ''idx_worker_heartbeats_last_seen_at'' ''worker_heartbeats'' [KeyDesc ''last_seen_at'']]"

definition downgrade_0007 :: "ddl_op list" where
  "downgrade_0007 =
     [drop_index ''idx_worker_heartbeats_last_seen_at'' ''worker_heartbeats'',
      drop_index ''idx_worker_heartbeats_status'' ''worker_heartbeats'',
      drop_table ''worker_heartbeats'']"

section \<open>20260622-0008: add execution celery task id\<close>

definition upgrade_0008 :: "ddl_op list" where
  "upgrade_0008 =
     [add_column ''execution_records'' (sa_column ''celery_task_id'' (SaString 255) True),
      create_index ''idx_execution_records_celery_task_id'' ''execution_records'' [Key ''celery_task_id'']]"

definition downgrade_0008 :: "ddl_op list" where
  "downgrade_0008 =
     [drop_index ''idx_execution_records_celery_task_id'' ''execution_records'',
      drop_column ''execution_records'' ''celery_task_id'']"

section \<open>20260623-0009: create execution revoke events\<close>

definition execution_revoke_events_table :: sql_table where
  "execution_revoke_events_table =
     \<lparr>tb_columns =
        [sa_column ''id'' SaUuid False, sa_column ''task_id'' SaUuid False,
         sa_column ''execution_id'' SaUuid False,
         sa_column ''celery_task_id'' (SaString 255) False, sa_column ''success'' SaBoolean False,
         sa_column ''error_message'' SaText True, sa_column ''requested_at'' SaDateTime False,
         now_column ''created_at''],
      tb_checks = {},
      tb_primary_key = [''id''], tb_uniques = [],
      tb_foreign_keys =
        [(''execution_id'', ''execution_records'', ''id''), (''task_id'', ''dag_tasks'', ''id'')],
      tb_indexes = []\<rparr>"

definition upgrade_0009 :: "ddl_op list" where
  "upgrade_0009 =
     [create_table ''execution_revoke_events'' execution_revoke_events_table,
      create_index ''idx_execution_revoke_events_task_id'' ''execution_revoke_events'' [Key ''task_id''],
      create_index ''idx_execution_revoke_events_execution_id'' ''execution_revoke_events'' [Key ''execution_id''],
      create_index ''idx_execution_revoke_events_celery_task_id'' ''execution_revoke_events'' [Key ''celery_task_id''],
      create_index ''idx_execution_revoke_events_requested_at'' ''execution_revoke_events'' [KeyDesc ''requested_at'']]"

definition downgrade_0009 :: "ddl_op list" where
  "downgrade_0009 =
     [drop_index ''idx_execution_revoke_events_requested_at'' ''execution_revoke_events'',
      drop_index ''idx_execution_revoke_events_celery_task_id'' ''execution_revoke_events'',
      drop_index ''idx_execution_revoke_events_execution_id'' ''execution_revoke_events'',
      drop_index ''idx_execution_revoke_events_task_id'' ''execution_revoke_events'',
      drop_table ''execution_revoke_events'']"

section \<open>20260623-0010: create worker alerts\<close>

definition worker_alerts_table :: sql_table where
  "worker_alerts_table =
     \<lparr>tb_columns =
        [sa_column ''id'' SaUuid False, sa_column ''alert_type'' (SaString 64) False,
         sa_column ''severity'' (SaString 16) False,
         sa_column ''worker_name'' (SaString 128) True, sa_column ''execution_id'' SaUuid True,
         sa_column ''celery_task_id'' (SaString 255) True, sa_column ''message'' SaText False,
         sa_column ''details'' SaJson False, now_column ''created_at''],
      tb_checks =
        {(''ck_worker_alerts_alert_type'', ColumnIn ''alert_type'' [''CELERY_RETRY_EXHAUSTED'']),
         (''ck_worker_alerts_severity'', ColumnIn ''severity'' [''WARNING'', ''ERROR''])},
      tb_primary_key = [''id''], tb_uniques = [],
      tb_foreign_keys = [],
      tb_indexes = []\<rparr>"

definition upgrade_0010 :: "ddl_op list" where
  "upgrade_0010 =
     [create_table ''worker_alerts'' worker_alerts_table,
      create_index ''idx_worker_alerts_execution_id'' ''worker_alerts'' [Key ''execution_id''],
      create_index ''idx_worker_alerts_celery_task_id'' ''worker_alerts'' [Key ''celery_task_id''],
      create_index ''idx_worker_alerts_alert_type'' ''worker_alerts'' [Key ''alert_type'']]"

definition downgrade_0010 :: "ddl_op list" where
  "downgrade_0010 =
     [drop_index ''idx_worker_alerts_alert_type'' ''worker_alerts'',
      drop_index ''idx_worker_alerts_celery_task_id'' ''worker_alerts'',
      drop_index ''idx_worker_alerts_execution_id'' ''worker_alerts'',
      drop_table ''worker_alerts'']"

section \<open>The chain of revisions\<close>

record migration =
  mg_revision :: string
  mg_down_revision :: "string option"
  mg_upgrade :: "ddl_op list"
  mg_downgrade :: "ddl_op list"

definition revision_0001 :: migration where
  "revision_0001 =
     \<lparr>mg_revision = ''20260521_0001'', mg_down_revision = None,
      mg_upgrade = upgrade_0001, mg_downgrade = downgrade_0001\<rparr>"

definition revision_0002 :: migration where
  "revision_0002 =
     \<lparr>mg_revision = ''20260524_0002'', mg_down_revision = Some ''20260521_0001'',
      mg_upgrade = upgrade_0002, mg_downgrade = downgrade_0002\<rparr>"

definition revision_0003 :: migration where
  "revision_0003 =
     \<lparr>mg_revision = ''20260526_0003'', mg_down_revision = Some ''20260524_0002'',
      mg_upgrade = upgrade_0003, mg_downgrade = downgrade_0003\<rparr>"

definition revision_0004 :: migration where
  "revision_0004 =
     \<lparr>mg_revision = ''20260531_0004'', mg_down_revision = Some ''20260526_0003'',
      mg_upgrade = upgrade_0004, mg_downgrade = downgrade_0004\<rparr>"

definition revision_0005 :: migration where
  "revision_0005 =
     \<lparr>mg_revision = ''20260531_0005'', mg_down_revision = Some ''20260531_0004'',
      mg_upgrade = upgrade_0005, mg_downgrade = downgrade_0005\<rparr>"

definition revision_0006 :: migration where
  "revision_0006 =
     \<lparr>mg_revision = ''20260610_0006'', mg_down_revision = Some ''20260531_0005'',
      mg_upgrade = upgrade_0006, mg_downgrade = downgrade_0006\<rparr>"

definition revision_0007 :: migration where
  "revision_0007 =
     \<lparr>mg_revision = ''20260622_0007'', mg_down_revision = Some ''20260610_0006'',
      mg_upgrade = upgrade_0007, mg_downgrade = downgrade_0007\<rparr>"

definition revision_0008 :: migration where
  "revision_0008 =
     \<lparr>mg_revision = ''20260622_0008'', mg_down_revision = Some ''20260622_0007'',
      mg_upgrade = upgrade_0008, mg_downgrade = downgrade_0008\<rparr>"

definition revision_0009 :: migration where
  "revision_0009 =
     \<lparr>mg_revision = ''20260623_0009'', mg_down_revision = Some ''20260622_0008'',
      mg_upgrade = upgrade_0009, mg_downgrade = downgrade_0009\<rparr>"

definition revision_0010 :: migration where
  "revision_0010 =
     \<lparr>mg_revision = ''20260623_0010'', mg_down_revision = Some ''20260623_0009'',
      mg_upgrade = upgrade_0010, mg_downgrade = downgrade_0010\<rparr>"

definition revisions :: "migration list" where
  "revisions =
     [revision_0001, revision_0002, revision_0003, revision_0004, revision_0005, revision_0006,
      revision_0007, revision_0008, revision_0009, revision_0010]"

end
