(* ===== verification/Ddl_Tables.thy ===== *)
theory Ddl_Tables
  imports Ddl
begin

text \<open>
  Creating a table together with its indexes and dropping it again, in one step each, for any
  schema: what most migrations consist of.
\<close>

definition created :: "string \<Rightarrow> sql_table \<Rightarrow> ddl_op list" where
  "created n t =
     create_table n (t\<lparr>tb_indexes := []\<rparr>) # map (\<lambda>(i, ks). create_index i n ks) (tb_indexes t)"

definition dropped :: "string \<Rightarrow> sql_table \<Rightarrow> ddl_op list" where
  "dropped n t = map (\<lambda>(i, ks). drop_index i n) (rev (tb_indexes t)) @ [drop_table n]"

definition new_table :: "(string \<times> sql_table) list \<Rightarrow> string \<Rightarrow> sql_table \<Rightarrow> bool" where
  "new_table ts n t \<longleftrightarrow>
     distinct (relations_of (n, t)) \<and>
     list_all (\<lambda>m. \<not> list_ex (\<lambda>x. m \<in> set (relations_of x)) ts) (relations_of (n, t)) \<and>
     table_well_formed (ts @ [(n, t)]) t"

definition insert_table :: "string \<Rightarrow> sql_table \<Rightarrow> ddl_op" where
  "insert_table n t s =
     Inr (s\<lparr>sd_tables := sd_tables s @ [(n, t)], sd_rows := (sd_rows s)(n := [])\<rparr>)"

lemma run_ops_append:
  "run_ops (fs @ gs) s = (case run_ops fs s of Inl e \<Rightarrow> Inl e | Inr s' \<Rightarrow> run_ops gs s')"
  by (induction fs arbitrary: s) (auto split: sum.splits)

lemma relation_names_member:
  "m \<in> set (relation_names s) \<longleftrightarrow> (\<exists>x \<in> set (sd_tables s). m \<in> set (relations_of x))"
  by (auto simp: relation_names_def)

lemma new_tableD:
  assumes "new_table (sd_tables s) n t"
  shows "distinct (relations_of (n, t))"
    and "m \<in> set (relations_of (n, t)) \<Longrightarrow> m \<notin> set (relation_names s)"
    and "n \<notin> fst ` set (sd_tables s)"
    and "table_well_formed (sd_tables s @ [(n, t)]) t"
proof -
  show fresh: "m \<in> set (relations_of (n, t)) \<Longrightarrow> m \<notin> set (relation_names s)" for m
    using assms by (auto simp: new_table_def list_all_iff list_ex_iff relation_names_member)
  have "n \<in> set (relations_of (n, t))" by (simp add: relations_of_def)
  from fresh [OF this] relation_names_fst [of n s] show "n \<notin> fst ` set (sd_tables s)" by auto
qed (use assms in \<open>simp_all add: new_table_def\<close>)

lemma relations_of_indexes:
  "relations_of (n, t\<lparr>tb_indexes := ixs @ new\<rparr>) =
     relations_of (n, t\<lparr>tb_indexes := ixs\<rparr>) @ map fst new"
  by (simp add: relations_of_def)

lemma has_column_indexes:
  "has_column (ts @ [(n, t\<lparr>tb_indexes := ixs\<rparr>)]) = has_column (ts @ [(n, t)])"
  by (intro ext) (auto simp: has_column_def map_add_def column_names_def split: option.splits)

text \<open>The indexes are added one after the other to the last table.\<close>

lemma create_indexes:
  assumes "sd_tables s = ts @ [(n, t\<lparr>tb_indexes := ixs\<rparr>)]" and "n \<notin> fst ` set ts"
    and "distinct (relations_of (n, t\<lparr>tb_indexes := ixs @ new\<rparr>))"
    and "\<And>m x. m \<in> set (map fst new) \<Longrightarrow> x \<in> set ts \<Longrightarrow> m \<notin> set (relations_of x)"
    and "\<And>i ks. (i, ks) \<in> set new \<Longrightarrow> key_column ` set ks \<subseteq> set (column_names t)"
  shows "run_ops (map (\<lambda>(i, ks). create_index i n ks) new) s =
    Inr (s\<lparr>sd_tables := ts @ [(n, t\<lparr>tb_indexes := ixs @ new\<rparr>)]\<rparr>)"
  using assms
proof (induction new arbitrary: ixs s)
  case Nil
  then show ?case by simp
next
  case (Cons x new)
  obtain i ks where x: "x = (i, ks)" by (cases x)
  let ?s = "s\<lparr>sd_tables := ts @ [(n, t\<lparr>tb_indexes := ixs @ [x]\<rparr>)]\<rparr>"
  have "map_of (sd_tables s) n = Some (t\<lparr>tb_indexes := ixs\<rparr>)"
    using Cons.prems(1,2) by (simp add: map_add_def map_of_eq_None_iff [THEN iffD2])
  moreover have "i \<notin> set (relations_of (n, t\<lparr>tb_indexes := ixs\<rparr>))"
    using Cons.prems(3) unfolding relations_of_indexes by (simp add: x)
  then have "i \<notin> set (relation_names s)"
    using Cons.prems(4) [of i] by (auto simp: relation_names_member Cons.prems(1) x)
  moreover have "list_all (\<lambda>k. key_column k \<in> set (column_names t)) ks"
    using Cons.prems(5) [of i ks] by (auto simp: x list_all_iff)
  moreover have "map (\<lambda>(m, t'). if m = n then (n, u) else (m, t')) ts = ts" for u
    using Cons.prems(2) by (intro map_idI) force
  ultimately have "create_index i n ks s = Inr ?s"
    using Cons.prems(1) by (simp add: create_index_def with_table_def put_table_def x column_names_def)
  moreover have "run_ops (map (\<lambda>(i, ks). create_index i n ks) new) ?s =
      Inr (?s\<lparr>sd_tables := ts @ [(n, t\<lparr>tb_indexes := (ixs @ [x]) @ new\<rparr>)]\<rparr>)"
  proof (rule Cons.IH)
    show "key_column ` set ks \<subseteq> set (column_names t)" if "(i, ks) \<in> set new" for i ks
      using Cons.prems(5) [of i ks] that by simp
    show "m \<notin> set (relations_of y)" if "m \<in> set (map fst new)" "y \<in> set ts" for m y
      using that by (intro Cons.prems(4)) simp_all
  qed (use Cons.prems(2,3) in simp_all)
  ultimately show ?case by (simp add: x)
qed

lemma created_run:
  assumes "new_table (sd_tables s) n t"
  shows "run_ops (created n t) s = insert_table n t s"
proof -
  let ?t = "t\<lparr>tb_indexes := []\<rparr>"
  let ?s = "s\<lparr>sd_tables := sd_tables s @ [(n, ?t)], sd_rows := (sd_rows s)(n := [])\<rparr>"
  note new = new_tableD [OF assms]
  have "table_well_formed (sd_tables s @ [(n, ?t)]) ?t"
    using new(4) by (simp add: table_well_formed_def has_column_indexes column_names_def)
  moreover have "m \<notin> set (relation_names s)" if "m \<in> set (relations_of (n, ?t))" for m
    using that new(2) by (auto simp: relations_of_def)
  ultimately have "create_table n ?t s = Inr ?s" by (auto simp: create_table_def list_ex_iff)
  moreover have "run_ops (map (\<lambda>(i, ks). create_index i n ks) (tb_indexes t)) ?s =
      Inr (?s\<lparr>sd_tables := sd_tables s @ [(n, t\<lparr>tb_indexes := [] @ tb_indexes t\<rparr>)]\<rparr>)"
  proof (rule create_indexes)
    show "distinct (relations_of (n, t\<lparr>tb_indexes := [] @ tb_indexes t\<rparr>))" using new(1) by simp
    show "m \<notin> set (relations_of x)"
      if m: "m \<in> set (map fst (tb_indexes t))" and x: "x \<in> set (sd_tables s)" for m x
    proof -
      have "m \<in> set (relations_of (n, t))" using m by (simp add: relations_of_def)
      then have "m \<notin> set (relation_names s)" by (rule new(2))
      with x show ?thesis by (auto simp: relation_names_member)
    qed
    show "key_column ` set ks \<subseteq> set (column_names t)" if "(i, ks) \<in> set (tb_indexes t)" for i ks
      using table_well_formedD(5) [OF new(4) that] .
  qed (use new(3) in simp_all)
  ultimately show ?thesis by (simp add: created_def insert_table_def)
qed

text \<open>Dropping undoes it.\<close>

lemma drop_indexes:
  assumes "sd_tables s = ts @ [(n, t\<lparr>tb_indexes := ixs\<rparr>)]" and "n \<notin> fst ` set ts"
    and "distinct (map fst ixs)"
  shows "run_ops (map (\<lambda>(i, ks). drop_index i n) (rev ixs)) s =
    Inr (s\<lparr>sd_tables := ts @ [(n, t\<lparr>tb_indexes := []\<rparr>)]\<rparr>)"
  using assms
proof (induction ixs arbitrary: s rule: rev_induct)
  case Nil
  then show ?case by simp
next
  case (snoc x ixs)
  obtain i ks where x: "x = (i, ks)" by (cases x)
  let ?s = "s\<lparr>sd_tables := ts @ [(n, t\<lparr>tb_indexes := ixs\<rparr>)]\<rparr>"
  have "map_of (sd_tables s) n = Some (t\<lparr>tb_indexes := ixs @ [x]\<rparr>)"
    using snoc.prems(1,2) by (simp add: map_add_def map_of_eq_None_iff [THEN iffD2])
  moreover have "filter (\<lambda>y. fst y \<noteq> i) ixs = ixs"
    using snoc.prems(3) by (auto simp: x intro!: filter_True)
  moreover have "map (\<lambda>(m, t'). if m = n then (n, u) else (m, t')) ts = ts" for u
    using snoc.prems(2) by (intro map_idI) force
  ultimately have "drop_index i n s = Inr ?s"
    using snoc.prems(1) by (simp add: drop_index_def with_table_def put_table_def x)
  moreover have "run_ops (map (\<lambda>(i, ks). drop_index i n) (rev ixs)) ?s =
      Inr (?s\<lparr>sd_tables := ts @ [(n, t\<lparr>tb_indexes := []\<rparr>)]\<rparr>)"
    by (rule snoc.IH) (use snoc.prems in auto)
  ultimately show ?case by (simp add: x)
qed

lemma dropped_run:
  assumes "sd_tables s = ts @ [(n, t)]" and "n \<notin> fst ` set ts" and "distinct (relations_of (n, t))"
    and "\<And>m u c c'. (m, u) \<in> set ts \<Longrightarrow> (c, n, c') \<notin> set (tb_foreign_keys u)"
  shows "run_ops (dropped n t) s = Inr (s\<lparr>sd_tables := ts, sd_rows := (sd_rows s)(n := [])\<rparr>)"
proof -
  let ?s = "s\<lparr>sd_tables := ts @ [(n, t\<lparr>tb_indexes := []\<rparr>)]\<rparr>"
  have "run_ops (map (\<lambda>(i, ks). drop_index i n) (rev (tb_indexes t))) s = Inr ?s"
    by (rule drop_indexes) (use assms in \<open>simp_all add: relations_of_def\<close>)
  moreover have "referring n ?s = []"
    using assms(4) by (fastforce simp: referring_def filter_empty_conv list_ex_iff)
  moreover have "filter (\<lambda>x. fst x \<noteq> n) ts = ts" using assms(2) by (auto intro!: filter_True)
  moreover have "map_of (ts @ [(n, t\<lparr>tb_indexes := []\<rparr>)]) n = Some (t\<lparr>tb_indexes := []\<rparr>)"
    using assms(2) by (simp add: map_add_def map_of_eq_None_iff [THEN iffD2])
  ultimately show ?thesis
    by (simp add: dropped_def run_ops_append drop_table_def with_table_def)
qed

lemma created_new:
  "new_table ts n t \<Longrightarrow> sd_tables s = ts \<Longrightarrow> run_ops (created n t) s = insert_table n t s"
  by (simp add: created_run)

definition unreferenced :: "(string \<times> sql_table) list \<Rightarrow> string \<Rightarrow> bool" where
  "unreferenced ts n \<longleftrightarrow>
     list_all (\<lambda>x. list_all (\<lambda>fk. fst (snd fk) \<noteq> n) (tb_foreign_keys (snd x))) ts"

lemma dropped_new:
  assumes new: "new_table ts n t" and free: "unreferenced ts n" and s: "sd_tables s = ts @ [(n, t)]"
  shows "run_ops (dropped n t) s = Inr (s\<lparr>sd_tables := ts, sd_rows := (sd_rows s)(n := [])\<rparr>)"
proof (rule dropped_run [OF s])
  have "new_table (sd_tables (s\<lparr>sd_tables := ts\<rparr>)) n t" using new by simp
  from new_tableD(1,3) [OF this] show "n \<notin> fst ` set ts" "distinct (relations_of (n, t))" by simp_all
  show "(c, n, c') \<notin> set (tb_foreign_keys u)" if "(m, u) \<in> set ts" for m u c c'
    using free that by (fastforce simp: unreferenced_def list_all_iff)
qed

end
