(* ===== verification/Migration_Runs.thy ===== *)
theory Migration_Runs
  imports Migrations Ddl_Tables
begin

text \<open>
  Running the migrations. Every upgrade works on the data of the revision before it, keeps that
  data, and is undone by its downgrade; the only downgrade that the data of the application can
  block is the one that forbids canceled subtasks again.
\<close>

section \<open>The schema at each revision\<close>

definition nodes_indexed :: sql_table where
  "nodes_indexed =
     nodes_table\<lparr>tb_indexes :=
       [(''ix_nodes_name'', [Key ''name'']),
        (''idx_nodes_type_status'', [Key ''node_type'', Key ''status'']),
        (''idx_nodes_last_heartbeat'', [Key ''last_heartbeat_at''])]\<rparr>"

definition node_status_records_indexed :: sql_table where
  "node_status_records_indexed =
     node_status_records_table\<lparr>tb_indexes :=
       [(''ix_node_status_records_node_id'', [Key ''node_id'']),
        (''idx_node_status_node_time'', [Key ''node_id'', KeyDesc ''reported_at'']),
        (''idx_node_status_reported_at'', [Key ''reported_at''])]\<rparr>"

definition dag_tasks_indexed :: sql_table where
  "dag_tasks_indexed =
     dag_tasks_table\<lparr>tb_indexes :=
       [(''idx_dag_tasks_status'', [Key ''status'']),
        (''idx_dag_tasks_created_at'', [KeyDesc ''created_at'']),
        (''idx_dag_tasks_priority_status'', [KeyDesc ''priority'', Key ''status''])]\<rparr>"

definition dag_subtasks_indexed :: sql_table where
  "dag_subtasks_indexed =
     dag_subtasks_table\<lparr>tb_indexes :=
       [(''ix_dag_subtasks_task_id'', [Key ''task_id'']),
        (''idx_dag_subtasks_task_status'', [Key ''task_id'', Key ''status'']),
        (''idx_dag_subtasks_task_external'', [Key ''task_id'', Key ''external_id''])]\<rparr>"

definition dag_dependencies_indexed :: sql_table where
  "dag_dependencies_indexed =
     dag_dependencies_table\<lparr>tb_indexes :=
       [(''ix_dag_dependencies_task_id'', [Key ''task_id'']),
        (''ix_dag_dependencies_predecessor_subtask_id'', [Key ''predecessor_subtask_id'']),
        (''ix_dag_dependencies_successor_subtask_id'', [Key ''successor_subtask_id'']),
        (''idx_dag_dependencies_task'', [Key ''task_id'']),
        (''idx_dag_dependencies_predecessor'', [Key ''predecessor_subtask_id'']),
        (''idx_dag_dependencies_successor'', [Key ''successor_subtask_id''])]\<rparr>"

definition schedule_plans_indexed :: sql_table where
  "schedule_plans_indexed =
     schedule_plans_table\<lparr>tb_indexes :=
       [(''ix_schedule_plans_task_id'', [Key ''task_id'']),
        (''idx_schedule_plans_task_created'', [Key ''task_id'', KeyDesc ''created_at'']),
        (''idx_schedule_plans_strategy'', [Key ''strategy_name''])]\<rparr>"

definition schedule_plan_items_indexed :: sql_table where
  "schedule_plan_items_indexed =
     schedule_plan_items_table\<lparr>tb_indexes :=
       [(''ix_schedule_plan_items_plan_id'', [Key ''plan_id'']),
        (''ix_schedule_plan_items_subtask_id'', [Key ''subtask_id'']),
        (''ix_schedule_plan_items_assigned_node_id'', [Key ''assigned_node_id'']),
        (''idx_schedule_items_plan'', [Key ''plan_id'']),
        (''idx_schedule_items_subtask'', [Key ''subtask_id'']),
        (''idx_schedule_items_node'', [Key ''assigned_node_id''])]\<rparr>"

definition execution_records_indexed :: sql_table where
  "execution_records_indexed =
     execution_records_table\<lparr>tb_indexes :=
       [(''ix_execution_records_task_id'', [Key ''task_id'']),
        (''ix_execution_records_subtask_id'', [Key ''subtask_id'']),
        (''ix_execution_records_node_id'', [Key ''node_id'']),
        (''ix_execution_records_plan_item_id'', [Key ''plan_item_id'']),
        (''idx_execution_records_task'', [Key ''task_id'']),
        (''idx_execution_records_subtask'', [Key ''subtask_id'']),
        (''idx_execution_records_node'', [Key ''node_id'']),
        (''idx_execution_records_status'', [Key ''status''])]\<rparr>"

definition worker_heartbeats_indexed :: sql_table where
  "worker_heartbeats_indexed =
     worker_heartbeats_table\<lparr>tb_indexes :=
       [(''idx_worker_heartbeats_status'', [Key ''status'']),
        (''idx_worker_heartbeats_last_seen_at'', [KeyDesc ''last_seen_at''])]\<rparr>"

definition execution_revoke_events_indexed :: sql_table where
  "execution_revoke_events_indexed =
     execution_revoke_events_table\<lparr>tb_indexes :=
       [(''idx_execution_revoke_events_task_id'', [Key ''task_id'']),
        (''idx_execution_revoke_events_execution_id'', [Key ''execution_id'']),
        (''idx_execution_revoke_events_celery_task_id'', [Key ''celery_task_id'']),
        (''idx_execution_revoke_events_requested_at'', [KeyDesc ''requested_at''])]\<rparr>"

definition worker_alerts_indexed :: sql_table where
  "worker_alerts_indexed =
     worker_alerts_table\<lparr>tb_indexes :=
       [(''idx_worker_alerts_execution_id'', [Key ''execution_id'']),
        (''idx_worker_alerts_celery_task_id'', [Key ''celery_task_id'']),
        (''idx_worker_alerts_alert_type'', [Key ''alert_type''])]\<rparr>"

definition dag_subtasks_constrained :: sql_table where
  "dag_subtasks_constrained =
     dag_subtasks_indexed
       \<lparr>tb_columns := tb_columns dag_subtasks_table @
          [sa_column ''execution_constraint'' (SaString 16) False],
        tb_checks := insert (''ck_dag_subtasks_execution_constraint'',
          ColumnIn ''execution_constraint'' [''OFFLOADABLE'', ''LOCAL_ONLY'', ''EDGE_ONLY''])
          (tb_checks dag_subtasks_table)\<rparr>"

definition dag_subtasks_canceled :: sql_table where
  "dag_subtasks_canceled =
     dag_subtasks_constrained
       \<lparr>tb_checks := insert (''ck_dag_subtasks_status'',
          ColumnIn ''status'' [''WAITING'', ''READY'', ''DISPATCHED'', ''RUNNING'', ''SUCCESS'', ''FAILED'',
            ''RETRYING'', ''CANCELED''])
          {x \<in> tb_checks dag_subtasks_constrained. fst x \<noteq> ''ck_dag_subtasks_status''}\<rparr>"

definition execution_records_celery :: sql_table where
  "execution_records_celery =
     execution_records_indexed
       \<lparr>tb_columns := tb_columns execution_records_table @
          [sa_column ''celery_task_id'' (SaString 255) True],
        tb_indexes := tb_indexes execution_records_indexed @
          [(''idx_execution_records_celery_task_id'', [Key ''celery_task_id''])]\<rparr>"

definition schema_0001 :: "(string \<times> sql_table) list" where
  "schema_0001 =
     [(''nodes'', nodes_indexed), (''node_status_records'', node_status_records_indexed)]"

definition schema_0002 :: "(string \<times> sql_table) list" where
  "schema_0002 =
     [(''nodes'', nodes_indexed), (''node_status_records'', node_status_records_indexed),
      (''dag_tasks'', dag_tasks_indexed), (''dag_subtasks'', dag_subtasks_indexed),
      (''dag_dependencies'', dag_dependencies_indexed)]"

definition schema_0003 :: "(string \<times> sql_table) list" where
  "schema_0003 =
     [(''nodes'', nodes_indexed), (''node_status_records'', node_status_records_indexed),
      (''dag_tasks'', dag_tasks_indexed), (''dag_subtasks'', dag_subtasks_constrained),
      (''dag_dependencies'', dag_dependencies_indexed)]"

definition schema_0004 :: "(string \<times> sql_table) list" where
  "schema_0004 =
     [(''nodes'', nodes_indexed), (''node_status_records'', node_status_records_indexed),
      (''dag_tasks'', dag_tasks_indexed), (''dag_subtasks'', dag_subtasks_constrained),
      (''dag_dependencies'', dag_dependencies_indexed),
      (''schedule_plans'', schedule_plans_indexed),
      (''schedule_plan_items'', schedule_plan_items_indexed)]"

definition schema_0005 :: "(string \<times> sql_table) list" where
  "schema_0005 =
     [(''nodes'', nodes_indexed), (''node_status_records'', node_status_records_indexed),
      (''dag_tasks'', dag_tasks_indexed), (''dag_subtasks'', dag_subtasks_constrained),
      (''dag_dependencies'', dag_dependencies_indexed),
      (''schedule_plans'', schedule_plans_indexed),
      (''schedule_plan_items'', schedule_plan_items_indexed),
      (''execution_records'', execution_records_indexed)]"

definition schema_0006 :: "(string \<times> sql_table) list" where
  "schema_0006 =
     [(''nodes'', nodes_indexed), (''node_status_records'', node_status_records_indexed),
      (''dag_tasks'', dag_tasks_indexed), (''dag_subtasks'', dag_subtasks_canceled),
      (''dag_dependencies'', dag_dependencies_indexed),
      (''schedule_plans'', schedule_plans_indexed),
      (''schedule_plan_items'', schedule_plan_items_indexed),
      (''execution_records'', execution_records_indexed)]"

definition schema_0007 :: "(string \<times> sql_table) list" where
  "schema_0007 =
     [(''nodes'', nodes_indexed), (''node_status_records'', node_status_records_indexed),
      (''dag_tasks'', dag_tasks_indexed), (''dag_subtasks'', dag_subtasks_canceled),
      (''dag_dependencies'', dag_dependencies_indexed),
      (''schedule_plans'', schedule_plans_indexed),
      (''schedule_plan_items'', schedule_plan_items_indexed),
      (''execution_records'', execution_records_indexed),
      (''worker_heartbeats'', worker_heartbeats_indexed)]"

definition schema_0008 :: "(string \<times> sql_table) list" where
  "schema_0008 =
     [(''nodes'', nodes_indexed), (''node_status_records'', node_status_records_indexed),
      (''dag_tasks'', dag_tasks_indexed), (''dag_subtasks'', dag_subtasks_canceled),
      (''dag_dependencies'', dag_dependencies_indexed),
      (''schedule_plans'', schedule_plans_indexed),
      (''schedule_plan_items'', schedule_plan_items_indexed),
      (''execution_records'', execution_records_celery),
      (''worker_heartbeats'', worker_heartbeats_indexed)]"

definition schema_0009 :: "(string \<times> sql_table) list" where
  "schema_0009 =
     [(''nodes'', nodes_indexed), (''node_status_records'', node_status_records_indexed),
      (''dag_tasks'', dag_tasks_indexed), (''dag_subtasks'', dag_subtasks_canceled),
      (''dag_dependencies'', dag_dependencies_indexed),
      (''schedule_plans'', schedule_plans_indexed),
      (''schedule_plan_items'', schedule_plan_items_indexed),
      (''execution_records'', execution_records_celery),
      (''worker_heartbeats'', worker_heartbeats_indexed),
      (''execution_revoke_events'', execution_revoke_events_indexed)]"

definition schema_0010 :: "(string \<times> sql_table) list" where
  "schema_0010 =
     [(''nodes'', nodes_indexed), (''node_status_records'', node_status_records_indexed),
      (''dag_tasks'', dag_tasks_indexed), (''dag_subtasks'', dag_subtasks_canceled),
      (''dag_dependencies'', dag_dependencies_indexed),
      (''schedule_plans'', schedule_plans_indexed),
      (''schedule_plan_items'', schedule_plan_items_indexed),
      (''execution_records'', execution_records_celery),
      (''worker_heartbeats'', worker_heartbeats_indexed),
      (''execution_revoke_events'', execution_revoke_events_indexed),
      (''worker_alerts'', worker_alerts_indexed)]"
section \<open>The migrations that create tables\<close>

lemmas column_defs = sa_column_def now_column_def

lemmas table_defs =
  nodes_table_def node_status_records_table_def dag_tasks_table_def dag_subtasks_table_def
  dag_dependencies_table_def schedule_plans_table_def schedule_plan_items_table_def
  execution_records_table_def worker_heartbeats_table_def execution_revoke_events_table_def
  worker_alerts_table_def

lemmas indexed_defs =
  nodes_indexed_def node_status_records_indexed_def dag_tasks_indexed_def
  dag_subtasks_indexed_def dag_dependencies_indexed_def schedule_plans_indexed_def
  schedule_plan_items_indexed_def execution_records_indexed_def worker_heartbeats_indexed_def
  execution_revoke_events_indexed_def worker_alerts_indexed_def

lemma no_indexes:
  "nodes_table\<lparr>tb_indexes := []\<rparr> = nodes_table"
  "node_status_records_table\<lparr>tb_indexes := []\<rparr> = node_status_records_table"
  "dag_tasks_table\<lparr>tb_indexes := []\<rparr> = dag_tasks_table"
  "dag_subtasks_table\<lparr>tb_indexes := []\<rparr> = dag_subtasks_table"
  "dag_dependencies_table\<lparr>tb_indexes := []\<rparr> = dag_dependencies_table"
  "schedule_plans_table\<lparr>tb_indexes := []\<rparr> = schedule_plans_table"
  "schedule_plan_items_table\<lparr>tb_indexes := []\<rparr> = schedule_plan_items_table"
  "execution_records_table\<lparr>tb_indexes := []\<rparr> = execution_records_table"
  "worker_heartbeats_table\<lparr>tb_indexes := []\<rparr> = worker_heartbeats_table"
  "execution_revoke_events_table\<lparr>tb_indexes := []\<rparr> = execution_revoke_events_table"
  "worker_alerts_table\<lparr>tb_indexes := []\<rparr> = worker_alerts_table"
  by (simp_all add: table_defs)

lemma created_0001:
  "upgrade_0001 =
        created ''nodes'' nodes_indexed @ created ''node_status_records''
  node_status_records_indexed"
  "downgrade_0001 =
        dropped ''node_status_records'' node_status_records_indexed @ dropped ''nodes''
  nodes_indexed"
  by (simp_all add: upgrade_0001_def downgrade_0001_def created_def dropped_def no_indexes
          nodes_indexed_def node_status_records_indexed_def)

lemma created_0002:
  "upgrade_0002 =
        created ''dag_tasks'' dag_tasks_indexed @ created ''dag_subtasks'' dag_subtasks_indexed @
  created ''dag_dependencies'' dag_dependencies_indexed"
  "downgrade_0002 =
        dropped ''dag_dependencies'' dag_dependencies_indexed @ dropped ''dag_subtasks''
  dag_subtasks_indexed @ dropped ''dag_tasks'' dag_tasks_indexed"
  by (simp_all add: upgrade_0002_def downgrade_0002_def created_def dropped_def no_indexes
          dag_tasks_indexed_def dag_subtasks_indexed_def dag_dependencies_indexed_def)

lemma created_0004:
  "upgrade_0004 =
        created ''schedule_plans'' schedule_plans_indexed @ created ''schedule_plan_items''
  schedule_plan_items_indexed"
  "downgrade_0004 =
        dropped ''schedule_plan_items'' schedule_plan_items_indexed @ dropped ''schedule_plans''
  schedule_plans_indexed"
  by (simp_all add: upgrade_0004_def downgrade_0004_def created_def dropped_def no_indexes
          schedule_plans_indexed_def schedule_plan_items_indexed_def)

lemma created_0005:
  "upgrade_0005 =
        created ''execution_records'' execution_records_indexed"
  "downgrade_0005 =
        dropped ''execution_records'' execution_records_indexed"
  by (simp_all add: upgrade_0005_def downgrade_0005_def created_def dropped_def no_indexes
          execution_records_indexed_def)

lemma created_0007:
  "upgrade_0007 =
        created ''worker_heartbeats'' worker_heartbeats_indexed"
  "downgrade_0007 =
        dropped ''worker_heartbeats'' worker_heartbeats_indexed"
  by (simp_all add: upgrade_0007_def downgrade_0007_def created_def dropped_def no_indexes
          worker_heartbeats_indexed_def)

lemma created_0009:
  "upgrade_0009 =
        created ''execution_revoke_events'' execution_revoke_events_indexed"
  "downgrade_0009 =
        dropped ''execution_revoke_events'' execution_revoke_events_indexed"
  by (simp_all add: upgrade_0009_def downgrade_0009_def created_def dropped_def no_indexes
          execution_revoke_events_indexed_def)

lemma created_0010:
  "upgrade_0010 =
        created ''worker_alerts'' worker_alerts_indexed"
  "downgrade_0010 =
        dropped ''worker_alerts'' worker_alerts_indexed"
  by (simp_all add: upgrade_0010_def downgrade_0010_def created_def dropped_def no_indexes
          worker_alerts_indexed_def)

lemmas altered_defs =
  dag_subtasks_constrained_def dag_subtasks_canceled_def execution_records_celery_def

lemma new_nodes:
  "new_table []
     ''nodes'' nodes_indexed"
  "unreferenced []
     ''nodes''"
  by code_simp+

lemma new_node_status_records:
  "new_table [(''nodes'', nodes_indexed)]
     ''node_status_records'' node_status_records_indexed"
  "unreferenced [(''nodes'', nodes_indexed)]
     ''node_status_records''"
  by code_simp+

lemma new_dag_tasks:
  "new_table schema_0001
     ''dag_tasks'' dag_tasks_indexed"
  "unreferenced schema_0001
     ''dag_tasks''"
  by code_simp+

lemma new_dag_subtasks:
  "new_table (schema_0001 @ [(''dag_tasks'', dag_tasks_indexed)])
     ''dag_subtasks'' dag_subtasks_indexed"
  "unreferenced (schema_0001 @ [(''dag_tasks'', dag_tasks_indexed)])
     ''dag_subtasks''"
  by code_simp+

lemma new_dag_dependencies:
  "new_table (schema_0001 @ [(''dag_tasks'', dag_tasks_indexed), (''dag_subtasks'', dag_subtasks_indexed)])
     ''dag_dependencies'' dag_dependencies_indexed"
  "unreferenced (schema_0001 @ [(''dag_tasks'', dag_tasks_indexed), (''dag_subtasks'', dag_subtasks_indexed)])
     ''dag_dependencies''"
  by code_simp+

lemma new_schedule_plans:
  "new_table schema_0003
     ''schedule_plans'' schedule_plans_indexed"
  "unreferenced schema_0003
     ''schedule_plans''"
  by code_simp+

lemma new_schedule_plan_items:
  "new_table (schema_0003 @ [(''schedule_plans'', schedule_plans_indexed)])
     ''schedule_plan_items'' schedule_plan_items_indexed"
  "unreferenced (schema_0003 @ [(''schedule_plans'', schedule_plans_indexed)])
     ''schedule_plan_items''"
  by code_simp+

lemma new_execution_records:
  "new_table schema_0004
     ''execution_records'' execution_records_indexed"
  "unreferenced schema_0004
     ''execution_records''"
  by code_simp+

lemma new_worker_heartbeats:
  "new_table schema_0006
     ''worker_heartbeats'' worker_heartbeats_indexed"
  "unreferenced schema_0006
     ''worker_heartbeats''"
  by code_simp+

lemma new_execution_revoke_events:
  "new_table schema_0008
     ''execution_revoke_events'' execution_revoke_events_indexed"
  "unreferenced schema_0008
     ''execution_revoke_events''"
  by code_simp+

lemma new_worker_alerts:
  "new_table schema_0009
     ''worker_alerts'' worker_alerts_indexed"
  "unreferenced schema_0009
     ''worker_alerts''"
  by code_simp+

lemma schema_steps:
  "[(''nodes'', nodes_indexed), (''node_status_records'', node_status_records_indexed)] =
     schema_0001"
  "schema_0001 @ [(''dag_tasks'', dag_tasks_indexed), (''dag_subtasks'', dag_subtasks_indexed), (''dag_dependencies'', dag_dependencies_indexed)] =
     schema_0002"
  "schema_0003 @ [(''schedule_plans'', schedule_plans_indexed), (''schedule_plan_items'', schedule_plan_items_indexed)] =
     schema_0004"
  "schema_0004 @ [(''execution_records'', execution_records_indexed)] =
     schema_0005"
  "schema_0006 @ [(''worker_heartbeats'', worker_heartbeats_indexed)] =
     schema_0007"
  "schema_0008 @ [(''execution_revoke_events'', execution_revoke_events_indexed)] =
     schema_0009"
  "schema_0009 @ [(''worker_alerts'', worker_alerts_indexed)] =
     schema_0010"
  by (simp_all add: schema_0001_def schema_0002_def schema_0003_def schema_0004_def schema_0005_def schema_0006_def schema_0007_def schema_0008_def schema_0009_def schema_0010_def)

lemmas table_runs [simp] =
  created_new [OF new_nodes(1)] dropped_new [OF new_nodes]
  created_new [OF new_node_status_records(1)] dropped_new [OF new_node_status_records]
  created_new [OF new_dag_tasks(1)] dropped_new [OF new_dag_tasks]
  created_new [OF new_dag_subtasks(1)] dropped_new [OF new_dag_subtasks]
  created_new [OF new_dag_dependencies(1)] dropped_new [OF new_dag_dependencies]
  created_new [OF new_schedule_plans(1)] dropped_new [OF new_schedule_plans]
  created_new [OF new_schedule_plan_items(1)] dropped_new [OF new_schedule_plan_items]
  created_new [OF new_execution_records(1)] dropped_new [OF new_execution_records]
  created_new [OF new_worker_heartbeats(1)] dropped_new [OF new_worker_heartbeats]
  created_new [OF new_execution_revoke_events(1)] dropped_new [OF new_execution_revoke_events]
  created_new [OF new_worker_alerts(1)] dropped_new [OF new_worker_alerts]
  run_ops_append

lemma runs_0001:
  "sd_tables s = [] \<Longrightarrow> run_ops upgrade_0001 s =
     Inr (s\<lparr>sd_tables := schema_0001,
       sd_rows := (sd_rows s)(''nodes'' := [], ''node_status_records'' := [])\<rparr>)"
  "sd_tables s = schema_0001 \<Longrightarrow> run_ops downgrade_0001 s =
     Inr (s\<lparr>sd_tables := [],
       sd_rows := (sd_rows s)(''node_status_records'' := [], ''nodes'' := [])\<rparr>)"
  by (simp_all add: created_0001 insert_table_def flip: schema_steps)

lemma runs_0002:
  "sd_tables s = schema_0001 \<Longrightarrow> run_ops upgrade_0002 s =
     Inr (s\<lparr>sd_tables := schema_0002,
       sd_rows := (sd_rows s)(''dag_tasks'' := [], ''dag_subtasks'' := [], ''dag_dependencies'' := [])\<rparr>)"
  "sd_tables s = schema_0002 \<Longrightarrow> run_ops downgrade_0002 s =
     Inr (s\<lparr>sd_tables := schema_0001,
       sd_rows := (sd_rows s)(''dag_dependencies'' := [], ''dag_subtasks'' := [], ''dag_tasks'' := [])\<rparr>)"
  by (simp_all add: created_0002 insert_table_def flip: schema_steps)

lemma runs_0004:
  "sd_tables s = schema_0003 \<Longrightarrow> run_ops upgrade_0004 s =
     Inr (s\<lparr>sd_tables := schema_0004,
       sd_rows := (sd_rows s)(''schedule_plans'' := [], ''schedule_plan_items'' := [])\<rparr>)"
  "sd_tables s = schema_0004 \<Longrightarrow> run_ops downgrade_0004 s =
     Inr (s\<lparr>sd_tables := schema_0003,
       sd_rows := (sd_rows s)(''schedule_plan_items'' := [], ''schedule_plans'' := [])\<rparr>)"
  by (simp_all add: created_0004 insert_table_def flip: schema_steps)

lemma runs_0005:
  "sd_tables s = schema_0004 \<Longrightarrow> run_ops upgrade_0005 s =
     Inr (s\<lparr>sd_tables := schema_0005,
       sd_rows := (sd_rows s)(''execution_records'' := [])\<rparr>)"
  "sd_tables s = schema_0005 \<Longrightarrow> run_ops downgrade_0005 s =
     Inr (s\<lparr>sd_tables := schema_0004,
       sd_rows := (sd_rows s)(''execution_records'' := [])\<rparr>)"
  by (simp_all add: created_0005 insert_table_def flip: schema_steps)

lemma runs_0007:
  "sd_tables s = schema_0006 \<Longrightarrow> run_ops upgrade_0007 s =
     Inr (s\<lparr>sd_tables := schema_0007,
       sd_rows := (sd_rows s)(''worker_heartbeats'' := [])\<rparr>)"
  "sd_tables s = schema_0007 \<Longrightarrow> run_ops downgrade_0007 s =
     Inr (s\<lparr>sd_tables := schema_0006,
       sd_rows := (sd_rows s)(''worker_heartbeats'' := [])\<rparr>)"
  by (simp_all add: created_0007 insert_table_def flip: schema_steps)

lemma runs_0009:
  "sd_tables s = schema_0008 \<Longrightarrow> run_ops upgrade_0009 s =
     Inr (s\<lparr>sd_tables := schema_0009,
       sd_rows := (sd_rows s)(''execution_revoke_events'' := [])\<rparr>)"
  "sd_tables s = schema_0009 \<Longrightarrow> run_ops downgrade_0009 s =
     Inr (s\<lparr>sd_tables := schema_0008,
       sd_rows := (sd_rows s)(''execution_revoke_events'' := [])\<rparr>)"
  by (simp_all add: created_0009 insert_table_def flip: schema_steps)

lemma runs_0010:
  "sd_tables s = schema_0009 \<Longrightarrow> run_ops upgrade_0010 s =
     Inr (s\<lparr>sd_tables := schema_0010,
       sd_rows := (sd_rows s)(''worker_alerts'' := [])\<rparr>)"
  "sd_tables s = schema_0010 \<Longrightarrow> run_ops downgrade_0010 s =
     Inr (s\<lparr>sd_tables := schema_0009,
       sd_rows := (sd_rows s)(''worker_alerts'' := [])\<rparr>)"
  by (simp_all add: created_0010 insert_table_def flip: schema_steps)

section \<open>The migrations that change tables\<close>

lemmas alter_defs =
  add_column_def create_check_constraint_def drop_server_default_def drop_check_constraint_def
  drop_column_def create_index_def drop_index_def with_table_def put_table_def default_value_def

lemma refers_to_column_update [simp]:
  "refers_to_column n c (m, t\<lparr>tb_checks := x\<rparr>) = refers_to_column n c (m, t)"
  "refers_to_column n c (m, t\<lparr>tb_indexes := y\<rparr>) = refers_to_column n c (m, t)"
  by (simp_all add: refers_to_column_def)

lemma relations_of_update [simp]:
  "relations_of (m, t\<lparr>tb_columns := x\<rparr>) = relations_of (m, t)"
  by (simp add: relations_of_def)

lemma dropped_name [simp]: "k \<notin> fst ` {x \<in> A. fst x \<noteq> k}"
  by auto

lemma dag_subtasks_names:
  "''execution_constraint'' \<notin> set (column_names dag_subtasks_indexed)"
  "''execution_constraint'' \<in> set (column_names dag_subtasks_constrained)"
  "''status'' \<in> set (column_names dag_subtasks_constrained)"
  "''status'' \<in> set (column_names dag_subtasks_canceled)"
  "''ck_dag_subtasks_execution_constraint'' \<notin> fst ` tb_checks dag_subtasks_indexed"
  "''ck_dag_subtasks_execution_constraint'' \<in> fst ` tb_checks dag_subtasks_constrained"
  "''ck_dag_subtasks_status'' \<in> fst ` tb_checks dag_subtasks_constrained"
  "''ck_dag_subtasks_status'' \<in> fst ` tb_checks dag_subtasks_canceled"
  by code_simp+

lemma dag_subtasks_altered:
  "map (\<lambda>x. if cl_name x = ''execution_constraint'' then x\<lparr>cl_server_default := None\<rparr> else x)
     (tb_columns dag_subtasks_indexed) = tb_columns dag_subtasks_indexed"
  "tb_columns dag_subtasks_indexed = tb_columns dag_subtasks_table"
  "tb_checks dag_subtasks_indexed = tb_checks dag_subtasks_table"
  "without_column ''execution_constraint''
     (dag_subtasks_constrained\<lparr>tb_checks := {x \<in> tb_checks dag_subtasks_constrained.
        fst x \<noteq> ''ck_dag_subtasks_execution_constraint''}\<rparr>) = dag_subtasks_indexed"
  "\<not> list_ex (refers_to_column ''dag_subtasks'' ''execution_constraint'') schema_0003"
  by code_simp+

lemma runs_0003:
  "sd_tables s = schema_0002 \<Longrightarrow> run_ops upgrade_0003 s =
     Inr (s\<lparr>sd_tables := schema_0003,
       sd_rows := (sd_rows s)(''dag_subtasks'' :=
         map (\<lambda>r. r(''execution_constraint'' \<mapsto> VStr ''OFFLOADABLE'')) (sd_rows s ''dag_subtasks''))\<rparr>)"
  "sd_tables s = schema_0003 \<Longrightarrow> run_ops downgrade_0003 s =
     Inr (s\<lparr>sd_tables := schema_0002,
       sd_rows := (sd_rows s)(''dag_subtasks'' :=
         map (\<lambda>r. r(''execution_constraint'' := None)) (sd_rows s ''dag_subtasks''))\<rparr>)"
proof -
  show "sd_tables s = schema_0002 \<Longrightarrow> run_ops upgrade_0003 s =
     Inr (s\<lparr>sd_tables := schema_0003,
       sd_rows := (sd_rows s)(''dag_subtasks'' :=
         map (\<lambda>r. r(''execution_constraint'' \<mapsto> VStr ''OFFLOADABLE'')) (sd_rows s ''dag_subtasks''))\<rparr>)"
    using dag_subtasks_names(1,5)
    by (simp add: upgrade_0003_def alter_defs schema_0002_def schema_0003_def column_names_def
        list_ex_iff dag_subtasks_altered(1))
      (simp add: dag_subtasks_constrained_def column_defs dag_subtasks_altered(2,3))
  show "sd_tables s = schema_0003 \<Longrightarrow> run_ops downgrade_0003 s =
     Inr (s\<lparr>sd_tables := schema_0002,
       sd_rows := (sd_rows s)(''dag_subtasks'' :=
         map (\<lambda>r. r(''execution_constraint'' := None)) (sd_rows s ''dag_subtasks''))\<rparr>)"
    using dag_subtasks_names(2,6) dag_subtasks_altered(5)
    by (simp add: downgrade_0003_def alter_defs schema_0002_def schema_0003_def column_names_def
        dag_subtasks_altered(4))
qed

lemma conforming_check:
  assumes "table_conforms rows n t" and "r \<in> set (rows n)" and "(k, e) \<in> tb_checks t"
  shows "check_value r e \<noteq> Some False"
  using assms unfolding table_conforms_def row_ok_def by blast

text \<open>The old list of subtask statuses, and the new one.\<close>

abbreviation "old_statuses \<equiv>
  [''WAITING'', ''READY'', ''DISPATCHED'', ''RUNNING'', ''SUCCESS'', ''FAILED'', ''RETRYING'']"

lemma dag_subtasks_status:
  "(''ck_dag_subtasks_status'', ColumnIn ''status'' old_statuses) \<in> tb_checks dag_subtasks_constrained"
  "(''ck_dag_subtasks_status'', ColumnIn ''status'' (old_statuses @ [''CANCELED''])) \<in>
     tb_checks dag_subtasks_canceled"
  "dag_subtasks_canceled
     \<lparr>tb_checks := insert (''ck_dag_subtasks_status'', ColumnIn ''status'' old_statuses)
        {x \<in> tb_checks dag_subtasks_canceled. fst x \<noteq> ''ck_dag_subtasks_status''}\<rparr> =
   dag_subtasks_constrained"
  by code_simp+

lemma runs_0006:
  "consistent s \<Longrightarrow> sd_tables s = schema_0005 \<Longrightarrow> run_ops upgrade_0006 s =
     Inr (s\<lparr>sd_tables := schema_0006\<rparr>)"
  "sd_tables s = schema_0006 \<Longrightarrow> run_ops downgrade_0006 s =
     (if \<exists>r \<in> set (sd_rows s ''dag_subtasks'').
           check_value r (ColumnIn ''status'' old_statuses) = Some False
      then Inl (CheckViolation ''ck_dag_subtasks_status'')
      else Inr (s\<lparr>sd_tables := schema_0005\<rparr>))"
proof -
  assume con: "consistent s" and s: "sd_tables s = schema_0005"
  have t: "map_of (sd_tables s) ''dag_subtasks'' = Some dag_subtasks_constrained"
    by (simp add: s schema_0005_def)
  have "check_value r (ColumnIn ''status'' (old_statuses @ [''CANCELED''])) \<noteq> Some False"
    if "r \<in> set (sd_rows s ''dag_subtasks'')" for r
  proof -
    have "check_value r (ColumnIn ''status'' old_statuses) \<noteq> Some False"
      by (rule conforming_check [OF consistentD(2) [OF con t] that dag_subtasks_status(1)])
    then show ?thesis by (auto split: option.splits sql_value.splits)
  qed
  then have ok: "\<not> list_ex (\<lambda>r. check_value r (ColumnIn ''status''
      [''WAITING'', ''READY'', ''DISPATCHED'', ''RUNNING'', ''SUCCESS'', ''FAILED'', ''RETRYING'',
       ''CANCELED'']) = Some False) (sd_rows s ''dag_subtasks'')"
    by (simp add: list_ex_iff del: check_value.simps)
  from s dag_subtasks_names(3,7) ok show "run_ops upgrade_0006 s = Inr (s\<lparr>sd_tables := schema_0006\<rparr>)"
    by (simp add: upgrade_0006_def alter_defs schema_0005_def schema_0006_def column_names_def
        dag_subtasks_canceled_def del: check_value.simps)
next
  assume "sd_tables s = schema_0006"
  with dag_subtasks_names(4,8) show "run_ops downgrade_0006 s =
     (if \<exists>r \<in> set (sd_rows s ''dag_subtasks'').
           check_value r (ColumnIn ''status'' old_statuses) = Some False
      then Inl (CheckViolation ''ck_dag_subtasks_status'')
      else Inr (s\<lparr>sd_tables := schema_0005\<rparr>))"
    by (simp add: downgrade_0006_def alter_defs schema_0005_def schema_0006_def column_names_def
        dag_subtasks_status(3) list_ex_iff del: check_value.simps)
qed

lemma execution_records_names:
  "''celery_task_id'' \<notin> set (column_names execution_records_indexed)"
  "''celery_task_id'' \<in> set (column_names execution_records_celery)"
  "''idx_execution_records_celery_task_id'' \<notin> set (concat (map relations_of schema_0007))"
  "''idx_execution_records_celery_task_id'' \<in> set (map fst (tb_indexes execution_records_celery))"
  by code_simp+

lemma execution_records_altered:
  "tb_columns execution_records_indexed = tb_columns execution_records_table"
  "without_column ''celery_task_id''
     (execution_records_celery\<lparr>tb_indexes :=
        filter (\<lambda>x. fst x \<noteq> ''idx_execution_records_celery_task_id'')
          (tb_indexes execution_records_celery)\<rparr>) = execution_records_indexed"
  "\<not> list_ex (refers_to_column ''execution_records'' ''celery_task_id'') schema_0008"
  by code_simp+

lemma runs_0008:
  "sd_tables s = schema_0007 \<Longrightarrow> run_ops upgrade_0008 s =
     Inr (s\<lparr>sd_tables := schema_0008,
       sd_rows := (sd_rows s)(''execution_records'' :=
         map (\<lambda>r. r(''celery_task_id'' \<mapsto> VNull)) (sd_rows s ''execution_records''))\<rparr>)"
  "sd_tables s = schema_0008 \<Longrightarrow> run_ops downgrade_0008 s =
     Inr (s\<lparr>sd_tables := schema_0007,
       sd_rows := (sd_rows s)(''execution_records'' :=
         map (\<lambda>r. r(''celery_task_id'' := None)) (sd_rows s ''execution_records''))\<rparr>)"
proof -
  show "sd_tables s = schema_0007 \<Longrightarrow> run_ops upgrade_0008 s =
     Inr (s\<lparr>sd_tables := schema_0008,
       sd_rows := (sd_rows s)(''execution_records'' :=
         map (\<lambda>r. r(''celery_task_id'' \<mapsto> VNull)) (sd_rows s ''execution_records''))\<rparr>)"
    using execution_records_names(1,3)
    by (simp add: upgrade_0008_def alter_defs schema_0007_def schema_0008_def column_names_def
        relation_names_def column_defs)
      (simp add: execution_records_celery_def execution_records_altered(1) column_defs)
  show "sd_tables s = schema_0008 \<Longrightarrow> run_ops downgrade_0008 s =
     Inr (s\<lparr>sd_tables := schema_0007,
       sd_rows := (sd_rows s)(''execution_records'' :=
         map (\<lambda>r. r(''celery_task_id'' := None)) (sd_rows s ''execution_records''))\<rparr>)"
    using execution_records_names(2,4) execution_records_altered(3)
    by (simp add: downgrade_0008_def alter_defs schema_0007_def schema_0008_def column_names_def
        execution_records_altered(2))
qed

section \<open>The chain of revisions, and what holds at each\<close>

definition upgrades_to :: "nat \<Rightarrow> ddl_op list" where
  "upgrades_to n = concat (map mg_upgrade (take n revisions))"

definition downgrades_from :: "nat \<Rightarrow> ddl_op list" where
  "downgrades_from n = concat (map mg_downgrade (rev (take n revisions)))"

text \<open>The tables that the first \<open>n\<close> upgrades build.\<close>

definition tables_at :: "nat \<Rightarrow> (string \<times> sql_table) list" where
  "tables_at n =
     (case run_ops (upgrades_to n) (empty_database 0) of Inl _ \<Rightarrow> [] | Inr s \<Rightarrow> sd_tables s)"

definition at_revision :: "nat \<Rightarrow> sql_database \<Rightarrow> bool" where
  "at_revision n s \<longleftrightarrow> consistent s \<and> sd_tables s = tables_at n"

text \<open>The rows of the old tables are there, with the old values in the old columns.\<close>

definition keeps_rows :: "sql_database \<Rightarrow> sql_database \<Rightarrow> bool" where
  "keeps_rows s s' \<longleftrightarrow>
     (\<forall>n t. map_of (sd_tables s) n = Some t \<longrightarrow>
        map (\<lambda>r. r |` set (column_names t)) (sd_rows s' n) = sd_rows s n)"

lemma revisions_linked:
  "mg_down_revision (revisions ! 0) = None"
  "n < 9 \<Longrightarrow> mg_down_revision (revisions ! Suc n) = Some (mg_revision (revisions ! n))"
proof -
  show "mg_down_revision (revisions ! 0) = None" by code_simp
  have "\<forall>n \<in> set [0..<9]. mg_down_revision (revisions ! Suc n) = Some (mg_revision (revisions ! n))"
    by code_simp
  then show "n < 9 \<Longrightarrow> mg_down_revision (revisions ! Suc n) = Some (mg_revision (revisions ! n))"
    by auto
qed

definition schemas :: "(string \<times> sql_table) list list" where
  "schemas = [[], schema_0001, schema_0002, schema_0003, schema_0004, schema_0005, schema_0006,
     schema_0007, schema_0008, schema_0009, schema_0010]"

lemma no_table_no_rows: "consistent s \<Longrightarrow> map_of (sd_tables s) n = None \<Longrightarrow> sd_rows s n = []"
  by (simp add: consistent_iff)

lemma conforming_dom:
  assumes "consistent s" and "map_of (sd_tables s) n = Some t" and "r \<in> set (sd_rows s n)"
  shows "dom r = set (column_names t)"
  using consistentD(2) [OF assms(1,2)] assms(3) by (auto simp: table_conforms_def row_ok_def)

lemma conforming_restrict:
  assumes "consistent s" and "map_of (sd_tables s) n = Some t"
  shows "map (\<lambda>r. r |` set (column_names t)) (sd_rows s n) = sd_rows s n"
proof (rule map_idI)
  fix r assume "r \<in> set (sd_rows s n)"
  then have "dom r = set (column_names t)" by (rule conforming_dom [OF assms])
  then show "r |` set (column_names t) = r" by (intro ext) (metis domIff restrict_map_def)
qed

text \<open>A migration that creates tables leaves the rows alone.\<close>

lemma keeps_rows_same:
  "consistent s \<Longrightarrow> (\<And>n. map_of (sd_tables s) n \<noteq> None \<Longrightarrow> sd_rows s' n = sd_rows s n) \<Longrightarrow>
     keeps_rows s s'"
  by (simp add: keeps_rows_def conforming_restrict)

definition migrates :: "migration \<Rightarrow> sql_database \<Rightarrow> (string \<times> sql_table) list \<Rightarrow> bool" where
  "migrates m s ts \<longleftrightarrow>
     (\<exists>s'. run_ops (mg_upgrade m) s = Inr s' \<and> consistent s' \<and> sd_tables s' = ts \<and>
        sd_now s' = sd_now s \<and> keeps_rows s s' \<and> run_ops (mg_downgrade m) s' = Inr s)"

lemma upgrades_keep_consistent:
  "list_all keeps_consistent upgrade_0001" "list_all keeps_consistent upgrade_0002"
  "list_all keeps_consistent upgrade_0003" "list_all keeps_consistent upgrade_0004"
  "list_all keeps_consistent upgrade_0005" "list_all keeps_consistent upgrade_0006"
  "list_all keeps_consistent upgrade_0007" "list_all keeps_consistent upgrade_0008"
  "list_all keeps_consistent upgrade_0009" "list_all keeps_consistent upgrade_0010"
  by (simp_all add: upgrade_0001_def upgrade_0002_def upgrade_0003_def upgrade_0004_def
      upgrade_0005_def upgrade_0006_def upgrade_0007_def upgrade_0008_def upgrade_0009_def
      upgrade_0010_def)

text \<open>A migration whose upgrade only adds tables, none of which has rows yet.\<close>

lemma migrates_creating:
  assumes con: "consistent s" and ups: "list_all keeps_consistent (mg_upgrade m)"
    and up: "run_ops (mg_upgrade m) s = Inr (s\<lparr>sd_tables := ts\<rparr>)"
    and down: "run_ops (mg_downgrade m) (s\<lparr>sd_tables := ts\<rparr>) = Inr s"
  shows "migrates m s ts"
  unfolding migrates_def
proof (intro exI conjI)
  show "consistent (s\<lparr>sd_tables := ts\<rparr>)" by (rule run_ops_consistent [OF ups con up])
  show "keeps_rows s (s\<lparr>sd_tables := ts\<rparr>)" by (rule keeps_rows_same [OF con]) simp
qed (use up down in simp_all)

lemma migrates_altering:
  assumes con: "consistent s" and t: "map_of (sd_tables s) n = Some t"
    and ups: "list_all keeps_consistent (mg_upgrade m)" and c: "c \<notin> set (column_names t)"
    and up: "run_ops (mg_upgrade m) s = Inr (s\<lparr>sd_tables := ts,
      sd_rows := (sd_rows s)(n := map (\<lambda>r. r(c \<mapsto> v)) (sd_rows s n))\<rparr>)"
    and down: "\<And>rows. run_ops (mg_downgrade m) (s\<lparr>sd_tables := ts, sd_rows := rows\<rparr>) =
      Inr (s\<lparr>sd_tables := sd_tables s, sd_rows := rows(n := map (\<lambda>r. r(c := None)) (rows n))\<rparr>)"
  shows "migrates m s ts"
proof -
  let ?rows = "(sd_rows s)(n := map (\<lambda>r. r(c \<mapsto> v)) (sd_rows s n))"
  have new: "r c = None" if "r \<in> set (sd_rows s n)" for r
    using conforming_dom [OF con t that] c by (auto simp: domIff)
  have "map (\<lambda>r. r(c := None)) (map (\<lambda>r. r(c \<mapsto> v)) (sd_rows s n)) = sd_rows s n"
    unfolding map_map by (rule map_idI) (use new in \<open>simp add: fun_upd_idem\<close>)
  then have undo: "?rows(n := map (\<lambda>r. r(c := None)) (?rows n)) = sd_rows s"
    by (auto simp: fun_upd_idem simp del: map_map)
  have "(r(c \<mapsto> v)) |` set (column_names t) = r |` set (column_names t)" for r
    using c by (auto simp: restrict_map_def)
  then have "keeps_rows s (s\<lparr>sd_tables := ts, sd_rows := ?rows\<rparr>)"
    using conforming_restrict [OF con] t by (auto simp: keeps_rows_def comp_def)
  moreover have "consistent (s\<lparr>sd_tables := ts, sd_rows := ?rows\<rparr>)"
    by (rule run_ops_consistent [OF ups con up])
  moreover have "run_ops (mg_downgrade m) (s\<lparr>sd_tables := ts, sd_rows := ?rows\<rparr>) = Inr s"
    unfolding down undo by simp
  ultimately show ?thesis unfolding migrates_def using up by (intro exI conjI) simp_all
qed

lemma migrates_0001:
  assumes con: "consistent s" and s: "sd_tables s = []"
  shows "migrates revision_0001 s schema_0001"
proof -
  have "sd_rows s ''nodes'' = []" "sd_rows s ''node_status_records'' = []"
    by (simp_all add: no_table_no_rows [OF con] s)
  then have rows: "(sd_rows s)(''nodes'' := [], ''node_status_records'' := []) = sd_rows s"
    by (simp add: fun_upd_idem)
  show ?thesis
    by (rule migrates_creating [OF con]) (use rows s in
      \<open>simp_all add: revision_0001_def upgrades_keep_consistent runs_0001 fun_upd_twist\<close>)
qed

lemma migrates_0002:
  assumes con: "consistent s" and s: "sd_tables s = schema_0001"
  shows "migrates revision_0002 s schema_0002"
proof -
  have "sd_rows s ''dag_tasks'' = []" "sd_rows s ''dag_subtasks'' = []" "sd_rows s ''dag_dependencies'' = []"
    by (simp_all add: no_table_no_rows [OF con] s schema_0001_def)
  then have rows: "(sd_rows s)(''dag_tasks'' := [], ''dag_subtasks'' := [], ''dag_dependencies'' := []) = sd_rows s"
    by (simp add: fun_upd_idem)
  show ?thesis
    by (rule migrates_creating [OF con]) (use rows s in
      \<open>simp_all add: revision_0002_def upgrades_keep_consistent runs_0002 fun_upd_twist\<close>)
qed

lemma migrates_0004:
  assumes con: "consistent s" and s: "sd_tables s = schema_0003"
  shows "migrates revision_0004 s schema_0004"
proof -
  have "sd_rows s ''schedule_plans'' = []" "sd_rows s ''schedule_plan_items'' = []"
    by (simp_all add: no_table_no_rows [OF con] s schema_0003_def)
  then have rows: "(sd_rows s)(''schedule_plans'' := [], ''schedule_plan_items'' := []) = sd_rows s"
    by (simp add: fun_upd_idem)
  show ?thesis
    by (rule migrates_creating [OF con]) (use rows s in
      \<open>simp_all add: revision_0004_def upgrades_keep_consistent runs_0004 fun_upd_twist\<close>)
qed

lemma migrates_0005:
  assumes con: "consistent s" and s: "sd_tables s = schema_0004"
  shows "migrates revision_0005 s schema_0005"
proof -
  have "sd_rows s ''execution_records'' = []"
    by (simp_all add: no_table_no_rows [OF con] s schema_0004_def)
  then have rows: "(sd_rows s)(''execution_records'' := []) = sd_rows s"
    by (simp add: fun_upd_idem)
  show ?thesis
    by (rule migrates_creating [OF con]) (use rows s in
      \<open>simp_all add: revision_0005_def upgrades_keep_consistent runs_0005 fun_upd_twist\<close>)
qed

lemma migrates_0007:
  assumes con: "consistent s" and s: "sd_tables s = schema_0006"
  shows "migrates revision_0007 s schema_0007"
proof -
  have "sd_rows s ''worker_heartbeats'' = []"
    by (simp_all add: no_table_no_rows [OF con] s schema_0006_def)
  then have rows: "(sd_rows s)(''worker_heartbeats'' := []) = sd_rows s"
    by (simp add: fun_upd_idem)
  show ?thesis
    by (rule migrates_creating [OF con]) (use rows s in
      \<open>simp_all add: revision_0007_def upgrades_keep_consistent runs_0007 fun_upd_twist\<close>)
qed

lemma migrates_0009:
  assumes con: "consistent s" and s: "sd_tables s = schema_0008"
  shows "migrates revision_0009 s schema_0009"
proof -
  have "sd_rows s ''execution_revoke_events'' = []"
    by (simp_all add: no_table_no_rows [OF con] s schema_0008_def)
  then have rows: "(sd_rows s)(''execution_revoke_events'' := []) = sd_rows s"
    by (simp add: fun_upd_idem)
  show ?thesis
    by (rule migrates_creating [OF con]) (use rows s in
      \<open>simp_all add: revision_0009_def upgrades_keep_consistent runs_0009 fun_upd_twist\<close>)
qed

lemma migrates_0010:
  assumes con: "consistent s" and s: "sd_tables s = schema_0009"
  shows "migrates revision_0010 s schema_0010"
proof -
  have "sd_rows s ''worker_alerts'' = []"
    by (simp_all add: no_table_no_rows [OF con] s schema_0009_def)
  then have rows: "(sd_rows s)(''worker_alerts'' := []) = sd_rows s"
    by (simp add: fun_upd_idem)
  show ?thesis
    by (rule migrates_creating [OF con]) (use rows s in
      \<open>simp_all add: revision_0010_def upgrades_keep_consistent runs_0010 fun_upd_twist\<close>)
qed

lemma migrates_0003:
  assumes con: "consistent s" and s: "sd_tables s = schema_0002"
  shows "migrates revision_0003 s schema_0003"
proof (rule migrates_altering [OF con])
  show "map_of (sd_tables s) ''dag_subtasks'' = Some dag_subtasks_indexed"
    by (simp add: s schema_0002_def)
qed (use s dag_subtasks_names(1) in
  \<open>simp_all add: revision_0003_def upgrades_keep_consistent runs_0003\<close>)

lemma migrates_0006:
  assumes con: "consistent s" and s: "sd_tables s = schema_0005"
  shows "migrates revision_0006 s schema_0006"
proof (rule migrates_creating [OF con])
  have t: "map_of (sd_tables s) ''dag_subtasks'' = Some dag_subtasks_constrained"
    by (simp add: s schema_0005_def)
  have "check_value r (ColumnIn ''status'' old_statuses) \<noteq> Some False"
    if "r \<in> set (sd_rows s ''dag_subtasks'')" for r
    by (rule conforming_check [OF consistentD(2) [OF con t] that dag_subtasks_status(1)])
  then show "run_ops (mg_downgrade revision_0006) (s\<lparr>sd_tables := schema_0006\<rparr>) = Inr s"
    by (simp add: revision_0006_def runs_0006(2) s [symmetric] del: check_value.simps)
qed (use s con in \<open>simp_all add: revision_0006_def upgrades_keep_consistent runs_0006(1)\<close>)

lemma migrates_0008:
  assumes con: "consistent s" and s: "sd_tables s = schema_0007"
  shows "migrates revision_0008 s schema_0008"
proof (rule migrates_altering [OF con])
  show "map_of (sd_tables s) ''execution_records'' = Some execution_records_indexed"
    by (simp add: s schema_0007_def)
qed (use s execution_records_names(1) in
  \<open>simp_all add: revision_0008_def upgrades_keep_consistent runs_0008\<close>)

lemma migrates_step:
  assumes "consistent s" and "sd_tables s = schemas ! n" and "n < length revisions"
  shows "migrates (revisions ! n) s (schemas ! Suc n)"
proof -
  from assms(3) have "n \<in> set [0..<10]" by (simp add: revisions_def)
  then have "n = 0 \<or> n = 1 \<or> n = 2 \<or> n = 3 \<or> n = 4 \<or> n = 5 \<or> n = 6 \<or> n = 7 \<or> n = 8 \<or> n = 9"
    by auto
  with assms(1,2) show ?thesis
    by (elim disjE)
      (simp_all add: revisions_def schemas_def migrates_0001 migrates_0002 migrates_0003 migrates_0004
        migrates_0005 migrates_0006 migrates_0007 migrates_0008 migrates_0009 migrates_0010)
qed

lemma upgrades_to_Suc:
  "n < length revisions \<Longrightarrow> upgrades_to (Suc n) = upgrades_to n @ mg_upgrade (revisions ! n)"
  by (simp add: upgrades_to_def take_Suc_conv_app_nth)

lemma downgrades_from_Suc:
  "n < length revisions \<Longrightarrow> downgrades_from (Suc n) = mg_downgrade (revisions ! n) @ downgrades_from n"
  by (simp add: downgrades_from_def take_Suc_conv_app_nth)

lemma upgrades_to_run:
  "n \<le> length revisions \<Longrightarrow> \<exists>s. run_ops (upgrades_to n) (empty_database now) = Inr s \<and>
     consistent s \<and> sd_tables s = schemas ! n \<and> sd_now s = now \<and>
     run_ops (downgrades_from n) s = Inr (empty_database now)"
proof (induction n)
  case 0
  then show ?case
    by (simp add: upgrades_to_def downgrades_from_def consistent_empty schemas_def)
      (simp add: empty_database_def)
next
  case (Suc n)
  then obtain s where s: "run_ops (upgrades_to n) (empty_database now) = Inr s" "consistent s"
      "sd_tables s = schemas ! n" "sd_now s = now"
      "run_ops (downgrades_from n) s = Inr (empty_database now)"
    by auto
  then obtain s' where s': "run_ops (mg_upgrade (revisions ! n)) s = Inr s'" "consistent s'"
      "sd_tables s' = schemas ! Suc n" "sd_now s' = sd_now s" "keeps_rows s s'"
      "run_ops (mg_downgrade (revisions ! n)) s' = Inr s"
    using migrates_step [of s n] Suc.prems by (auto simp: migrates_def)
  from Suc.prems have "n < length revisions" by simp
  with s s' show ?case
    by (intro exI [of _ s']) (simp add: upgrades_to_Suc downgrades_from_Suc run_ops_append)
qed

lemma tables_at_schemas: "n \<le> length revisions \<Longrightarrow> tables_at n = schemas ! n"
  using upgrades_to_run [of n 0] by (auto simp: tables_at_def)

lemma at_revision_schemas:
  "n \<le> length revisions \<Longrightarrow> at_revision n s \<longleftrightarrow> consistent s \<and> sd_tables s = schemas ! n"
  by (simp add: at_revision_def tables_at_schemas)

lemma migrates_between:
  assumes "n < length revisions" and "at_revision n s"
  obtains s' where "run_ops (mg_upgrade (revisions ! n)) s = Inr s'" and "at_revision (Suc n) s'"
    and "keeps_rows s s'" and "run_ops (mg_downgrade (revisions ! n)) s' = Inr s"
  using migrates_step [of s n] assms by (auto simp: at_revision_schemas migrates_def)

section \<open>Going back from the head revision\<close>

lemma status_violation:
  assumes con: "consistent s" and t: "map_of (sd_tables s) ''dag_subtasks'' = Some dag_subtasks_canceled"
    and r: "r \<in> set (sd_rows s ''dag_subtasks'')"
  shows "check_value r (ColumnIn ''status'' old_statuses) = Some False \<longleftrightarrow>
    r ''status'' = Some (VStr ''CANCELED'')"
proof -
  have "check_value r (ColumnIn ''status'' (old_statuses @ [''CANCELED''])) \<noteq> Some False"
    by (rule conforming_check [OF consistentD(2) [OF con t] r dag_subtasks_status(2)])
  then show ?thesis by (auto split: option.splits sql_value.splits)
qed

lemma downgrade_to_base_run:
  assumes con: "consistent s" and s: "sd_tables s = schema_0010"
  shows "run_ops (downgrades_from 10) s =
    (if \<exists>r \<in> set (sd_rows s ''dag_subtasks''). r ''status'' = Some (VStr ''CANCELED'')
     then Inl (CheckViolation ''ck_dag_subtasks_status'')
     else Inr (empty_database (sd_now s)))"
proof -
  have t: "map_of (sd_tables s) ''dag_subtasks'' = Some dag_subtasks_canceled"
    by (simp add: s schema_0010_def)
  have status: "(\<exists>r \<in> set (sd_rows s ''dag_subtasks'').
        check_value r (ColumnIn ''status'' old_statuses) = Some False) \<longleftrightarrow>
      (\<exists>r \<in> set (sd_rows s ''dag_subtasks''). r ''status'' = Some (VStr ''CANCELED''))"
    by (intro bex_cong refl status_violation [OF con t])
  have others: "sd_rows s n = []" if "n \<notin> set (map fst schema_0010)" for n
    using that by (intro no_table_no_rows [OF con]) (simp add: s map_of_eq_None_iff)
  have list: "downgrades_from 10 =
      downgrade_0010 @ downgrade_0009 @ downgrade_0008 @ downgrade_0007 @ downgrade_0006 @
      downgrade_0005 @ downgrade_0004 @ downgrade_0003 @ downgrade_0002 @ downgrade_0001"
    by (simp add: downgrades_from_def revisions_def revision_0001_def revision_0002_def
        revision_0003_def revision_0004_def revision_0005_def revision_0006_def revision_0007_def
        revision_0008_def revision_0009_def revision_0010_def)
  let ?emptied = "(sd_rows s)(''worker_alerts'' := [], ''execution_revoke_events'' := [],
      ''worker_heartbeats'' := [], ''execution_records'' := [], ''schedule_plan_items'' := [],
      ''schedule_plans'' := [], ''dag_dependencies'' := [], ''dag_subtasks'' := [],
      ''dag_tasks'' := [], ''node_status_records'' := [], ''nodes'' := [])"
  have rows: "?emptied = (\<lambda>_. [])"
    using others by (intro ext) (auto simp: schema_0010_def)
  have emptied: "s\<lparr>sd_tables := [], sd_rows := (\<lambda>_. [])\<rparr> = empty_database (sd_now s)"
    by (cases s) (simp add: empty_database_def)
  show ?thesis
    unfolding list
    using status rows emptied
    by (simp add: run_ops_append s runs_0001 runs_0002 runs_0003 runs_0004 runs_0005 runs_0006(2)
        runs_0007 runs_0008 runs_0009 runs_0010 del: check_value.simps)
qed

end
