(* ===== verification/Schema_Rows.thy ===== *)
theory Schema_Rows
  imports Migration_Runs
begin

text \<open>
  The rows of the application in the tables that the migrations build: each record of \<open>Models\<close>
  as the SQL row the ORM writes for it. The constraints of the migrated schema hold of the rows
  exactly when \<open>schema_ok\<close> does, so the predicate that the services are verified against is
  what the migrations declare.
\<close>

section \<open>Rows as the ORM writes them\<close>

text \<open>\<open>Mapped[T | None]\<close>\<close>

definition nullable :: "('a \<Rightarrow> sql_value) \<Rightarrow> 'a option \<Rightarrow> sql_value" where
  "nullable f x = (case x of None \<Rightarrow> VNull | Some v \<Rightarrow> f v)"

text \<open>The \<open>updated_at\<close> columns, which the records leave out, hold some instant.\<close>

definition node_row :: "datetime \<Rightarrow> node \<Rightarrow> sql_row" where
  "node_row updated_at r = map_of
     [(''id'', VUuid (nd_id r)), (''name'', VStr (nd_name r)),
      (''node_type'', VStr (node_type_value (nd_node_type r))),
      (''status'', VStr (node_status_value (nd_status r))),
      (''cpu_capacity'', VNum (nd_cpu_capacity r)),
      (''memory_capacity_mb'', VInt (nd_memory_capacity_mb r)),
      (''network_address'', nullable VStr (nd_network_address r)),
      (''description'', nullable VStr (nd_description r)),
      (''last_heartbeat_at'', nullable VTime (nd_last_heartbeat_at r)),
      (''created_at'', VTime (nd_created_at r)), (''updated_at'', VTime updated_at)]"

definition status_record_row :: "node_status_record \<Rightarrow> sql_row" where
  "status_record_row r = map_of
     [(''id'', VUuid (nr_id r)), (''node_id'', VUuid (nr_node_id r)),
      (''battery_level'', nullable VNum (nr_battery_level r)),
      (''cpu_usage'', VNum (nr_cpu_usage r)), (''memory_usage'', VNum (nr_memory_usage r)),
      (''network_quality'', nullable VNum (nr_network_quality r)),
      (''bandwidth_mbps'', nullable VNum (nr_bandwidth_mbps r)),
      (''latitude'', nullable VNum (nr_latitude r)), (''longitude'', nullable VNum (nr_longitude r)),
      (''current_load'', nullable VInt (nr_current_load r)),
      (''queue_length'', nullable VInt (nr_queue_length r)),
      (''reported_at'', VTime (nr_reported_at r)), (''created_at'', VTime (nr_created_at r))]"

definition task_row :: "datetime \<Rightarrow> dag_task \<Rightarrow> sql_row" where
  "task_row updated_at r = map_of
     [(''id'', VUuid (dt_id r)), (''name'', VStr (dt_name r)),
      (''status'', VStr (task_status_value (dt_status r))), (''priority'', VInt (dt_priority r)),
      (''deadline_at'', nullable VTime (dt_deadline_at r)),
      (''submitted_by'', nullable VStr (dt_submitted_by r)),
      (''failure_reason'', nullable VStr (dt_failure_reason r)),
      (''metadata'', VJson (dt_metadata r)), (''created_at'', VTime (dt_created_at r)),
      (''updated_at'', VTime updated_at), (''scheduled_at'', nullable VTime (dt_scheduled_at r)),
      (''started_at'', nullable VTime (dt_started_at r)),
      (''finished_at'', nullable VTime (dt_finished_at r))]"

definition subtask_row :: "datetime \<Rightarrow> dag_subtask \<Rightarrow> sql_row" where
  "subtask_row updated_at r = map_of
     [(''id'', VUuid (ds_id r)), (''task_id'', VUuid (ds_task_id r)),
      (''external_id'', VStr (ds_external_id r)), (''name'', VStr (ds_name r)),
      (''status'', VStr (subtask_status_value (ds_status r))),
      (''execution_constraint'', VStr (constraint_value (ds_execution_constraint r))),
      (''compute_load'', VNum (ds_compute_load r)),
      (''input_data_size_mb'', VNum (ds_input_data_size_mb r)),
      (''output_data_size_mb'', VNum (ds_output_data_size_mb r)),
      (''max_retries'', VInt (ds_max_retries r)), (''retry_count'', VInt (ds_retry_count r)),
      (''failure_reason'', nullable VStr (ds_failure_reason r)),
      (''metadata'', VJson (ds_metadata r)), (''created_at'', VTime (ds_created_at r)),
      (''updated_at'', VTime updated_at), (''started_at'', nullable VTime (ds_started_at r)),
      (''finished_at'', nullable VTime (ds_finished_at r))]"

definition dependency_row :: "dag_dependency \<Rightarrow> sql_row" where
  "dependency_row r = map_of
     [(''id'', VUuid (dd_id r)), (''task_id'', VUuid (dd_task_id r)),
      (''predecessor_subtask_id'', VUuid (dd_predecessor_subtask_id r)),
      (''successor_subtask_id'', VUuid (dd_successor_subtask_id r)),
      (''created_at'', VTime (dd_created_at r))]"

definition plan_row :: "schedule_plan \<Rightarrow> sql_row" where
  "plan_row r = map_of
     [(''id'', VUuid (sp_id r)), (''task_id'', VUuid (sp_task_id r)),
      (''strategy_name'', VStr (strategy_name_value (sp_strategy_name r))),
      (''status'', VStr (plan_status_value (sp_status r))),
      (''estimated_total_duration_ms'', nullable VInt (sp_estimated_total_duration_ms r)),
      (''estimated_total_energy'', nullable VNum (sp_estimated_total_energy r)),
      (''options'', VJson (sp_options r)), (''created_at'', VTime (sp_created_at r)),
      (''applied_at'', nullable VTime (sp_applied_at r))]"

definition plan_item_row :: "schedule_plan_item \<Rightarrow> sql_row" where
  "plan_item_row r = map_of
     [(''id'', VUuid (pi_id r)), (''plan_id'', VUuid (pi_plan_id r)),
      (''subtask_id'', VUuid (pi_subtask_id r)),
      (''assigned_node_id'', VUuid (pi_assigned_node_id r)),
      (''estimated_compute_duration_ms'', nullable VInt (pi_estimated_compute_duration_ms r)),
      (''estimated_transfer_duration_ms'', nullable VInt (pi_estimated_transfer_duration_ms r)),
      (''estimated_energy'', nullable VNum (pi_estimated_energy r)),
      (''decision_reason'', nullable VStr (pi_decision_reason r)),
      (''created_at'', VTime (pi_created_at r))]"

definition execution_row :: "datetime \<Rightarrow> execution_record \<Rightarrow> sql_row" where
  "execution_row updated_at r = map_of
     [(''id'', VUuid (er_id r)), (''task_id'', VUuid (er_task_id r)),
      (''subtask_id'', VUuid (er_subtask_id r)), (''node_id'', VUuid (er_node_id r)),
      (''plan_item_id'', nullable VUuid (er_plan_item_id r)), (''attempt'', VInt (er_attempt r)),
      (''status'', VStr (execution_status_value (er_status r))),
      (''started_at'', nullable VTime (er_started_at r)),
      (''finished_at'', nullable VTime (er_finished_at r)),
      (''duration_ms'', nullable VInt (er_duration_ms r)),
      (''output_summary'', nullable VStr (er_output_summary r)),
      (''failure_reason'', nullable VStr (er_failure_reason r)),
      (''celery_task_id'', nullable VStr (er_celery_task_id r)),
      (''created_at'', VTime (er_created_at r)), (''updated_at'', VTime updated_at)]"

definition revoke_event_row :: "execution_revoke_event \<Rightarrow> sql_row" where
  "revoke_event_row r = map_of
     [(''id'', VUuid (re_id r)), (''task_id'', VUuid (re_task_id r)),
      (''execution_id'', VUuid (re_execution_id r)),
      (''celery_task_id'', VStr (re_celery_task_id r)), (''success'', VBool (re_success r)),
      (''error_message'', nullable VStr (re_error_message r)),
      (''requested_at'', VTime (re_requested_at r)), (''created_at'', VTime (re_created_at r))]"

definition heartbeat_row :: "datetime \<Rightarrow> worker_heartbeat \<Rightarrow> sql_row" where
  "heartbeat_row updated_at r = map_of
     [(''id'', VUuid (wh_id r)), (''worker_name'', VStr (wh_worker_name r)),
      (''hostname'', VStr (wh_hostname r)), (''process_id'', nullable VInt (wh_process_id r)),
      (''status'', VStr (worker_status_value (wh_status r))),
      (''current_execution_id'', nullable VUuid (wh_current_execution_id r)),
      (''last_seen_at'', VTime (wh_last_seen_at r)), (''created_at'', VTime (wh_created_at r)),
      (''updated_at'', VTime updated_at)]"

definition alert_row :: "worker_alert \<Rightarrow> sql_row" where
  "alert_row r = map_of
     [(''id'', VUuid (wa_id r)),
      (''alert_type'', VStr (worker_alert_type_value (wa_alert_type r))),
      (''severity'', VStr (alert_severity_value (wa_severity r))),
      (''worker_name'', nullable VStr (wa_worker_name r)),
      (''execution_id'', nullable VUuid (wa_execution_id r)),
      (''celery_task_id'', nullable VStr (wa_celery_task_id r)),
      (''message'', VStr (wa_message r)), (''details'', VJson (wa_details r)),
      (''created_at'', VTime (wa_created_at r))]"

text \<open>The \<open>updated_at\<close> of a row is a function of its table and identifier.\<close>

definition rows_of :: "(string \<Rightarrow> uuid \<Rightarrow> datetime) \<Rightarrow> db \<Rightarrow> string \<Rightarrow> sql_row list" where
  "rows_of updated_at d = (\<lambda>_. [])
     (''nodes'' := map (\<lambda>r. node_row (updated_at ''nodes'' (nd_id r)) r) (nodes d),
      ''node_status_records'' := map status_record_row (node_status_records d),
      ''dag_tasks'' := map (\<lambda>r. task_row (updated_at ''dag_tasks'' (dt_id r)) r) (dag_tasks d),
      ''dag_subtasks'' :=
        map (\<lambda>r. subtask_row (updated_at ''dag_subtasks'' (ds_id r)) r) (dag_subtasks d),
      ''dag_dependencies'' := map dependency_row (dag_dependencies d),
      ''schedule_plans'' := map plan_row (schedule_plans d),
      ''schedule_plan_items'' := map plan_item_row (schedule_plan_items d),
      ''execution_records'' :=
        map (\<lambda>r. execution_row (updated_at ''execution_records'' (er_id r)) r) (execution_records d),
      ''execution_revoke_events'' := map revoke_event_row (execution_revoke_events d),
      ''worker_heartbeats'' :=
        map (\<lambda>r. heartbeat_row (updated_at ''worker_heartbeats'' (wh_id r)) r) (worker_heartbeats d),
      ''worker_alerts'' := map alert_row (worker_alerts d))"

definition stored ::
  "(string \<Rightarrow> uuid \<Rightarrow> datetime) \<Rightarrow> datetime \<Rightarrow> db \<Rightarrow> sql_database" where
  "stored updated_at now d =
     \<lparr>sd_now = now, sd_tables = tables_at (length revisions), sd_rows = rows_of updated_at d\<rparr>"

section \<open>A row conforms to its table when the conditions of the schema hold\<close>

lemma column_ok_nullable:
  "\<forall>v. f v \<noteq> VNull \<and> has_type (f v) t \<Longrightarrow>
     column_ok \<lparr>cl_name = n, cl_type = t, cl_nullable = True, cl_server_default = z\<rparr>
       (Some (nullable f x))"
proof (cases x)
  case (Some v)
  assume "\<forall>v. f v \<noteq> VNull \<and> has_type (f v) t"
  then have "f v \<noteq> VNull" "has_type (f v) t" by simp_all
  with Some show ?thesis by (cases "f v") (simp_all add: nullable_def)
qed (simp add: nullable_def)

lemma null_or_number:
  "sql_or (Some (nullable VNum x = VNull)) (map_option p (sql_number (Some (nullable VNum x)))) =
     Some False \<longleftrightarrow> \<not> opt_all p x"
  "sql_or (Some (nullable VInt y = VNull)) (map_option p (sql_number (Some (nullable VInt y)))) =
     Some False \<longleftrightarrow> \<not> opt_all (\<lambda>n. p (Fin (of_int n))) y"
  by (cases x; simp add: nullable_def sql_or_def) (cases y; simp add: nullable_def sql_or_def)

lemma int_bounds:
  "f_le (Fin 0) (Fin (of_int n)) \<longleftrightarrow> 0 \<le> n" "f_le (Fin 1) (Fin (of_int n)) \<longleftrightarrow> 1 \<le> n"
  "f_less (Fin 0) (Fin (of_int n)) \<longleftrightarrow> 0 < n"
  by (auto simp: f_le_def f_eq_def)

text \<open>The lists in the \<open>CHECK\<close> constraints name exactly the members of the enumerations.\<close>

lemma members:
  "node_type_value nt \<in> set [''UAV'', ''EDGE'']"
  "node_status_value ns \<in> set [''ONLINE'', ''BUSY'', ''OFFLINE'']"
  "task_status_value ts \<in> set [''PENDING'', ''SCHEDULED'', ''RUNNING'', ''SUCCESS'', ''FAILED'', ''CANCELED'']"
  "subtask_status_value ss \<in> set [''WAITING'', ''READY'', ''DISPATCHED'', ''RUNNING'', ''SUCCESS'',
     ''FAILED'', ''RETRYING'', ''CANCELED'']"
  "constraint_value c \<in> set [''OFFLOADABLE'', ''LOCAL_ONLY'', ''EDGE_ONLY'']"
  "strategy_name_value sn \<in> set [''local_only'', ''random_offload'', ''greedy'']"
  "plan_status_value ps \<in> set [''GENERATED'', ''APPLIED'', ''CANCELED'']"
  "execution_status_value es \<in> set [''RUNNING'', ''SUCCESS'', ''FAILED'', ''TIMEOUT'', ''CANCELED'']"
  "worker_status_value ws \<in> set [''ONLINE'', ''BUSY'']"
  "alert_severity_value sv \<in> set [''WARNING'', ''ERROR'']"
  "worker_alert_type_value wt = ''CELERY_RETRY_EXHAUSTED''"
  by (cases nt, simp_all) (cases ns, simp_all add: value_simps, cases ts, simp_all add: value_simps,
    cases ss, simp_all add: value_simps, cases c, simp_all, cases sn, simp_all, cases ps,
    simp_all add: value_simps, cases es, simp_all add: value_simps, cases ws, simp_all, cases sv,
    simp_all, cases wt, simp_all)

lemmas row_evaluation =
  row_ok_def dom_map_of_conv_image_fst column_names_def column_defs f_between_def [abs_def]
  column_ok_nullable null_or_number int_bounds members [simplified]

lemma node_row_ok:
  "row_ok nodes_indexed (node_row u r) \<longleftrightarrow>
     f_less (Fin 0) (nd_cpu_capacity r) \<and> 0 < nd_memory_capacity_mb r"
  by (auto simp: row_evaluation nodes_indexed_def nodes_table_def node_row_def)

lemma status_record_row_ok:
  "row_ok node_status_records_indexed (status_record_row r) \<longleftrightarrow>
     f_between 0 100 (nr_cpu_usage r) \<and> f_between 0 100 (nr_memory_usage r) \<and>
     opt_all (f_between 0 100) (nr_battery_level r) \<and>
     opt_all (f_between 0 100) (nr_network_quality r) \<and> opt_all (f_le (Fin 0)) (nr_bandwidth_mbps r)"
  by (auto simp: row_evaluation node_status_records_indexed_def node_status_records_table_def
      status_record_row_def)

lemma task_row_ok: "row_ok dag_tasks_indexed (task_row u r) \<longleftrightarrow> 0 \<le> dt_priority r"
  by (auto simp: row_evaluation dag_tasks_indexed_def dag_tasks_table_def task_row_def)

lemma dag_subtasks_canceled_parts:
  "tb_columns dag_subtasks_canceled =
     tb_columns dag_subtasks_table @ [sa_column ''execution_constraint'' (SaString 16) False]"
  "tb_checks dag_subtasks_canceled =
     {(''ck_dag_subtasks_status'', ColumnIn ''status'' [''WAITING'', ''READY'', ''DISPATCHED'',
        ''RUNNING'', ''SUCCESS'', ''FAILED'', ''RETRYING'', ''CANCELED'']),
      (''ck_dag_subtasks_compute_load_positive'', ColumnGreater ''compute_load'' 0),
      (''ck_dag_subtasks_input_non_negative'', ColumnAtLeast ''input_data_size_mb'' 0),
      (''ck_dag_subtasks_output_non_negative'', ColumnAtLeast ''output_data_size_mb'' 0),
      (''ck_dag_subtasks_max_retries_non_negative'', ColumnAtLeast ''max_retries'' 0),
      (''ck_dag_subtasks_retry_count_non_negative'', ColumnAtLeast ''retry_count'' 0),
      (''ck_dag_subtasks_execution_constraint'',
        ColumnIn ''execution_constraint'' [''OFFLOADABLE'', ''LOCAL_ONLY'', ''EDGE_ONLY''])}"
  by code_simp+

lemma subtask_row_ok:
  "row_ok dag_subtasks_canceled (subtask_row u r) \<longleftrightarrow>
     f_less (Fin 0) (ds_compute_load r) \<and> f_le (Fin 0) (ds_input_data_size_mb r) \<and>
     f_le (Fin 0) (ds_output_data_size_mb r) \<and> 0 \<le> ds_max_retries r \<and> 0 \<le> ds_retry_count r"
  by (auto simp: row_evaluation dag_subtasks_canceled_parts dag_subtasks_table_def subtask_row_def)

lemma dependency_row_ok:
  "row_ok dag_dependencies_indexed (dependency_row r) \<longleftrightarrow>
     dd_predecessor_subtask_id r \<noteq> dd_successor_subtask_id r"
  by (auto simp: row_evaluation dag_dependencies_indexed_def dag_dependencies_table_def
      dependency_row_def)

lemma plan_row_ok:
  "row_ok schedule_plans_indexed (plan_row r) \<longleftrightarrow>
     opt_all (\<lambda>n. 0 \<le> n) (sp_estimated_total_duration_ms r) \<and>
     opt_all (f_le (Fin 0)) (sp_estimated_total_energy r)"
  by (auto simp: row_evaluation schedule_plans_indexed_def schedule_plans_table_def plan_row_def
     )

lemma plan_item_row_ok:
  "row_ok schedule_plan_items_indexed (plan_item_row r) \<longleftrightarrow>
     opt_all (\<lambda>n. 0 \<le> n) (pi_estimated_compute_duration_ms r) \<and>
     opt_all (\<lambda>n. 0 \<le> n) (pi_estimated_transfer_duration_ms r) \<and>
     opt_all (f_le (Fin 0)) (pi_estimated_energy r)"
  by (auto simp: row_evaluation schedule_plan_items_indexed_def schedule_plan_items_table_def
      plan_item_row_def)

lemma execution_row_ok:
  "row_ok execution_records_celery (execution_row u r) \<longleftrightarrow>
     1 \<le> er_attempt r \<and> opt_all (\<lambda>n. 0 \<le> n) (er_duration_ms r)"
  by (auto simp: row_evaluation execution_records_celery_def execution_records_indexed_def
      execution_records_table_def execution_row_def)

lemma revoke_event_row_ok: "row_ok execution_revoke_events_indexed (revoke_event_row r)"
  by (auto simp: row_evaluation execution_revoke_events_indexed_def
      execution_revoke_events_table_def revoke_event_row_def)

lemma heartbeat_row_ok: "row_ok worker_heartbeats_indexed (heartbeat_row u r)"
  by (auto simp: row_evaluation worker_heartbeats_indexed_def worker_heartbeats_table_def
      heartbeat_row_def)

lemma alert_row_ok: "row_ok worker_alerts_indexed (alert_row r)"
  by (auto simp: row_evaluation worker_alerts_indexed_def worker_alerts_table_def alert_row_def
     )

section \<open>Keys and references\<close>

lemma distinct_keys:
  "(\<And>r r'. k r = k r' \<longleftrightarrow> f r = f r') \<Longrightarrow> distinct (map k rs) \<longleftrightarrow> distinct (map f rs)"
  by (auto simp: distinct_map inj_on_def)

lemma no_nulls: "(\<And>k. k \<in> set ks \<Longrightarrow> no_null k) \<Longrightarrow> filter no_null ks = ks"
  by (simp add: filter_id_conv)

lemma table_keys:
  "tb_primary_key nodes_indexed = [''id'']"
  "tb_uniques nodes_indexed = [(''uq_nodes_name'', [''name''])]"
  "tb_foreign_keys nodes_indexed = []"
  "tb_primary_key node_status_records_indexed = [''id'']"
  "tb_uniques node_status_records_indexed = []"
  "tb_foreign_keys node_status_records_indexed = [(''node_id'', ''nodes'', ''id'')]"
  "tb_primary_key dag_tasks_indexed = [''id'']"
  "tb_uniques dag_tasks_indexed = []" "tb_foreign_keys dag_tasks_indexed = []"
  "tb_primary_key dag_subtasks_canceled = [''id'']"
  "tb_uniques dag_subtasks_canceled = [(''uq_dag_subtasks_task_external'', [''task_id'', ''external_id''])]"
  "tb_foreign_keys dag_subtasks_canceled = [(''task_id'', ''dag_tasks'', ''id'')]"
  "tb_primary_key dag_dependencies_indexed = [''id'']"
  "tb_uniques dag_dependencies_indexed = [(''uq_dag_dependencies_task_edge'',
     [''task_id'', ''predecessor_subtask_id'', ''successor_subtask_id''])]"
  "tb_foreign_keys dag_dependencies_indexed =
     [(''predecessor_subtask_id'', ''dag_subtasks'', ''id''),
      (''successor_subtask_id'', ''dag_subtasks'', ''id''), (''task_id'', ''dag_tasks'', ''id'')]"
  "tb_primary_key schedule_plans_indexed = [''id'']"
  "tb_uniques schedule_plans_indexed = []"
  "tb_foreign_keys schedule_plans_indexed = [(''task_id'', ''dag_tasks'', ''id'')]"
  "tb_primary_key schedule_plan_items_indexed = [''id'']"
  "tb_uniques schedule_plan_items_indexed =
     [(''uq_schedule_items_plan_subtask'', [''plan_id'', ''subtask_id''])]"
  "tb_foreign_keys schedule_plan_items_indexed =
     [(''assigned_node_id'', ''nodes'', ''id''), (''plan_id'', ''schedule_plans'', ''id''),
      (''subtask_id'', ''dag_subtasks'', ''id'')]"
  "tb_primary_key execution_records_celery = [''id'']"
  "tb_uniques execution_records_celery = [(''uq_execution_subtask_attempt'', [''subtask_id'', ''attempt''])]"
  "tb_foreign_keys execution_records_celery =
     [(''node_id'', ''nodes'', ''id''), (''plan_item_id'', ''schedule_plan_items'', ''id''),
      (''subtask_id'', ''dag_subtasks'', ''id''), (''task_id'', ''dag_tasks'', ''id'')]"
  "tb_primary_key execution_revoke_events_indexed = [''id'']"
  "tb_uniques execution_revoke_events_indexed = []"
  "tb_foreign_keys execution_revoke_events_indexed =
     [(''execution_id'', ''execution_records'', ''id''), (''task_id'', ''dag_tasks'', ''id'')]"
  "tb_primary_key worker_heartbeats_indexed = [''id'']"
  "tb_uniques worker_heartbeats_indexed = [(''uq_worker_heartbeats_worker_name'', [''worker_name''])]"
  "tb_foreign_keys worker_heartbeats_indexed = []"
  "tb_primary_key worker_alerts_indexed = [''id'']"
  "tb_uniques worker_alerts_indexed = []" "tb_foreign_keys worker_alerts_indexed = []"
  by code_simp+

lemma row_columns:
  "node_row u n ''id'' = Some (VUuid (nd_id n))" "node_row u n ''name'' = Some (VStr (nd_name n))"
  "status_record_row nr ''id'' = Some (VUuid (nr_id nr))"
  "status_record_row nr ''node_id'' = Some (VUuid (nr_node_id nr))"
  "task_row u t ''id'' = Some (VUuid (dt_id t))"
  "subtask_row u s ''id'' = Some (VUuid (ds_id s))"
  "subtask_row u s ''task_id'' = Some (VUuid (ds_task_id s))"
  "subtask_row u s ''external_id'' = Some (VStr (ds_external_id s))"
  "subtask_row u s ''status'' = Some (VStr (subtask_status_value (ds_status s)))"
  "dependency_row e ''id'' = Some (VUuid (dd_id e))"
  "dependency_row e ''task_id'' = Some (VUuid (dd_task_id e))"
  "dependency_row e ''predecessor_subtask_id'' = Some (VUuid (dd_predecessor_subtask_id e))"
  "dependency_row e ''successor_subtask_id'' = Some (VUuid (dd_successor_subtask_id e))"
  "plan_row p ''id'' = Some (VUuid (sp_id p))" "plan_row p ''task_id'' = Some (VUuid (sp_task_id p))"
  "plan_item_row i ''id'' = Some (VUuid (pi_id i))"
  "plan_item_row i ''plan_id'' = Some (VUuid (pi_plan_id i))"
  "plan_item_row i ''subtask_id'' = Some (VUuid (pi_subtask_id i))"
  "plan_item_row i ''assigned_node_id'' = Some (VUuid (pi_assigned_node_id i))"
  "execution_row u x ''id'' = Some (VUuid (er_id x))"
  "execution_row u x ''task_id'' = Some (VUuid (er_task_id x))"
  "execution_row u x ''subtask_id'' = Some (VUuid (er_subtask_id x))"
  "execution_row u x ''node_id'' = Some (VUuid (er_node_id x))"
  "execution_row u x ''plan_item_id'' = Some (nullable VUuid (er_plan_item_id x))"
  "execution_row u x ''attempt'' = Some (VInt (er_attempt x))"
  "revoke_event_row v ''id'' = Some (VUuid (re_id v))"
  "revoke_event_row v ''task_id'' = Some (VUuid (re_task_id v))"
  "revoke_event_row v ''execution_id'' = Some (VUuid (re_execution_id v))"
  "heartbeat_row u h ''id'' = Some (VUuid (wh_id h))"
  "heartbeat_row u h ''worker_name'' = Some (VStr (wh_worker_name h))"
  "alert_row a ''id'' = Some (VUuid (wa_id a))"
  by (simp_all add: node_row_def status_record_row_def task_row_def subtask_row_def
      dependency_row_def plan_row_def plan_item_row_def execution_row_def revoke_event_row_def
      heartbeat_row_def alert_row_def)

lemma rows_of_tables:
  "rows_of u d ''nodes'' = map (\<lambda>r. node_row (u ''nodes'' (nd_id r)) r) (nodes d)"
  "rows_of u d ''node_status_records'' = map status_record_row (node_status_records d)"
  "rows_of u d ''dag_tasks'' = map (\<lambda>r. task_row (u ''dag_tasks'' (dt_id r)) r) (dag_tasks d)"
  "rows_of u d ''dag_subtasks'' =
     map (\<lambda>r. subtask_row (u ''dag_subtasks'' (ds_id r)) r) (dag_subtasks d)"
  "rows_of u d ''dag_dependencies'' = map dependency_row (dag_dependencies d)"
  "rows_of u d ''schedule_plans'' = map plan_row (schedule_plans d)"
  "rows_of u d ''schedule_plan_items'' = map plan_item_row (schedule_plan_items d)"
  "rows_of u d ''execution_records'' =
     map (\<lambda>r. execution_row (u ''execution_records'' (er_id r)) r) (execution_records d)"
  "rows_of u d ''execution_revoke_events'' = map revoke_event_row (execution_revoke_events d)"
  "rows_of u d ''worker_heartbeats'' =
     map (\<lambda>r. heartbeat_row (u ''worker_heartbeats'' (wh_id r)) r) (worker_heartbeats d)"
  "rows_of u d ''worker_alerts'' = map alert_row (worker_alerts d)"
  by (simp_all add: rows_of_def)

lemma reference:
  "(\<exists>r \<in> A. f r = x) \<longleftrightarrow> x \<in> f ` A"
  "Some (VUuid i) \<in> (\<lambda>x. Some (VUuid (g x))) ` B \<longleftrightarrow> i \<in> g ` B"
  by auto

section \<open>Table by table\<close>

lemmas conformity =
  table_conforms_def table_keys rows_of_tables row_columns row_key_def comp_def refers_def no_null_def
  list_all_iff ball_conj_distrib reference image_image

lemma nodes_conform: "table_conforms (rows_of u d) ''nodes'' nodes_indexed \<longleftrightarrow> nodes_ok (nodes d)"
  by (auto simp: conformity nodes_ok_def node_row_ok no_nulls distinct_map inj_on_def)

lemma status_records_conform:
  "table_conforms (rows_of u d) ''node_status_records'' node_status_records_indexed \<longleftrightarrow>
     node_status_records_ok (nodes d) (node_status_records d)"
  by (auto simp: conformity node_status_records_ok_def status_record_row_ok distinct_map inj_on_def)

lemma tasks_conform:
  "table_conforms (rows_of u d) ''dag_tasks'' dag_tasks_indexed \<longleftrightarrow> dag_tasks_ok (dag_tasks d)"
  by (auto simp: conformity dag_tasks_ok_def task_row_ok distinct_map inj_on_def)

lemma subtasks_conform:
  "table_conforms (rows_of u d) ''dag_subtasks'' dag_subtasks_canceled \<longleftrightarrow>
     dag_subtasks_ok (dag_tasks d) (dag_subtasks d)"
  by (auto simp: conformity dag_subtasks_ok_def subtask_row_ok no_nulls distinct_map inj_on_def)

lemma dependencies_conform:
  "table_conforms (rows_of u d) ''dag_dependencies'' dag_dependencies_indexed \<longleftrightarrow>
     dag_dependencies_ok (dag_tasks d) (dag_subtasks d) (dag_dependencies d)"
  by (auto simp: conformity dag_dependencies_ok_def dependency_row_ok no_nulls distinct_map inj_on_def)

lemma plans_conform:
  "table_conforms (rows_of u d) ''schedule_plans'' schedule_plans_indexed \<longleftrightarrow>
     schedule_plans_ok (dag_tasks d) (schedule_plans d)"
  by (auto simp: conformity schedule_plans_ok_def plan_row_ok distinct_map inj_on_def)

lemma plan_items_conform:
  "table_conforms (rows_of u d) ''schedule_plan_items'' schedule_plan_items_indexed \<longleftrightarrow>
     schedule_plan_items_ok (schedule_plans d) (dag_subtasks d) (nodes d) (schedule_plan_items d)"
  by (auto simp: conformity schedule_plan_items_ok_def plan_item_row_ok no_nulls distinct_map inj_on_def)

lemma executions_conform:
  "table_conforms (rows_of u d) ''execution_records'' execution_records_celery \<longleftrightarrow>
     execution_records_ok (dag_tasks d) (dag_subtasks d) (nodes d) (schedule_plan_items d)
       (execution_records d)"
  by (auto simp: conformity execution_records_ok_def execution_row_ok no_nulls distinct_map inj_on_def
      nullable_def opt_all_def split: option.splits)

lemma revoke_events_conform:
  "table_conforms (rows_of u d) ''execution_revoke_events'' execution_revoke_events_indexed \<longleftrightarrow>
     execution_revoke_events_ok (dag_tasks d) (execution_records d) (execution_revoke_events d)"
  by (auto simp: conformity execution_revoke_events_ok_def revoke_event_row_ok distinct_map inj_on_def)

lemma heartbeats_conform:
  "table_conforms (rows_of u d) ''worker_heartbeats'' worker_heartbeats_indexed \<longleftrightarrow>
     worker_heartbeats_ok (worker_heartbeats d)"
  by (auto simp: conformity worker_heartbeats_ok_def heartbeat_row_ok no_nulls distinct_map inj_on_def)

lemma alerts_conform:
  "table_conforms (rows_of u d) ''worker_alerts'' worker_alerts_indexed \<longleftrightarrow>
     worker_alerts_ok (worker_alerts d)"
  by (auto simp: conformity worker_alerts_ok_def alert_row_ok distinct_map inj_on_def)

section \<open>The schema of the services is the schema of the migrations\<close>

lemma stored_tables: "sd_tables (stored u now d) = schema_0010"
  by (simp add: stored_def tables_at_schemas) (simp add: revisions_def schemas_def)

lemma head_well_formed:
  "distinct (map fst schema_0010)"
  "(n, t) \<in> set schema_0010 \<Longrightarrow> table_well_formed schema_0010 t"
proof -
  from upgrades_to_run [of "length revisions" 0] obtain s where "consistent s"
    "sd_tables s = schemas ! length revisions" by auto
  then have "consistent s" "sd_tables s = schema_0010" by (simp_all add: revisions_def schemas_def)
  then show "distinct (map fst schema_0010)"
    "(n, t) \<in> set schema_0010 \<Longrightarrow> table_well_formed schema_0010 t"
    by (auto simp: consistent_def)
qed

lemma stored_consistent: "consistent (stored u now d) \<longleftrightarrow> schema_ok d"
proof -
  have rows: "sd_rows (stored u now d) = rows_of u d" by (simp add: stored_def)
  have none: "rows_of u d n = []" if "map_of schema_0010 n = None" for n
    using that by (auto simp: schema_0010_def rows_of_def split: if_splits)
  have "consistent (stored u now d) \<longleftrightarrow>
      (\<forall>(n, t) \<in> set schema_0010. table_conforms (rows_of u d) n t)"
    using head_well_formed none by (auto simp: consistent_def stored_tables rows)
  also have "\<dots> \<longleftrightarrow> schema_ok d"
    by (simp add: schema_0010_def nodes_conform status_records_conform tasks_conform
        subtasks_conform dependencies_conform plans_conform plan_items_conform executions_conform
        revoke_events_conform heartbeats_conform alerts_conform schema_ok_def conj_ac)
  finally show ?thesis .
qed

end
