(* ===== verification/Orm_Metadata.thy ===== *)
theory Orm_Metadata
  imports Migration_Runs
begin

text \<open>
  The tables as the mapped classes of \<open>app/db/models\<close> declare them (\<open>Base.metadata\<close>, which
  \<open>create_all\<close> builds for the tests), next to the tables that the migrations build for the
  deployment.
\<close>

section \<open>The mapped classes\<close>

text \<open>
  A column without \<open>nullable=\<close> allows \<open>NULL\<close> when its annotation is \<open>Mapped[T | None]\<close>, and a
  foreign key has the type of the column it refers to. \<open>om_uniques\<close> and \<open>om_indexes\<close> are the
  columns declared with \<open>unique=True\<close> and \<open>index=True\<close>; \<open>om_checks\<close> and \<open>om_table_uniques\<close> are
  the \<open>CheckConstraint\<close>s and the columns of the \<open>UniqueConstraint\<close>s of \<open>__table_args__\<close>, which
  no class has.
\<close>

record orm_table =
  om_columns :: "sql_column list"
  om_primary_key :: "string list"
  om_uniques :: "string list"
  om_foreign_keys :: "(string \<times> string \<times> string) list"
  om_indexes :: "string list"
  om_checks :: "(string \<times> sql_check) set"
  om_table_uniques :: "string list list"

definition nodes_model :: orm_table where
  "nodes_model =
     \<lparr>om_columns =
        [sa_column ''id'' SaUuid False, sa_column ''name'' (SaString 128) False,
         sa_column ''node_type'' (SaString 16) False, sa_column ''status'' (SaString 16) False,
         sa_column ''cpu_capacity'' (SaNumeric 10 2) False,
         sa_column ''memory_capacity_mb'' SaInteger False,
         sa_column ''network_address'' (SaString 255) True, sa_column ''description'' SaText True,
         sa_column ''last_heartbeat_at'' SaDateTime True, now_column ''created_at'',
         now_column ''updated_at''],
      om_primary_key = [''id''], om_uniques = [''name''],
      om_foreign_keys = [],
      om_indexes = [''name''],
      om_checks = {}, om_table_uniques = []\<rparr>"

definition node_status_records_model :: orm_table where
  "node_status_records_model =
     \<lparr>om_columns =
        [sa_column ''id'' SaUuid False, sa_column ''node_id'' SaUuid False,
         sa_column ''battery_level'' (SaNumeric 5 2) True,
         sa_column ''cpu_usage'' (SaNumeric 5 2) False,
         sa_column ''memory_usage'' (SaNumeric 5 2) False,
         sa_column ''network_quality'' (SaNumeric 5 2) True,
         sa_column ''bandwidth_mbps'' (SaNumeric 10 2) True,
         sa_column ''latitude'' (SaNumeric 10 7) True,
         sa_column ''longitude'' (SaNumeric 10 7) True, sa_column ''current_load'' SaInteger True,
         sa_column ''queue_length'' SaInteger True, sa_column ''reported_at'' SaDateTime False,
         now_column ''created_at''],
      om_primary_key = [''id''], om_uniques = [],
      om_foreign_keys =
        [(''node_id'', ''nodes'', ''id'')],
      om_indexes = [''node_id''],
      om_checks = {}, om_table_uniques = []\<rparr>"

definition dag_tasks_model :: orm_table where
  "dag_tasks_model =
     \<lparr>om_columns =
        [sa_column ''id'' SaUuid False, sa_column ''name'' (SaString 128) False,
         sa_column ''status'' (SaString 16) False, sa_column ''priority'' SaInteger False,
         sa_column ''deadline_at'' SaDateTime True,
         sa_column ''submitted_by'' (SaString 128) True, sa_column ''failure_reason'' SaText True,
         sa_column ''metadata'' SaJson False, now_column ''created_at'',
         now_column ''updated_at'', sa_column ''scheduled_at'' SaDateTime True,
         sa_column ''started_at'' SaDateTime True, sa_column ''finished_at'' SaDateTime True],
      om_primary_key = [''id''], om_uniques = [],
      om_foreign_keys = [],
      om_indexes = [],
      om_checks = {}, om_table_uniques = []\<rparr>"

definition dag_subtasks_model :: orm_table where
  "dag_subtasks_model =
     \<lparr>om_columns =
        [sa_column ''id'' SaUuid False, sa_column ''task_id'' SaUuid False,
         sa_column ''external_id'' (SaString 64) False, sa_column ''name'' (SaString 128) False,
         sa_column ''status'' (SaString 16) False,
         sa_column ''execution_constraint'' (SaString 16) False,
         sa_column ''compute_load'' (SaNumeric 12 2) False,
         sa_column ''input_data_size_mb'' (SaNumeric 12 2) False,
         sa_column ''output_data_size_mb'' (SaNumeric 12 2) False,
         sa_column ''max_retries'' SaInteger False, sa_column ''retry_count'' SaInteger False,
         sa_column ''failure_reason'' SaText True, sa_column ''metadata'' SaJson False,
         now_column ''created_at'', now_column ''updated_at'',
         sa_column ''started_at'' SaDateTime True, sa_column ''finished_at'' SaDateTime True],
      om_primary_key = [''id''], om_uniques = [],
      om_foreign_keys =
        [(''task_id'', ''dag_tasks'', ''id'')],
      om_indexes = [''task_id''],
      om_checks = {}, om_table_uniques = []\<rparr>"

definition dag_dependencies_model :: orm_table where
  "dag_dependencies_model =
     \<lparr>om_columns =
        [sa_column ''id'' SaUuid False, sa_column ''task_id'' SaUuid False,
         sa_column ''predecessor_subtask_id'' SaUuid False,
         sa_column ''successor_subtask_id'' SaUuid False, now_column ''created_at''],
      om_primary_key = [''id''], om_uniques = [],
      om_foreign_keys =
        [(''task_id'', ''dag_tasks'', ''id''),
         (''predecessor_subtask_id'', ''dag_subtasks'', ''id''),
         (''successor_subtask_id'', ''dag_subtasks'', ''id'')],
      om_indexes = [''task_id'', ''predecessor_subtask_id'', ''successor_subtask_id''],
      om_checks = {}, om_table_uniques = []\<rparr>"

definition schedule_plans_model :: orm_table where
  "schedule_plans_model =
     \<lparr>om_columns =
        [sa_column ''id'' SaUuid False, sa_column ''task_id'' SaUuid False,
         sa_column ''strategy_name'' (SaString 64) False,
         sa_column ''status'' (SaString 16) False,
         sa_column ''estimated_total_duration_ms'' SaInteger True,
         sa_column ''estimated_total_energy'' (SaNumeric 14 4) True,
         sa_column ''options'' SaJson False, now_column ''created_at'',
         sa_column ''applied_at'' SaDateTime True],
      om_primary_key = [''id''], om_uniques = [],
      om_foreign_keys =
        [(''task_id'', ''dag_tasks'', ''id'')],
      om_indexes = [''task_id''],
      om_checks = {}, om_table_uniques = []\<rparr>"

definition schedule_plan_items_model :: orm_table where
  "schedule_plan_items_model =
     \<lparr>om_columns =
        [sa_column ''id'' SaUuid False, sa_column ''plan_id'' SaUuid False,
         sa_column ''subtask_id'' SaUuid False, sa_column ''assigned_node_id'' SaUuid False,
         sa_column ''estimated_compute_duration_ms'' SaInteger True,
         sa_column ''estimated_transfer_duration_ms'' SaInteger True,
         sa_column ''estimated_energy'' (SaNumeric 14 4) True,
         sa_column ''decision_reason'' SaText True, now_column ''created_at''],
      om_primary_key = [''id''], om_uniques = [],
      om_foreign_keys =
        [(''plan_id'', ''schedule_plans'', ''id''), (''subtask_id'', ''dag_subtasks'', ''id''),
         (''assigned_node_id'', ''nodes'', ''id'')],
      om_indexes = [''plan_id'', ''subtask_id'', ''assigned_node_id''],
      om_checks = {}, om_table_uniques = []\<rparr>"

definition execution_records_model :: orm_table where
  "execution_records_model =
     \<lparr>om_columns =
        [sa_column ''id'' SaUuid False, sa_column ''task_id'' SaUuid False,
         sa_column ''subtask_id'' SaUuid False, sa_column ''node_id'' SaUuid False,
         sa_column ''plan_item_id'' SaUuid True, sa_column ''attempt'' SaInteger False,
         sa_column ''status'' (SaString 16) False, sa_column ''started_at'' SaDateTime True,
         sa_column ''finished_at'' SaDateTime True, sa_column ''duration_ms'' SaInteger True,
         sa_column ''output_summary'' SaText True, sa_column ''failure_reason'' SaText True,
         sa_column ''celery_task_id'' (SaString 255) True, now_column ''created_at'',
         now_column ''updated_at''],
      om_primary_key = [''id''], om_uniques = [],
      om_foreign_keys =
        [(''task_id'', ''dag_tasks'', ''id''), (''subtask_id'', ''dag_subtasks'', ''id''),
         (''node_id'', ''nodes'', ''id''), (''plan_item_id'', ''schedule_plan_items'', ''id'')],
      om_indexes = [''task_id'', ''subtask_id'', ''node_id'', ''plan_item_id''],
      om_checks = {}, om_table_uniques = []\<rparr>"

definition execution_revoke_events_model :: orm_table where
  "execution_revoke_events_model =
     \<lparr>om_columns =
        [sa_column ''id'' SaUuid False, sa_column ''task_id'' SaUuid False,
         sa_column ''execution_id'' SaUuid False,
         sa_column ''celery_task_id'' (SaString 255) False, sa_column ''success'' SaBoolean False,
         sa_column ''error_message'' SaText True, sa_column ''requested_at'' SaDateTime False,
         now_column ''created_at''],
      om_primary_key = [''id''], om_uniques = [],
      om_foreign_keys =
        [(''task_id'', ''dag_tasks'', ''id''), (''execution_id'', ''execution_records'', ''id'')],
      om_indexes = [''task_id'', ''execution_id'', ''celery_task_id''],
      om_checks = {}, om_table_uniques = []\<rparr>"

definition worker_heartbeats_model :: orm_table where
  "worker_heartbeats_model =
     \<lparr>om_columns =
        [sa_column ''id'' SaUuid False, sa_column ''worker_name'' (SaString 128) False,
         sa_column ''hostname'' (SaString 128) False, sa_column ''process_id'' SaInteger True,
         sa_column ''status'' (SaString 16) False, sa_column ''current_execution_id'' SaUuid True,
         sa_column ''last_seen_at'' SaDateTime False, now_column ''created_at'',
         now_column ''updated_at''],
      om_primary_key = [''id''], om_uniques = [''worker_name''],
      om_foreign_keys = [],
      om_indexes = [],
      om_checks = {}, om_table_uniques = []\<rparr>"

definition worker_alerts_model :: orm_table where
  "worker_alerts_model =
     \<lparr>om_columns =
        [sa_column ''id'' SaUuid False, sa_column ''alert_type'' (SaString 64) False,
         sa_column ''severity'' (SaString 16) False,
         sa_column ''worker_name'' (SaString 128) True, sa_column ''execution_id'' SaUuid True,
         sa_column ''celery_task_id'' (SaString 255) True, sa_column ''message'' SaText False,
         sa_column ''details'' SaJson False, now_column ''created_at''],
      om_primary_key = [''id''], om_uniques = [],
      om_foreign_keys = [],
      om_indexes = [''execution_id'', ''celery_task_id''],
      om_checks = {}, om_table_uniques = []\<rparr>"

definition model_tables :: "(string \<times> orm_table) list" where
  "model_tables =
     [(''nodes'', nodes_model), (''node_status_records'', node_status_records_model),
      (''dag_tasks'', dag_tasks_model), (''dag_subtasks'', dag_subtasks_model),
      (''dag_dependencies'', dag_dependencies_model), (''schedule_plans'', schedule_plans_model),
      (''schedule_plan_items'', schedule_plan_items_model),
      (''execution_records'', execution_records_model),
      (''execution_revoke_events'', execution_revoke_events_model),
      (''worker_heartbeats'', worker_heartbeats_model), (''worker_alerts'', worker_alerts_model)]"

section \<open>Comparing the two\<close>

definition single_uniques :: "sql_table \<Rightarrow> string list list" where
  "single_uniques t = filter (\<lambda>cs. length cs = 1) (map snd (tb_uniques t))"

definition same_table :: "sql_table \<Rightarrow> orm_table \<Rightarrow> bool" where
  "same_table t m \<longleftrightarrow>
     set (tb_columns t) = set (om_columns m) \<and>
     length (tb_columns t) = length (om_columns m) \<and>
     tb_primary_key t = om_primary_key m \<and>
     set (tb_foreign_keys t) = set (om_foreign_keys m) \<and>
     set (single_uniques t) = set (map (\<lambda>c. [c]) (om_uniques m))"

text \<open>The constraints of a migrated table that its class does not declare, by name.\<close>

definition undeclared_uniques :: "sql_table \<Rightarrow> orm_table \<Rightarrow> string list" where
  "undeclared_uniques t m =
     map fst (filter (\<lambda>x. 1 < length (snd x) \<and> snd x \<notin> set (om_table_uniques m)) (tb_uniques t))"

definition undeclared_checks :: "sql_table \<Rightarrow> orm_table \<Rightarrow> string set" where
  "undeclared_checks t m = fst ` (tb_checks t - om_checks m)"

text \<open>
  The index of a column with \<open>index=True\<close>, under the name SQLAlchemy gives it; the indexes of a
  class that the migrated table lacks, and those of the table that the class lacks. (Of
  \<open>nodes.name\<close>, \<open>create_all\<close> makes the index itself unique, the migration adds a constraint.)
\<close>

definition model_indexes :: "string \<Rightarrow> orm_table \<Rightarrow> (string \<times> index_key list) list" where
  "model_indexes n m = map (\<lambda>c. (''ix_'' @ n @ ''_'' @ c, [Key c])) (om_indexes m)"

definition missing_indexes :: "string \<Rightarrow> sql_table \<Rightarrow> orm_table \<Rightarrow> string list" where
  "missing_indexes n t m =
     map fst (filter (\<lambda>i. i \<notin> set (tb_indexes t)) (model_indexes n m))"

definition undeclared_indexes :: "string \<Rightarrow> sql_table \<Rightarrow> orm_table \<Rightarrow> string list" where
  "undeclared_indexes n t m =
     map fst (filter (\<lambda>i. i \<notin> set (model_indexes n m)) (tb_indexes t))"

text \<open>Both sides of every table.\<close>

definition paired_tables :: "(string \<times> sql_table) list \<Rightarrow> (string \<times> sql_table \<times> orm_table) list" where
  "paired_tables ts = concat (map (\<lambda>(n, t). case map_of model_tables n of
     None \<Rightarrow> [] | Some m \<Rightarrow> [(n, t, m)]) ts)"

lemma models_match:
  "list_all (\<lambda>(n, t, m). same_table t m) (paired_tables schema_0010)"
  "length (paired_tables schema_0010) = length model_tables"
  "set (map fst model_tables) = set (map fst schema_0010)"
  by code_simp+

lemma models_lack:
  "concat (map (\<lambda>(n, t, m). undeclared_uniques t m) (paired_tables schema_0010)) =
    [''uq_dag_subtasks_task_external'', ''uq_dag_dependencies_task_edge'',
     ''uq_schedule_items_plan_subtask'', ''uq_execution_subtask_attempt'']"
  "map (\<lambda>(n, t, m). (n, undeclared_checks t m)) (paired_tables schema_0010) =
    [(''nodes'', {''ck_nodes_node_type'', ''ck_nodes_status'',
     ''ck_nodes_cpu_capacity_positive'', ''ck_nodes_memory_capacity_positive''}),
     (''node_status_records'', {''ck_node_status_cpu_usage_range'',
     ''ck_node_status_memory_usage_range'', ''ck_node_status_battery_range'',
     ''ck_node_status_network_quality_range'', ''ck_node_status_bandwidth_non_negative''}),
     (''dag_tasks'', {''ck_dag_tasks_status'', ''ck_dag_tasks_priority_non_negative''}),
     (''dag_subtasks'', {''ck_dag_subtasks_status'', ''ck_dag_subtasks_execution_constraint'',
     ''ck_dag_subtasks_compute_load_positive'', ''ck_dag_subtasks_input_non_negative'',
     ''ck_dag_subtasks_output_non_negative'', ''ck_dag_subtasks_max_retries_non_negative'',
     ''ck_dag_subtasks_retry_count_non_negative''}), (''dag_dependencies'',
     {''ck_dag_dependencies_not_self''}), (''schedule_plans'',
     {''ck_schedule_plans_strategy_name'', ''ck_schedule_plans_status'',
     ''ck_schedule_plans_duration_non_negative'', ''ck_schedule_plans_energy_non_negative''}),
     (''schedule_plan_items'', {''ck_schedule_items_compute_duration_non_negative'',
     ''ck_schedule_items_transfer_duration_non_negative'',
     ''ck_schedule_items_energy_non_negative''}), (''execution_records'',
     {''ck_execution_records_attempt_positive'', ''ck_execution_records_status'',
     ''ck_execution_records_duration_non_negative''}), (''worker_heartbeats'',
     {''ck_worker_heartbeats_status''}), (''execution_revoke_events'', {}), (''worker_alerts'',
     {''ck_worker_alerts_alert_type'', ''ck_worker_alerts_severity''})]"
  "concat (map (\<lambda>(n, t, m). undeclared_indexes n t m) (paired_tables schema_0010)) =
    [''idx_nodes_type_status'', ''idx_nodes_last_heartbeat'', ''idx_node_status_node_time'',
     ''idx_node_status_reported_at'', ''idx_dag_tasks_status'', ''idx_dag_tasks_created_at'',
     ''idx_dag_tasks_priority_status'', ''idx_dag_subtasks_task_status'',
     ''idx_dag_subtasks_task_external'', ''idx_dag_dependencies_task'',
     ''idx_dag_dependencies_predecessor'', ''idx_dag_dependencies_successor'',
     ''idx_schedule_plans_task_created'', ''idx_schedule_plans_strategy'',
     ''idx_schedule_items_plan'', ''idx_schedule_items_subtask'', ''idx_schedule_items_node'',
     ''idx_execution_records_task'', ''idx_execution_records_subtask'',
     ''idx_execution_records_node'', ''idx_execution_records_status'',
     ''idx_execution_records_celery_task_id'', ''idx_worker_heartbeats_status'',
     ''idx_worker_heartbeats_last_seen_at'', ''idx_execution_revoke_events_task_id'',
     ''idx_execution_revoke_events_execution_id'',
     ''idx_execution_revoke_events_celery_task_id'',
     ''idx_execution_revoke_events_requested_at'', ''idx_worker_alerts_execution_id'',
     ''idx_worker_alerts_celery_task_id'', ''idx_worker_alerts_alert_type'']"
  "concat (map (\<lambda>(n, t, m). missing_indexes n t m) (paired_tables schema_0010)) =
    [''ix_execution_revoke_events_task_id'', ''ix_execution_revoke_events_execution_id'',
     ''ix_execution_revoke_events_celery_task_id'', ''ix_worker_alerts_execution_id'',
     ''ix_worker_alerts_celery_task_id'']"
  by code_simp+

end
