(* ===== verification/Migration_Properties.thy ===== *)
theory Migration_Properties
  imports Schema_Rows Orm_Metadata Example_Reports
begin

text \<open>
  What the migrations guarantee: the schema they build is the one the services are verified
  against, they can be applied to and undone on live data, when the way back is blocked, and how
  the mapped classes differ from them.
\<close>

text \<open>
  C30: the constraints of the migrated schema (types, \<open>NOT NULL\<close>, \<open>CHECK\<close>, primary and unique
  keys, foreign keys) hold of the rows of the application exactly when \<open>schema_ok\<close> does, whatever
  the \<open>updated_at\<close> columns hold; so \<open>schema_ok\<close>, which every flush of the model checks, is the
  schema that the ten upgrades declare.
\<close>

theorem migrated_schema_is_schema_ok:
  "consistent (stored updated_at now d) \<longleftrightarrow> schema_ok d"
  by (rule stored_consistent)

text \<open>
  C31: on any data that satisfies the schema of a revision, the next upgrade succeeds, ends in
  data that satisfies the next schema, keeps the rows in all their old columns, and is undone
  exactly by its downgrade.
\<close>

theorem downgrade_undoes_upgrade:
  assumes "n < length revisions" and "at_revision n s"
  shows "\<exists>s'. run_ops (mg_upgrade (revisions ! n)) s = Inr s' \<and> at_revision (Suc n) s' \<and>
    keeps_rows s s' \<and> run_ops (mg_downgrade (revisions ! n)) s' = Inr s"
  by (rule migrates_between [OF assms]) blast

text \<open>The data of a running application, before the revision that adds the Celery identifier.\<close>

definition legacy_data :: sql_database where
  "legacy_data = \<lparr>sd_now = 0, sd_tables = schema_0007,
     sd_rows = (rows_of (\<lambda>_ _. 0) started_db)(''worker_alerts'' := [],
       ''execution_revoke_events'' := [], ''execution_records'' :=
         map (\<lambda>r. r(''celery_task_id'' := None)) (rows_of (\<lambda>_ _. 0) started_db ''execution_records''))\<rparr>"

lemma legacy_data_at_revision: "at_revision 7 legacy_data"
proof -
  let ?s = "stored (\<lambda>_ _. 0) 0 started_db"
  have "schema_ok started_db" using example_inv by (simp add: db_inv_def)
  then have con: "consistent ?s" by (simp add: stored_consistent)
  have "run_ops (downgrade_0010 @ downgrade_0009 @ downgrade_0008) ?s = Inr legacy_data"
    by (simp add: run_ops_append stored_tables runs_0010 runs_0009 runs_0008)
      (simp add: stored_def legacy_data_def)
  moreover have "list_all keeps_consistent (downgrade_0010 @ downgrade_0009 @ downgrade_0008)"
    by (simp add: downgrade_0010_def downgrade_0009_def downgrade_0008_def)
  ultimately have "consistent legacy_data" using con by (blast intro: run_ops_consistent)
  then show ?thesis
    by (simp add: at_revision_schemas revisions_def) (simp add: schemas_def legacy_data_def)
qed

theorem downgrade_undoes_upgrade_witness:
  "sd_rows legacy_data ''execution_records'' \<noteq> [] \<and>
   (\<exists>s'. run_ops upgrade_0008 legacy_data = Inr s' \<and> at_revision 8 s' \<and>
      keeps_rows legacy_data s' \<and> run_ops downgrade_0008 s' = Inr legacy_data)"
proof
  show "sd_rows legacy_data ''execution_records'' \<noteq> []"
    by (simp add: legacy_data_def rows_of_tables started_db_def)
  have "7 < length revisions" by (simp add: revisions_def)
  from downgrade_undoes_upgrade [OF this legacy_data_at_revision]
  show "\<exists>s'. run_ops upgrade_0008 legacy_data = Inr s' \<and> at_revision 8 s' \<and>
      keeps_rows legacy_data s' \<and> run_ops downgrade_0008 s' = Inr legacy_data"
    by (simp add: revisions_def revision_0008_def)
qed

text \<open>
  C32: going back from the head revision to the empty database works on the data of the
  application exactly when no subtask has been canceled: the downgrade of \<open>20260610-0006\<close> puts the
  old list of statuses back while the canceled rows are still there.
\<close>

theorem downgrade_blocked_by_cancellation:
  assumes "schema_ok d"
  shows "run_ops (downgrades_from (length revisions)) (stored updated_at now d) =
    (if \<exists>s \<in> set (dag_subtasks d). ds_status s = SubtaskStatus.CANCELED
     then Inl (CheckViolation ''ck_dag_subtasks_status'')
     else Inr (empty_database now))"
proof -
  have "subtask_status_value x = ''CANCELED'' \<longleftrightarrow> x = SubtaskStatus.CANCELED" for x
    by (cases x) (simp_all add: value_simps)
  then have "(\<exists>r \<in> set (rows_of updated_at d ''dag_subtasks''). r ''status'' = Some (VStr ''CANCELED'')) \<longleftrightarrow>
      (\<exists>s \<in> set (dag_subtasks d). ds_status s = SubtaskStatus.CANCELED)"
    by (simp add: rows_of_tables row_columns)
  moreover have "length revisions = 10" by (simp add: revisions_def)
  ultimately show ?thesis
    using downgrade_to_base_run [OF stored_consistent [THEN iffD2, OF assms] stored_tables]
    by (simp add: stored_def)
qed

theorem downgrade_blocked_by_cancellation_witness:
  "run_ops (downgrades_from (length revisions)) (stored (\<lambda>_ _. 0) 0 started_db) =
     Inr (empty_database 0) \<and>
   (\<exists>d'. cancel_task revoked 6 1 None started_db = Inr d' \<and>
      run_ops (downgrades_from (length revisions)) (stored (\<lambda>_ _. 0) 0 d') =
        Inl (CheckViolation ''ck_dag_subtasks_status''))"
proof
  have inv: "db_inv started_db" by (rule example_inv(3))
  have "schema_ok started_db" using inv by (simp add: db_inv_def)
  from downgrade_blocked_by_cancellation [OF this]
  show "run_ops (downgrades_from (length revisions)) (stored (\<lambda>_ _. 0) 0 started_db) =
      Inr (empty_database 0)"
    by (simp add: started_db_def row_defs)
  obtain d' where d': "cancel_task revoked 6 1 None started_db = Inr d'"
    using survey_cancelable by blast
  obtain events k where "schema_ok d'"
    and subs: "dag_subtasks d' = map (canceled_row 1 None 6) (dag_subtasks started_db)"
    by (rule cancel_task_effect [OF d' db_inv_distinct(2,4) [OF inv]]) simp
  moreover have "\<exists>s \<in> set (dag_subtasks d'). ds_status s = SubtaskStatus.CANCELED"
    by (simp add: subs canceled_row_status) (simp add: started_db_def row_defs cancel_status_def)
  ultimately show "\<exists>d'. cancel_task revoked 6 1 None started_db = Inr d' \<and>
      run_ops (downgrades_from (length revisions)) (stored (\<lambda>_ _. 0) 0 d') =
        Inl (CheckViolation ''ck_dag_subtasks_status'')"
    using d' downgrade_blocked_by_cancellation [of d' "\<lambda>_ _. 0" 0] by auto
qed


end
