(* ===== verification/Routing.thy ===== *)
theory Routing
  imports Api
begin

text \<open>
  The HTTP surface of the application: the routes that the decorators of \<open>api/v1/endpoints/\<close>
  and \<open>api/monitoring.py\<close> declare, the routers that collect them (\<open>api/v1/router.py\<close>), and the
  application they are mounted in (\<open>create_app\<close> of \<open>main.py\<close>). A route is the text of its
  path, as the code writes it. FastAPI takes the first route of the request's method whose
  path matches; a parameter \<open>{x}\<close> stands for one non-empty segment.
\<close>

section \<open>Routes\<close>

datatype http_method = GET | POST

text \<open>The endpoints, one constructor for each decorated function.\<close>

datatype endpoint =
    HealthCheck
  | CreateNode | ListNodes | GetNode | ReportNodeStatus | ListNodeStatusRecords
  | CreateTask | ListTasks | GetTask | ListTaskSubtasks | ScheduleTask | ListTaskSchedules
  | CompareTaskSchedules | ExecuteTask | ListTaskExecutions | GetTaskMetrics | CancelTask
  | GetSchedulePlan | ReportExecutionResult | ListWorkerAlerts
  | GetDeadLetterQueueSnapshot | PeekDeadLetterQueueMessages | PrometheusMetrics

record route =
  ro_method :: http_method
  ro_path :: string
  ro_status_code :: int
  ro_endpoint :: endpoint

text \<open>\<open>APIRouter(prefix=...)\<close> and \<open>include_router(..., prefix=...)\<close> put a text before each path.\<close>

definition with_prefix :: "string \<Rightarrow> route list \<Rightarrow> route list" where
  "with_prefix p rs = map (\<lambda>r. r\<lparr>ro_path := p @ ro_path r\<rparr>) rs"

section \<open>The routers\<close>

definition health_router :: "route list" where
  "health_router = [\<lparr>ro_method = GET, ro_path = ''/health'', ro_status_code = 200, ro_endpoint = HealthCheck\<rparr>]"

definition nodes_router :: "route list" where
  "nodes_router = with_prefix ''/nodes''
     [\<lparr>ro_method = POST, ro_path = '''', ro_status_code = 201, ro_endpoint = CreateNode\<rparr>,
      \<lparr>ro_method = GET, ro_path = '''', ro_status_code = 200, ro_endpoint = ListNodes\<rparr>,
      \<lparr>ro_method = GET, ro_path = ''/{node_id}'', ro_status_code = 200, ro_endpoint = GetNode\<rparr>,
      \<lparr>ro_method = POST, ro_path = ''/{node_id}/status'', ro_status_code = 200,
       ro_endpoint = ReportNodeStatus\<rparr>,
      \<lparr>ro_method = GET, ro_path = ''/{node_id}/status-records'', ro_status_code = 200,
       ro_endpoint = ListNodeStatusRecords\<rparr>]"

definition tasks_router :: "route list" where
  "tasks_router = with_prefix ''/tasks''
     [\<lparr>ro_method = POST, ro_path = '''', ro_status_code = 201, ro_endpoint = CreateTask\<rparr>,
      \<lparr>ro_method = GET, ro_path = '''', ro_status_code = 200, ro_endpoint = ListTasks\<rparr>,
      \<lparr>ro_method = GET, ro_path = ''/{task_id}'', ro_status_code = 200, ro_endpoint = GetTask\<rparr>,
      \<lparr>ro_method = GET, ro_path = ''/{task_id}/subtasks'', ro_status_code = 200,
       ro_endpoint = ListTaskSubtasks\<rparr>,
      \<lparr>ro_method = POST, ro_path = ''/{task_id}/schedule'', ro_status_code = 201,
       ro_endpoint = ScheduleTask\<rparr>,
      \<lparr>ro_method = GET, ro_path = ''/{task_id}/schedules'', ro_status_code = 200,
       ro_endpoint = ListTaskSchedules\<rparr>,
      \<lparr>ro_method = GET, ro_path = ''/{task_id}/schedule-comparison'', ro_status_code = 200,
       ro_endpoint = CompareTaskSchedules\<rparr>,
      \<lparr>ro_method = POST, ro_path = ''/{task_id}/execute'', ro_status_code = 202,
       ro_endpoint = ExecuteTask\<rparr>,
      \<lparr>ro_method = GET, ro_path = ''/{task_id}/executions'', ro_status_code = 200,
       ro_endpoint = ListTaskExecutions\<rparr>,
      \<lparr>ro_method = GET, ro_path = ''/{task_id}/metrics'', ro_status_code = 200,
       ro_endpoint = GetTaskMetrics\<rparr>,
      \<lparr>ro_method = POST, ro_path = ''/{task_id}/cancel'', ro_status_code = 200,
       ro_endpoint = CancelTask\<rparr>]"

definition schedules_router :: "route list" where
  "schedules_router = with_prefix ''/schedules''
     [\<lparr>ro_method = GET, ro_path = ''/{schedule_plan_id}'', ro_status_code = 200,
       ro_endpoint = GetSchedulePlan\<rparr>]"

definition executions_router :: "route list" where
  "executions_router = with_prefix ''/executions''
     [\<lparr>ro_method = POST, ro_path = ''/{execution_id}/result'', ro_status_code = 200,
       ro_endpoint = ReportExecutionResult\<rparr>]"

definition worker_alerts_router :: "route list" where
  "worker_alerts_router = with_prefix ''/worker-alerts''
     [\<lparr>ro_method = GET, ro_path = '''', ro_status_code = 200, ro_endpoint = ListWorkerAlerts\<rparr>]"

definition dead_letter_queue_router :: "route list" where
  "dead_letter_queue_router = with_prefix ''/dead-letter-queue''
     [\<lparr>ro_method = GET, ro_path = '''', ro_status_code = 200,
       ro_endpoint = GetDeadLetterQueueSnapshot\<rparr>,
      \<lparr>ro_method = GET, ro_path = ''/messages'', ro_status_code = 200,
       ro_endpoint = PeekDeadLetterQueueMessages\<rparr>]"

definition monitoring_router :: "route list" where
  "monitoring_router = [\<lparr>ro_method = GET, ro_path = ''/metrics'', ro_status_code = 200, ro_endpoint = PrometheusMetrics\<rparr>]"

definition api_router :: "route list" where
  "api_router = health_router @ nodes_router @ tasks_router @ schedules_router @
     executions_router @ worker_alerts_router @ dead_letter_queue_router"

section \<open>The application\<close>

record application =
  ap_title :: string
  ap_version :: string
  ap_debug :: bool
  ap_routes :: "route list"
  ap_error_handler :: "string option \<Rightarrow> app_error \<Rightarrow> ErrorResponse"

definition create_app :: "Settings \<Rightarrow> application" where
  "create_app settings =
     \<lparr>ap_title = ''UAV DAG Offload Platform'', ap_version = ''0.1.0'',
      ap_debug = app_debug settings,
      ap_routes = with_prefix (api_v1_prefix settings) api_router @ monitoring_router,
      ap_error_handler = app_error_handler\<rparr>"

section \<open>Which endpoint a request reaches\<close>

fun split_on :: "char \<Rightarrow> string \<Rightarrow> string list" where
  "split_on c [] = [[]]"
| "split_on c (x # xs) =
     (if x = c then [] # split_on c xs
      else case split_on c xs of [] \<Rightarrow> [[x]] | s # ss \<Rightarrow> (x # s) # ss)"

datatype segment = Fixed string | Parameter string

definition segment_of :: "string \<Rightarrow> segment" where
  "segment_of s =
     (case s of [] \<Rightarrow> Fixed s
      | x # xs \<Rightarrow> if x = CHR ''{'' then Parameter (butlast xs) else Fixed s)"

definition template :: "string \<Rightarrow> segment list" where
  "template p = map segment_of (split_on (CHR ''/'') p)"

fun matches :: "segment list \<Rightarrow> string list \<Rightarrow> bool" where
  "matches [] [] \<longleftrightarrow> True"
| "matches (Fixed l # ts) (s # ss) \<longleftrightarrow> s = l \<and> matches ts ss"
| "matches (Parameter x # ts) (s # ss) \<longleftrightarrow> s \<noteq> [] \<and> matches ts ss"
| "matches _ _ \<longleftrightarrow> False"

definition serves :: "http_method \<Rightarrow> string \<Rightarrow> route \<Rightarrow> bool" where
  "serves m path r \<longleftrightarrow> ro_method r = m \<and>
     matches (template (ro_path r)) (split_on (CHR ''/'') path)"

definition dispatch :: "application \<Rightarrow> http_method \<Rightarrow> string \<Rightarrow> route option" where
  "dispatch app m path = List.find (serves m path) (ap_routes app)"

text \<open>Two templates that some path matches both.\<close>

fun overlap :: "segment list \<Rightarrow> segment list \<Rightarrow> bool" where
  "overlap [] [] \<longleftrightarrow> True"
| "overlap (Fixed l # ts) (Fixed k # us) \<longleftrightarrow> l = k \<and> overlap ts us"
| "overlap (_ # ts) (_ # us) \<longleftrightarrow> overlap ts us"
| "overlap _ _ \<longleftrightarrow> False"

section \<open>The routes do not shadow each other\<close>

lemma split_on_nonempty [simp]: "split_on c xs \<noteq> []"
  by (induction xs) (auto split: list.splits)

lemma split_on_append: "split_on c (xs @ c # ys) = split_on c xs @ split_on c ys"
proof (induction xs)
  case (Cons x xs)
  then show ?case by (cases "split_on c xs") simp_all
qed simp

lemma template_append: "template (p @ CHR ''/'' # q) = template p @ template q"
  by (simp add: template_def split_on_append)

lemma matches_append:
  "matches (ts @ us) ss \<Longrightarrow> matches ts (take (length ts) ss) \<and> matches us (drop (length ts) ss)"
  by (induction ts ss rule: matches.induct) simp_all

lemma matches_length: "matches ts ss \<Longrightarrow> length ss = length ts"
  by (induction ts ss rule: matches.induct) simp_all

lemma matches_Nil [simp]: "matches [] ss \<longleftrightarrow> ss = []"
  by (cases ss) simp_all

lemma matches_overlap: "matches ts ss \<Longrightarrow> matches us ss \<Longrightarrow> overlap ts us"
proof (induction ts ss arbitrary: us rule: matches.induct)
  case 1
  then show ?case by (cases us) simp_all
next
  case (2 l ts s ss)
  then show ?case by (cases us; cases "hd us") auto
next
  case (3 x ts s ss)
  then show ?case by (cases us; cases "hd us") auto
qed simp_all

lemmas routers = api_router_def health_router_def nodes_router_def tasks_router_def
  schedules_router_def executions_router_def worker_alerts_router_def
  dead_letter_queue_router_def with_prefix_def

lemma api_paths: "r \<in> set api_router \<Longrightarrow> ro_path r = CHR ''/'' # tl (ro_path r)"
  by (auto simp: routers)

lemma api_routes_apart:
  "list_all (\<lambda>r. list_all (\<lambda>r'. ro_endpoint r = ro_endpoint r' \<or> ro_method r \<noteq> ro_method r' \<or>
     \<not> overlap (template (tl (ro_path r))) (template (tl (ro_path r')))) api_router) api_router"
  by code_simp

lemma api_routes_not_metrics:
  "list_all (\<lambda>r. \<not> matches (template (tl (ro_path r))) [''metrics'']) api_router"
  by code_simp

lemma api_endpoints: "distinct (map ro_endpoint api_router)"
  by code_simp

lemma metrics_apart: "PrometheusMetrics \<notin> set (map ro_endpoint api_router)"
  by code_simp


lemma mounted_template:
  assumes "r \<in> set api_router"
  shows "template (p @ ro_path r) = template p @ template (tl (ro_path r))"
  using template_append [of p "tl (ro_path r)"] api_paths [OF assms] by simp

lemma app_routes:
  "set (ap_routes (create_app settings)) =
     (\<lambda>r. r\<lparr>ro_path := api_v1_prefix settings @ ro_path r\<rparr>) ` set api_router \<union>
     set monitoring_router"
  by (simp add: create_app_def with_prefix_def)

lemma api_serves_unique:
  assumes "r \<in> set api_router" "r' \<in> set api_router"
    and "serves m path (r\<lparr>ro_path := p @ ro_path r\<rparr>)"
    and "serves m path (r'\<lparr>ro_path := p @ ro_path r'\<rparr>)"
  shows "r = r'"
proof -
  let ?rest = "drop (length (template p)) (split_on (CHR ''/'') path)"
  have "matches (template (tl (ro_path r))) ?rest" "matches (template (tl (ro_path r'))) ?rest"
    using assms(3,4) by (simp_all add: serves_def mounted_template assms(1,2) matches_append)
  then have "overlap (template (tl (ro_path r))) (template (tl (ro_path r')))"
    by (rule matches_overlap)
  moreover have "ro_method r = ro_method r'" using assms(3,4) by (simp add: serves_def)
  ultimately have "ro_endpoint r = ro_endpoint r'"
    using api_routes_apart assms(1,2) by (auto simp: list_all_iff)
  then show ?thesis using api_endpoints assms(1,2) by (auto simp: distinct_map dest: inj_onD)
qed

lemma api_not_metrics:
  assumes "r \<in> set api_router"
  shows "\<not> matches (template (p @ ro_path r)) [[], ''metrics'']"
proof
  assume m: "matches (template (p @ ro_path r)) [[], ''metrics'']"
  then have parts: "matches (template p @ template (tl (ro_path r))) [[], ''metrics'']"
    by (simp add: mounted_template assms)
  have nonempty: "template q \<noteq> []" for q by (simp add: template_def)
  from matches_length [OF parts] have "length (template p) + length (template (tl (ro_path r))) = 2"
    by simp
  then have "length (template p) = 1" using nonempty [of p] nonempty [of "tl (ro_path r)"]
    by (cases "template p"; cases "template (tl (ro_path r))") simp_all
  then have "matches (template (tl (ro_path r))) [''metrics'']"
    using matches_append [OF parts] by simp
  then show False using api_routes_not_metrics assms by (auto simp: list_all_iff)
qed

text \<open>
  Whatever the prefix of the API is, at most one route serves a request, so the order of the
  routers does not matter and no route hides another.
\<close>

lemma routes_unambiguous:
  assumes "r \<in> set (ap_routes (create_app settings))" "r' \<in> set (ap_routes (create_app settings))"
    and "serves m path r" "serves m path r'"
  shows "r = r'"
proof -
  have metrics: "split_on (CHR ''/'') path = [[], ''metrics'']"
    if "serves m path s" "s \<in> set monitoring_router" for s
    using that by (cases "split_on (CHR ''/'') path" rule: remdups_adj.cases)
      (auto simp: serves_def monitoring_router_def template_def segment_of_def)
  show ?thesis
    using assms api_serves_unique [of _ _ m path "api_v1_prefix settings"] metrics
      api_not_metrics [of _ "api_v1_prefix settings"]
    by (auto simp: app_routes monitoring_router_def) (auto simp: serves_def)
qed

lemma dispatch_iff:
  "dispatch (create_app settings) m path = Some r \<longleftrightarrow>
     r \<in> set (ap_routes (create_app settings)) \<and> serves m path r"
proof
  assume "dispatch (create_app settings) m path = Some r"
  then show "r \<in> set (ap_routes (create_app settings)) \<and> serves m path r"
    by (auto simp: dispatch_def find_Some_iff)
next
  assume r: "r \<in> set (ap_routes (create_app settings)) \<and> serves m path r"
  then obtain r' where r': "dispatch (create_app settings) m path = Some r'"
    by (cases "dispatch (create_app settings) m path") (auto simp: dispatch_def find_None_iff)
  then have "r' \<in> set (ap_routes (create_app settings)) \<and> serves m path r'"
    by (auto simp: dispatch_def find_Some_iff)
  with r r' routes_unambiguous show "dispatch (create_app settings) m path = Some r" by metis
qed

text \<open>Requests to the deployed application.\<close>

lemma default_routes:
  "ap_routes (create_app default_settings) = with_prefix ''/api/v1'' api_router @ monitoring_router"
  by (simp add: create_app_def default_settings_def)

lemma dispatch_examples:
  "map_option ro_endpoint (dispatch (create_app default_settings) GET ''/api/v1/tasks/7/schedules'') =
     Some ListTaskSchedules"
  "map_option ro_endpoint (dispatch (create_app default_settings) POST ''/api/v1/executions/7/result'') =
     Some ReportExecutionResult"
  "map_option ro_endpoint (dispatch (create_app default_settings) GET ''/metrics'') =
     Some PrometheusMetrics"
  "dispatch (create_app default_settings) POST ''/api/v1/tasks/7'' = None"
  "dispatch (create_app default_settings) GET ''/api/v1/tasks//metrics'' = None"
  unfolding dispatch_def default_routes by code_simp+

text \<open>Every endpoint is mounted, once.\<close>

lemma endpoints_mounted: "\<exists>!r. r \<in> set (ap_routes (create_app settings)) \<and> ro_endpoint r = e"
proof -
  have all: "e \<in> ro_endpoint ` set (ap_routes (create_app settings))"
    by (cases e) (simp_all add: app_routes routers monitoring_router_def)
  moreover have "distinct (map ro_endpoint (ap_routes (create_app settings)))"
    using api_endpoints metrics_apart
    by (simp add: create_app_def with_prefix_def comp_def monitoring_router_def)
  ultimately show ?thesis by (auto simp: distinct_map dest: inj_onD)
qed

end
