(* ===== verification/Concurrent_Reports.thy ===== *)
theory Concurrent_Reports
  imports Example_Reports
begin

text \<open>
  The transactions of \<open>Platform\<close> follow one another. This theory shows what the code allows when
  two reports overlap: \<open>report_result\<close> locks the row of its execution
  (\<open>get_by_id_for_update\<close>) but neither the task nor the other subtasks, so under
  \<open>READ COMMITTED\<close> two reports on different executions can both read before either commits.
\<close>

section \<open>Two transactions that read the same database\<close>

text \<open>
  At commit the ORM writes the rows that its transaction changed: \<open>base\<close> is what the
  transaction read, \<open>mine\<close> what it made of it, \<open>rows\<close> what is in the table by then.
\<close>

definition write_rows :: "('a \<Rightarrow> uuid) \<Rightarrow> 'a list \<Rightarrow> 'a list \<Rightarrow> 'a list \<Rightarrow> 'a list" where
  "write_rows key base mine rows = map (\<lambda>r.
     case row_get key (key r) mine of
       None \<Rightarrow> r
     | Some r' \<Rightarrow> if row_get key (key r) base = Some r' then r else r') rows"

text \<open>The tables that a report updates.\<close>

definition write_back :: "db \<Rightarrow> db \<Rightarrow> db \<Rightarrow> db" where
  "write_back base mine d = d\<lparr>
     dag_tasks := write_rows dt_id (dag_tasks base) (dag_tasks mine) (dag_tasks d),
     dag_subtasks := write_rows ds_id (dag_subtasks base) (dag_subtasks mine) (dag_subtasks d),
     execution_records :=
       write_rows er_id (execution_records base) (execution_records mine) (execution_records d)\<rparr>"

text \<open>Both read \<open>d\<close>; the first commits, then the second.\<close>

definition overlapping ::
  "(db \<Rightarrow> ('a \<times> db) result) \<Rightarrow> (db \<Rightarrow> ('b \<times> db) result) \<Rightarrow> db \<Rightarrow> ('a \<times> 'b \<times> db) result" where
  "overlapping f g d =
     and_then (f d) (\<lambda>(x, d1).
     and_then (g d) (\<lambda>(y, d2).
     and_then (db_flush (write_back d d2 d1)) (\<lambda>d'.
     Inr (x, y, d'))))"

definition one_after_the_other ::
  "(db \<Rightarrow> ('a \<times> db) result) \<Rightarrow> (db \<Rightarrow> ('b \<times> db) result) \<Rightarrow> db \<Rightarrow> ('a \<times> 'b \<times> db) result" where
  "one_after_the_other f g d =
     and_then (f d) (\<lambda>(x, d1). and_then (g d1) (\<lambda>(y, d'). Inr (x, y, d')))"

lemma write_rows_unchanged:
  assumes "\<And>r. r \<in> set rows \<Longrightarrow> row_get key (key r) mine = row_get key (key r) base"
  shows "write_rows key base mine rows = rows"
  unfolding write_rows_def using assms by (intro map_idI) (auto split: option.splits)

text \<open>A transaction that changes nothing, such as a repeated report, writes nothing.\<close>

lemma write_back_same: "write_back d d d' = d'"
  by (simp add: write_back_def write_rows_unchanged)

section \<open>Two successes at once\<close>

definition succeed :: "uuid \<Rightarrow> db \<Rightarrow> (ExecutionResult \<times> db) result" where
  "succeed i = report_result 5 i ExecutionStatus.SUCCESS None None None"

definition stuck_db :: db where
  "stuck_db = pair_started\<lparr>
     dag_subtasks := [(step_row 2 ''a'' 0 SubtaskStatus.SUCCESS)\<lparr>ds_started_at := Some 4,
         ds_finished_at := Some 5\<rparr>,
       (step_row 3 ''b'' 0 SubtaskStatus.SUCCESS)\<lparr>ds_started_at := Some 4, ds_finished_at := Some 5\<rparr>],
     execution_records := [finish_record 5 ExecutionStatus.SUCCESS None None None (pair_record 7 2 5),
       finish_record 5 ExecutionStatus.SUCCESS None None None (pair_record 8 3 6)]\<rparr>"

definition half_done :: "bool \<Rightarrow> bool \<Rightarrow> db" where
  "half_done a b = pair_started\<lparr>
     dag_subtasks := [(if a then (\<lambda>s. s\<lparr>ds_status := SubtaskStatus.SUCCESS, ds_finished_at := Some 5\<rparr>) else id)
         ((step_row 2 ''a'' 0 SubtaskStatus.RUNNING)\<lparr>ds_started_at := Some 4\<rparr>),
       (if b then (\<lambda>s. s\<lparr>ds_status := SubtaskStatus.SUCCESS, ds_finished_at := Some 5\<rparr>) else id)
         ((step_row 3 ''b'' 0 SubtaskStatus.RUNNING)\<lparr>ds_started_at := Some 4\<rparr>)],
     execution_records :=
      [(if a then finish_record 5 ExecutionStatus.SUCCESS None None None else id) (pair_record 7 2 5),
       (if b then finish_record 5 ExecutionStatus.SUCCESS None None None else id) (pair_record 8 3 6)]\<rparr>"

definition accepted_success :: "uuid \<Rightarrow> TaskStatus \<Rightarrow> ExecutionResult" where
  "accepted_success i task = \<lparr>xr_execution_id = i, xr_subtask_status = SubtaskStatus.SUCCESS,
     xr_task_status = task, xr_accepted = True\<rparr>"

lemmas pair_simps = pair_started_eq pair_planned_def pair_created_def pair_plan_def pair_item_def
  pair_rows_def pair_record_def empty_db_def row_defs db_flush_def schema_ok_def table_ok_defs
  f_le_def f_eq_def

lemma first_success:
  "succeed 7 pair_started = Inr (accepted_success 7 TaskStatus.RUNNING, half_done True False)"
  by (simp add: succeed_def accepted_success_def half_done_def report_defs moves_allowed pair_simps)

lemma other_success:
  "succeed 8 pair_started = Inr (accepted_success 8 TaskStatus.RUNNING, half_done False True)"
  by (simp add: succeed_def accepted_success_def half_done_def report_defs moves_allowed pair_simps)

lemma stuck_written: "write_back pair_started (half_done False True) (half_done True False) = stuck_db"
  by (simp add: write_back_def write_rows_def half_done_def stuck_db_def pair_simps row_get_Cons
      finish_record_def)

lemma schema_ok_stuck: "schema_ok stuck_db"
  by (simp add: stuck_db_def pair_simps finish_record_def)


text \<open>
  The example: both subtasks of a task run, and both succeed. Each report sees the other
  subtask still running, so neither finishes the task.
\<close>

lemma overlapping_successes:
  "overlapping (succeed 7) (succeed 8) pair_started =
     Inr (accepted_success 7 TaskStatus.RUNNING, accepted_success 8 TaskStatus.RUNNING, stuck_db)"
  by (simp add: overlapping_def first_success other_success stuck_written and_then_def db_flush_def
      schema_ok_stuck)

lemma successes_in_sequence:
  "\<exists>d'. one_after_the_other (succeed 7) (succeed 8) pair_started =
     Inr (accepted_success 7 TaskStatus.RUNNING, accepted_success 8 TaskStatus.SUCCESS, d')"
proof -
  have "move_task_to_terminal TaskStatus.RUNNING TaskStatus.SUCCESS i = Inr ()" for i
    by (simp add: result_simps)
  then show ?thesis
    by (simp add: one_after_the_other_def first_success)
      (simp add: succeed_def accepted_success_def half_done_def report_defs moves_allowed pair_simps)
qed

section \<open>The task stays behind\<close>

lemma stuck_statuses:
  "map dt_status (dag_tasks stuck_db) = [TaskStatus.RUNNING]"
  "map ds_status (dag_subtasks stuck_db) = [SubtaskStatus.SUCCESS, SubtaskStatus.SUCCESS]"
  "map er_status (execution_records stuck_db) = [ExecutionStatus.SUCCESS, ExecutionStatus.SUCCESS]"
  by (simp_all add: stuck_db_def pair_started_eq row_defs pair_record_def finish_record_def)

lemma stuck_rows:
  "t \<in> set (dag_tasks stuck_db) \<Longrightarrow> dt_status t = TaskStatus.RUNNING"
  "s \<in> set (dag_subtasks stuck_db) \<Longrightarrow> ds_status s = SubtaskStatus.SUCCESS"
  "r \<in> set (execution_records stuck_db) \<Longrightarrow> er_status r = ExecutionStatus.SUCCESS"
proof -
  have "set (map dt_status (dag_tasks stuck_db)) \<subseteq> {TaskStatus.RUNNING}"
    "set (map ds_status (dag_subtasks stuck_db)) \<subseteq> {SubtaskStatus.SUCCESS}"
    "set (map er_status (execution_records stuck_db)) \<subseteq> {ExecutionStatus.SUCCESS}"
    unfolding stuck_statuses by simp_all
  then show "t \<in> set (dag_tasks stuck_db) \<Longrightarrow> dt_status t = TaskStatus.RUNNING"
    "s \<in> set (dag_subtasks stuck_db) \<Longrightarrow> ds_status s = SubtaskStatus.SUCCESS"
    "r \<in> set (execution_records stuck_db) \<Longrightarrow> er_status r = ExecutionStatus.SUCCESS" by auto
qed

text \<open>No report, no plan and no start moves it; only a cancellation ends it.\<close>

lemma stuck_reports:
  assumes "report_result now i status duration summary reason stuck_db = Inr (x, d')"
  shows "d' = stuck_db"
proof -
  from assms obtain r where "execution_get_by_id stuck_db i = Some r"
    by (auto simp: report_result_def split: option.splits)
  then have "er_status r \<noteq> ExecutionStatus.RUNNING"
    using execution_rows.get_SomeD [of stuck_db i r] stuck_rows(3) by simp
  with assms \<open>execution_get_by_id stuck_db i = Some r\<close> show ?thesis
    by (auto simp: report_result_def execution_result_def result_simps split: option.splits)
qed

lemma stuck_plans: "generate_plan random numeric now i name options stuck_db \<noteq> Inr x"
proof
  assume "generate_plan random numeric now i name options stuck_db = Inr x"
  then obtain strategy generated where strategy: "get_strategy random name = Inr strategy"
    and "except_scheduling_error i (strategy (build_schedulable_subtasks stuck_db i)
      (load_node_snapshots stuck_db) options) = Inr generated"
    by (auto simp: generate_plan_def result_simps)
  then have plan: "strategy (build_schedulable_subtasks stuck_db i) (load_node_snapshots stuck_db)
      options = Inr generated" by (simp add: result_simps)
  have none: "build_schedulable_subtasks stuck_db i = []"
    using stuck_rows(2) by (auto simp: build_schedulable_subtasks_def task_subtasks_def filter_empty_conv)
  from strategy obtain n where "(n, strategy) \<in> set (strategies random)"
    by (rule get_strategy_cases) (rule that)
  from plan scheduler_strategy.refuses_empty [OF strategies_contract [OF this]] show False
    by (simp add: none)
qed

lemma stuck_starts: "start_execution now i p stuck_db \<noteq> Inr x"
proof
  assume "start_execution now i p stuck_db = Inr x"
  then have start: "startable i p stuck_db"
    using start_execution_startable [OF schema_ok_stuck] by (cases x) simp
  then obtain item where "item \<in> set (plan_items stuck_db p)"
    by (fastforce simp: startable_def neq_Nil_conv)
  with start obtain s where "get_subtask_row stuck_db (pi_subtask_id item) = Some s"
    "ds_status s = SubtaskStatus.READY"
    unfolding startable_def by blast
  then show False using stuck_rows(2) [of s] subtask_rows.get_SomeD [of stuck_db _ s] by simp
qed

text \<open>Transactions that follow one another never get there.\<close>

lemma stuck_not_reachable: "\<not> platform_reachable stuck_db"
proof
  assume "platform_reachable stuck_db"
  then have inv: "db_inv stuck_db" by (rule platform_reachable_inv)
  have t: "hd (dag_tasks stuck_db) \<in> set (dag_tasks stuck_db)"
    using stuck_statuses(1) by (cases "dag_tasks stuck_db") simp_all
  from inv_progress [OF db_inv_flow [OF inv t]] stuck_rows(1) [OF t] obtain k where
    "subtask_status stuck_db (dt_id (hd (dag_tasks stuck_db))) k \<in>
      {Some SubtaskStatus.READY, Some SubtaskStatus.RUNNING}" by auto
  then show False using subtask_status_iff [OF db_inv_distinct(2) [OF inv]] stuck_rows(2) by fastforce
qed

end
