(* ===== verification/Spec2Isabelle.thy ===== *)
theory Spec2Isabelle
  imports Component_Properties Api_Runs Celery_Topology Node_Service Config Queue_Monitoring
    Migration_Properties Routing Concurrent_Reports
begin

text \<open>
  A verification library for the UAV task offloading platform: the back end (Python, FastAPI,
  SQLAlchemy, Celery) that accepts tasks made of dependent subtasks, plans their ready
  subtasks onto drones and edge nodes, runs them through Celery workers, and advances the
  task from the results. All paths below are under \<open>src/app/\<close>, or under \<open>src/\<close> for \<open>alembic/\<close>
  and \<open>scripts/\<close>.

  \<^bold>\<open>How the parts fit.\<close> A client creates a task (a graph of subtasks), asks for a schedule
  plan, and starts the plan. Starting writes one running execution record per plan item; the
  dispatcher queues a Celery message per execution; a worker takes it, sleeps, and reports the
  result. A successful result unlocks the successors whose predecessors have all succeeded and
  finishes the task when nothing is left; a failure is retried while the subtask has retries
  left and otherwise fails the task. The ready subtasks are planned again, and so on. A task
  can be canceled as long as it is not over. All state is in the database; services share it.

  \<^bold>\<open>The database.\<close> \<open>Models\<close> has one record per table (\<open>db/models/\<close>) and the record \<open>db\<close> of all
  tables, each the list of its rows in insertion order, with a counter for fresh primary keys
  (the source draws UUIDs). \<open>schema_ok\<close> collects the constraints of the migrations; a flush
  (\<open>db_flush\<close>) is where the database checks them and raises \<open>IntegrityError\<close>. That it is the
  schema of the migrations, no more and no less, is C30. A service
  function maps a database to a new one or to an exception (\<open>'a result = exc + 'a\<close>, \<open>Prelude\<close>);
  an exception rolls the transaction back, so the old database stays. Objects that the ORM
  shares between references are updated in the table by their key. When the values of a request
  are stored (\<open>store_task\<close>, \<open>store_subtask\<close>, \<open>store_node\<close>, \<open>store_status_record\<close>), the columns
  refuse an integer outside 32 bits, a text that is too long or holds a NUL, and a JSON value
  with a NaN or infinity, and round a number to their scale; C18 says which requests that leaves.

  \<^bold>\<open>Theories, and the code they model.\<close>
  \<^item> \<open>Prelude\<close>: results, sequencing, loops that may raise, reads of dictionaries, the text of
    integers; the collection \<open>result_simps\<close>.
  \<^item> \<open>Enums\<close> (\<open>domain/enums.py\<close>), \<open>State_Machine\<close> (\<open>domain/state_machine.py\<close>), \<open>Dag\<close>
    (\<open>domain/dag.py\<close>): statuses, the shared transition table, the graph check.
  \<^item> \<open>Py_Float\<close>: Python's floats as rationals with infinities and NaN; each operation rounds to
    the nearest double, ties to even, written out on rationals.
  \<^item> \<open>Repositories\<close> (\<open>repositories/\<close>): the queries. The locales \<open>row_store\<close> (lookup after
    insert and update) and \<open>paged_list\<close> (the contract of the listings) are interpreted on every
    table and every listing.
  \<^item> \<open>Task_Service\<close>, \<open>Scheduling_Service\<close>, \<open>Execution_Service\<close>, \<open>Node_Service\<close>,
    \<open>Metrics_Service\<close>, \<open>Monitoring_Service\<close>, \<open>Queue_Monitoring\<close>, \<open>Dead_Letter\<close>,
    \<open>Worker_Health\<close>, \<open>Execution_Dispatcher\<close> (\<open>services/\<close>): one definition per method, in the
    order of the code, with each guard, raise and early return.
  \<^item> \<open>Estimation\<close> and \<open>Schedulers\<close> (\<open>scheduler/\<close>): the cost estimates and the strategies; the
    locale \<open>scheduler_strategy\<close> is their common contract, the locale \<open>first_min\<close> that of
    Python's \<open>min(key=...)\<close>; both are interpreted on the three strategies and their keys.
  \<^item> \<open>Worker\<close> (\<open>worker/tasks.py\<close>) and \<open>Celery_Topology\<close> (\<open>worker/celery_app.py\<close>): the Celery
    task with its polling sleep and retry policy, and the queues it declares.
  \<^item> \<open>Config\<close> (\<open>core/config.py\<close>), \<open>Schemas\<close> (\<open>schemas/\<close>), \<open>Api\<close> (\<open>api/v1/endpoints/\<close>,
    \<open>api/monitoring.py\<close>, \<open>main.py\<close>, \<open>db/session.py\<close>, \<open>scripts/verify_dlq_flow.py\<close>): the
    settings, the request constraints and responses, and each endpoint with its commits
    (\<open>commit\<close>). \<open>Routing\<close> (the decorators, \<open>api/v1/router.py\<close>, \<open>create_app\<close>): the routes; no two
    serve the same request, whatever the prefix of the API.
  \<^item> \<open>Ddl\<close>: tables, their constraints and indexes, stored data, and the operations of \<open>alembic.op\<close>
    that the migrations use, each either an error or a new database, each keeping the data
    consistent with the constraints. \<open>Ddl_Tables\<close>: runs that create or drop a table with its
    indexes. \<open>Migrations\<close> (\<open>alembic/versions/\<close>): the ten revisions, upgrade and downgrade.
    \<open>Migration_Runs\<close>: what each of them does to data of its revision. \<open>Schema_Rows\<close>: the rows of
    \<open>Models\<close> as rows of the migrated tables. \<open>Orm_Metadata\<close> (\<open>db/models/\<close>): the tables the mapped
    classes declare.

  \<^bold>\<open>The abstract specification and what is proved.\<close> \<open>Flow\<close> states the life of one task without
  rows: its status, the status of each subtask, the dependencies, and six steps (schedule,
  start, success, retry, fail, cancel), with its invariant, progress and stability lemmas.
  \<open>Task_Flow\<close> reads a flow off the rows of a task and defines the invariant of the database
  (\<open>db_inv\<close>). \<open>Task_Create\<close>, \<open>Plan_Store\<close>, \<open>Execution_Start\<close>, \<open>Unlocking\<close>, \<open>Execution_Report\<close>,
  \<open>Task_Cancel\<close> show that each operation keeps the invariant and is a step of the flow or none;
  \<open>Task_Accept\<close>, \<open>Report_Outcomes\<close> and parts of the others say exactly when an operation
  succeeds. \<open>Platform\<close> puts the transactions together into a step relation, in any order and
  with any arguments. \<open>Api_Runs\<close> shows that each endpoint and each worker run is a run of it, and
  gives the exact answer, database and messages of a start request for any broker (C22);
  \<open>Worker_Runs\<close> what a worker run delivers, from its cancel checks to its last heartbeat (C26). \<open>Example_Run\<close> and \<open>Example_Reports\<close> are concrete runs (one drone; two subtasks in
  sequence; two at once, one of which fails) to which the properties are applied.
  The properties themselves, numbered C1 to C40, are in \<open>Lifecycle_Properties\<close> (what holds in
  every reachable database and along every run), \<open>Service_Properties\<close> (what each operation does,
  and exactly when), \<open>Interface_Properties\<close> (API, broker, worker), \<open>Component_Properties\<close>
  (strategies, metrics, monitoring, dead letters), \<open>Migration_Properties\<close> (the schema, its
  upgrades and downgrades), and at the end of \<open>State_Machine\<close> and \<open>Dag\<close>.
  \<open>Concurrent_Reports\<close> is a counterexample to what the code would need for overlapping reports.

  \<^bold>\<open>Loops and bounds.\<close> The graph check is a total function by a measure on what is left to visit. The
  polling loops (\<open>cancel_loop\<close> of the worker, \<open>poll_loop\<close> of the dead-letter probe) are partial
  functions whose value \<open>None\<close> is not returning; C27 and C40 prove that they return: the first
  under bounds on the sleep and the interval that exclude only intervals so small that
  subtracting them does not change a float, the second whenever the clock advances. There is no
  fuel. C36 on the estimates holds for loads up to \<open>2 ^ 40\<close> and capacities from \<open>1 / 128\<close> to
  \<open>2 ^ 30\<close>.

  \<^bold>\<open>Parameters.\<close> Code outside \<open>src/\<close> is an argument: \<open>numeric\<close> is what a \<open>Numeric(p, s)\<close> column
  stores for a float or the error it raises; \<open>random\<close> the generator \<open>random.Random(seed)\<close>;
  \<open>now\<close> the clock (microseconds); \<open>revoker\<close>, \<open>delay\<close> and \<open>channel\<close> Celery and its broker;
  \<open>transport\<close> the HTTP client of the RabbitMQ management API; \<open>sleep_fn\<close> what happens while the
  worker sleeps, other transactions included; \<open>db_fault\<close> which of the worker's database accesses
  raise (each cancel check, and the report); \<open>dumps\<close> and \<open>py_str\<close> the text of a JSON value.

  \<^bold>\<open>Not modelled\<close>, and why. The transactions of \<open>Platform\<close> are atomic and follow one another. The
  isolation level of the deployment allows more: two reports that overlap can each miss the
  other's success, and the task is then left behind for ever; \<open>Concurrent_Reports\<close> shows this on
  two subtasks, and the properties hold only as far as such overlaps do not happen. The range of
  an integer and the length of a string are not checked where a service computes the value
  (counters, estimated durations, reasons), nor for the duration of a reported result: C10 to C12
  are about durations that fit their column (beyond 32 bits the report fails with a database
  error). The row type of \<open>Ddl\<close> (\<open>has_type\<close>) checks the kind of a value only. Also left out are
  the values of the \<open>updated_at\<close> columns, which the database sets and three responses show, and the
  transaction around a migration;
  conversions between naive and UTC datetimes (times are numbers); reading environment variables
  (pydantic-settings); FastAPI, the SQLAlchemy engine and session, logging and the Redis client,
  and \<open>alembic/env.py\<close>, which only wire libraries together. Strings are
  lists of bytes in UTF-8; a length limit counts code points (\<open>py_len\<close>). Sums of floats follow
  Python 3.11, the version of the image. Rows that a query leaves unordered, or ordered with
  ties, come in insertion order in the model (a relationship such as \<open>task.subtasks\<close> has no order,
  and rows created in one transaction have equal times); C21 therefore compares the answer as a
  multiset, and C29 asks for distinct creation times.
\<close>

end
